(* ===== verification/Base.thy ===== *)
theory Base
  imports Main "HOL-Library.Word"
begin

text \<open>
  Prelude of the development: the machine types the C++ code uses, the has-bit
  words of the generated message classes, byte strings, and the generic lemmas
  the component theories share.

  \<^item> \<open>bytes\<close> is a buffer of octets (\<open>std::string\<close>, a serialized message, a
    \<open>malloc\<close>ed block); \<open>string\<close> is a message text, turned into octets by
    \<open>bytes_of\<close>.
  \<^item> \<open>u32\<close>, \<open>i32\<close>, \<open>u64\<close>, \<open>i64\<close> are the fixed-width integers; signed ones are
    read with \<open>sint\<close>.
  \<^item> \<open>arena_string\<close> is \<open>google::protobuf::internal::ArenaStringPtr\<close>: \<open>None\<close> is the
    shared empty default, \<open>Some s\<close> an owned string.
  \<^item> \<open>hasbit_simps\<close> collects the equations that turn mask tests into single bits;
    \<open>wire_size\<close> the size equations of the wire format; \<open>wire_read\<close> the reading ones.
\<close>

unbundle bit_operations_syntax

named_theorems hasbit_simps "equations that decide has-bit tests"
named_theorems wire_size "size equations of serialized fields"
named_theorems wire_read "equations of the reader on serialized fields"
named_theorems msg_defs "definitions of the message operations"

type_synonym byte = "8 word"
type_synonym bytes = "8 word list"
type_synonym u32 = "32 word"
type_synonym i32 = "32 word"
type_synonym u64 = "64 word"
type_synonym i64 = "64 word"

section \<open>Has-bit words\<close>

definition CheckHasBit :: "u32 \<Rightarrow> u32 \<Rightarrow> bool" where
  "CheckHasBit cached_has_bits msk \<longleftrightarrow> cached_has_bits AND msk \<noteq> 0"

definition BatchCheckHasBit :: "u32 \<Rightarrow> u32 \<Rightarrow> bool" where
  "BatchCheckHasBit cached_has_bits msk \<longleftrightarrow> cached_has_bits AND msk \<noteq> 0"

definition SetHasBit :: "u32 \<Rightarrow> u32 \<Rightarrow> u32" where
  "SetHasBit w msk = w OR msk"

definition ClearHasBit :: "u32 \<Rightarrow> u32 \<Rightarrow> u32" where
  "ClearHasBit w msk = w AND NOT msk"

text \<open>
  \<open>hb w n\<close> is the \<open>n\<close>-th has-bit of \<open>w\<close>. The masks of the generated code are
  powers of two and unions of them, so every test is about single bits.
\<close>

definition hb :: "u32 \<Rightarrow> nat \<Rightarrow> bool" where
  "hb w n = bit w n"

lemma and_neq_0_iff_bit:
  fixes w m :: "'a::len word"
  shows "w AND m \<noteq> 0 \<longleftrightarrow> (\<exists>n. bit w n \<and> bit m n)"
  by (auto simp: bit_eq_iff bit_and_iff dest: bit_imp_le_length)

lemma CheckHasBit_power: "n < 32 \<Longrightarrow> CheckHasBit w (2 ^ n) \<longleftrightarrow> hb w n"
  by (auto simp: CheckHasBit_def and_neq_0_iff_bit bit_exp_iff hb_def)

lemma hb_SetHasBit_power: "n < 32 \<Longrightarrow> hb (SetHasBit w (2 ^ n)) k \<longleftrightarrow> hb w k \<or> k = n"
  by (auto simp: SetHasBit_def bit_or_iff bit_exp_iff hb_def)

lemma hb_ClearHasBit_power:
  "n < 32 \<Longrightarrow> hb (ClearHasBit w (2 ^ n)) k \<longleftrightarrow> hb w k \<and> k \<noteq> n"
  by (auto simp: ClearHasBit_def bit_and_iff bit_not_iff bit_exp_iff hb_def
      dest: bit_imp_le_length)

lemma hb_or [hasbit_simps]: "hb (a OR b) k \<longleftrightarrow> hb a k \<or> hb b k"
  by (simp add: hb_def bit_or_iff)

lemma hb_zero [hasbit_simps]: "\<not> hb 0 k"
  by (simp add: hb_def)

lemma CheckHasBit_hb [hasbit_simps]:
  "CheckHasBit w 1 \<longleftrightarrow> hb w 0"
  "CheckHasBit w 2 \<longleftrightarrow> hb w (Suc 0)"
  "CheckHasBit w 4 \<longleftrightarrow> hb w 2"
  "CheckHasBit w 8 \<longleftrightarrow> hb w 3"
  "CheckHasBit w 16 \<longleftrightarrow> hb w 4"
  using CheckHasBit_power [of 0 w] CheckHasBit_power [of 1 w] CheckHasBit_power [of 2 w]
    CheckHasBit_power [of 3 w] CheckHasBit_power [of 4 w]
  by simp_all

lemma hb_SetHasBit [hasbit_simps]:
  "hb (SetHasBit w 1) k \<longleftrightarrow> hb w k \<or> k = 0"
  "hb (SetHasBit w 2) k \<longleftrightarrow> hb w k \<or> k = Suc 0"
  "hb (SetHasBit w 4) k \<longleftrightarrow> hb w k \<or> k = 2"
  "hb (SetHasBit w 8) k \<longleftrightarrow> hb w k \<or> k = 3"
  "hb (SetHasBit w 16) k \<longleftrightarrow> hb w k \<or> k = 4"
  using hb_SetHasBit_power [of 0 w k] hb_SetHasBit_power [of 1 w k] hb_SetHasBit_power [of 2 w k]
    hb_SetHasBit_power [of 3 w k] hb_SetHasBit_power [of 4 w k]
  by simp_all

lemma hb_ClearHasBit [hasbit_simps]:
  "hb (ClearHasBit w 1) k \<longleftrightarrow> hb w k \<and> k \<noteq> 0"
  "hb (ClearHasBit w 2) k \<longleftrightarrow> hb w k \<and> k \<noteq> Suc 0"
  "hb (ClearHasBit w 4) k \<longleftrightarrow> hb w k \<and> k \<noteq> 2"
  "hb (ClearHasBit w 8) k \<longleftrightarrow> hb w k \<and> k \<noteq> 3"
  "hb (ClearHasBit w 16) k \<longleftrightarrow> hb w k \<and> k \<noteq> 4"
  using hb_ClearHasBit_power [of 0 w k] hb_ClearHasBit_power [of 1 w k] hb_ClearHasBit_power [of 2 w k]
    hb_ClearHasBit_power [of 3 w k] hb_ClearHasBit_power [of 4 w k]
  by simp_all

lemma BatchCheckHasBit_or: "BatchCheckHasBit w (a OR b) \<longleftrightarrow> BatchCheckHasBit w a \<or> BatchCheckHasBit w b"
  by (auto simp: BatchCheckHasBit_def and_neq_0_iff_bit bit_or_iff)

lemma Batch_is_Check: "BatchCheckHasBit w m = CheckHasBit w m"
  by (simp add: BatchCheckHasBit_def CheckHasBit_def)

lemma mask_unions:
  "(3::u32) = 1 OR 2" "(15::u32) = 1 OR (2 OR (4 OR 8))"
  "(30::u32) = 2 OR (4 OR (8 OR 16))" "(31::u32) = 1 OR (2 OR (4 OR (8 OR 16)))"
  by simp_all

lemma BatchCheckHasBit_hb [hasbit_simps]:
  "BatchCheckHasBit w 3 \<longleftrightarrow> hb w 0 \<or> hb w (Suc 0)"
  "BatchCheckHasBit w 15 \<longleftrightarrow> hb w 0 \<or> hb w (Suc 0) \<or> hb w 2 \<or> hb w 3"
  "BatchCheckHasBit w 30 \<longleftrightarrow> hb w (Suc 0) \<or> hb w 2 \<or> hb w 3 \<or> hb w 4"
  "BatchCheckHasBit w 31 \<longleftrightarrow> hb w 0 \<or> hb w (Suc 0) \<or> hb w 2 \<or> hb w 3 \<or> hb w 4"
  unfolding mask_unions BatchCheckHasBit_or
  unfolding Batch_is_Check CheckHasBit_hb by (rule refl)+

section \<open>Strings\<close>

type_synonym arena_string = "bytes option"

definition str_get :: "arena_string \<Rightarrow> bytes" where
  "str_get s = (case s of None \<Rightarrow> [] | Some v \<Rightarrow> v)"

definition str_clear :: "arena_string \<Rightarrow> arena_string" where
  "str_clear s = (case s of None \<Rightarrow> None | Some v \<Rightarrow> Some [])"

lemma str_get_simps [simp]: "str_get None = []" "str_get (Some v) = v"
  by (simp_all add: str_get_def)

lemma str_get_clear [simp]: "str_get (str_clear s) = []"
  by (simp add: str_clear_def split: option.splits)

definition bytes_of :: "string \<Rightarrow> bytes" where
  "bytes_of s = map (\<lambda>c. word_of_nat (of_char c)) s"

definition string_of :: "bytes \<Rightarrow> string" where
  "string_of b = map (\<lambda>w. char_of (unat w)) b"

lemma unat_of_char_byte: "unat (word_of_nat (of_char c) :: byte) = of_char c"
  by (simp add: unat_of_nat)

lemma string_of_bytes_of [simp]: "string_of (bytes_of s) = s"
  by (simp add: string_of_def bytes_of_def o_def unat_of_char_byte)

lemma bytes_of_inj: "bytes_of s = bytes_of t \<longleftrightarrow> s = t"
  by (metis string_of_bytes_of)

lemma length_bytes_of [simp]: "length (bytes_of s) = length s"
  by (simp add: bytes_of_def)

lemma bytes_of_append [simp]: "bytes_of (s @ t) = bytes_of s @ bytes_of t"
  by (simp add: bytes_of_def)

section \<open>Lists\<close>

lemma sum_list_map_cong: "(\<And>x. x \<in> set xs \<Longrightarrow> f x = g x) \<Longrightarrow> sum_list (map f xs) = sum_list (map g xs)"
  by (metis map_cong)

lemma length_concat_map: "length (concat (map f xs)) = sum_list (map (\<lambda>x. length (f x)) xs)"
  by (simp add: length_concat o_def)

lemma member_le_sum_list_nat: "x \<in> set xs \<Longrightarrow> f x \<le> sum_list (map (f :: 'a \<Rightarrow> nat) xs)"
  by (induction xs) auto

end
