(* ===== verification/Wire.thy ===== *)
theory Wire
  imports Base
begin

text \<open>
  The wire-format library the generated message classes call
  (\<open>google::protobuf::internal::WireFormatLite\<close>, \<open>EpsCopyOutputStream\<close>,
  \<open>UnknownFieldSet\<close>). Its code is not in the repository, so it is a parameter: a
  record \<open>wire\<close> of the functions the generated code calls, an argument of every
  serializer. The locale \<open>wire_format\<close> states what the generated
  \<open>ByteSizeLong\<close>/\<open>_InternalSerialize\<close> pair relies on (the size function of a type is
  the length of what its writer writes, for field numbers whose tag is one byte);
  \<open>wire_reader\<close> adds a field reader, the documented decoding of the wire format. Both
  are interpreted on \<open>base128\<close>, the encoding of the protocol-buffer specification:
  base-128 varints, little-endian 64-bit values, length-delimited payloads.

  The sizes are \<open>nat\<close> (a \<open>size_t\<close> counting bytes of an object in memory cannot
  wrap); the cached size of a message is a 32-bit \<open>int\<close> as in the code, so lemmas about
  length prefixes carry the bound \<open>2^31\<close> the library documents.
\<close>

section \<open>The functions the generated code calls\<close>

record 'u wire =
  WriteInt32ToArrayWithField :: "nat \<Rightarrow> i32 \<Rightarrow> bytes"
  WriteInt64ToArrayWithField :: "nat \<Rightarrow> i64 \<Rightarrow> bytes"
  WriteUInt64ToArray :: "nat \<Rightarrow> u64 \<Rightarrow> bytes"
  WriteBoolToArray :: "nat \<Rightarrow> bool \<Rightarrow> bytes"
  WriteDoubleToArray :: "nat \<Rightarrow> u64 \<Rightarrow> bytes"
  WriteEnumToArray :: "nat \<Rightarrow> i32 \<Rightarrow> bytes"
  WriteStringMaybeAliased :: "nat \<Rightarrow> bytes \<Rightarrow> bytes"
  WriteMessageHeader :: "nat \<Rightarrow> i32 \<Rightarrow> bytes"
  Int32SizePlusOne :: "i32 \<Rightarrow> nat"
  Int64SizePlusOne :: "i64 \<Rightarrow> nat"
  UInt64SizePlusOne :: "u64 \<Rightarrow> nat"
  EnumSize :: "i32 \<Rightarrow> nat"
  StringSize :: "bytes \<Rightarrow> nat"
  LengthDelimitedSize :: "nat \<Rightarrow> nat"
  HaveUnknownFields :: "'u \<Rightarrow> bool"
  SerializeUnknownFields :: "'u \<Rightarrow> bytes"
  ComputeUnknownFieldsSize :: "'u \<Rightarrow> nat"
  NoUnknownFields :: "'u"
  MergeUnknownFields :: "'u \<Rightarrow> 'u \<Rightarrow> 'u"

text \<open>
  \<open>InternalWriteMessage\<close> writes the tag and the cached size, then lets the message
  write itself; \<open>MessageSize\<close> is the length-delimited size of \<open>ByteSizeLong\<close>.
\<close>

definition InternalWriteMessage :: "'u wire \<Rightarrow> nat \<Rightarrow> i32 \<Rightarrow> bytes \<Rightarrow> bytes" where
  "InternalWriteMessage W n cached_size body = WriteMessageHeader W n cached_size @ body"

definition ToCachedSize :: "nat \<Rightarrow> i32" where
  "ToCachedSize sz = word_of_nat sz"

definition SerializeUnknownTail :: "'u wire \<Rightarrow> 'u \<Rightarrow> bytes" where
  "SerializeUnknownTail W u = (if HaveUnknownFields W u then SerializeUnknownFields W u else [])"

definition MaybeComputeUnknownFieldsSize :: "'u wire \<Rightarrow> 'u \<Rightarrow> nat \<Rightarrow> nat" where
  "MaybeComputeUnknownFieldsSize W u tot =
     (if HaveUnknownFields W u then tot + ComputeUnknownFieldsSize W u else tot)"

definition small_field :: "nat \<Rightarrow> bool" where
  "small_field n \<longleftrightarrow> 0 < n \<and> n < 16"

lemma small_field_numerals [simp]:
  "small_field 1" "small_field (Suc 0)" "small_field 2" "small_field 3" "small_field 4" "small_field 5"
  "small_field 6" "small_field 7" "small_field 8" "small_field 9" "small_field 10"
  "small_field 11" "small_field 12" "small_field 15"
  by (simp_all add: small_field_def)

section \<open>What the generated code relies on\<close>

locale wire_format =
  fixes W :: "'u wire"
  assumes int32_size: "small_field n \<Longrightarrow>
      length (WriteInt32ToArrayWithField W n v) = Int32SizePlusOne W v"
    and int64_size: "small_field n \<Longrightarrow>
      length (WriteInt64ToArrayWithField W n w) = Int64SizePlusOne W w"
    and uint64_size: "small_field n \<Longrightarrow>
      length (WriteUInt64ToArray W n w) = UInt64SizePlusOne W w"
    and bool_size: "small_field n \<Longrightarrow> length (WriteBoolToArray W n flag) = 2"
    and double_size: "small_field n \<Longrightarrow> length (WriteDoubleToArray W n w) = 9"
    and enum_size: "small_field n \<Longrightarrow> length (WriteEnumToArray W n v) = 1 + EnumSize W v"
    and string_size: "small_field n \<Longrightarrow>
      length (WriteStringMaybeAliased W n s) = 1 + StringSize W s"
    and header_size: "small_field n \<Longrightarrow> sz < 2 ^ 31 \<Longrightarrow>
      length (WriteMessageHeader W n (word_of_nat sz)) + sz = 1 + LengthDelimitedSize W sz"
    and length_delimited_ge: "sz \<le> LengthDelimitedSize W sz"
    and unknown_size: "length (SerializeUnknownFields W u) = ComputeUnknownFieldsSize W u"
    and no_unknown: "\<not> HaveUnknownFields W (NoUnknownFields W)"
    and merge_unknown_left: "MergeUnknownFields W (NoUnknownFields W) u = u"
    and merge_unknown_right: "MergeUnknownFields W u (NoUnknownFields W) = u"
begin

lemmas scalar_sizes = int32_size int64_size uint64_size bool_size double_size enum_size string_size

lemma message_size:
  assumes "small_field n" "length body = sz" "sz < 2 ^ 31"
  shows "length (InternalWriteMessage W n (ToCachedSize sz) body) = 1 + LengthDelimitedSize W sz"
  using header_size [OF assms(1,3)] assms(2)
  by (simp add: InternalWriteMessage_def ToCachedSize_def)

text \<open>
  A repeated message field: every element is written with its own cached size, and
  counts its tag byte and its length-delimited size.
\<close>

lemma repeated_size:
  assumes "small_field n"
    and "\<And>x. x \<in> set xs \<Longrightarrow> length (body x) = sz x \<and> cached x = ToCachedSize (sz x) \<and> sz x < 2 ^ 31"
  shows "length (concat (map (\<lambda>x. InternalWriteMessage W n (cached x) (body x)) xs))
    = length xs + sum_list (map (\<lambda>x. LengthDelimitedSize W (sz x)) xs)"
  using assms(2)
proof (induction xs)
  case (Cons x xs)
  then have "length (InternalWriteMessage W n (cached x) (body x)) = 1 + LengthDelimitedSize W (sz x)"
    using message_size [OF assms(1), of "body x" "sz x"] by simp
  with Cons show ?case by simp
qed simp

lemma repeated_size_bound:
  "x \<in> set xs \<Longrightarrow> sz x \<le> sum_list (map (\<lambda>x. LengthDelimitedSize W (sz x)) xs)"
  using length_delimited_ge [of "sz x"] member_le_sum_list_nat [of x xs "\<lambda>x. LengthDelimitedSize W (sz x)"]
  by simp

lemma unknown_tail_size:
  "MaybeComputeUnknownFieldsSize W u tot = tot + length (SerializeUnknownTail W u)"
  by (simp add: MaybeComputeUnknownFieldsSize_def SerializeUnknownTail_def unknown_size)

lemma no_unknown_tail [simp]: "SerializeUnknownTail W (NoUnknownFields W) = []"
  by (simp add: SerializeUnknownTail_def no_unknown)

end

section \<open>Reading fields back\<close>

text \<open>
  \<open>wval\<close> is a decoded field value: a varint (sign-extended to 64 bits for signed
  types and enums, as the specification requires), a fixed 64-bit value or a
  length-delimited payload.
\<close>

datatype wval = Varint u64 | Fixed64 u64 | Delimited bytes

locale wire_reader = wire_format W for W :: "'u wire" +
  fixes next_field :: "bytes \<Rightarrow> (nat \<times> wval \<times> bytes) option"
  assumes read_int32: "small_field n \<Longrightarrow>
      next_field (WriteInt32ToArrayWithField W n v @ r) = Some (n, Varint (scast v), r)"
    and read_int64: "small_field n \<Longrightarrow>
      next_field (WriteInt64ToArrayWithField W n w @ r) = Some (n, Varint w, r)"
    and read_uint64: "small_field n \<Longrightarrow>
      next_field (WriteUInt64ToArray W n w @ r) = Some (n, Varint w, r)"
    and read_bool: "small_field n \<Longrightarrow>
      next_field (WriteBoolToArray W n flag @ r) = Some (n, Varint (of_bool flag), r)"
    and read_double: "small_field n \<Longrightarrow>
      next_field (WriteDoubleToArray W n w @ r) = Some (n, Fixed64 w, r)"
    and read_enum: "small_field n \<Longrightarrow>
      next_field (WriteEnumToArray W n v @ r) = Some (n, Varint (scast v), r)"
    and read_string: "small_field n \<Longrightarrow>
      next_field (WriteStringMaybeAliased W n s @ r) = Some (n, Delimited s, r)"
    and read_message: "small_field n \<Longrightarrow> length body < 2 ^ 31 \<Longrightarrow>
      next_field (WriteMessageHeader W n (word_of_nat (length body)) @ body @ r)
        = Some (n, Delimited body, r)"
    and read_nil: "next_field [] = None"
    and read_progress: "next_field b = Some (n, x, r) \<Longrightarrow> length r < length b"

text \<open>
  A message parser reads fields until the buffer is empty and applies each to the
  message under construction. The first argument bounds the number of fields: a
  buffer of \<open>k\<close> bytes has at most \<open>k\<close> of them (\<open>read_progress\<close>), so \<open>parse_with\<close>
  starts with the length of the buffer and never runs out.
\<close>

fun parse_fields ::
  "(bytes \<Rightarrow> (nat \<times> wval \<times> bytes) option) \<Rightarrow> (nat \<Rightarrow> wval \<Rightarrow> 'm \<Rightarrow> 'm option) \<Rightarrow>
   nat \<Rightarrow> bytes \<Rightarrow> 'm \<Rightarrow> 'm option" where
  "parse_fields nxt step k [] m = Some m"
| "parse_fields nxt step 0 (b # bs) m = None"
| "parse_fields nxt step (Suc k) (b # bs) m =
     (case nxt (b # bs) of
        None \<Rightarrow> None
      | Some (n, x, r) \<Rightarrow>
          (case step n x m of None \<Rightarrow> None | Some m' \<Rightarrow> parse_fields nxt step k r m'))"

definition parse_with ::
  "(bytes \<Rightarrow> (nat \<times> wval \<times> bytes) option) \<Rightarrow> (nat \<Rightarrow> wval \<Rightarrow> 'm \<Rightarrow> 'm option) \<Rightarrow>
   bytes \<Rightarrow> 'm \<Rightarrow> 'm option" where
  "parse_with nxt step b m = parse_fields nxt step (length b) b m"

context wire_reader
begin

lemmas scalar_reads = read_int32 read_int64 read_uint64 read_bool read_double read_enum read_string

lemma parse_fields_fuel:
  "length b \<le> k \<Longrightarrow> parse_fields next_field step k b m = parse_fields next_field step (length b) b m"
proof (induction k arbitrary: b m rule: less_induct)
  case (less k)
  show ?case
  proof (cases b)
    case Nil
    then show ?thesis by (cases k) simp_all
  next
    case (Cons x xs)
    with less.prems obtain k' where k: "k = Suc k'" by (cases k) auto
    have "parse_fields next_field step k' r m' = parse_fields next_field step (length xs) r m'"
      if "next_field b = Some (n, v, r)" for n v r m'
    proof -
      have r: "length r \<le> length xs"
        using read_progress [OF that] Cons by simp
      with less.prems k Cons have "length r \<le> k'" by simp
      moreover have "length xs < k" using less.prems Cons by simp
      ultimately show ?thesis
        using less.IH [of k' r m'] less.IH [of "length xs" r m'] r k
        by (metis lessI)
    qed
    note step = this
    show ?thesis
    proof (cases "next_field b")
      case None
      then show ?thesis by (simp add: Cons k)
    next
      case (Some t)
      obtain n v r where "t = (n, v, r)" by (cases t)
      with Some step [of n v r] show ?thesis
        by (simp add: Cons k split: option.split)
    qed
  qed
qed

lemma parse_with_Nil: "parse_with next_field step [] m = Some m"
  by (simp add: parse_with_def)

lemma parse_with_field:
  assumes "next_field b = Some (n, x, r)"
  shows "parse_with next_field step b m =
    (case step n x m of None \<Rightarrow> None | Some m' \<Rightarrow> parse_with next_field step r m')"
proof (cases b)
  case Nil
  with assms show ?thesis by (simp add: read_nil)
next
  case (Cons y ys)
  with read_progress [OF assms] have "length r \<le> length ys" by simp
  then have "parse_fields next_field step (length ys) r m' = parse_fields next_field step (length r) r m'" for m'
    by (rule parse_fields_fuel)
  with assms show ?thesis
    by (simp add: parse_with_def Cons split: option.splits)
qed

lemmas parse_int32 = parse_with_field [OF read_int32]
lemmas parse_int64 = parse_with_field [OF read_int64]
lemmas parse_uint64 = parse_with_field [OF read_uint64]
lemmas parse_bool = parse_with_field [OF read_bool]
lemmas parse_double = parse_with_field [OF read_double]
lemmas parse_enum = parse_with_field [OF read_enum]
lemmas parse_string = parse_with_field [OF read_string]

lemma parse_message:
  assumes "small_field n" "length body < 2 ^ 31"
  shows "parse_with next_field step (InternalWriteMessage W n (ToCachedSize (length body)) body @ r) m =
    (case step n (Delimited body) m of None \<Rightarrow> None | Some m' \<Rightarrow> parse_with next_field step r m')"
  using parse_with_field [OF read_message [OF assms]]
  by (simp add: InternalWriteMessage_def ToCachedSize_def)

lemma parse_repeated:
  assumes "small_field n"
    and "\<And>x m. x \<in> set xs \<Longrightarrow> length (body x) < 2 ^ 31 \<and> cached x = ToCachedSize (length (body x)) \<and>
      step n (Delimited (body x)) m = Some (f x m)"
  shows "parse_with next_field step
      (concat (map (\<lambda>x. InternalWriteMessage W n (cached x) (body x)) xs) @ r) m =
    parse_with next_field step r (fold f xs m)"
  using assms(2)
proof (induction xs arbitrary: m)
  case (Cons x xs)
  then show ?case
    using parse_message [OF assms(1), of "body x" step] by simp
qed simp

lemmas parse_scalars = parse_int32 parse_int64 parse_uint64 parse_bool parse_double parse_enum
  parse_string

end

section \<open>A message as an element of a repeated field\<close>

text \<open>
  What a repeated field relies on from the class of its elements: after \<open>ByteSizeLong\<close>
  the serializer writes the announced number of bytes, and the element's own parser
  reads from them an element that shows the same. The lemmas about repeated fields are
  proved once from this contract; each element class is an instance.
\<close>

definition write_sized ::
  "'u wire \<Rightarrow> ('m \<Rightarrow> nat \<times> 'm) \<Rightarrow> ('m \<Rightarrow> bytes) \<Rightarrow> nat \<Rightarrow> 'm \<Rightarrow> bytes" where
  "write_sized W byte_size serialize n m =
     InternalWriteMessage W n (ToCachedSize (fst (byte_size m))) (serialize (snd (byte_size m)))"

definition repeated_total :: "'u wire \<Rightarrow> ('m \<Rightarrow> nat \<times> 'm) \<Rightarrow> 'm list \<Rightarrow> nat" where
  "repeated_total W byte_size ms =
     length ms + sum_list (map (\<lambda>m. LengthDelimitedSize W (fst (byte_size m))) ms)"

locale sized_message = wire_format W for W :: "'u wire" +
  fixes byte_size :: "'m \<Rightarrow> nat \<times> 'm"
    and serialize :: "'m \<Rightarrow> bytes"
  assumes serialize_size: "fst (byte_size m) < 2 ^ 31 \<Longrightarrow>
      length (serialize (snd (byte_size m))) = fst (byte_size m)"
begin

lemma element_bound: "m \<in> set ms \<Longrightarrow> repeated_total W byte_size ms < k \<Longrightarrow> fst (byte_size m) < k"
  using repeated_size_bound [of m ms "\<lambda>m. fst (byte_size m)"] by (simp add: repeated_total_def)

lemma repeated_written:
  assumes "small_field n" "repeated_total W byte_size ms < 2 ^ 31"
  shows "length (concat (map (write_sized W byte_size serialize n) ms)) = repeated_total W byte_size ms"
  unfolding write_sized_def repeated_total_def
  by (rule repeated_size [OF assms(1)]) (use element_bound [OF _ assms(2)] serialize_size in simp)

end

locale message_codec = wire_reader W next_field + sized_message W byte_size serialize
  for W :: "'u wire" and next_field :: "bytes \<Rightarrow> (nat \<times> wval \<times> bytes) option"
    and byte_size :: "'m \<Rightarrow> nat \<times> 'm" and serialize :: "'m \<Rightarrow> bytes" +
  fixes parse :: "bytes \<Rightarrow> 'm option"
    and view :: "'m \<Rightarrow> 'a"
    and plain :: "'m \<Rightarrow> bool"
  assumes parse_back: "plain m \<Longrightarrow> fst (byte_size m) < 2 ^ 31 \<Longrightarrow>
      \<exists>m'. parse (serialize (snd (byte_size m))) = Some m' \<and> view m' = view m"
begin

lemma repeated_read:
  assumes n: "small_field n" and bound: "repeated_total W byte_size ms < 2 ^ 31"
    and plain: "\<And>m. m \<in> set ms \<Longrightarrow> plain m"
    and step: "\<And>b x. step n (Delimited b) x = map_option (\<lambda>e. add e x) (parse b)"
  shows "\<exists>es. map view es = map view ms \<and>
    parse_with next_field step (concat (map (write_sized W byte_size serialize n) ms) @ r) x =
      parse_with next_field step r (fold add es x)"
proof -
  let ?body = "\<lambda>m. serialize (snd (byte_size m))"
  let ?el = "\<lambda>m. the (parse (?body m))"
  have el: "parse (?body m) = Some (?el m) \<and> view (?el m) = view m" if "m \<in> set ms" for m
    using parse_back [OF plain [OF that] element_bound [OF that bound]] by auto
  have "parse_with next_field step (concat (map (write_sized W byte_size serialize n) ms) @ r) x =
      parse_with next_field step r (fold (\<lambda>m. add (?el m)) ms x)"
    unfolding write_sized_def
  proof (rule parse_repeated [OF n])
    fix m x
    assume m: "m \<in> set ms"
    then have "fst (byte_size m) < 2 ^ 31" by (rule element_bound) (rule bound)
    then show "length (?body m) < 2 ^ 31 \<and> ToCachedSize (fst (byte_size m)) = ToCachedSize (length (?body m)) \<and>
        step n (Delimited (?body m)) x = Some (add (?el m) x)"
      using el [OF m] by (auto simp: serialize_size step)
  qed
  moreover have "fold (\<lambda>m. add (?el m)) ms x = fold add (map ?el ms) x"
    by (simp add: fold_map o_def)
  moreover have "map view (map ?el ms) = map view ms"
    using el by simp
  ultimately show ?thesis by metis
qed

end

section \<open>The base-128 encoding of the specification\<close>

fun varint :: "nat \<Rightarrow> bytes" where
  "varint n = (if n < 128 then [word_of_nat n] else word_of_nat (128 + n mod 128) # varint (n div 128))"

declare varint.simps [simp del]

fun read_varint :: "bytes \<Rightarrow> (nat \<times> bytes) option" where
  "read_varint [] = None"
| "read_varint (b # bs) =
     (if unat b < 128 then Some (unat b, bs)
      else (case read_varint bs of
              None \<Rightarrow> None
            | Some (n, r) \<Rightarrow> Some (unat b - 128 + 128 * n, r)))"

definition tag :: "nat \<Rightarrow> nat \<Rightarrow> bytes" where
  "tag n wire_type = varint (8 * n + wire_type)"

definition le64 :: "u64 \<Rightarrow> bytes" where
  "le64 w = map (\<lambda>i. ucast (drop_bit (8 * i) w)) [0..<8]"

fun le_value :: "bytes \<Rightarrow> nat" where
  "le_value [] = 0"
| "le_value (b # bs) = unat b + 256 * le_value bs"

definition read_le64 :: "bytes \<Rightarrow> u64" where
  "read_le64 b = word_of_nat (le_value b)"

definition base128_next :: "bytes \<Rightarrow> (nat \<times> wval \<times> bytes) option" where
  "base128_next b =
     (case read_varint b of
        None \<Rightarrow> None
      | Some (t, r) \<Rightarrow>
          if t mod 8 = 0 then
            (case read_varint r of
               None \<Rightarrow> None
             | Some (v, r') \<Rightarrow> Some (t div 8, Varint (word_of_nat v), r'))
          else if t mod 8 = 1 then
            (if 8 \<le> length r then Some (t div 8, Fixed64 (read_le64 (take 8 r)), drop 8 r) else None)
          else if t mod 8 = 2 then
            (case read_varint r of
               None \<Rightarrow> None
             | Some (l, r') \<Rightarrow>
                 if l \<le> length r' then Some (t div 8, Delimited (take l r'), drop l r') else None)
          else None)"

definition base128 :: "bytes wire" where
  "base128 = \<lparr>
     WriteInt32ToArrayWithField = (\<lambda>n v. tag n 0 @ varint (unat (scast v :: u64))),
     WriteInt64ToArrayWithField = (\<lambda>n v. tag n 0 @ varint (unat v)),
     WriteUInt64ToArray = (\<lambda>n v. tag n 0 @ varint (unat v)),
     WriteBoolToArray = (\<lambda>n b. tag n 0 @ varint (of_bool b)),
     WriteDoubleToArray = (\<lambda>n w. tag n 1 @ le64 w),
     WriteEnumToArray = (\<lambda>n v. tag n 0 @ varint (unat (scast v :: u64))),
     WriteStringMaybeAliased = (\<lambda>n s. tag n 2 @ varint (length s) @ s),
     WriteMessageHeader = (\<lambda>n c. tag n 2 @ varint (unat c)),
     Int32SizePlusOne = (\<lambda>v. 1 + length (varint (unat (scast v :: u64)))),
     Int64SizePlusOne = (\<lambda>v. 1 + length (varint (unat v))),
     UInt64SizePlusOne = (\<lambda>v. 1 + length (varint (unat v))),
     EnumSize = (\<lambda>v. length (varint (unat (scast v :: u64)))),
     StringSize = (\<lambda>s. length (varint (length s)) + length s),
     LengthDelimitedSize = (\<lambda>n. length (varint n) + n),
     HaveUnknownFields = (\<lambda>u. u \<noteq> []),
     SerializeUnknownFields = (\<lambda>u. u),
     ComputeUnknownFieldsSize = length,
     NoUnknownFields = [],
     MergeUnknownFields = (@) \<rparr>"

lemma unat_byte: "m < 256 \<Longrightarrow> unat (word_of_nat m :: byte) = m"
  by (simp add: unat_of_nat)

lemma read_varint_varint: "read_varint (varint n @ r) = Some (n, r)"
proof (induction n rule: varint.induct)
  case (1 n)
  show ?case
  proof (cases "n < 128")
    case True
    then show ?thesis by (subst varint.simps) (simp add: unat_of_nat)
  next
    case False
    have u: "unat (word_of_nat (128 + n mod 128) :: byte) = 128 + n mod 128"
      by (rule unat_byte) simp
    have "read_varint (varint n @ r) =
        Some (128 + n mod 128 - 128 + 128 * (n div 128), r)"
      using 1 False by (subst varint.simps) (simp del: of_nat_add add: u)
    then show ?thesis by simp
  qed
qed

lemma read_varint_progress: "read_varint b = Some (n, r) \<Longrightarrow> length r < length b"
  by (induction b arbitrary: n) (auto split: if_splits option.splits)

lemma length_tag: "small_field n \<Longrightarrow> t < 8 \<Longrightarrow> length (tag n t) = 1"
  by (simp add: tag_def small_field_def varint.simps)

lemma read_tag: "read_varint (tag n t @ r) = Some (8 * n + t, r)"
  by (simp add: tag_def read_varint_varint)

lemma length_le64 [simp]: "length (le64 w) = 8"
  by (simp add: le64_def)

lemma le_value_digits:
  "le_value (map (\<lambda>i. word_of_nat (n div 256 ^ i)) [0..<k]) = n mod 256 ^ k"
proof (induction k arbitrary: n)
  case 0
  then show ?case by simp
next
  case (Suc k)
  have "map (\<lambda>i. word_of_nat (n div 256 ^ i) :: byte) [0..<Suc k]
      = word_of_nat n # map (\<lambda>i. word_of_nat (n div 256 div 256 ^ i)) [0..<k]"
    by (simp add: upt_conv_Cons map_Suc_upt [symmetric] div_mult2_eq del: upt_Suc)
  then have "le_value (map (\<lambda>i. word_of_nat (n div 256 ^ i)) [0..<Suc k])
      = n mod 256 + 256 * (n div 256 mod 256 ^ k)"
    using Suc [of "n div 256"] by (simp add: unat_of_nat del: upt_Suc)
  then show ?case by (simp add: mod_mult2_eq)
qed

lemma read_le64_le64: "read_le64 (le64 w) = w"
proof -
  have "ucast (drop_bit (8 * i) w) = (word_of_nat (unat w div 256 ^ i) :: byte)" for i
  proof -
    have "ucast (drop_bit (8 * i) w) = (word_of_nat (unat (drop_bit (8 * i) w)) :: byte)"
      by simp
    also have "unat (drop_bit (8 * i) w) = unat w div 256 ^ i"
      unfolding unat_drop_bit_eq by (simp add: drop_bit_eq_div power_mult)
    finally show ?thesis .
  qed
  then have "le_value (le64 w) = unat w mod 256 ^ 8"
    using le_value_digits [of "unat w" 8] by (simp add: le64_def)
  also have "\<dots> = unat w"
  proof -
    have "unat w < 2 ^ 64"
      using unsigned_less [where ?'a = nat, of w] by simp
    then show ?thesis by simp
  qed
  finally show ?thesis by (simp add: read_le64_def)
qed

lemma base128_next_varint:
  "base128_next (tag n 0 @ varint v @ r) = Some (n, Varint (word_of_nat v), r)"
  by (simp add: base128_next_def read_tag read_varint_varint)

lemma base128_next_fixed64: "base128_next (tag n 1 @ le64 w @ r) = Some (n, Fixed64 w, r)"
  by (simp add: base128_next_def read_tag read_le64_le64 mod_Suc)

lemma base128_next_delimited:
  "base128_next (tag n 2 @ varint (length s) @ s @ r) = Some (n, Delimited s, r)"
proof -
  have "(8 * n + 2) mod 8 = 2" "(8 * n + 2) div 8 = n" by presburger+
  then show ?thesis by (simp add: base128_next_def read_tag read_varint_varint)
qed

lemma base128_next_progress:
  assumes "base128_next b = Some (n, x, r)"
  shows "length r < length b"
  using assms
  by (auto simp: base128_next_def split: option.splits if_splits dest!: read_varint_progress)
    linarith+

lemma base128_next_Nil: "base128_next [] = None"
  by (simp add: base128_next_def)

interpretation base128: wire_reader base128 base128_next
proof unfold_locales
  fix n sz
  assume "small_field n" and "sz < (2::nat) ^ 31"
  then have "unat (word_of_nat sz :: i32) = sz"
    by (simp add: unat_of_nat)
  then show "length (WriteMessageHeader base128 n (word_of_nat sz)) + sz
      = 1 + LengthDelimitedSize base128 sz"
    using \<open>small_field n\<close> by (simp add: base128_def length_tag)
next
  fix n and body r :: bytes
  assume "length body < 2 ^ 31"
  then have "unat (word_of_nat (length body) :: i32) = length body"
    by (simp add: unat_of_nat)
  then show "base128_next (WriteMessageHeader base128 n (word_of_nat (length body)) @ body @ r)
      = Some (n, Delimited body, r)"
    by (simp add: base128_def base128_next_delimited)
qed (auto simp: base128_def length_tag base128_next_varint base128_next_fixed64
    base128_next_delimited base128_next_Nil varint.simps [of 0] varint.simps [of "Suc 0"]
    base128_next_fixed64 [simplified]
    dest: base128_next_progress)

end
