(* ===== verification/Parse_Table.thy ===== *)
theory Parse_Table
  imports Wire
begin

text \<open>
  The parse tables of the generated messages (\<open>InternalGenerateParseTable_\<close> of each
  class). A table is data of the repository: for every field its number, its
  cardinality with the has-bit index it sets, and its type; the fast-dispatch entries,
  each with the coded tag byte, has-bit index and auxiliary index; the skip map; the
  largest field number. \<open>parse_table_ok\<close> states that the parts of a table agree with
  each other. \<open>TcParser\<close>, which interprets the tables, is not in the repository:
  \<open>decode_value\<close> gives the documented reading of a field type, and the message theories
  use it to state that what a class serializes its own table reads back.
\<close>

datatype fl_card = FcSingular nat | FcOptional nat | FcRepeated nat | FcOneof

datatype fl_type = FlInt32 | FlInt64 | FlUInt64 | FlBool | FlDouble | FlBytes | FlUtf8String
  | FlOpenEnum | FlEnumRange int int | FlMessage

record fast_entry =
  fast_coded_tag :: nat
  fast_hasbit :: nat
  fast_aux :: nat

record field_entry =
  fe_number :: nat
  fe_card :: fl_card
  fe_type :: fl_type

record parse_table =
  pt_max_field_number :: nat
  pt_fast_idx_mask :: nat
  pt_skipmap :: u32
  pt_fast :: "fast_entry option list"
  pt_entries :: "field_entry list"

section \<open>Agreement of the parts of a table\<close>

fun wire_type :: "fl_type \<Rightarrow> nat" where
  "wire_type FlDouble = 1"
| "wire_type FlBytes = 2"
| "wire_type FlUtf8String = 2"
| "wire_type FlMessage = 2"
| "wire_type _ = 0"

definition lookup_entry :: "parse_table \<Rightarrow> nat \<Rightarrow> field_entry option" where
  "lookup_entry T n = find (\<lambda>e. fe_number e = n) (pt_entries T)"

fun card_hasbit :: "fl_card \<Rightarrow> nat option" where
  "card_hasbit (FcSingular i) = Some i"
| "card_hasbit (FcOptional i) = Some i"
| "card_hasbit (FcRepeated i) = Some i"
| "card_hasbit FcOneof = None"

text \<open>
  A fast entry sits at the index its tag selects under \<open>fast_idx_mask\<close>, carries the tag
  of an entry of the table (field number and wire type) and that entry's has-bit. Tags
  of two bytes carry a continuation bit and are not used by the tables modelled here.
\<close>

definition fast_entry_ok :: "parse_table \<Rightarrow> nat \<Rightarrow> fast_entry \<Rightarrow> bool" where
  "fast_entry_ok T idx f =
     (fast_coded_tag f < 128 \<and>
      idx = (fast_coded_tag f AND pt_fast_idx_mask T) div 8 \<and>
      (case lookup_entry T (fast_coded_tag f div 8) of
         None \<Rightarrow> False
       | Some e \<Rightarrow> wire_type (fe_type e) = fast_coded_tag f mod 8 \<and>
                  card_hasbit (fe_card e) = Some (fast_hasbit f)))"

definition fast_table_ok :: "parse_table \<Rightarrow> bool" where
  "fast_table_ok T =
     list_all (\<lambda>(idx, f). case f of None \<Rightarrow> True | Some f \<Rightarrow> fast_entry_ok T idx f)
       (enumerate 0 (pt_fast T))"

definition skipmap_ok :: "parse_table \<Rightarrow> bool" where
  "skipmap_ok T =
     list_all (\<lambda>k. bit (pt_skipmap T) k \<noteq> (Suc k \<in> set (map fe_number (pt_entries T)))) [0..<32]"

definition hasbits_ok :: "parse_table \<Rightarrow> bool" where
  "hasbits_ok T =
     (distinct (List.map_filter (\<lambda>e. card_hasbit (fe_card e)) (pt_entries T)) \<and>
      list_all (\<lambda>i. i < 32) (List.map_filter (\<lambda>e. card_hasbit (fe_card e)) (pt_entries T)))"

definition parse_table_ok :: "parse_table \<Rightarrow> bool" where
  "parse_table_ok T =
     (pt_entries T \<noteq> [] \<and>
      sorted_wrt (<) (map fe_number (pt_entries T)) \<and>
      pt_max_field_number T = fe_number (last (pt_entries T)) \<and>
      skipmap_ok T \<and> hasbits_ok T \<and> fast_table_ok T)"

section \<open>Reading a value of a field type\<close>

datatype pval = PInt32 i32 | PInt64 u64 | PBool bool | PDouble u64 | PBytes bytes

text \<open>
  The value a field type takes from the wire. Enumerations of a closed range reject
  other numbers (the runtime moves them to the unknown fields, which the reader here
  does not accept); a varint read into 32 bits is truncated.
\<close>

fun decode_value :: "fl_type \<Rightarrow> wval \<Rightarrow> pval option" where
  "decode_value FlInt32 (Varint v) = Some (PInt32 (ucast v))"
| "decode_value FlInt64 (Varint v) = Some (PInt64 v)"
| "decode_value FlUInt64 (Varint v) = Some (PInt64 v)"
| "decode_value FlBool (Varint v) = Some (PBool (v \<noteq> 0))"
| "decode_value FlOpenEnum (Varint v) = Some (PInt32 (ucast v))"
| "decode_value (FlEnumRange lo hi) (Varint v) =
     (let e = ucast v :: i32
      in if lo \<le> sint e \<and> sint e \<le> hi then Some (PInt32 e) else None)"
| "decode_value FlDouble (Fixed64 w) = Some (PDouble w)"
| "decode_value FlBytes (Delimited s) = Some (PBytes s)"
| "decode_value FlUtf8String (Delimited s) = Some (PBytes s)"
| "decode_value FlMessage (Delimited s) = Some (PBytes s)"
| "decode_value _ _ = None"

lemma ucast_scast_32_64 [simp]: "ucast (scast (v :: 32 word) :: 64 word) = v"
  by (rule bit_word_eqI) (simp add: bit_ucast_iff bit_signed_iff)

text \<open>Running the reader over the segments a serializer appends one after the other.\<close>

definition cond_upd :: "bool \<Rightarrow> ('m \<Rightarrow> 'm) \<Rightarrow> 'm \<Rightarrow> 'm" where
  "cond_upd c f m = (if c then f m else m)"

lemma cond_upd_simps [simp]: "cond_upd True f m = f m" "cond_upd False f m = m"
  by (simp_all add: cond_upd_def)

lemma parse_with_segment:
  assumes "c \<Longrightarrow> parse_with nxt step (seg @ r) m = parse_with nxt step r (f m)"
  shows "parse_with nxt step ((if c then seg else []) @ r) m
       = parse_with nxt step r (cond_upd c f m)"
  using assms by (cases c) simp_all

end
