(* ===== verification/Field_Path_Element.thy ===== *)
theory Field_Path_Element
  imports Parse_Table
begin

text \<open>
  \<open>buf.validate.FieldPathElement\<close> (validate.pb.cc, validate.pb.h): one step of the path
  from a message to a violating field. The record is the class's \<open>Impl_\<close> (has-bits,
  cached size, members) with its unknown fields; the oneof \<open>subscript\<close> (case word and
  union) is a tagged value. Every operation that changes the state is a definition:
  construction, copy construction, \<open>Clear\<close>, the accessors, \<open>MergeImpl\<close>, \<open>CopyFrom\<close>,
  \<open>InternalSwap\<close>, \<open>ByteSizeLong\<close> (which stores the cached size) and
  \<open>_InternalSerialize\<close>.

  \<open>fpe_abs\<close> maps an element to what its accessors show (an optional value per field),
  the abstract specification the lemmas refine: clearing empties it, merging overrides
  field by field, copying reproduces it. \<open>fpe_parse_merge\<close> is the round trip: reading
  what an element serialized, through the class's own parse table, merges it.
\<close>

section \<open>FieldPathElement\<close>

datatype Subscript =
    SUBSCRIPT_NOT_SET
  | kIndex u64
  | kBoolKey bool
  | kIntKey i64
  | kUintKey u64
  | kStringKey arena_string

record 'u FieldPathElement =
  fpe_has_bits :: u32
  fpe_cached_size :: i32
  fpe_field_name :: arena_string
  fpe_field_number :: i32
  fpe_value_type :: i32
  fpe_field_type :: i32
  fpe_key_type :: i32
  fpe_subscript :: Subscript
  fpe_unknown :: 'u

definition FieldPathElement_new :: "'u wire \<Rightarrow> 'u FieldPathElement" where
  "FieldPathElement_new W =
     \<lparr>fpe_has_bits = 0, fpe_cached_size = 0, fpe_field_name = None, fpe_field_number = 0,
      fpe_value_type = 1, fpe_field_type = 1, fpe_key_type = 1,
      fpe_subscript = SUBSCRIPT_NOT_SET, fpe_unknown = NoUnknownFields W\<rparr>"

definition FieldPathElement_copy :: "'u wire \<Rightarrow> 'u FieldPathElement \<Rightarrow> 'u FieldPathElement" where
  "FieldPathElement_copy W from =
     \<lparr>fpe_has_bits = fpe_has_bits from, fpe_cached_size = 0,
      fpe_field_name = fpe_field_name from,
      fpe_field_number = fpe_field_number from, fpe_value_type = fpe_value_type from,
      fpe_field_type = fpe_field_type from, fpe_key_type = fpe_key_type from,
      fpe_subscript =
        (case fpe_subscript from of
           SUBSCRIPT_NOT_SET \<Rightarrow> SUBSCRIPT_NOT_SET
         | kIndex v \<Rightarrow> kIndex v
         | kBoolKey v \<Rightarrow> kBoolKey v
         | kIntKey v \<Rightarrow> kIntKey v
         | kUintKey v \<Rightarrow> kUintKey v
         | kStringKey s \<Rightarrow> kStringKey s),
      fpe_unknown = MergeUnknownFields W (NoUnknownFields W) (fpe_unknown from)\<rparr>"

definition FieldPathElement_clear_subscript :: "'u FieldPathElement \<Rightarrow> 'u FieldPathElement" where
  "FieldPathElement_clear_subscript m = m\<lparr>fpe_subscript := SUBSCRIPT_NOT_SET\<rparr>"

definition FieldPathElement_Clear :: "'u wire \<Rightarrow> 'u FieldPathElement \<Rightarrow> 'u FieldPathElement" where
  "FieldPathElement_Clear W m =
     (let cached_has_bits = fpe_has_bits m;
          m = (if CheckHasBit cached_has_bits 0x00000001
               then m\<lparr>fpe_field_name := str_clear (fpe_field_name m)\<rparr> else m);
          m = (if BatchCheckHasBit cached_has_bits 0x0000001e
               then m\<lparr>fpe_field_number := 0, fpe_value_type := 1, fpe_field_type := 1,
                      fpe_key_type := 1\<rparr> else m);
          m = FieldPathElement_clear_subscript m
      in m\<lparr>fpe_has_bits := 0, fpe_unknown := NoUnknownFields W\<rparr>)"

definition FieldPathElement_InternalSerialize :: "'u wire \<Rightarrow> 'u FieldPathElement \<Rightarrow> bytes" where
  "FieldPathElement_InternalSerialize W m =
     (let cached_has_bits = fpe_has_bits m in
      (if CheckHasBit cached_has_bits 0x00000002
       then WriteInt32ToArrayWithField W 1 (fpe_field_number m) else []) @
      (if CheckHasBit cached_has_bits 0x00000001
       then WriteStringMaybeAliased W 2 (str_get (fpe_field_name m)) else []) @
      (if CheckHasBit cached_has_bits 0x00000008
       then WriteEnumToArray W 3 (fpe_field_type m) else []) @
      (if CheckHasBit cached_has_bits 0x00000010
       then WriteEnumToArray W 4 (fpe_key_type m) else []) @
      (if CheckHasBit cached_has_bits 0x00000004
       then WriteEnumToArray W 5 (fpe_value_type m) else []) @
      (case fpe_subscript m of
         kIndex v \<Rightarrow> WriteUInt64ToArray W 6 v
       | kBoolKey v \<Rightarrow> WriteBoolToArray W 7 v
       | kIntKey v \<Rightarrow> WriteInt64ToArrayWithField W 8 v
       | kUintKey v \<Rightarrow> WriteUInt64ToArray W 9 v
       | kStringKey s \<Rightarrow> WriteStringMaybeAliased W 10 (str_get s)
       | SUBSCRIPT_NOT_SET \<Rightarrow> []) @
      SerializeUnknownTail W (fpe_unknown m))"

definition FieldPathElement_total_size :: "'u wire \<Rightarrow> 'u FieldPathElement \<Rightarrow> nat" where
  "FieldPathElement_total_size W m =
     (let cached_has_bits = fpe_has_bits m;
          total_size =
            (if BatchCheckHasBit cached_has_bits 0x0000001f then
               (if CheckHasBit cached_has_bits 0x00000001
                then 1 + StringSize W (str_get (fpe_field_name m)) else 0) +
               (if CheckHasBit cached_has_bits 0x00000002
                then Int32SizePlusOne W (fpe_field_number m) else 0) +
               (if CheckHasBit cached_has_bits 0x00000004
                then 1 + EnumSize W (fpe_value_type m) else 0) +
               (if CheckHasBit cached_has_bits 0x00000008
                then 1 + EnumSize W (fpe_field_type m) else 0) +
               (if CheckHasBit cached_has_bits 0x00000010
                then 1 + EnumSize W (fpe_key_type m) else 0)
             else 0);
          total_size = total_size +
            (case fpe_subscript m of
               kIndex v \<Rightarrow> UInt64SizePlusOne W v
             | kBoolKey v \<Rightarrow> 2
             | kIntKey v \<Rightarrow> Int64SizePlusOne W v
             | kUintKey v \<Rightarrow> UInt64SizePlusOne W v
             | kStringKey s \<Rightarrow> 1 + StringSize W (str_get s)
             | SUBSCRIPT_NOT_SET \<Rightarrow> 0)
      in MaybeComputeUnknownFieldsSize W (fpe_unknown m) total_size)"

definition FieldPathElement_ByteSizeLong ::
  "'u wire \<Rightarrow> 'u FieldPathElement \<Rightarrow> nat \<times> 'u FieldPathElement" where
  "FieldPathElement_ByteSizeLong W m =
     (let sz = FieldPathElement_total_size W m in (sz, m\<lparr>fpe_cached_size := ToCachedSize sz\<rparr>))"

definition FieldPathElement_MergeImpl ::
  "'u wire \<Rightarrow> 'u FieldPathElement \<Rightarrow> 'u FieldPathElement \<Rightarrow> 'u FieldPathElement" where
  "FieldPathElement_MergeImpl W this from =
     (let cached_has_bits = fpe_has_bits from;
          m = this;
          m = (if BatchCheckHasBit cached_has_bits 0x0000001f then
                 (let m = (if CheckHasBit cached_has_bits 0x00000001
                           then m\<lparr>fpe_field_name := Some (str_get (fpe_field_name from))\<rparr> else m);
                      m = (if CheckHasBit cached_has_bits 0x00000002
                           then m\<lparr>fpe_field_number := fpe_field_number from\<rparr> else m);
                      m = (if CheckHasBit cached_has_bits 0x00000004
                           then m\<lparr>fpe_value_type := fpe_value_type from\<rparr> else m);
                      m = (if CheckHasBit cached_has_bits 0x00000008
                           then m\<lparr>fpe_field_type := fpe_field_type from\<rparr> else m)
                  in (if CheckHasBit cached_has_bits 0x00000010
                      then m\<lparr>fpe_key_type := fpe_key_type from\<rparr> else m))
               else m);
          m = m\<lparr>fpe_has_bits := fpe_has_bits m OR cached_has_bits\<rparr>;
          m = (case fpe_subscript from of
                 SUBSCRIPT_NOT_SET \<Rightarrow> m
               | kIndex v \<Rightarrow> m\<lparr>fpe_subscript := kIndex v\<rparr>
               | kBoolKey v \<Rightarrow> m\<lparr>fpe_subscript := kBoolKey v\<rparr>
               | kIntKey v \<Rightarrow> m\<lparr>fpe_subscript := kIntKey v\<rparr>
               | kUintKey v \<Rightarrow> m\<lparr>fpe_subscript := kUintKey v\<rparr>
               | kStringKey s \<Rightarrow> m\<lparr>fpe_subscript := kStringKey (Some (str_get s))\<rparr>)
      in m\<lparr>fpe_unknown := MergeUnknownFields W (fpe_unknown m) (fpe_unknown from)\<rparr>)"

text \<open>
  \<open>CopyFrom\<close> returns at once when source and destination are the same object; the first
  argument says whether they are.
\<close>

definition FieldPathElement_CopyFrom ::
  "'u wire \<Rightarrow> bool \<Rightarrow> 'u FieldPathElement \<Rightarrow> 'u FieldPathElement \<Rightarrow> 'u FieldPathElement" where
  "FieldPathElement_CopyFrom W same this from =
     (if same then this
      else FieldPathElement_MergeImpl W (FieldPathElement_Clear W this) from)"

definition FieldPathElement_InternalSwap ::
  "'u FieldPathElement \<times> 'u FieldPathElement \<Rightarrow> 'u FieldPathElement \<times> 'u FieldPathElement" where
  "FieldPathElement_InternalSwap p =
     (let (a, b) = p in
      (a\<lparr>fpe_unknown := fpe_unknown b, fpe_has_bits := fpe_has_bits b,
         fpe_field_name := fpe_field_name b, fpe_field_number := fpe_field_number b,
         fpe_value_type := fpe_value_type b, fpe_field_type := fpe_field_type b,
         fpe_key_type := fpe_key_type b, fpe_subscript := fpe_subscript b\<rparr>,
       b\<lparr>fpe_unknown := fpe_unknown a, fpe_has_bits := fpe_has_bits a,
         fpe_field_name := fpe_field_name a, fpe_field_number := fpe_field_number a,
         fpe_value_type := fpe_value_type a, fpe_field_type := fpe_field_type a,
         fpe_key_type := fpe_key_type a, fpe_subscript := fpe_subscript a\<rparr>))"

subsection \<open>Accessors\<close>

definition FieldPathElement_has_field_number :: "'u FieldPathElement \<Rightarrow> bool" where
  "FieldPathElement_has_field_number m = CheckHasBit (fpe_has_bits m) 0x00000002"

definition FieldPathElement_clear_field_number :: "'u FieldPathElement \<Rightarrow> 'u FieldPathElement" where
  "FieldPathElement_clear_field_number m =
     (let m = m\<lparr>fpe_field_number := 0\<rparr>
      in m\<lparr>fpe_has_bits := ClearHasBit (fpe_has_bits m) 0x00000002\<rparr>)"

definition FieldPathElement_set_field_number ::
  "i32 \<Rightarrow> 'u FieldPathElement \<Rightarrow> 'u FieldPathElement" where
  "FieldPathElement_set_field_number v m =
     (let m = m\<lparr>fpe_field_number := v\<rparr>
      in m\<lparr>fpe_has_bits := SetHasBit (fpe_has_bits m) 0x00000002\<rparr>)"

definition FieldPathElement_has_field_name :: "'u FieldPathElement \<Rightarrow> bool" where
  "FieldPathElement_has_field_name m = CheckHasBit (fpe_has_bits m) 0x00000001"

definition FieldPathElement_clear_field_name :: "'u FieldPathElement \<Rightarrow> 'u FieldPathElement" where
  "FieldPathElement_clear_field_name m =
     (let m = m\<lparr>fpe_field_name := str_clear (fpe_field_name m)\<rparr>
      in m\<lparr>fpe_has_bits := ClearHasBit (fpe_has_bits m) 0x00000001\<rparr>)"

definition FieldPathElement_set_field_name ::
  "bytes \<Rightarrow> 'u FieldPathElement \<Rightarrow> 'u FieldPathElement" where
  "FieldPathElement_set_field_name v m =
     (let m = m\<lparr>fpe_has_bits := SetHasBit (fpe_has_bits m) 0x00000001\<rparr>
      in m\<lparr>fpe_field_name := Some v\<rparr>)"

definition FieldPathElement_has_field_type :: "'u FieldPathElement \<Rightarrow> bool" where
  "FieldPathElement_has_field_type m = CheckHasBit (fpe_has_bits m) 0x00000008"

definition FieldPathElement_clear_field_type :: "'u FieldPathElement \<Rightarrow> 'u FieldPathElement" where
  "FieldPathElement_clear_field_type m =
     (let m = m\<lparr>fpe_field_type := 1\<rparr>
      in m\<lparr>fpe_has_bits := ClearHasBit (fpe_has_bits m) 0x00000008\<rparr>)"

definition FieldPathElement_set_field_type ::
  "i32 \<Rightarrow> 'u FieldPathElement \<Rightarrow> 'u FieldPathElement" where
  "FieldPathElement_set_field_type v m =
     (let m = m\<lparr>fpe_field_type := v\<rparr>
      in m\<lparr>fpe_has_bits := SetHasBit (fpe_has_bits m) 0x00000008\<rparr>)"

definition FieldPathElement_has_key_type :: "'u FieldPathElement \<Rightarrow> bool" where
  "FieldPathElement_has_key_type m = CheckHasBit (fpe_has_bits m) 0x00000010"

definition FieldPathElement_clear_key_type :: "'u FieldPathElement \<Rightarrow> 'u FieldPathElement" where
  "FieldPathElement_clear_key_type m =
     (let m = m\<lparr>fpe_key_type := 1\<rparr>
      in m\<lparr>fpe_has_bits := ClearHasBit (fpe_has_bits m) 0x00000010\<rparr>)"

definition FieldPathElement_set_key_type ::
  "i32 \<Rightarrow> 'u FieldPathElement \<Rightarrow> 'u FieldPathElement" where
  "FieldPathElement_set_key_type v m =
     (let m = m\<lparr>fpe_key_type := v\<rparr>
      in m\<lparr>fpe_has_bits := SetHasBit (fpe_has_bits m) 0x00000010\<rparr>)"

definition FieldPathElement_has_value_type :: "'u FieldPathElement \<Rightarrow> bool" where
  "FieldPathElement_has_value_type m = CheckHasBit (fpe_has_bits m) 0x00000004"

definition FieldPathElement_clear_value_type :: "'u FieldPathElement \<Rightarrow> 'u FieldPathElement" where
  "FieldPathElement_clear_value_type m =
     (let m = m\<lparr>fpe_value_type := 1\<rparr>
      in m\<lparr>fpe_has_bits := ClearHasBit (fpe_has_bits m) 0x00000004\<rparr>)"

definition FieldPathElement_set_value_type ::
  "i32 \<Rightarrow> 'u FieldPathElement \<Rightarrow> 'u FieldPathElement" where
  "FieldPathElement_set_value_type v m =
     (let m = m\<lparr>fpe_value_type := v\<rparr>
      in m\<lparr>fpe_has_bits := SetHasBit (fpe_has_bits m) 0x00000004\<rparr>)"

subsection \<open>The oneof \<open>subscript\<close>\<close>

definition FieldPathElement_has_index :: "'u FieldPathElement \<Rightarrow> bool" where
  "FieldPathElement_has_index m = (case fpe_subscript m of kIndex v \<Rightarrow> True | _ \<Rightarrow> False)"

definition FieldPathElement_clear_index :: "'u FieldPathElement \<Rightarrow> 'u FieldPathElement" where
  "FieldPathElement_clear_index m =
     (if FieldPathElement_has_index m then m\<lparr>fpe_subscript := SUBSCRIPT_NOT_SET\<rparr> else m)"

definition FieldPathElement_index :: "'u FieldPathElement \<Rightarrow> u64" where
  "FieldPathElement_index m = (case fpe_subscript m of kIndex v \<Rightarrow> v | _ \<Rightarrow> 0)"

definition FieldPathElement_set_index :: "u64 \<Rightarrow> 'u FieldPathElement \<Rightarrow> 'u FieldPathElement" where
  "FieldPathElement_set_index v m =
     (let m = (if \<not> FieldPathElement_has_index m then FieldPathElement_clear_subscript m else m)
      in m\<lparr>fpe_subscript := kIndex v\<rparr>)"

definition FieldPathElement_has_bool_key :: "'u FieldPathElement \<Rightarrow> bool" where
  "FieldPathElement_has_bool_key m = (case fpe_subscript m of kBoolKey v \<Rightarrow> True | _ \<Rightarrow> False)"

definition FieldPathElement_clear_bool_key :: "'u FieldPathElement \<Rightarrow> 'u FieldPathElement" where
  "FieldPathElement_clear_bool_key m =
     (if FieldPathElement_has_bool_key m then m\<lparr>fpe_subscript := SUBSCRIPT_NOT_SET\<rparr> else m)"

definition FieldPathElement_bool_key :: "'u FieldPathElement \<Rightarrow> bool" where
  "FieldPathElement_bool_key m = (case fpe_subscript m of kBoolKey v \<Rightarrow> v | _ \<Rightarrow> False)"

definition FieldPathElement_set_bool_key :: "bool \<Rightarrow> 'u FieldPathElement \<Rightarrow> 'u FieldPathElement" where
  "FieldPathElement_set_bool_key v m =
     (let m = (if \<not> FieldPathElement_has_bool_key m then FieldPathElement_clear_subscript m else m)
      in m\<lparr>fpe_subscript := kBoolKey v\<rparr>)"

definition FieldPathElement_has_int_key :: "'u FieldPathElement \<Rightarrow> bool" where
  "FieldPathElement_has_int_key m = (case fpe_subscript m of kIntKey v \<Rightarrow> True | _ \<Rightarrow> False)"

definition FieldPathElement_clear_int_key :: "'u FieldPathElement \<Rightarrow> 'u FieldPathElement" where
  "FieldPathElement_clear_int_key m =
     (if FieldPathElement_has_int_key m then m\<lparr>fpe_subscript := SUBSCRIPT_NOT_SET\<rparr> else m)"

definition FieldPathElement_int_key :: "'u FieldPathElement \<Rightarrow> i64" where
  "FieldPathElement_int_key m = (case fpe_subscript m of kIntKey v \<Rightarrow> v | _ \<Rightarrow> 0)"

definition FieldPathElement_set_int_key :: "i64 \<Rightarrow> 'u FieldPathElement \<Rightarrow> 'u FieldPathElement" where
  "FieldPathElement_set_int_key v m =
     (let m = (if \<not> FieldPathElement_has_int_key m then FieldPathElement_clear_subscript m else m)
      in m\<lparr>fpe_subscript := kIntKey v\<rparr>)"

definition FieldPathElement_has_uint_key :: "'u FieldPathElement \<Rightarrow> bool" where
  "FieldPathElement_has_uint_key m = (case fpe_subscript m of kUintKey v \<Rightarrow> True | _ \<Rightarrow> False)"

definition FieldPathElement_clear_uint_key :: "'u FieldPathElement \<Rightarrow> 'u FieldPathElement" where
  "FieldPathElement_clear_uint_key m =
     (if FieldPathElement_has_uint_key m then m\<lparr>fpe_subscript := SUBSCRIPT_NOT_SET\<rparr> else m)"

definition FieldPathElement_uint_key :: "'u FieldPathElement \<Rightarrow> u64" where
  "FieldPathElement_uint_key m = (case fpe_subscript m of kUintKey v \<Rightarrow> v | _ \<Rightarrow> 0)"

definition FieldPathElement_set_uint_key :: "u64 \<Rightarrow> 'u FieldPathElement \<Rightarrow> 'u FieldPathElement" where
  "FieldPathElement_set_uint_key v m =
     (let m = (if \<not> FieldPathElement_has_uint_key m then FieldPathElement_clear_subscript m else m)
      in m\<lparr>fpe_subscript := kUintKey v\<rparr>)"

definition FieldPathElement_has_string_key :: "'u FieldPathElement \<Rightarrow> bool" where
  "FieldPathElement_has_string_key m =
     (case fpe_subscript m of kStringKey v \<Rightarrow> True | _ \<Rightarrow> False)"

definition FieldPathElement_clear_string_key :: "'u FieldPathElement \<Rightarrow> 'u FieldPathElement" where
  "FieldPathElement_clear_string_key m =
     (if FieldPathElement_has_string_key m then m\<lparr>fpe_subscript := SUBSCRIPT_NOT_SET\<rparr> else m)"

definition FieldPathElement_string_key :: "'u FieldPathElement \<Rightarrow> bytes" where
  "FieldPathElement_string_key m =
     (case fpe_subscript m of kStringKey s \<Rightarrow> str_get s | _ \<Rightarrow> [])"

definition FieldPathElement_set_string_key ::
  "bytes \<Rightarrow> 'u FieldPathElement \<Rightarrow> 'u FieldPathElement" where
  "FieldPathElement_set_string_key v m =
     (let m = (if \<not> FieldPathElement_has_string_key m
               then (FieldPathElement_clear_subscript m)\<lparr>fpe_subscript := kStringKey None\<rparr> else m)
      in m\<lparr>fpe_subscript := kStringKey (Some v)\<rparr>)"

definition FieldPathElement_release_string_key ::
  "'u FieldPathElement \<Rightarrow> bytes option \<times> 'u FieldPathElement" where
  "FieldPathElement_release_string_key m =
     (case fpe_subscript m of
        kStringKey s \<Rightarrow> (Some (str_get s), m\<lparr>fpe_subscript := SUBSCRIPT_NOT_SET\<rparr>)
      | _ \<Rightarrow> (None, m))"

definition FieldPathElement_set_allocated_string_key ::
  "bytes option \<Rightarrow> 'u FieldPathElement \<Rightarrow> 'u FieldPathElement" where
  "FieldPathElement_set_allocated_string_key v m =
     (let m = (if fpe_subscript m \<noteq> SUBSCRIPT_NOT_SET then FieldPathElement_clear_subscript m else m)
      in (case v of None \<Rightarrow> m | Some s \<Rightarrow> m\<lparr>fpe_subscript := kStringKey (Some s)\<rparr>))"

definition FieldPathElement_has_subscript :: "'u FieldPathElement \<Rightarrow> bool" where
  "FieldPathElement_has_subscript m = (fpe_subscript m \<noteq> SUBSCRIPT_NOT_SET)"

subsection \<open>The parse table\<close>

definition FieldPathElement_table :: parse_table where
  "FieldPathElement_table =
     \<lparr>pt_max_field_number = 10, pt_fast_idx_mask = 56, pt_skipmap = 4294966272,
      pt_fast =
        [None,
         Some \<lparr>fast_coded_tag = 8, fast_hasbit = 1, fast_aux = 0\<rparr>,
         Some \<lparr>fast_coded_tag = 18, fast_hasbit = 0, fast_aux = 0\<rparr>,
         Some \<lparr>fast_coded_tag = 24, fast_hasbit = 3, fast_aux = 18\<rparr>,
         Some \<lparr>fast_coded_tag = 32, fast_hasbit = 4, fast_aux = 18\<rparr>,
         Some \<lparr>fast_coded_tag = 40, fast_hasbit = 2, fast_aux = 18\<rparr>,
         None, None],
      pt_entries =
        [\<lparr>fe_number = 1, fe_card = FcOptional 1, fe_type = FlInt32\<rparr>,
         \<lparr>fe_number = 2, fe_card = FcOptional 0, fe_type = FlBytes\<rparr>,
         \<lparr>fe_number = 3, fe_card = FcOptional 3, fe_type = FlEnumRange 1 18\<rparr>,
         \<lparr>fe_number = 4, fe_card = FcOptional 4, fe_type = FlEnumRange 1 18\<rparr>,
         \<lparr>fe_number = 5, fe_card = FcOptional 2, fe_type = FlEnumRange 1 18\<rparr>,
         \<lparr>fe_number = 6, fe_card = FcOneof, fe_type = FlUInt64\<rparr>,
         \<lparr>fe_number = 7, fe_card = FcOneof, fe_type = FlBool\<rparr>,
         \<lparr>fe_number = 8, fe_card = FcOneof, fe_type = FlInt64\<rparr>,
         \<lparr>fe_number = 9, fe_card = FcOneof, fe_type = FlUInt64\<rparr>,
         \<lparr>fe_number = 10, fe_card = FcOneof, fe_type = FlBytes\<rparr>]\<rparr>"

text \<open>
  Storing a decoded value under the table: the entry's has-bit is set (a oneof member
  replaces the union), the member the entry names is assigned. Field numbers outside the
  table are unknown fields, which the reader does not accept.
\<close>

definition FieldPathElement_store :: "nat \<Rightarrow> pval \<Rightarrow> 'u FieldPathElement \<Rightarrow> 'u FieldPathElement option" where
  "FieldPathElement_store n v m =
     (case v of
        PInt32 x \<Rightarrow>
          (if n = 1 then Some (m\<lparr>fpe_field_number := x\<rparr>)
           else if n = 3 then Some (m\<lparr>fpe_field_type := x\<rparr>)
           else if n = 4 then Some (m\<lparr>fpe_key_type := x\<rparr>)
           else if n = 5 then Some (m\<lparr>fpe_value_type := x\<rparr>) else None)
      | PInt64 x \<Rightarrow>
          (if n = 6 then Some (m\<lparr>fpe_subscript := kIndex x\<rparr>)
           else if n = 8 then Some (m\<lparr>fpe_subscript := kIntKey x\<rparr>)
           else if n = 9 then Some (m\<lparr>fpe_subscript := kUintKey x\<rparr>) else None)
      | PBool x \<Rightarrow> (if n = 7 then Some (m\<lparr>fpe_subscript := kBoolKey x\<rparr>) else None)
      | PBytes s \<Rightarrow>
          (if n = 2 then Some (m\<lparr>fpe_field_name := Some s\<rparr>)
           else if n = 10 then Some (m\<lparr>fpe_subscript := kStringKey (Some s)\<rparr>) else None)
      | PDouble x \<Rightarrow> None)"

definition FieldPathElement_parse_field ::
  "nat \<Rightarrow> wval \<Rightarrow> 'u FieldPathElement \<Rightarrow> 'u FieldPathElement option" where
  "FieldPathElement_parse_field n x m =
     (case lookup_entry FieldPathElement_table n of
        None \<Rightarrow> None
      | Some e \<Rightarrow>
          (case decode_value (fe_type e) x of
             None \<Rightarrow> None
           | Some v \<Rightarrow>
               FieldPathElement_store n v
                 (case card_hasbit (fe_card e) of
                    None \<Rightarrow> m
                  | Some i \<Rightarrow> m\<lparr>fpe_has_bits := SetHasBit (fpe_has_bits m) (2 ^ i)\<rparr>)))"

section \<open>What an element shows, and the operations on it\<close>

record 'u Elem =
  el_number :: "i32 option"
  el_name :: "bytes option"
  el_field_type :: "i32 option"
  el_key_type :: "i32 option"
  el_value_type :: "i32 option"
  el_subscript :: Subscript
  el_unknown :: 'u

fun subscript_abs :: "Subscript \<Rightarrow> Subscript" where
  "subscript_abs (kStringKey s) = kStringKey (Some (str_get s))"
| "subscript_abs x = x"

definition fpe_abs :: "'u FieldPathElement \<Rightarrow> 'u Elem" where
  "fpe_abs m =
     \<lparr>el_number = (if hb (fpe_has_bits m) 1 then Some (fpe_field_number m) else None),
      el_name = (if hb (fpe_has_bits m) 0 then Some (str_get (fpe_field_name m)) else None),
      el_field_type = (if hb (fpe_has_bits m) 3 then Some (fpe_field_type m) else None),
      el_key_type = (if hb (fpe_has_bits m) 4 then Some (fpe_key_type m) else None),
      el_value_type = (if hb (fpe_has_bits m) 2 then Some (fpe_value_type m) else None),
      el_subscript = subscript_abs (fpe_subscript m),
      el_unknown = fpe_unknown m\<rparr>"

definition elem_empty :: "'u wire \<Rightarrow> 'u Elem" where
  "elem_empty W = \<lparr>el_number = None, el_name = None, el_field_type = None, el_key_type = None,
     el_value_type = None, el_subscript = SUBSCRIPT_NOT_SET, el_unknown = NoUnknownFields W\<rparr>"

definition override :: "'a option \<Rightarrow> 'a option \<Rightarrow> 'a option" where
  "override old new = (case new of None \<Rightarrow> old | Some v \<Rightarrow> Some v)"

definition elem_merge :: "'u wire \<Rightarrow> 'u Elem \<Rightarrow> 'u Elem \<Rightarrow> 'u Elem" where
  "elem_merge W a b =
     \<lparr>el_number = override (el_number a) (el_number b),
      el_name = override (el_name a) (el_name b),
      el_field_type = override (el_field_type a) (el_field_type b),
      el_key_type = override (el_key_type a) (el_key_type b),
      el_value_type = override (el_value_type a) (el_value_type b),
      el_subscript = (if el_subscript b = SUBSCRIPT_NOT_SET then el_subscript a else el_subscript b),
      el_unknown = MergeUnknownFields W (el_unknown a) (el_unknown b)\<rparr>"

text \<open>
  The has-bit discipline the debug builds check: a field whose has-bit is clear holds
  its default, so the raw getters agree with \<open>fpe_abs\<close>.
\<close>

definition fpe_wf :: "'u FieldPathElement \<Rightarrow> bool" where
  "fpe_wf m \<longleftrightarrow>
     (\<not> hb (fpe_has_bits m) 0 \<longrightarrow> str_get (fpe_field_name m) = []) \<and>
     (\<not> hb (fpe_has_bits m) 1 \<longrightarrow> fpe_field_number m = 0) \<and>
     (\<not> hb (fpe_has_bits m) 2 \<longrightarrow> fpe_value_type m = 1) \<and>
     (\<not> hb (fpe_has_bits m) 3 \<longrightarrow> fpe_field_type m = 1) \<and>
     (\<not> hb (fpe_has_bits m) 4 \<longrightarrow> fpe_key_type m = 1)"

lemmas fpe_ops =
  FieldPathElement_new_def FieldPathElement_copy_def FieldPathElement_clear_subscript_def
  FieldPathElement_Clear_def FieldPathElement_MergeImpl_def FieldPathElement_CopyFrom_def
  FieldPathElement_clear_field_number_def FieldPathElement_set_field_number_def
  FieldPathElement_clear_field_name_def FieldPathElement_set_field_name_def
  FieldPathElement_clear_field_type_def FieldPathElement_set_field_type_def
  FieldPathElement_clear_key_type_def FieldPathElement_set_key_type_def
  FieldPathElement_clear_value_type_def FieldPathElement_set_value_type_def

lemma subscript_abs_idem [simp]: "subscript_abs (subscript_abs x) = subscript_abs x"
  by (cases x) simp_all

lemma subscript_abs_not_set [simp]: "subscript_abs x = SUBSCRIPT_NOT_SET \<longleftrightarrow> x = SUBSCRIPT_NOT_SET"
  by (cases x) simp_all

lemma fpe_abs_new: "fpe_abs (FieldPathElement_new W) = elem_empty W"
  by (simp add: fpe_abs_def FieldPathElement_new_def elem_empty_def hasbit_simps)

lemma fpe_wf_new: "fpe_wf (FieldPathElement_new W)"
  by (simp add: fpe_wf_def FieldPathElement_new_def)

lemma fpe_abs_Clear: "fpe_abs (FieldPathElement_Clear W m) = elem_empty W"
  by (simp add: fpe_abs_def fpe_ops elem_empty_def hasbit_simps Let_def)

lemma fpe_wf_Clear: "fpe_wf m \<Longrightarrow> fpe_wf (FieldPathElement_Clear W m)"
  by (auto simp: fpe_wf_def fpe_ops hasbit_simps Let_def)

lemma MergeImpl_has_bits [simp]:
  "fpe_has_bits (FieldPathElement_MergeImpl W this from) = fpe_has_bits this OR fpe_has_bits from"
  by (simp add: FieldPathElement_MergeImpl_def Let_def split: Subscript.split)

lemma MergeImpl_subscript:
  "fpe_subscript (FieldPathElement_MergeImpl W this from) =
     (if fpe_subscript from = SUBSCRIPT_NOT_SET then fpe_subscript this
      else subscript_abs (fpe_subscript from))"
  by (simp add: FieldPathElement_MergeImpl_def Let_def split: Subscript.split)

lemma MergeImpl_unknown [simp]:
  "fpe_unknown (FieldPathElement_MergeImpl W this from) =
     MergeUnknownFields W (fpe_unknown this) (fpe_unknown from)"
  by (simp add: FieldPathElement_MergeImpl_def Let_def split: Subscript.split)

lemma MergeImpl_members:
  "fpe_field_name (FieldPathElement_MergeImpl W this from) =
     (if hb (fpe_has_bits from) 0 then Some (str_get (fpe_field_name from)) else fpe_field_name this)"
  "fpe_field_number (FieldPathElement_MergeImpl W this from) =
     (if hb (fpe_has_bits from) 1 then fpe_field_number from else fpe_field_number this)"
  "fpe_value_type (FieldPathElement_MergeImpl W this from) =
     (if hb (fpe_has_bits from) 2 then fpe_value_type from else fpe_value_type this)"
  "fpe_field_type (FieldPathElement_MergeImpl W this from) =
     (if hb (fpe_has_bits from) 3 then fpe_field_type from else fpe_field_type this)"
  "fpe_key_type (FieldPathElement_MergeImpl W this from) =
     (if hb (fpe_has_bits from) 4 then fpe_key_type from else fpe_key_type this)"
  by (auto simp: FieldPathElement_MergeImpl_def Let_def hasbit_simps split: Subscript.split)

lemma fpe_abs_Merge:
  "fpe_abs (FieldPathElement_MergeImpl W this from) = elem_merge W (fpe_abs this) (fpe_abs from)"
  by (simp add: fpe_abs_def elem_merge_def override_def MergeImpl_subscript MergeImpl_members
      hasbit_simps)

lemma fpe_wf_Merge:
  "fpe_wf this \<Longrightarrow> fpe_wf from \<Longrightarrow> fpe_wf (FieldPathElement_MergeImpl W this from)"
  by (simp add: fpe_wf_def MergeImpl_members hasbit_simps)

context wire_format
begin

lemma elem_merge_empty: "elem_merge W (elem_empty W) (fpe_abs m) = fpe_abs m"
  by (simp add: elem_merge_def elem_empty_def fpe_abs_def override_def merge_unknown_left)

lemma fpe_abs_CopyFrom: "fpe_abs (FieldPathElement_CopyFrom W False this from) = fpe_abs from"
  by (simp add: FieldPathElement_CopyFrom_def fpe_abs_Merge fpe_abs_Clear elem_merge_empty)

lemma fpe_abs_copy: "fpe_abs (FieldPathElement_copy W m) = fpe_abs m"
  by (simp add: fpe_abs_def FieldPathElement_copy_def merge_unknown_left split: Subscript.split)

lemma fpe_size:
  "length (FieldPathElement_InternalSerialize W m) = FieldPathElement_total_size W m"
  by (simp add: FieldPathElement_InternalSerialize_def FieldPathElement_total_size_def Let_def
      scalar_sizes unknown_tail_size hasbit_simps split: Subscript.split)

end

section \<open>Reading back what an element serialized\<close>

text \<open>The enumerations hold numbers of the descriptor's \<open>FieldDescriptorProto.Type\<close>.\<close>

definition fpe_enums_ok :: "'u FieldPathElement \<Rightarrow> bool" where
  "fpe_enums_ok m \<longleftrightarrow>
     (hb (fpe_has_bits m) 2 \<longrightarrow> 1 \<le> sint (fpe_value_type m) \<and> sint (fpe_value_type m) \<le> 18) \<and>
     (hb (fpe_has_bits m) 3 \<longrightarrow> 1 \<le> sint (fpe_field_type m) \<and> sint (fpe_field_type m) \<le> 18) \<and>
     (hb (fpe_has_bits m) 4 \<longrightarrow> 1 \<le> sint (fpe_key_type m) \<and> sint (fpe_key_type m) \<le> 18)"

definition fpe_plain :: "'u wire \<Rightarrow> 'u FieldPathElement \<Rightarrow> bool" where
  "fpe_plain W m \<longleftrightarrow> fpe_enums_ok m \<and> fpe_unknown m = NoUnknownFields W"

definition FieldPathElement_parse ::
  "(bytes \<Rightarrow> (nat \<times> wval \<times> bytes) option) \<Rightarrow> 'u wire \<Rightarrow> bytes \<Rightarrow> 'u FieldPathElement option" where
  "FieldPathElement_parse nxt W b = parse_with nxt FieldPathElement_parse_field b (FieldPathElement_new W)"

lemmas fpe_parse_defs = FieldPathElement_parse_field_def FieldPathElement_table_def
  lookup_entry_def FieldPathElement_store_def

lemma fpe_parse_field_simps:
  "FieldPathElement_parse_field 1 (Varint (scast v)) m =
     Some (m\<lparr>fpe_has_bits := SetHasBit (fpe_has_bits m) 2, fpe_field_number := v\<rparr>)"
  "FieldPathElement_parse_field 2 (Delimited s) m =
     Some (m\<lparr>fpe_has_bits := SetHasBit (fpe_has_bits m) 1, fpe_field_name := Some s\<rparr>)"
  "1 \<le> sint v \<Longrightarrow> sint v \<le> 18 \<Longrightarrow> FieldPathElement_parse_field 3 (Varint (scast v)) m =
     Some (m\<lparr>fpe_has_bits := SetHasBit (fpe_has_bits m) 8, fpe_field_type := v\<rparr>)"
  "1 \<le> sint v \<Longrightarrow> sint v \<le> 18 \<Longrightarrow> FieldPathElement_parse_field 4 (Varint (scast v)) m =
     Some (m\<lparr>fpe_has_bits := SetHasBit (fpe_has_bits m) 16, fpe_key_type := v\<rparr>)"
  "1 \<le> sint v \<Longrightarrow> sint v \<le> 18 \<Longrightarrow> FieldPathElement_parse_field 5 (Varint (scast v)) m =
     Some (m\<lparr>fpe_has_bits := SetHasBit (fpe_has_bits m) 4, fpe_value_type := v\<rparr>)"
  "FieldPathElement_parse_field 6 (Varint w) m = Some (m\<lparr>fpe_subscript := kIndex w\<rparr>)"
  "FieldPathElement_parse_field 7 (Varint (of_bool b)) m = Some (m\<lparr>fpe_subscript := kBoolKey b\<rparr>)"
  "FieldPathElement_parse_field 8 (Varint w) m = Some (m\<lparr>fpe_subscript := kIntKey w\<rparr>)"
  "FieldPathElement_parse_field 9 (Varint w) m = Some (m\<lparr>fpe_subscript := kUintKey w\<rparr>)"
  "FieldPathElement_parse_field 10 (Delimited s) m =
     Some (m\<lparr>fpe_subscript := kStringKey (Some s)\<rparr>)"
  by (simp_all add: fpe_parse_defs)

context wire_reader
begin

lemma fpe_parse_merge:
  assumes plain: "fpe_plain W m"
  shows "\<exists>m'. parse_with next_field FieldPathElement_parse_field
           (FieldPathElement_InternalSerialize W m) m0 = Some m' \<and>
         fpe_abs m' = elem_merge W (fpe_abs m0) (fpe_abs m)"
proof -
  have enums: "fpe_enums_ok m" and unk: "fpe_unknown m = NoUnknownFields W"
    using plain by (simp_all add: fpe_plain_def)
  let ?b = "fpe_has_bits m"
  let ?step = "FieldPathElement_parse_field :: nat \<Rightarrow> wval \<Rightarrow> 'u FieldPathElement \<Rightarrow> _"
  let ?f1 = "\<lambda>x. x\<lparr>fpe_has_bits := SetHasBit (fpe_has_bits x) 2, fpe_field_number := fpe_field_number m\<rparr>"
  let ?f2 = "\<lambda>x. x\<lparr>fpe_has_bits := SetHasBit (fpe_has_bits x) 1,
      fpe_field_name := Some (str_get (fpe_field_name m))\<rparr>"
  let ?f3 = "\<lambda>x. x\<lparr>fpe_has_bits := SetHasBit (fpe_has_bits x) 8, fpe_field_type := fpe_field_type m\<rparr>"
  let ?f4 = "\<lambda>x. x\<lparr>fpe_has_bits := SetHasBit (fpe_has_bits x) 16, fpe_key_type := fpe_key_type m\<rparr>"
  let ?f5 = "\<lambda>x. x\<lparr>fpe_has_bits := SetHasBit (fpe_has_bits x) 4, fpe_value_type := fpe_value_type m\<rparr>"
  let ?f6 = "\<lambda>x. x\<lparr>fpe_subscript := subscript_abs (fpe_subscript m)\<rparr>"
  let ?m' = "cond_upd (fpe_subscript m \<noteq> SUBSCRIPT_NOT_SET) ?f6 (cond_upd (hb ?b 2) ?f5
      (cond_upd (hb ?b 4) ?f4 (cond_upd (hb ?b 3) ?f3 (cond_upd (hb ?b 0) ?f2
        (cond_upd (hb ?b (Suc 0)) ?f1 m0)))))"
  let ?P = "parse_with next_field ?step"
  have s1: "?P ((if hb ?b (Suc 0) then WriteInt32ToArrayWithField W 1 (fpe_field_number m) else []) @ r) x
      = ?P r (cond_upd (hb ?b (Suc 0)) ?f1 x)" for r x
    by (rule parse_with_segment) (subst parse_int32; simp add: fpe_parse_field_simps del: One_nat_def)
  have s2: "?P ((if hb ?b 0 then WriteStringMaybeAliased W 2 (str_get (fpe_field_name m)) else []) @ r) x
      = ?P r (cond_upd (hb ?b 0) ?f2 x)" for r x
    by (rule parse_with_segment) (subst parse_string; simp add: fpe_parse_field_simps)
  have s3: "?P ((if hb ?b 3 then WriteEnumToArray W 3 (fpe_field_type m) else []) @ r) x
      = ?P r (cond_upd (hb ?b 3) ?f3 x)" for r x
    using enums unfolding fpe_enums_ok_def
    by (intro parse_with_segment) (subst parse_enum; simp add: fpe_parse_field_simps)
  have s4: "?P ((if hb ?b 4 then WriteEnumToArray W 4 (fpe_key_type m) else []) @ r) x
      = ?P r (cond_upd (hb ?b 4) ?f4 x)" for r x
    using enums unfolding fpe_enums_ok_def
    by (intro parse_with_segment) (subst parse_enum; simp add: fpe_parse_field_simps)
  have s5: "?P ((if hb ?b 2 then WriteEnumToArray W 5 (fpe_value_type m) else []) @ r) x
      = ?P r (cond_upd (hb ?b 2) ?f5 x)" for r x
    using enums unfolding fpe_enums_ok_def
    by (intro parse_with_segment) (subst parse_enum; simp add: fpe_parse_field_simps)
  have s6: "?P (case fpe_subscript m of
         kIndex v \<Rightarrow> WriteUInt64ToArray W 6 v
       | kBoolKey v \<Rightarrow> WriteBoolToArray W 7 v
       | kIntKey v \<Rightarrow> WriteInt64ToArrayWithField W 8 v
       | kUintKey v \<Rightarrow> WriteUInt64ToArray W 9 v
       | kStringKey s \<Rightarrow> WriteStringMaybeAliased W 10 (str_get s)
       | SUBSCRIPT_NOT_SET \<Rightarrow> []) x
      = Some (cond_upd (fpe_subscript m \<noteq> SUBSCRIPT_NOT_SET) ?f6 x)" for x
    by (cases "fpe_subscript m")
      (simp_all add: parse_uint64 [where r = "[]", simplified] parse_bool [where r = "[]", simplified]
        parse_int64 [where r = "[]", simplified] parse_string [where r = "[]", simplified]
        parse_with_Nil fpe_parse_field_simps)
  have "?P (FieldPathElement_InternalSerialize W m) m0 = Some ?m'"
    unfolding FieldPathElement_InternalSerialize_def Let_def hasbit_simps unk no_unknown_tail
      append_Nil2 s1 s2 s3 s4 s5 s6 by (rule refl)
  moreover have "fpe_abs ?m' = elem_merge W (fpe_abs m0) (fpe_abs m)"
    by (simp add: fpe_abs_def elem_merge_def override_def cond_upd_def hasbit_simps unk
        merge_unknown_right)
  ultimately show ?thesis by blast
qed
lemma fpe_parse_serialize:
  assumes "fpe_plain W m"
  shows "\<exists>m'. FieldPathElement_parse next_field W (FieldPathElement_InternalSerialize W m) = Some m' \<and>
    fpe_abs m' = fpe_abs m"
  using fpe_parse_merge [OF assms, of "FieldPathElement_new W"]
  by (simp add: FieldPathElement_parse_def fpe_abs_new elem_merge_empty)

end

end
