(* ===== verification/Field_Path.thy ===== *)
theory Field_Path
  imports Field_Path_Element
begin

text \<open>
  \<open>buf.validate.FieldPath\<close> (validate.pb.cc, validate.pb.h): the repeated field
  \<open>elements\<close>. \<open>RepeatedPtrField\<close> is the library's container, a list here; adding to it
  default-constructs an element, merging and copying copy-construct the elements of the
  source. \<open>ByteSizeLong\<close> stores the cached size of the path and of each element, and
  \<open>_InternalSerialize\<close> reads those of the elements, so the theorems about the pair take
  the state after \<open>ByteSizeLong\<close>.
\<close>

record 'u FieldPath =
  fp_has_bits :: u32
  fp_cached_size :: i32
  fp_elements :: "'u FieldPathElement list"
  fp_unknown :: 'u

definition FieldPath_new :: "'u wire \<Rightarrow> 'u FieldPath" where
  "FieldPath_new W =
     \<lparr>fp_has_bits = 0, fp_cached_size = 0, fp_elements = [], fp_unknown = NoUnknownFields W\<rparr>"

definition FieldPath_copy :: "'u wire \<Rightarrow> 'u FieldPath \<Rightarrow> 'u FieldPath" where
  "FieldPath_copy W from =
     \<lparr>fp_has_bits = fp_has_bits from, fp_cached_size = 0,
      fp_elements = map (FieldPathElement_copy W) (fp_elements from),
      fp_unknown = MergeUnknownFields W (NoUnknownFields W) (fp_unknown from)\<rparr>"

definition FieldPath_Clear :: "'u wire \<Rightarrow> 'u FieldPath \<Rightarrow> 'u FieldPath" where
  "FieldPath_Clear W m =
     (let cached_has_bits = fp_has_bits m;
          m = (if CheckHasBit cached_has_bits 0x00000001 then m\<lparr>fp_elements := []\<rparr> else m)
      in m\<lparr>fp_has_bits := 0, fp_unknown := NoUnknownFields W\<rparr>)"

definition FieldPath_InternalSerialize :: "'u wire \<Rightarrow> 'u FieldPath \<Rightarrow> bytes" where
  "FieldPath_InternalSerialize W m =
     (let cached_has_bits = fp_has_bits m in
      (if CheckHasBit cached_has_bits 0x00000001
       then concat (map (\<lambda>repfield. InternalWriteMessage W 1 (fpe_cached_size repfield)
                           (FieldPathElement_InternalSerialize W repfield)) (fp_elements m))
       else []) @
      SerializeUnknownTail W (fp_unknown m))"

definition FieldPath_ByteSizeLong :: "'u wire \<Rightarrow> 'u FieldPath \<Rightarrow> nat \<times> 'u FieldPath" where
  "FieldPath_ByteSizeLong W m =
     (let cached_has_bits = fp_has_bits m;
          (total_size, m) =
            (if CheckHasBit cached_has_bits 0x00000001 then
               (let sized = map (FieldPathElement_ByteSizeLong W) (fp_elements m)
                in (1 * length (fp_elements m) + sum_list (map (\<lambda>(sz, _). LengthDelimitedSize W sz) sized),
                    m\<lparr>fp_elements := map snd sized\<rparr>))
             else (0, m));
          total_size = MaybeComputeUnknownFieldsSize W (fp_unknown m) total_size
      in (total_size, m\<lparr>fp_cached_size := ToCachedSize total_size\<rparr>))"

definition FieldPath_MergeImpl :: "'u wire \<Rightarrow> 'u FieldPath \<Rightarrow> 'u FieldPath \<Rightarrow> 'u FieldPath" where
  "FieldPath_MergeImpl W this from =
     (let cached_has_bits = fp_has_bits from;
          m = (if CheckHasBit cached_has_bits 0x00000001
               then this\<lparr>fp_elements :=
                      fp_elements this @ map (FieldPathElement_copy W) (fp_elements from)\<rparr>
               else this);
          m = m\<lparr>fp_has_bits := fp_has_bits m OR cached_has_bits\<rparr>
      in m\<lparr>fp_unknown := MergeUnknownFields W (fp_unknown m) (fp_unknown from)\<rparr>)"

definition FieldPath_CopyFrom :: "'u wire \<Rightarrow> bool \<Rightarrow> 'u FieldPath \<Rightarrow> 'u FieldPath \<Rightarrow> 'u FieldPath" where
  "FieldPath_CopyFrom W same this from =
     (if same then this else FieldPath_MergeImpl W (FieldPath_Clear W this) from)"

definition FieldPath_InternalSwap :: "'u FieldPath \<times> 'u FieldPath \<Rightarrow> 'u FieldPath \<times> 'u FieldPath" where
  "FieldPath_InternalSwap p =
     (let (a, b) = p in
      (a\<lparr>fp_unknown := fp_unknown b, fp_has_bits := fp_has_bits b, fp_elements := fp_elements b\<rparr>,
       b\<lparr>fp_unknown := fp_unknown a, fp_has_bits := fp_has_bits a, fp_elements := fp_elements a\<rparr>))"

subsection \<open>Accessors\<close>

definition FieldPath_elements_size :: "'u FieldPath \<Rightarrow> nat" where
  "FieldPath_elements_size m = length (fp_elements m)"

definition FieldPath_clear_elements :: "'u FieldPath \<Rightarrow> 'u FieldPath" where
  "FieldPath_clear_elements m =
     (let m = m\<lparr>fp_elements := []\<rparr>
      in m\<lparr>fp_has_bits := ClearHasBit (fp_has_bits m) 0x00000001\<rparr>)"

text \<open>
  \<open>Get\<close> and \<open>Mutable\<close> abort on an index out of range, which is \<open>None\<close>; a mutable
  reference is the update its holder applies through it.
\<close>

definition FieldPath_elements :: "nat \<Rightarrow> 'u FieldPath \<Rightarrow> 'u FieldPathElement option" where
  "FieldPath_elements index m =
     (if index < length (fp_elements m) then Some (fp_elements m ! index) else None)"

definition FieldPath_mutable_elements_at ::
  "nat \<Rightarrow> ('u FieldPathElement \<Rightarrow> 'u FieldPathElement) \<Rightarrow> 'u FieldPath \<Rightarrow> 'u FieldPath option" where
  "FieldPath_mutable_elements_at index f m =
     (if index < length (fp_elements m)
      then Some (m\<lparr>fp_elements := (fp_elements m)[index := f (fp_elements m ! index)]\<rparr>) else None)"

definition FieldPath_add_elements ::
  "'u wire \<Rightarrow> ('u FieldPathElement \<Rightarrow> 'u FieldPathElement) \<Rightarrow> 'u FieldPath \<Rightarrow> 'u FieldPath" where
  "FieldPath_add_elements W f m =
     (let m = m\<lparr>fp_elements := fp_elements m @ [f (FieldPathElement_new W)]\<rparr>
      in m\<lparr>fp_has_bits := SetHasBit (fp_has_bits m) 0x00000001\<rparr>)"

definition FieldPath_mutable_elements ::
  "('u FieldPathElement list \<Rightarrow> 'u FieldPathElement list) \<Rightarrow> 'u FieldPath \<Rightarrow> 'u FieldPath" where
  "FieldPath_mutable_elements f m =
     (let m = m\<lparr>fp_has_bits := SetHasBit (fp_has_bits m) 0x00000001\<rparr>
      in m\<lparr>fp_elements := f (fp_elements m)\<rparr>)"

subsection \<open>The parse table\<close>

definition FieldPath_table :: parse_table where
  "FieldPath_table =
     \<lparr>pt_max_field_number = 1, pt_fast_idx_mask = 0, pt_skipmap = 4294967294,
      pt_fast = [Some \<lparr>fast_coded_tag = 10, fast_hasbit = 0, fast_aux = 0\<rparr>],
      pt_entries = [\<lparr>fe_number = 1, fe_card = FcRepeated 0, fe_type = FlMessage\<rparr>]\<rparr>"

definition FieldPath_parse_field ::
  "(bytes \<Rightarrow> (nat \<times> wval \<times> bytes) option) \<Rightarrow> 'u wire \<Rightarrow>
   nat \<Rightarrow> wval \<Rightarrow> 'u FieldPath \<Rightarrow> 'u FieldPath option" where
  "FieldPath_parse_field nxt W n x m =
     (case lookup_entry FieldPath_table n of
        None \<Rightarrow> None
      | Some e \<Rightarrow>
          (case decode_value (fe_type e) x of
             Some (PBytes s) \<Rightarrow>
               (case FieldPathElement_parse nxt W s of
                  None \<Rightarrow> None
                | Some el \<Rightarrow> Some (FieldPath_add_elements W (\<lambda>_. el) m))
           | _ \<Rightarrow> None))"

definition FieldPath_parse ::
  "(bytes \<Rightarrow> (nat \<times> wval \<times> bytes) option) \<Rightarrow> 'u wire \<Rightarrow> bytes \<Rightarrow> 'u FieldPath \<Rightarrow> 'u FieldPath option" where
  "FieldPath_parse nxt W b m = parse_with nxt (FieldPath_parse_field nxt W) b m"

section \<open>What a path shows, and the operations on it\<close>

record 'u Path =
  pa_elements :: "'u Elem list"
  pa_unknown :: 'u

definition fp_abs :: "'u FieldPath \<Rightarrow> 'u Path" where
  "fp_abs m = \<lparr>pa_elements = (if hb (fp_has_bits m) 0 then map fpe_abs (fp_elements m) else []),
     pa_unknown = fp_unknown m\<rparr>"

definition path_empty :: "'u wire \<Rightarrow> 'u Path" where
  "path_empty W = \<lparr>pa_elements = [], pa_unknown = NoUnknownFields W\<rparr>"

definition path_merge :: "'u wire \<Rightarrow> 'u Path \<Rightarrow> 'u Path \<Rightarrow> 'u Path" where
  "path_merge W a b = \<lparr>pa_elements = pa_elements a @ pa_elements b,
     pa_unknown = MergeUnknownFields W (pa_unknown a) (pa_unknown b)\<rparr>"

text \<open>
  The has-bit of a repeated field may be set on an empty list but is never clear on a
  non-empty one (\<open>CheckHasBitConsistency\<close>).
\<close>

definition fp_wf :: "'u FieldPath \<Rightarrow> bool" where
  "fp_wf m \<longleftrightarrow> (\<not> hb (fp_has_bits m) 0 \<longrightarrow> fp_elements m = []) \<and> list_all fpe_wf (fp_elements m)"

lemmas fp_ops = FieldPath_new_def FieldPath_copy_def FieldPath_Clear_def FieldPath_MergeImpl_def
  FieldPath_CopyFrom_def FieldPath_clear_elements_def FieldPath_add_elements_def
  FieldPath_mutable_elements_def

lemma fpe_wf_copy: "fpe_wf m \<Longrightarrow> fpe_wf (FieldPathElement_copy W m)"
  by (simp add: fpe_wf_def FieldPathElement_copy_def)

lemma fpe_ByteSizeLong_simps [simp]:
  "fst (FieldPathElement_ByteSizeLong W m) = FieldPathElement_total_size W m"
  "fpe_cached_size (snd (FieldPathElement_ByteSizeLong W m)) = ToCachedSize (FieldPathElement_total_size W m)"
  "FieldPathElement_InternalSerialize W (snd (FieldPathElement_ByteSizeLong W m)) =
     FieldPathElement_InternalSerialize W m"
  "fpe_abs (snd (FieldPathElement_ByteSizeLong W m)) = fpe_abs m"
  "fpe_wf (snd (FieldPathElement_ByteSizeLong W m)) = fpe_wf m"
  "fpe_plain W (snd (FieldPathElement_ByteSizeLong W m)) = fpe_plain W m"
  by (simp_all add: FieldPathElement_ByteSizeLong_def Let_def FieldPathElement_InternalSerialize_def
      fpe_abs_def fpe_wf_def fpe_plain_def fpe_enums_ok_def cong: if_cong)

lemma fp_wf_ops:
  "fp_wf (FieldPath_new W)"
  "fp_wf m \<Longrightarrow> fp_wf (FieldPath_copy W m)"
  "fp_wf m \<Longrightarrow> fp_wf (FieldPath_Clear W m)"
  "fp_wf m \<Longrightarrow> fp_wf from \<Longrightarrow> fp_wf (FieldPath_MergeImpl W m from)"
  "fp_wf m \<Longrightarrow> fp_wf (FieldPath_clear_elements m)"
  "fp_wf m \<Longrightarrow> fpe_wf (f (FieldPathElement_new W)) \<Longrightarrow> fp_wf (FieldPath_add_elements W f m)"
  "fp_wf m \<Longrightarrow> list_all fpe_wf (g (fp_elements m)) \<Longrightarrow> fp_wf (FieldPath_mutable_elements g m)"
  by (auto simp: fp_wf_def fp_ops Let_def hasbit_simps list_all_iff fpe_wf_copy)

lemma fp_wf_ByteSizeLong: "fp_wf m \<Longrightarrow> fp_wf (snd (FieldPath_ByteSizeLong W m))"
  by (auto simp: fp_wf_def FieldPath_ByteSizeLong_def Let_def list_all_iff)

lemma fp_abs_new: "fp_abs (FieldPath_new W) = path_empty W"
  by (simp add: fp_abs_def FieldPath_new_def path_empty_def hasbit_simps)

lemma fp_abs_Clear: "fp_abs (FieldPath_Clear W m) = path_empty W"
  by (simp add: fp_abs_def fp_ops path_empty_def hasbit_simps Let_def)

lemma fp_abs_ByteSizeLong [simp]: "fp_abs (snd (FieldPath_ByteSizeLong W m)) = fp_abs m"
  by (simp add: fp_abs_def FieldPath_ByteSizeLong_def Let_def)

context wire_format
begin

lemma fp_abs_Merge:
  assumes "fp_wf this"
  shows "fp_abs (FieldPath_MergeImpl W this from) = path_merge W (fp_abs this) (fp_abs from)"
  using assms
  by (simp add: fp_abs_def FieldPath_MergeImpl_def path_merge_def Let_def hasbit_simps fpe_abs_copy
      fp_wf_def o_def)

lemma path_merge_empty: "path_merge W (path_empty W) p = p"
  by (simp add: path_merge_def path_empty_def merge_unknown_left)

lemma fp_abs_CopyFrom:
  "fp_wf this \<Longrightarrow> fp_abs (FieldPath_CopyFrom W False this from) = fp_abs from"
  by (simp add: FieldPath_CopyFrom_def fp_abs_Merge fp_wf_ops fp_abs_Clear path_merge_empty)

lemma fp_abs_copy: "fp_abs (FieldPath_copy W m) = fp_abs m"
  by (simp add: fp_abs_def FieldPath_copy_def merge_unknown_left fpe_abs_copy o_def)

end

section \<open>Size and round trip\<close>

sublocale wire_format \<subseteq> elements: sized_message W
  "FieldPathElement_ByteSizeLong W" "FieldPathElement_InternalSerialize W"
  by unfold_locales (simp add: fpe_size)

sublocale wire_reader \<subseteq> elements: message_codec W next_field
  "FieldPathElement_ByteSizeLong W" "FieldPathElement_InternalSerialize W"
  "FieldPathElement_parse next_field W" fpe_abs "fpe_plain W"
  by unfold_locales (simp add: fpe_parse_serialize)

abbreviation elements_total :: "'u wire \<Rightarrow> 'u FieldPathElement list \<Rightarrow> nat" where
  "elements_total W \<equiv> repeated_total W (FieldPathElement_ByteSizeLong W)"

abbreviation write_element :: "'u wire \<Rightarrow> 'u FieldPathElement \<Rightarrow> bytes" where
  "write_element W \<equiv>
     write_sized W (FieldPathElement_ByteSizeLong W) (FieldPathElement_InternalSerialize W) 1"

lemma fp_ByteSizeLong_parts:
  "fp_has_bits (snd (FieldPath_ByteSizeLong W m)) = fp_has_bits m"
  "fp_unknown (snd (FieldPath_ByteSizeLong W m)) = fp_unknown m"
  "fp_cached_size (snd (FieldPath_ByteSizeLong W m)) = ToCachedSize (fst (FieldPath_ByteSizeLong W m))"
  "fp_elements (snd (FieldPath_ByteSizeLong W m)) =
     (if hb (fp_has_bits m) 0 then map (\<lambda>e. snd (FieldPathElement_ByteSizeLong W e)) (fp_elements m)
      else fp_elements m)"
  by (simp_all add: FieldPath_ByteSizeLong_def Let_def hasbit_simps)

lemma fp_ByteSizeLong_fst:
  "fst (FieldPath_ByteSizeLong W m) = MaybeComputeUnknownFieldsSize W (fp_unknown m)
     (if hb (fp_has_bits m) 0 then elements_total W (fp_elements m) else 0)"
  by (simp add: FieldPath_ByteSizeLong_def Let_def hasbit_simps repeated_total_def o_def case_prod_beta)

text \<open>The bytes of the elements after \<open>ByteSizeLong\<close>, in terms of the state before it.\<close>

lemma fp_serialize_sized:
  "FieldPath_InternalSerialize W (snd (FieldPath_ByteSizeLong W m)) =
     (if hb (fp_has_bits m) 0 then concat (map (write_element W) (fp_elements m)) else []) @
     SerializeUnknownTail W (fp_unknown m)"
  by (simp add: FieldPath_InternalSerialize_def Let_def hasbit_simps fp_ByteSizeLong_parts o_def
      write_sized_def cong: map_cong)

text \<open>
  The paths the round trip is about: the enumerations of the elements are numbers of the
  descriptor, and neither the path nor an element has unknown fields.
\<close>

definition fp_plain :: "'u wire \<Rightarrow> 'u FieldPath \<Rightarrow> bool" where
  "fp_plain W m \<longleftrightarrow> (hb (fp_has_bits m) 0 \<longrightarrow> list_all (fpe_plain W) (fp_elements m)) \<and>
     fp_unknown m = NoUnknownFields W"

lemma fp_abs_add_elements:
  "fp_wf m \<Longrightarrow> fp_abs (fold (\<lambda>e. FieldPath_add_elements W (\<lambda>_. e)) es m) =
    fp_abs m\<lparr>pa_elements := pa_elements (fp_abs m) @ map fpe_abs es\<rparr>"
proof (induction es rule: rev_induct)
  case (snoc e es)
  let ?m = "fold (\<lambda>e. FieldPath_add_elements W (\<lambda>_. e)) es m"
  have "\<not> hb (fp_has_bits ?m) 0 \<Longrightarrow> fp_elements ?m = []"
    using snoc.prems by (induction es arbitrary: m rule: rev_induct)
      (auto simp: fp_wf_def FieldPath_add_elements_def hasbit_simps)
  then have "fp_abs (FieldPath_add_elements W (\<lambda>_. e) ?m) =
      fp_abs ?m\<lparr>pa_elements := pa_elements (fp_abs ?m) @ [fpe_abs e]\<rparr>"
    by (auto simp: fp_abs_def FieldPath_add_elements_def hasbit_simps)
  then show ?case using snoc by simp
qed simp

context wire_format
begin

lemma fp_size:
  assumes "fst (FieldPath_ByteSizeLong W m) < 2 ^ 31"
  shows "length (FieldPath_InternalSerialize W (snd (FieldPath_ByteSizeLong W m))) =
    fst (FieldPath_ByteSizeLong W m)"
  using assms elements.repeated_written [of 1 "fp_elements m"]
  by (auto simp: fp_serialize_sized fp_ByteSizeLong_fst unknown_tail_size split: if_splits)

end

context wire_reader
begin

lemma fp_parse_field:
  "FieldPath_parse_field next_field W 1 (Delimited b) m =
     map_option (\<lambda>e. FieldPath_add_elements W (\<lambda>_. e) m) (FieldPathElement_parse next_field W b)"
  by (simp add: FieldPath_parse_field_def FieldPath_table_def lookup_entry_def split: option.split)

lemma fp_parse_merge:
  assumes plain: "fp_plain W m" and "fp_wf m0" "fst (FieldPath_ByteSizeLong W m) < 2 ^ 31"
  shows "\<exists>m'. FieldPath_parse next_field W
      (FieldPath_InternalSerialize W (snd (FieldPath_ByteSizeLong W m))) m0 = Some m' \<and>
    fp_abs m' = path_merge W (fp_abs m0) (fp_abs m)"
proof (cases "hb (fp_has_bits m) 0")
  case True
  let ?P = "parse_with next_field (FieldPath_parse_field next_field W)"
  have "\<exists>es. map fpe_abs es = map fpe_abs (fp_elements m) \<and>
      ?P (concat (map (write_element W) (fp_elements m)) @ []) m0 =
      ?P [] (fold (\<lambda>e. FieldPath_add_elements W (\<lambda>_. e)) es m0)"
    by (rule elements.repeated_read)
      (use assms True in \<open>simp_all add: fp_parse_field fp_plain_def list_all_iff fp_ByteSizeLong_fst
        unknown_tail_size del: One_nat_def\<close>)
  then obtain es where "map fpe_abs es = map fpe_abs (fp_elements m)"
    "?P (concat (map (write_element W) (fp_elements m))) m0 =
      Some (fold (\<lambda>e. FieldPath_add_elements W (\<lambda>_. e)) es m0)"
    by (auto simp: parse_with_Nil)
  then show ?thesis
    using plain True
    by (simp add: fp_serialize_sized fp_plain_def FieldPath_parse_def fp_abs_add_elements [OF assms(2)]
        path_merge_def) (simp add: fp_abs_def merge_unknown_right)
qed (use assms in \<open>simp add: fp_serialize_sized fp_plain_def FieldPath_parse_def parse_with_Nil
  path_merge_def fp_abs_def merge_unknown_right\<close>)

end

end
