(* ===== verification/Violation.thy ===== *)
theory Violation
  imports Field_Path
begin

text \<open>
  \<open>buf.validate.Violation\<close> (validate.pb.cc, validate.pb.h): what a rule reports. The two
  paths are heap pointers in the code, an option here: a pointer that survives a
  \<open>Clear\<close> keeps its (cleared) object, so the has-bit and the pointer are different
  state and \<open>v_wf\<close> relates them. A pointer the code dereferences under its has-bit is
  non-null by \<open>v_wf\<close>; the null case, undefined in C++, contributes nothing here.
  Objects are modelled off the arena, where \<open>release\<close> hands out the object itself.

  \<open>v_abs\<close> is the abstract violation. \<open>violation_step\<close> has a rule per operation a client
  can call, and every violation such a sequence reaches is well-formed.
\<close>

record 'u Violation =
  v_has_bits :: u32
  v_cached_size :: i32
  v_rule_id :: arena_string
  v_message :: arena_string
  v_field :: "'u FieldPath option"
  v_rule :: "'u FieldPath option"
  v_for_key :: bool
  v_unknown :: 'u

definition Violation_new :: "'u wire \<Rightarrow> 'u Violation" where
  "Violation_new W =
     \<lparr>v_has_bits = 0, v_cached_size = 0, v_rule_id = None, v_message = None, v_field = None,
      v_rule = None, v_for_key = False, v_unknown = NoUnknownFields W\<rparr>"

definition Violation_copy :: "'u wire \<Rightarrow> 'u Violation \<Rightarrow> 'u Violation" where
  "Violation_copy W from =
     (let cached_has_bits = v_has_bits from in
      \<lparr>v_has_bits = cached_has_bits, v_cached_size = 0,
       v_rule_id = v_rule_id from, v_message = v_message from,
       v_field = (if CheckHasBit cached_has_bits 0x00000004
                  then map_option (FieldPath_copy W) (v_field from) else None),
       v_rule = (if CheckHasBit cached_has_bits 0x00000008
                 then map_option (FieldPath_copy W) (v_rule from) else None),
       v_for_key = v_for_key from,
       v_unknown = MergeUnknownFields W (NoUnknownFields W) (v_unknown from)\<rparr>)"

definition Violation_Clear :: "'u wire \<Rightarrow> 'u Violation \<Rightarrow> 'u Violation" where
  "Violation_Clear W m =
     (let cached_has_bits = v_has_bits m;
          m = (if BatchCheckHasBit cached_has_bits 0x0000000f then
                 (let m = (if CheckHasBit cached_has_bits 0x00000001
                           then m\<lparr>v_rule_id := str_clear (v_rule_id m)\<rparr> else m);
                      m = (if CheckHasBit cached_has_bits 0x00000002
                           then m\<lparr>v_message := str_clear (v_message m)\<rparr> else m);
                      m = (if CheckHasBit cached_has_bits 0x00000004
                           then m\<lparr>v_field := map_option (FieldPath_Clear W) (v_field m)\<rparr> else m)
                  in (if CheckHasBit cached_has_bits 0x00000008
                      then m\<lparr>v_rule := map_option (FieldPath_Clear W) (v_rule m)\<rparr> else m))
               else m)
      in m\<lparr>v_for_key := False, v_has_bits := 0, v_unknown := NoUnknownFields W\<rparr>)"

definition write_path :: "'u wire \<Rightarrow> nat \<Rightarrow> 'u FieldPath option \<Rightarrow> bytes" where
  "write_path W n p =
     (case p of
        None \<Rightarrow> []
      | Some q \<Rightarrow> InternalWriteMessage W n (fp_cached_size q) (FieldPath_InternalSerialize W q))"

definition Violation_InternalSerialize :: "'u wire \<Rightarrow> 'u Violation \<Rightarrow> bytes" where
  "Violation_InternalSerialize W m =
     (let cached_has_bits = v_has_bits m in
      (if CheckHasBit cached_has_bits 0x00000001
       then WriteStringMaybeAliased W 2 (str_get (v_rule_id m)) else []) @
      (if CheckHasBit cached_has_bits 0x00000002
       then WriteStringMaybeAliased W 3 (str_get (v_message m)) else []) @
      (if CheckHasBit cached_has_bits 0x00000010
       then WriteBoolToArray W 4 (v_for_key m) else []) @
      (if CheckHasBit cached_has_bits 0x00000004 then write_path W 5 (v_field m) else []) @
      (if CheckHasBit cached_has_bits 0x00000008 then write_path W 6 (v_rule m) else []) @
      SerializeUnknownTail W (v_unknown m))"

text \<open>\<open>MessageSize\<close> of a path behind a pointer: its size, and the object with its sizes cached.\<close>

definition size_path :: "'u wire \<Rightarrow> 'u FieldPath option \<Rightarrow> nat \<times> 'u FieldPath option" where
  "size_path W p =
     (case p of
        None \<Rightarrow> (0, None)
      | Some q \<Rightarrow> (1 + LengthDelimitedSize W (fst (FieldPath_ByteSizeLong W q)),
                 Some (snd (FieldPath_ByteSizeLong W q))))"

definition Violation_ByteSizeLong :: "'u wire \<Rightarrow> 'u Violation \<Rightarrow> nat \<times> 'u Violation" where
  "Violation_ByteSizeLong W m =
     (let cached_has_bits = v_has_bits m;
          total_size = of_bool (0x00000010 AND cached_has_bits \<noteq> 0) * 2;
          (total_size, m) =
            (if BatchCheckHasBit cached_has_bits 0x0000000f then
               (let total_size = total_size +
                      (if CheckHasBit cached_has_bits 0x00000001
                       then 1 + StringSize W (str_get (v_rule_id m)) else 0);
                    total_size = total_size +
                      (if CheckHasBit cached_has_bits 0x00000002
                       then 1 + StringSize W (str_get (v_message m)) else 0);
                    (total_size, m) =
                      (if CheckHasBit cached_has_bits 0x00000004
                       then (total_size + fst (size_path W (v_field m)),
                             m\<lparr>v_field := snd (size_path W (v_field m))\<rparr>)
                       else (total_size, m))
                in (if CheckHasBit cached_has_bits 0x00000008
                    then (total_size + fst (size_path W (v_rule m)),
                          m\<lparr>v_rule := snd (size_path W (v_rule m))\<rparr>)
                    else (total_size, m)))
             else (total_size, m));
          total_size = MaybeComputeUnknownFieldsSize W (v_unknown m) total_size
      in (total_size, m\<lparr>v_cached_size := ToCachedSize total_size\<rparr>))"

definition merge_path :: "'u wire \<Rightarrow> 'u FieldPath option \<Rightarrow> 'u FieldPath option \<Rightarrow> 'u FieldPath option" where
  "merge_path W this from =
     (case from of
        None \<Rightarrow> this
      | Some f \<Rightarrow>
          (case this of
             None \<Rightarrow> Some (FieldPath_copy W f)
           | Some p \<Rightarrow> Some (FieldPath_MergeImpl W p f)))"

definition Violation_MergeImpl :: "'u wire \<Rightarrow> 'u Violation \<Rightarrow> 'u Violation \<Rightarrow> 'u Violation" where
  "Violation_MergeImpl W this from =
     (let cached_has_bits = v_has_bits from;
          m = this;
          m = (if BatchCheckHasBit cached_has_bits 0x0000001f then
                 (let m = (if CheckHasBit cached_has_bits 0x00000001
                           then m\<lparr>v_rule_id := Some (str_get (v_rule_id from))\<rparr> else m);
                      m = (if CheckHasBit cached_has_bits 0x00000002
                           then m\<lparr>v_message := Some (str_get (v_message from))\<rparr> else m);
                      m = (if CheckHasBit cached_has_bits 0x00000004
                           then m\<lparr>v_field := merge_path W (v_field m) (v_field from)\<rparr> else m);
                      m = (if CheckHasBit cached_has_bits 0x00000008
                           then m\<lparr>v_rule := merge_path W (v_rule m) (v_rule from)\<rparr> else m)
                  in (if CheckHasBit cached_has_bits 0x00000010
                      then m\<lparr>v_for_key := v_for_key from\<rparr> else m))
               else m);
          m = m\<lparr>v_has_bits := v_has_bits m OR cached_has_bits\<rparr>
      in m\<lparr>v_unknown := MergeUnknownFields W (v_unknown m) (v_unknown from)\<rparr>)"

definition Violation_CopyFrom :: "'u wire \<Rightarrow> bool \<Rightarrow> 'u Violation \<Rightarrow> 'u Violation \<Rightarrow> 'u Violation" where
  "Violation_CopyFrom W same this from =
     (if same then this else Violation_MergeImpl W (Violation_Clear W this) from)"

definition Violation_InternalSwap :: "'u Violation \<times> 'u Violation \<Rightarrow> 'u Violation \<times> 'u Violation" where
  "Violation_InternalSwap p =
     (let (a, b) = p in
      (a\<lparr>v_unknown := v_unknown b, v_has_bits := v_has_bits b, v_rule_id := v_rule_id b,
         v_message := v_message b, v_field := v_field b, v_rule := v_rule b, v_for_key := v_for_key b\<rparr>,
       b\<lparr>v_unknown := v_unknown a, v_has_bits := v_has_bits a, v_rule_id := v_rule_id a,
         v_message := v_message a, v_field := v_field a, v_rule := v_rule a, v_for_key := v_for_key a\<rparr>))"

subsection \<open>Accessors\<close>

definition Violation_has_field :: "'u Violation \<Rightarrow> bool" where
  "Violation_has_field m = CheckHasBit (v_has_bits m) 0x00000004"

definition Violation_clear_field :: "'u wire \<Rightarrow> 'u Violation \<Rightarrow> 'u Violation" where
  "Violation_clear_field W m =
     (let m = (case v_field m of None \<Rightarrow> m | Some p \<Rightarrow> m\<lparr>v_field := Some (FieldPath_Clear W p)\<rparr>)
      in m\<lparr>v_has_bits := ClearHasBit (v_has_bits m) 0x00000004\<rparr>)"

definition Violation_field :: "'u wire \<Rightarrow> 'u Violation \<Rightarrow> 'u FieldPath" where
  "Violation_field W m = (case v_field m of Some p \<Rightarrow> p | None \<Rightarrow> FieldPath_new W)"

definition Violation_release_field :: "'u Violation \<Rightarrow> 'u FieldPath option \<times> 'u Violation" where
  "Violation_release_field m =
     (let m = m\<lparr>v_has_bits := ClearHasBit (v_has_bits m) 0x00000004\<rparr>
      in (v_field m, m\<lparr>v_field := None\<rparr>))"

definition Violation_mutable_field ::
  "'u wire \<Rightarrow> ('u FieldPath \<Rightarrow> 'u FieldPath) \<Rightarrow> 'u Violation \<Rightarrow> 'u Violation" where
  "Violation_mutable_field W f m =
     (let m = m\<lparr>v_has_bits := SetHasBit (v_has_bits m) 0x00000004\<rparr>;
          m = (case v_field m of None \<Rightarrow> m\<lparr>v_field := Some (FieldPath_new W)\<rparr> | Some p \<Rightarrow> m)
      in m\<lparr>v_field := map_option f (v_field m)\<rparr>)"

definition Violation_set_allocated_field :: "'u FieldPath option \<Rightarrow> 'u Violation \<Rightarrow> 'u Violation" where
  "Violation_set_allocated_field v m =
     (let m = (case v of
                 Some _ \<Rightarrow> m\<lparr>v_has_bits := SetHasBit (v_has_bits m) 0x00000004\<rparr>
               | None \<Rightarrow> m\<lparr>v_has_bits := ClearHasBit (v_has_bits m) 0x00000004\<rparr>)
      in m\<lparr>v_field := v\<rparr>)"

definition Violation_has_rule :: "'u Violation \<Rightarrow> bool" where
  "Violation_has_rule m = CheckHasBit (v_has_bits m) 0x00000008"

definition Violation_clear_rule :: "'u wire \<Rightarrow> 'u Violation \<Rightarrow> 'u Violation" where
  "Violation_clear_rule W m =
     (let m = (case v_rule m of None \<Rightarrow> m | Some p \<Rightarrow> m\<lparr>v_rule := Some (FieldPath_Clear W p)\<rparr>)
      in m\<lparr>v_has_bits := ClearHasBit (v_has_bits m) 0x00000008\<rparr>)"

definition Violation_rule :: "'u wire \<Rightarrow> 'u Violation \<Rightarrow> 'u FieldPath" where
  "Violation_rule W m = (case v_rule m of Some p \<Rightarrow> p | None \<Rightarrow> FieldPath_new W)"

definition Violation_release_rule :: "'u Violation \<Rightarrow> 'u FieldPath option \<times> 'u Violation" where
  "Violation_release_rule m =
     (let m = m\<lparr>v_has_bits := ClearHasBit (v_has_bits m) 0x00000008\<rparr>
      in (v_rule m, m\<lparr>v_rule := None\<rparr>))"

definition Violation_mutable_rule ::
  "'u wire \<Rightarrow> ('u FieldPath \<Rightarrow> 'u FieldPath) \<Rightarrow> 'u Violation \<Rightarrow> 'u Violation" where
  "Violation_mutable_rule W f m =
     (let m = m\<lparr>v_has_bits := SetHasBit (v_has_bits m) 0x00000008\<rparr>;
          m = (case v_rule m of None \<Rightarrow> m\<lparr>v_rule := Some (FieldPath_new W)\<rparr> | Some p \<Rightarrow> m)
      in m\<lparr>v_rule := map_option f (v_rule m)\<rparr>)"

definition Violation_set_allocated_rule :: "'u FieldPath option \<Rightarrow> 'u Violation \<Rightarrow> 'u Violation" where
  "Violation_set_allocated_rule v m =
     (let m = (case v of
                 Some _ \<Rightarrow> m\<lparr>v_has_bits := SetHasBit (v_has_bits m) 0x00000008\<rparr>
               | None \<Rightarrow> m\<lparr>v_has_bits := ClearHasBit (v_has_bits m) 0x00000008\<rparr>)
      in m\<lparr>v_rule := v\<rparr>)"

definition Violation_has_rule_id :: "'u Violation \<Rightarrow> bool" where
  "Violation_has_rule_id m = CheckHasBit (v_has_bits m) 0x00000001"

definition Violation_clear_rule_id :: "'u Violation \<Rightarrow> 'u Violation" where
  "Violation_clear_rule_id m =
     (let m = m\<lparr>v_rule_id := str_clear (v_rule_id m)\<rparr>
      in m\<lparr>v_has_bits := ClearHasBit (v_has_bits m) 0x00000001\<rparr>)"

definition Violation_set_rule_id :: "bytes \<Rightarrow> 'u Violation \<Rightarrow> 'u Violation" where
  "Violation_set_rule_id v m =
     (let m = m\<lparr>v_has_bits := SetHasBit (v_has_bits m) 0x00000001\<rparr>
      in m\<lparr>v_rule_id := Some v\<rparr>)"

definition Violation_mutable_rule_id :: "(bytes \<Rightarrow> bytes) \<Rightarrow> 'u Violation \<Rightarrow> 'u Violation" where
  "Violation_mutable_rule_id f m =
     (let m = m\<lparr>v_has_bits := SetHasBit (v_has_bits m) 0x00000001\<rparr>
      in m\<lparr>v_rule_id := Some (f (str_get (v_rule_id m)))\<rparr>)"

definition Violation_release_rule_id :: "'u Violation \<Rightarrow> bytes option \<times> 'u Violation" where
  "Violation_release_rule_id m =
     (if \<not> CheckHasBit (v_has_bits m) 0x00000001 then (None, m)
      else (let m = m\<lparr>v_has_bits := ClearHasBit (v_has_bits m) 0x00000001\<rparr>
            in (v_rule_id m, m\<lparr>v_rule_id := None\<rparr>)))"

definition Violation_set_allocated_rule_id :: "bytes option \<Rightarrow> 'u Violation \<Rightarrow> 'u Violation" where
  "Violation_set_allocated_rule_id v m =
     (let m = (case v of
                 Some _ \<Rightarrow> m\<lparr>v_has_bits := SetHasBit (v_has_bits m) 0x00000001\<rparr>
               | None \<Rightarrow> m\<lparr>v_has_bits := ClearHasBit (v_has_bits m) 0x00000001\<rparr>)
      in m\<lparr>v_rule_id := v\<rparr>)"

definition Violation_has_message :: "'u Violation \<Rightarrow> bool" where
  "Violation_has_message m = CheckHasBit (v_has_bits m) 0x00000002"

definition Violation_clear_message :: "'u Violation \<Rightarrow> 'u Violation" where
  "Violation_clear_message m =
     (let m = m\<lparr>v_message := str_clear (v_message m)\<rparr>
      in m\<lparr>v_has_bits := ClearHasBit (v_has_bits m) 0x00000002\<rparr>)"

definition Violation_set_message :: "bytes \<Rightarrow> 'u Violation \<Rightarrow> 'u Violation" where
  "Violation_set_message v m =
     (let m = m\<lparr>v_has_bits := SetHasBit (v_has_bits m) 0x00000002\<rparr>
      in m\<lparr>v_message := Some v\<rparr>)"

definition Violation_mutable_message :: "(bytes \<Rightarrow> bytes) \<Rightarrow> 'u Violation \<Rightarrow> 'u Violation" where
  "Violation_mutable_message f m =
     (let m = m\<lparr>v_has_bits := SetHasBit (v_has_bits m) 0x00000002\<rparr>
      in m\<lparr>v_message := Some (f (str_get (v_message m)))\<rparr>)"

definition Violation_release_message :: "'u Violation \<Rightarrow> bytes option \<times> 'u Violation" where
  "Violation_release_message m =
     (if \<not> CheckHasBit (v_has_bits m) 0x00000002 then (None, m)
      else (let m = m\<lparr>v_has_bits := ClearHasBit (v_has_bits m) 0x00000002\<rparr>
            in (v_message m, m\<lparr>v_message := None\<rparr>)))"

definition Violation_set_allocated_message :: "bytes option \<Rightarrow> 'u Violation \<Rightarrow> 'u Violation" where
  "Violation_set_allocated_message v m =
     (let m = (case v of
                 Some _ \<Rightarrow> m\<lparr>v_has_bits := SetHasBit (v_has_bits m) 0x00000002\<rparr>
               | None \<Rightarrow> m\<lparr>v_has_bits := ClearHasBit (v_has_bits m) 0x00000002\<rparr>)
      in m\<lparr>v_message := v\<rparr>)"

definition Violation_has_for_key :: "'u Violation \<Rightarrow> bool" where
  "Violation_has_for_key m = CheckHasBit (v_has_bits m) 0x00000010"

definition Violation_clear_for_key :: "'u Violation \<Rightarrow> 'u Violation" where
  "Violation_clear_for_key m =
     (let m = m\<lparr>v_for_key := False\<rparr>
      in m\<lparr>v_has_bits := ClearHasBit (v_has_bits m) 0x00000010\<rparr>)"

definition Violation_set_for_key :: "bool \<Rightarrow> 'u Violation \<Rightarrow> 'u Violation" where
  "Violation_set_for_key v m =
     (let m = m\<lparr>v_for_key := v\<rparr>
      in m\<lparr>v_has_bits := SetHasBit (v_has_bits m) 0x00000010\<rparr>)"

subsection \<open>The parse table\<close>

definition Violation_table :: parse_table where
  "Violation_table =
     \<lparr>pt_max_field_number = 6, pt_fast_idx_mask = 56, pt_skipmap = 4294967233,
      pt_fast =
        [None, None,
         Some \<lparr>fast_coded_tag = 18, fast_hasbit = 0, fast_aux = 0\<rparr>,
         Some \<lparr>fast_coded_tag = 26, fast_hasbit = 1, fast_aux = 0\<rparr>,
         Some \<lparr>fast_coded_tag = 32, fast_hasbit = 4, fast_aux = 0\<rparr>,
         Some \<lparr>fast_coded_tag = 42, fast_hasbit = 2, fast_aux = 0\<rparr>,
         Some \<lparr>fast_coded_tag = 50, fast_hasbit = 3, fast_aux = 1\<rparr>,
         None],
      pt_entries =
        [\<lparr>fe_number = 2, fe_card = FcOptional 0, fe_type = FlBytes\<rparr>,
         \<lparr>fe_number = 3, fe_card = FcOptional 1, fe_type = FlBytes\<rparr>,
         \<lparr>fe_number = 4, fe_card = FcOptional 4, fe_type = FlBool\<rparr>,
         \<lparr>fe_number = 5, fe_card = FcOptional 2, fe_type = FlMessage\<rparr>,
         \<lparr>fe_number = 6, fe_card = FcOptional 3, fe_type = FlMessage\<rparr>]\<rparr>"

text \<open>A singular message field is read into the object the pointer holds, or a new one.\<close>

definition parse_path ::
  "(bytes \<Rightarrow> (nat \<times> wval \<times> bytes) option) \<Rightarrow> 'u wire \<Rightarrow> bytes \<Rightarrow> 'u FieldPath option \<Rightarrow>
   'u FieldPath option" where
  "parse_path nxt W s p =
     FieldPath_parse nxt W s (case p of Some q \<Rightarrow> q | None \<Rightarrow> FieldPath_new W)"

definition Violation_store ::
  "(bytes \<Rightarrow> (nat \<times> wval \<times> bytes) option) \<Rightarrow> 'u wire \<Rightarrow>
   nat \<Rightarrow> pval \<Rightarrow> 'u Violation \<Rightarrow> 'u Violation option" where
  "Violation_store nxt W n v m =
     (case v of
        PBytes s \<Rightarrow>
          (if n = 2 then Some (m\<lparr>v_rule_id := Some s\<rparr>)
           else if n = 3 then Some (m\<lparr>v_message := Some s\<rparr>)
           else if n = 5 then
             (case parse_path nxt W s (v_field m) of
                None \<Rightarrow> None | Some q \<Rightarrow> Some (m\<lparr>v_field := Some q\<rparr>))
           else if n = 6 then
             (case parse_path nxt W s (v_rule m) of
                None \<Rightarrow> None | Some q \<Rightarrow> Some (m\<lparr>v_rule := Some q\<rparr>))
           else None)
      | PBool x \<Rightarrow> (if n = 4 then Some (m\<lparr>v_for_key := x\<rparr>) else None)
      | _ \<Rightarrow> None)"

definition Violation_parse_field ::
  "(bytes \<Rightarrow> (nat \<times> wval \<times> bytes) option) \<Rightarrow> 'u wire \<Rightarrow>
   nat \<Rightarrow> wval \<Rightarrow> 'u Violation \<Rightarrow> 'u Violation option" where
  "Violation_parse_field nxt W n x m =
     (case lookup_entry Violation_table n of
        None \<Rightarrow> None
      | Some e \<Rightarrow>
          (case decode_value (fe_type e) x of
             None \<Rightarrow> None
           | Some v \<Rightarrow>
               Violation_store nxt W n v
                 (case card_hasbit (fe_card e) of
                    None \<Rightarrow> m
                  | Some i \<Rightarrow> m\<lparr>v_has_bits := SetHasBit (v_has_bits m) (2 ^ i)\<rparr>)))"

definition Violation_parse ::
  "(bytes \<Rightarrow> (nat \<times> wval \<times> bytes) option) \<Rightarrow> 'u wire \<Rightarrow> bytes \<Rightarrow> 'u Violation \<Rightarrow> 'u Violation option" where
  "Violation_parse nxt W b m = parse_with nxt (Violation_parse_field nxt W) b m"

section \<open>What a violation shows, and the operations on it\<close>

record 'u Viol =
  vi_rule_id :: "bytes option"
  vi_message :: "bytes option"
  vi_for_key :: "bool option"
  vi_field :: "'u Path option"
  vi_rule :: "'u Path option"
  vi_unknown :: 'u

definition v_abs :: "'u Violation \<Rightarrow> 'u Viol" where
  "v_abs m =
     \<lparr>vi_rule_id = (if hb (v_has_bits m) 0 then Some (str_get (v_rule_id m)) else None),
      vi_message = (if hb (v_has_bits m) 1 then Some (str_get (v_message m)) else None),
      vi_for_key = (if hb (v_has_bits m) 4 then Some (v_for_key m) else None),
      vi_field = (if hb (v_has_bits m) 2 then map_option fp_abs (v_field m) else None),
      vi_rule = (if hb (v_has_bits m) 3 then map_option fp_abs (v_rule m) else None),
      vi_unknown = v_unknown m\<rparr>"

definition viol_empty :: "'u wire \<Rightarrow> 'u Viol" where
  "viol_empty W = \<lparr>vi_rule_id = None, vi_message = None, vi_for_key = None, vi_field = None,
     vi_rule = None, vi_unknown = NoUnknownFields W\<rparr>"

definition path_merge_opt :: "'u wire \<Rightarrow> 'u Path option \<Rightarrow> 'u Path option \<Rightarrow> 'u Path option" where
  "path_merge_opt W a b =
     (case b of
        None \<Rightarrow> a
      | Some q \<Rightarrow> Some (case a of None \<Rightarrow> q | Some p \<Rightarrow> path_merge W p q))"

definition viol_merge :: "'u wire \<Rightarrow> 'u Viol \<Rightarrow> 'u Viol \<Rightarrow> 'u Viol" where
  "viol_merge W a b =
     \<lparr>vi_rule_id = override (vi_rule_id a) (vi_rule_id b),
      vi_message = override (vi_message a) (vi_message b),
      vi_for_key = override (vi_for_key a) (vi_for_key b),
      vi_field = path_merge_opt W (vi_field a) (vi_field b),
      vi_rule = path_merge_opt W (vi_rule a) (vi_rule b),
      vi_unknown = MergeUnknownFields W (vi_unknown a) (vi_unknown b)\<rparr>"

text \<open>
  The has-bit and the pointer of a path: a set has-bit promises an object, an object
  behind a clear has-bit is a cleared one.
\<close>

definition path_ptr_wf :: "'u wire \<Rightarrow> bool \<Rightarrow> 'u FieldPath option \<Rightarrow> bool" where
  "path_ptr_wf W has p =
     (case p of
        None \<Rightarrow> \<not> has
      | Some q \<Rightarrow> fp_wf q \<and> (has \<or> fp_abs q = path_empty W))"

definition v_wf :: "'u wire \<Rightarrow> 'u Violation \<Rightarrow> bool" where
  "v_wf W m \<longleftrightarrow>
     (\<not> hb (v_has_bits m) 0 \<longrightarrow> str_get (v_rule_id m) = []) \<and>
     (\<not> hb (v_has_bits m) 1 \<longrightarrow> str_get (v_message m) = []) \<and>
     (\<not> hb (v_has_bits m) 4 \<longrightarrow> \<not> v_for_key m) \<and>
     path_ptr_wf W (hb (v_has_bits m) 2) (v_field m) \<and>
     path_ptr_wf W (hb (v_has_bits m) 3) (v_rule m)"

lemmas path_accessors =
  Violation_clear_field_def Violation_release_field_def Violation_mutable_field_def
  Violation_set_allocated_field_def Violation_clear_rule_def Violation_release_rule_def
  Violation_mutable_rule_def Violation_set_allocated_rule_def

lemmas string_accessors =
  Violation_clear_rule_id_def Violation_set_rule_id_def Violation_mutable_rule_id_def
  Violation_release_rule_id_def Violation_set_allocated_rule_id_def
  Violation_clear_message_def Violation_set_message_def Violation_mutable_message_def
  Violation_release_message_def Violation_set_allocated_message_def

lemmas bool_accessors = Violation_clear_for_key_def Violation_set_for_key_def

lemma path_ptr_wf_simps [simp]:
  "path_ptr_wf W has None = (\<not> has)"
  "path_ptr_wf W has (Some q) = (fp_wf q \<and> (has \<or> fp_abs q = path_empty W))"
  by (simp_all add: path_ptr_wf_def)

lemma fp_wf_new [simp]: "fp_wf (FieldPath_new W)"
  by (rule fp_wf_ops)

lemma path_ptr_wf_Clear: "path_ptr_wf W has p \<Longrightarrow> \<not> has \<or> p \<noteq> None \<Longrightarrow>
    path_ptr_wf W False (map_option (FieldPath_Clear W) p)"
  by (cases p) (simp_all add: fp_wf_ops fp_abs_Clear)

text \<open>One step of a client: any operation of the class that changes its state.\<close>

inductive violation_step :: "'u wire \<Rightarrow> 'u Violation \<Rightarrow> 'u Violation \<Rightarrow> bool" for W where
  clear: "violation_step W m (Violation_Clear W m)"
| copy: "violation_step W m (Violation_copy W m)"
| merge: "v_wf W from \<Longrightarrow> violation_step W m (Violation_MergeImpl W m from)"
| copy_from: "v_wf W from \<Longrightarrow> violation_step W m (Violation_CopyFrom W same m from)"
| swap: "v_wf W other \<Longrightarrow> violation_step W m (fst (Violation_InternalSwap (m, other)))"
| byte_size: "violation_step W m (snd (Violation_ByteSizeLong W m))"
| clear_field: "violation_step W m (Violation_clear_field W m)"
| release_field: "violation_step W m (snd (Violation_release_field m))"
| mutable_field: "(\<And>p. fp_wf p \<Longrightarrow> fp_wf (f p)) \<Longrightarrow> violation_step W m (Violation_mutable_field W f m)"
| set_allocated_field: "(\<And>p. v = Some p \<Longrightarrow> fp_wf p) \<Longrightarrow>
    violation_step W m (Violation_set_allocated_field v m)"
| clear_rule: "violation_step W m (Violation_clear_rule W m)"
| release_rule: "violation_step W m (snd (Violation_release_rule m))"
| mutable_rule: "(\<And>p. fp_wf p \<Longrightarrow> fp_wf (f p)) \<Longrightarrow> violation_step W m (Violation_mutable_rule W f m)"
| set_allocated_rule: "(\<And>p. v = Some p \<Longrightarrow> fp_wf p) \<Longrightarrow>
    violation_step W m (Violation_set_allocated_rule v m)"
| clear_rule_id: "violation_step W m (Violation_clear_rule_id m)"
| set_rule_id: "violation_step W m (Violation_set_rule_id s m)"
| mutable_rule_id: "violation_step W m (Violation_mutable_rule_id g m)"
| release_rule_id: "violation_step W m (snd (Violation_release_rule_id m))"
| set_allocated_rule_id: "violation_step W m (Violation_set_allocated_rule_id t m)"
| clear_message: "violation_step W m (Violation_clear_message m)"
| set_message: "violation_step W m (Violation_set_message s m)"
| mutable_message: "violation_step W m (Violation_mutable_message g m)"
| release_message: "violation_step W m (snd (Violation_release_message m))"
| set_allocated_message: "violation_step W m (Violation_set_allocated_message t m)"
| clear_for_key: "violation_step W m (Violation_clear_for_key m)"
| set_for_key: "violation_step W m (Violation_set_for_key k m)"

lemma v_wf_new: "v_wf W (Violation_new W)"
  by (simp add: v_wf_def Violation_new_def hasbit_simps)

lemma v_wf_Clear: "v_wf W m \<Longrightarrow> v_wf W (Violation_Clear W m)"
  by (cases "v_field m"; cases "v_rule m")
    (auto simp: v_wf_def Violation_Clear_def Let_def hasbit_simps fp_wf_ops fp_abs_Clear)

lemma merge_path_wf:
  assumes "path_ptr_wf W has p" "path_ptr_wf W has' q" "has'"
  shows "path_ptr_wf W True (merge_path W p q)"
  using assms by (cases p; cases q) (simp_all add: merge_path_def fp_wf_ops)

lemma v_Merge_members:
  "v_has_bits (Violation_MergeImpl W this from) = v_has_bits this OR v_has_bits from"
  "v_rule_id (Violation_MergeImpl W this from) =
     (if hb (v_has_bits from) 0 then Some (str_get (v_rule_id from)) else v_rule_id this)"
  "v_message (Violation_MergeImpl W this from) =
     (if hb (v_has_bits from) (Suc 0) then Some (str_get (v_message from)) else v_message this)"
  "v_field (Violation_MergeImpl W this from) =
     (if hb (v_has_bits from) 2 then merge_path W (v_field this) (v_field from) else v_field this)"
  "v_rule (Violation_MergeImpl W this from) =
     (if hb (v_has_bits from) 3 then merge_path W (v_rule this) (v_rule from) else v_rule this)"
  "v_for_key (Violation_MergeImpl W this from) =
     (if hb (v_has_bits from) 4 then v_for_key from else v_for_key this)"
  "v_unknown (Violation_MergeImpl W this from) =
     MergeUnknownFields W (v_unknown this) (v_unknown from)"
  by (simp_all add: Violation_MergeImpl_def Let_def hasbit_simps)

lemma v_wf_Merge: "v_wf W this \<Longrightarrow> v_wf W from \<Longrightarrow> v_wf W (Violation_MergeImpl W this from)"
  by (auto simp: v_wf_def v_Merge_members hasbit_simps merge_path_wf)

lemma v_wf_copy:
  assumes "v_wf W m" shows "v_wf W (Violation_copy W m)"
  using assms
  by (cases "v_field m"; cases "v_rule m")
    (auto simp: v_wf_def Violation_copy_def Let_def hasbit_simps fp_wf_ops)

lemma size_path_wf: "path_ptr_wf W has p \<Longrightarrow> path_ptr_wf W has (snd (size_path W p))"
  by (cases p) (auto simp: size_path_def fp_wf_ByteSizeLong)

lemma v_ByteSizeLong_parts:
  "v_has_bits (snd (Violation_ByteSizeLong W m)) = v_has_bits m"
  "v_rule_id (snd (Violation_ByteSizeLong W m)) = v_rule_id m"
  "v_message (snd (Violation_ByteSizeLong W m)) = v_message m"
  "v_for_key (snd (Violation_ByteSizeLong W m)) = v_for_key m"
  "v_unknown (snd (Violation_ByteSizeLong W m)) = v_unknown m"
  "v_field (snd (Violation_ByteSizeLong W m)) =
     (if hb (v_has_bits m) 2 then snd (size_path W (v_field m)) else v_field m)"
  "v_rule (snd (Violation_ByteSizeLong W m)) =
     (if hb (v_has_bits m) 3 then snd (size_path W (v_rule m)) else v_rule m)"
  "v_cached_size (snd (Violation_ByteSizeLong W m)) = ToCachedSize (fst (Violation_ByteSizeLong W m))"
  by (simp_all add: Violation_ByteSizeLong_def Let_def hasbit_simps split: prod.split)

lemma v_wf_ByteSizeLong: "v_wf W m \<Longrightarrow> v_wf W (snd (Violation_ByteSizeLong W m))"
  by (auto simp: v_wf_def v_ByteSizeLong_parts intro: size_path_wf)

lemma v_wf_CopyFrom: "v_wf W m \<Longrightarrow> v_wf W from \<Longrightarrow> v_wf W (Violation_CopyFrom W same m from)"
  by (simp add: Violation_CopyFrom_def v_wf_Merge v_wf_Clear)

lemma v_wf_swap: "v_wf W b \<Longrightarrow> v_wf W (fst (Violation_InternalSwap (a, b)))"
  by (simp add: Violation_InternalSwap_def v_wf_def)

lemma v_wf_path_accessors:
  assumes "v_wf W m"
  shows "v_wf W (Violation_clear_field W m)" "v_wf W (snd (Violation_release_field m))"
    "v_wf W (Violation_clear_rule W m)" "v_wf W (snd (Violation_release_rule m))"
    "(\<And>p. fp_wf p \<Longrightarrow> fp_wf (f p)) \<Longrightarrow> v_wf W (Violation_mutable_field W f m)"
    "(\<And>p. fp_wf p \<Longrightarrow> fp_wf (f p)) \<Longrightarrow> v_wf W (Violation_mutable_rule W f m)"
    "(\<And>p. v = Some p \<Longrightarrow> fp_wf p) \<Longrightarrow> v_wf W (Violation_set_allocated_field v m)"
    "(\<And>p. v = Some p \<Longrightarrow> fp_wf p) \<Longrightarrow> v_wf W (Violation_set_allocated_rule v m)"
  using assms
  by (auto simp: v_wf_def path_accessors Let_def hasbit_simps fp_wf_ops fp_abs_Clear
      split: option.splits)

lemma v_wf_scalar_accessors:
  assumes "v_wf W m"
  shows "v_wf W (Violation_clear_rule_id m)" "v_wf W (Violation_set_rule_id s m)"
    "v_wf W (Violation_mutable_rule_id g m)" "v_wf W (snd (Violation_release_rule_id m))"
    "v_wf W (Violation_set_allocated_rule_id t m)"
    "v_wf W (Violation_clear_message m)" "v_wf W (Violation_set_message s m)"
    "v_wf W (Violation_mutable_message g m)" "v_wf W (snd (Violation_release_message m))"
    "v_wf W (Violation_set_allocated_message t m)"
    "v_wf W (Violation_clear_for_key m)" "v_wf W (Violation_set_for_key k m)"
  using assms
  by (auto simp: v_wf_def string_accessors bool_accessors Let_def hasbit_simps split: option.splits)

lemma violation_step_wf:
  assumes "violation_step W m m'" "v_wf W m"
  shows "v_wf W m'"
  using assms
  by (induction rule: violation_step.induct)
    (simp_all add: v_wf_Clear v_wf_copy v_wf_Merge v_wf_CopyFrom v_wf_swap v_wf_ByteSizeLong
      v_wf_path_accessors v_wf_scalar_accessors)

lemma violation_reachable_wf:
  "(violation_step W)\<^sup>*\<^sup>* (Violation_new W) m \<Longrightarrow> v_wf W m"
  by (induction rule: rtranclp_induct) (auto intro: v_wf_new violation_step_wf)


section \<open>Refinement\<close>

lemma v_abs_new: "v_abs (Violation_new W) = viol_empty W"
  by (simp add: v_abs_def Violation_new_def viol_empty_def hasbit_simps)

lemma v_abs_Clear: "v_abs (Violation_Clear W m) = viol_empty W"
  by (simp add: v_abs_def Violation_Clear_def viol_empty_def hasbit_simps Let_def)

lemma v_abs_ByteSizeLong [simp]: "v_abs (snd (Violation_ByteSizeLong W m)) = v_abs m"
  by (simp add: v_abs_def v_ByteSizeLong_parts size_path_def split: option.split)

context wire_format
begin

lemma merge_path_abs:
  assumes "path_ptr_wf W has p" "path_ptr_wf W True q"
  shows "map_option fp_abs (merge_path W p q) =
    path_merge_opt W (if has then map_option fp_abs p else None) (map_option fp_abs q)"
  using assms
  by (cases p; cases q)
    (auto simp: merge_path_def path_merge_opt_def fp_abs_copy fp_abs_Merge path_merge_empty)

lemma merge_path_field:
  assumes "path_ptr_wf W has p" "path_ptr_wf W has' q"
  shows "(if has \<or> has' then map_option fp_abs (if has' then merge_path W p q else p) else None) =
    path_merge_opt W (if has then map_option fp_abs p else None)
      (if has' then map_option fp_abs q else None)"
  using assms merge_path_abs [of has p q] by (cases has') (auto simp: path_merge_opt_def)

lemma v_abs_Merge:
  assumes "v_wf W this" "v_wf W from"
  shows "v_abs (Violation_MergeImpl W this from) = viol_merge W (v_abs this) (v_abs from)"
proof -
  have "path_ptr_wf W (hb (v_has_bits this) 2) (v_field this)"
    "path_ptr_wf W (hb (v_has_bits from) 2) (v_field from)"
    "path_ptr_wf W (hb (v_has_bits this) 3) (v_rule this)"
    "path_ptr_wf W (hb (v_has_bits from) 3) (v_rule from)"
    using assms by (simp_all add: v_wf_def)
  note paths = merge_path_field [OF this(1,2)] merge_path_field [OF this(3,4)]
  show ?thesis
    unfolding v_abs_def viol_merge_def v_Merge_members hb_or paths
    by (simp add: override_def)
qed

lemma viol_merge_empty: "viol_merge W (viol_empty W) v = v"
  by (simp add: viol_merge_def viol_empty_def override_def path_merge_opt_def merge_unknown_left
      split: option.split)

lemma v_abs_CopyFrom:
  "v_wf W this \<Longrightarrow> v_wf W from \<Longrightarrow> v_abs (Violation_CopyFrom W False this from) = v_abs from"
  by (simp add: Violation_CopyFrom_def v_abs_Merge v_wf_Clear v_abs_Clear viol_merge_empty)

lemma v_abs_copy: "v_abs (Violation_copy W m) = v_abs m"
  by (cases "v_field m"; cases "v_rule m")
    (simp_all add: v_abs_def Violation_copy_def Let_def hasbit_simps merge_unknown_left fp_abs_copy)

end

section \<open>Size and round trip\<close>

lemma v_ByteSizeLong_fst:
  "fst (Violation_ByteSizeLong W m) =
     MaybeComputeUnknownFieldsSize W (v_unknown m)
       (of_bool (hb (v_has_bits m) 4) * 2 +
        (if hb (v_has_bits m) 0 then 1 + StringSize W (str_get (v_rule_id m)) else 0) +
        (if hb (v_has_bits m) (Suc 0) then 1 + StringSize W (str_get (v_message m)) else 0) +
        (if hb (v_has_bits m) 2 then fst (size_path W (v_field m)) else 0) +
        (if hb (v_has_bits m) 3 then fst (size_path W (v_rule m)) else 0))"
proof -
  have bit4: "0x00000010 AND v_has_bits m \<noteq> 0 \<longleftrightarrow> hb (v_has_bits m) 4"
    using CheckHasBit_hb(5) [of "v_has_bits m"] by (simp add: CheckHasBit_def and.commute)
  show ?thesis
    by (simp add: Violation_ByteSizeLong_def Let_def hasbit_simps bit4)
qed

context wire_format
begin

lemma size_path_bound:
  assumes "fst (size_path W p) < k" "p = Some q"
  shows "fst (FieldPath_ByteSizeLong W q) < k"
  using assms length_delimited_ge [of "fst (FieldPath_ByteSizeLong W q)"] by (simp add: size_path_def)

lemma write_path_size:
  assumes "small_field n" "fst (size_path W p) < 2 ^ 31"
  shows "length (write_path W n (snd (size_path W p))) = fst (size_path W p)"
proof (cases p)
  case (Some q)
  have bound: "fst (FieldPath_ByteSizeLong W q) < 2 ^ 31"
    by (rule size_path_bound [OF assms(2) Some])
  have "length (InternalWriteMessage W n (ToCachedSize (fst (FieldPath_ByteSizeLong W q)))
      (FieldPath_InternalSerialize W (snd (FieldPath_ByteSizeLong W q))))
    = 1 + LengthDelimitedSize W (fst (FieldPath_ByteSizeLong W q))"
    by (rule message_size [OF assms(1) fp_size [OF bound] bound])
  with Some show ?thesis
    by (simp add: write_path_def size_path_def fp_ByteSizeLong_parts)
qed (simp add: write_path_def size_path_def)

lemma v_size:
  assumes "fst (Violation_ByteSizeLong W m) < 2 ^ 31"
  shows "length (Violation_InternalSerialize W (snd (Violation_ByteSizeLong W m))) =
    fst (Violation_ByteSizeLong W m)"
proof -
  have "hb (v_has_bits m) 2 \<Longrightarrow> fst (size_path W (v_field m)) < 2 ^ 31"
    and "hb (v_has_bits m) 3 \<Longrightarrow> fst (size_path W (v_rule m)) < 2 ^ 31"
    using assms by (simp_all add: v_ByteSizeLong_fst unknown_tail_size)
  then show ?thesis
    by (simp add: Violation_InternalSerialize_def v_ByteSizeLong_fst v_ByteSizeLong_parts Let_def
        hasbit_simps scalar_sizes write_path_size unknown_tail_size)
qed

end

text \<open>
  The violations the round trip is about: no unknown fields, and a path with its has-bit
  set is present and of the kind \<open>fp_plain\<close> describes.
\<close>

definition path_plain :: "'u wire \<Rightarrow> 'u FieldPath option \<Rightarrow> bool" where
  "path_plain W p = (case p of None \<Rightarrow> False | Some q \<Rightarrow> fp_plain W q)"

definition v_plain :: "'u wire \<Rightarrow> 'u Violation \<Rightarrow> bool" where
  "v_plain W m \<longleftrightarrow>
     (hb (v_has_bits m) 2 \<longrightarrow> path_plain W (v_field m)) \<and>
     (hb (v_has_bits m) 3 \<longrightarrow> path_plain W (v_rule m)) \<and>
     v_unknown m = NoUnknownFields W"

text \<open>The bytes of a path behind a pointer, after \<open>ByteSizeLong\<close>.\<close>

definition path_body :: "'u wire \<Rightarrow> 'u FieldPath option \<Rightarrow> bytes" where
  "path_body W p = (case p of None \<Rightarrow> []
     | Some q \<Rightarrow> FieldPath_InternalSerialize W (snd (FieldPath_ByteSizeLong W q)))"

lemma v_parse_field_simps:
  "Violation_parse_field nxt W 2 (Delimited s) m =
     Some (m\<lparr>v_has_bits := SetHasBit (v_has_bits m) 1, v_rule_id := Some s\<rparr>)"
  "Violation_parse_field nxt W 3 (Delimited s) m =
     Some (m\<lparr>v_has_bits := SetHasBit (v_has_bits m) 2, v_message := Some s\<rparr>)"
  "Violation_parse_field nxt W 4 (Varint (of_bool b)) m =
     Some (m\<lparr>v_has_bits := SetHasBit (v_has_bits m) 16, v_for_key := b\<rparr>)"
  "parse_path nxt W s (v_field m) = Some q \<Longrightarrow>
   Violation_parse_field nxt W 5 (Delimited s) m =
     Some (m\<lparr>v_has_bits := SetHasBit (v_has_bits m) 4, v_field := Some q\<rparr>)"
  "parse_path nxt W s (v_rule m) = Some q \<Longrightarrow>
   Violation_parse_field nxt W 6 (Delimited s) m =
     Some (m\<lparr>v_has_bits := SetHasBit (v_has_bits m) 8, v_rule := Some q\<rparr>)"
  by (simp_all add: Violation_parse_field_def Violation_table_def lookup_entry_def Violation_store_def)

lemma v_serialize_sized:
  "Violation_InternalSerialize W (snd (Violation_ByteSizeLong W m)) =
     (if hb (v_has_bits m) 0 then WriteStringMaybeAliased W 2 (str_get (v_rule_id m)) else []) @
     (if hb (v_has_bits m) (Suc 0) then WriteStringMaybeAliased W 3 (str_get (v_message m)) else []) @
     (if hb (v_has_bits m) 4 then WriteBoolToArray W 4 (v_for_key m) else []) @
     (if hb (v_has_bits m) 2 then write_path W 5 (snd (size_path W (v_field m))) else []) @
     (if hb (v_has_bits m) 3 then write_path W 6 (snd (size_path W (v_rule m))) else []) @
     SerializeUnknownTail W (v_unknown m)"
  by (simp add: Violation_InternalSerialize_def v_ByteSizeLong_parts Let_def hasbit_simps)

context wire_reader
begin

lemma parse_path_merge:
  assumes "path_ptr_wf W has p" "fp_plain W q" "fst (FieldPath_ByteSizeLong W q) < 2 ^ 31"
  shows "\<exists>q'. parse_path next_field W (FieldPath_InternalSerialize W (snd (FieldPath_ByteSizeLong W q))) p
      = Some q' \<and>
    Some (fp_abs q') = path_merge_opt W (if has then map_option fp_abs p else None) (Some (fp_abs q))"
proof -
  let ?p = "case p of Some q \<Rightarrow> q | None \<Rightarrow> FieldPath_new W"
  have "fp_wf ?p" using assms(1) by (cases p) simp_all
  from fp_parse_merge [OF assms(2) this assms(3)] show ?thesis
    using assms(1) by (cases p) (auto simp: parse_path_def path_merge_opt_def fp_abs_new path_merge_empty)
qed

lemma write_path_read:
  assumes "path_plain W p" "fst (size_path W p) < 2 ^ 31"
  shows "write_path W n (snd (size_path W p)) =
      InternalWriteMessage W n (ToCachedSize (length (path_body W p))) (path_body W p)"
    and "length (path_body W p) < 2 ^ 31"
  using assms size_path_bound [OF assms(2)]
  by (auto simp: path_plain_def write_path_def size_path_def path_body_def fp_ByteSizeLong_parts fp_size
      split: option.splits)

lemma v_parse_merge:
  assumes plain: "v_plain W m" and wf: "v_wf W m0" and bound: "fst (Violation_ByteSizeLong W m) < 2 ^ 31"
  shows "\<exists>m'. Violation_parse next_field W
      (Violation_InternalSerialize W (snd (Violation_ByteSizeLong W m))) m0 = Some m' \<and>
    v_abs m' = viol_merge W (v_abs m0) (v_abs m)"
proof -
  have unk: "v_unknown m = NoUnknownFields W" using plain by (simp add: v_plain_def)
  let ?b = "v_has_bits m"
  let ?f1 = "\<lambda>x. x\<lparr>v_has_bits := SetHasBit (v_has_bits x) 1, v_rule_id := Some (str_get (v_rule_id m))\<rparr>"
  let ?f2 = "\<lambda>x. x\<lparr>v_has_bits := SetHasBit (v_has_bits x) 2, v_message := Some (str_get (v_message m))\<rparr>"
  let ?f3 = "\<lambda>x. x\<lparr>v_has_bits := SetHasBit (v_has_bits x) 16, v_for_key := v_for_key m\<rparr>"
  let ?P = "parse_with next_field (Violation_parse_field next_field W)"
  have b2: "hb ?b 2 \<Longrightarrow> fst (size_path W (v_field m)) < 2 ^ 31"
    and b3: "hb ?b 3 \<Longrightarrow> fst (size_path W (v_rule m)) < 2 ^ 31"
    using bound by (simp_all add: v_ByteSizeLong_fst unknown_tail_size)
  have "\<exists>q. parse_path next_field W (path_body W (v_field m)) (v_field m0) = Some q \<and>
      Some (fp_abs q) = path_merge_opt W (vi_field (v_abs m0)) (vi_field (v_abs m))" if "hb ?b 2"
    using plain wf that size_path_bound [OF b2 [OF that]]
      parse_path_merge [of "hb (v_has_bits m0) 2" "v_field m0" "the (v_field m)"]
    by (auto simp: v_plain_def path_plain_def v_wf_def path_body_def v_abs_def split: option.splits)
  then obtain q where q: "hb ?b 2 \<Longrightarrow> parse_path next_field W (path_body W (v_field m)) (v_field m0) = Some q"
    "hb ?b 2 \<Longrightarrow> Some (fp_abs q) = path_merge_opt W (vi_field (v_abs m0)) (vi_field (v_abs m))" by metis
  have "\<exists>r. parse_path next_field W (path_body W (v_rule m)) (v_rule m0) = Some r \<and>
      Some (fp_abs r) = path_merge_opt W (vi_rule (v_abs m0)) (vi_rule (v_abs m))" if "hb ?b 3"
    using plain wf that size_path_bound [OF b3 [OF that]]
      parse_path_merge [of "hb (v_has_bits m0) 3" "v_rule m0" "the (v_rule m)"]
    by (auto simp: v_plain_def path_plain_def v_wf_def path_body_def v_abs_def split: option.splits)
  then obtain r where r: "hb ?b 3 \<Longrightarrow> parse_path next_field W (path_body W (v_rule m)) (v_rule m0) = Some r"
    "hb ?b 3 \<Longrightarrow> Some (fp_abs r) = path_merge_opt W (vi_rule (v_abs m0)) (vi_rule (v_abs m))" by metis
  let ?f4 = "\<lambda>x. x\<lparr>v_has_bits := SetHasBit (v_has_bits x) 4, v_field := Some q\<rparr>"
  let ?f5 = "\<lambda>x. x\<lparr>v_has_bits := SetHasBit (v_has_bits x) 8, v_rule := Some r\<rparr>"
  have s1: "?P ((if hb ?b 0 then WriteStringMaybeAliased W 2 (str_get (v_rule_id m)) else []) @ t) x
      = ?P t (cond_upd (hb ?b 0) ?f1 x)" for t x
    by (rule parse_with_segment) (subst parse_string; simp add: v_parse_field_simps)
  have s2: "?P ((if hb ?b (Suc 0) then WriteStringMaybeAliased W 3 (str_get (v_message m)) else []) @ t) x
      = ?P t (cond_upd (hb ?b (Suc 0)) ?f2 x)" for t x
    by (rule parse_with_segment) (subst parse_string; simp add: v_parse_field_simps)
  have s3: "?P ((if hb ?b 4 then WriteBoolToArray W 4 (v_for_key m) else []) @ t) x
      = ?P t (cond_upd (hb ?b 4) ?f3 x)" for t x
    by (rule parse_with_segment) (subst parse_bool; simp add: v_parse_field_simps)
  have s4: "?P ((if hb ?b 2 then write_path W 5 (snd (size_path W (v_field m))) else []) @ t) x
      = ?P t (cond_upd (hb ?b 2) ?f4 x)" if "v_field x = v_field m0" for t x
    using plain b2 q(1) write_path_read(1) [of "v_field m" 5] write_path_read(2) [of "v_field m"] that
    by (intro parse_with_segment)
      (simp add: v_plain_def parse_message v_parse_field_simps)
  have s5: "?P ((if hb ?b 3 then write_path W 6 (snd (size_path W (v_rule m))) else []) @ t) x
      = ?P t (cond_upd (hb ?b 3) ?f5 x)" if "v_rule x = v_rule m0" for t x
    using plain b3 r(1) write_path_read(1) [of "v_rule m" 6] write_path_read(2) [of "v_rule m"] that
    by (intro parse_with_segment)
      (simp add: v_plain_def parse_message v_parse_field_simps)
  let ?m3 = "cond_upd (hb ?b 4) ?f3 (cond_upd (hb ?b (Suc 0)) ?f2 (cond_upd (hb ?b 0) ?f1 m0))"
  let ?m' = "cond_upd (hb ?b 3) ?f5 (cond_upd (hb ?b 2) ?f4 ?m3)"
  have "v_field ?m3 = v_field m0" "v_rule (cond_upd (hb ?b 2) ?f4 ?m3) = v_rule m0"
    by (simp_all add: cond_upd_def)
  note paths = s4 [OF this(1)] s5 [OF this(2), of "[]", unfolded append_Nil2 parse_with_Nil]
  have "Violation_parse next_field W
      (Violation_InternalSerialize W (snd (Violation_ByteSizeLong W m))) m0 = Some ?m'"
    unfolding Violation_parse_def v_serialize_sized unk no_unknown_tail append_Nil2 s1 s2 s3 paths
    by (rule refl)
  moreover have "v_abs ?m' = viol_merge W (v_abs m0) (v_abs m)"
    using plain q(2) r(2)
    by (simp add: v_abs_def viol_merge_def cond_upd_def hasbit_simps v_plain_def merge_unknown_right
        override_def path_merge_opt_def)
  ultimately show ?thesis by blast
qed
lemma v_parse_serialize:
  assumes "v_plain W m" "fst (Violation_ByteSizeLong W m) < 2 ^ 31"
  shows "\<exists>m'. Violation_parse next_field W
      (Violation_InternalSerialize W (snd (Violation_ByteSizeLong W m))) (Violation_new W) = Some m' \<and>
    v_abs m' = v_abs m"
  using v_parse_merge [OF assms(1) v_wf_new assms(2)]
  by (simp add: v_abs_new viol_merge_empty)

end

end
