(* ===== verification/Violations.thy ===== *)
theory Violations
  imports Violation
begin

text \<open>
  \<open>buf.validate.Violations\<close> (validate.pb.cc, validate.pb.h): the message
  \<open>pv_engine_validate\<close> serializes as its result. \<open>RepeatedPtrField\<close> is a list, as for
  \<open>FieldPath\<close>; a size computation caches the sizes of the whole tree of objects. The
  class promises what the shim relies on: the buffer of \<open>ByteSizeLong\<close> bytes is filled
  exactly, and reading it gives the same violations.
\<close>

record 'u Violations =
  vs_has_bits :: u32
  vs_cached_size :: i32
  vs_violations :: "'u Violation list"
  vs_unknown :: 'u

definition Violations_new :: "'u wire \<Rightarrow> 'u Violations" where
  "Violations_new W =
     \<lparr>vs_has_bits = 0, vs_cached_size = 0, vs_violations = [], vs_unknown = NoUnknownFields W\<rparr>"

definition Violations_copy :: "'u wire \<Rightarrow> 'u Violations \<Rightarrow> 'u Violations" where
  "Violations_copy W from =
     \<lparr>vs_has_bits = vs_has_bits from, vs_cached_size = 0,
      vs_violations = map (Violation_copy W) (vs_violations from),
      vs_unknown = MergeUnknownFields W (NoUnknownFields W) (vs_unknown from)\<rparr>"

definition Violations_Clear :: "'u wire \<Rightarrow> 'u Violations \<Rightarrow> 'u Violations" where
  "Violations_Clear W m =
     (let cached_has_bits = vs_has_bits m;
          m = (if CheckHasBit cached_has_bits 0x00000001 then m\<lparr>vs_violations := []\<rparr> else m)
      in m\<lparr>vs_has_bits := 0, vs_unknown := NoUnknownFields W\<rparr>)"

definition Violations_InternalSerialize :: "'u wire \<Rightarrow> 'u Violations \<Rightarrow> bytes" where
  "Violations_InternalSerialize W m =
     (let cached_has_bits = vs_has_bits m in
      (if CheckHasBit cached_has_bits 0x00000001
       then concat (map (\<lambda>repfield. InternalWriteMessage W 1 (v_cached_size repfield)
                           (Violation_InternalSerialize W repfield)) (vs_violations m))
       else []) @
      SerializeUnknownTail W (vs_unknown m))"

definition Violations_ByteSizeLong :: "'u wire \<Rightarrow> 'u Violations \<Rightarrow> nat \<times> 'u Violations" where
  "Violations_ByteSizeLong W m =
     (let cached_has_bits = vs_has_bits m;
          (total_size, m) =
            (if CheckHasBit cached_has_bits 0x00000001 then
               (let sized = map (Violation_ByteSizeLong W) (vs_violations m)
                in (1 * length (vs_violations m) + sum_list (map (\<lambda>(sz, _). LengthDelimitedSize W sz) sized),
                    m\<lparr>vs_violations := map snd sized\<rparr>))
             else (0, m));
          total_size = MaybeComputeUnknownFieldsSize W (vs_unknown m) total_size
      in (total_size, m\<lparr>vs_cached_size := ToCachedSize total_size\<rparr>))"

definition Violations_MergeImpl :: "'u wire \<Rightarrow> 'u Violations \<Rightarrow> 'u Violations \<Rightarrow> 'u Violations" where
  "Violations_MergeImpl W this from =
     (let cached_has_bits = vs_has_bits from;
          m = (if CheckHasBit cached_has_bits 0x00000001
               then this\<lparr>vs_violations :=
                      vs_violations this @ map (Violation_copy W) (vs_violations from)\<rparr>
               else this);
          m = m\<lparr>vs_has_bits := vs_has_bits m OR cached_has_bits\<rparr>
      in m\<lparr>vs_unknown := MergeUnknownFields W (vs_unknown m) (vs_unknown from)\<rparr>)"

definition Violations_CopyFrom :: "'u wire \<Rightarrow> bool \<Rightarrow> 'u Violations \<Rightarrow> 'u Violations \<Rightarrow> 'u Violations" where
  "Violations_CopyFrom W same this from =
     (if same then this else Violations_MergeImpl W (Violations_Clear W this) from)"

definition Violations_InternalSwap :: "'u Violations \<times> 'u Violations \<Rightarrow> 'u Violations \<times> 'u Violations" where
  "Violations_InternalSwap p =
     (let (a, b) = p in
      (a\<lparr>vs_unknown := vs_unknown b, vs_has_bits := vs_has_bits b, vs_violations := vs_violations b\<rparr>,
       b\<lparr>vs_unknown := vs_unknown a, vs_has_bits := vs_has_bits a, vs_violations := vs_violations a\<rparr>))"

subsection \<open>Accessors\<close>

definition Violations_violations_size :: "'u Violations \<Rightarrow> nat" where
  "Violations_violations_size m = length (vs_violations m)"

definition Violations_clear_violations :: "'u Violations \<Rightarrow> 'u Violations" where
  "Violations_clear_violations m =
     (let m = m\<lparr>vs_violations := []\<rparr>
      in m\<lparr>vs_has_bits := ClearHasBit (vs_has_bits m) 0x00000001\<rparr>)"

text \<open>
  \<open>Get\<close> and \<open>Mutable\<close> abort on an index out of range, which is \<open>None\<close>; a mutable
  reference is the update its holder applies through it.
\<close>

definition Violations_violations :: "nat \<Rightarrow> 'u Violations \<Rightarrow> 'u Violation option" where
  "Violations_violations index m =
     (if index < length (vs_violations m) then Some (vs_violations m ! index) else None)"

definition Violations_mutable_violations_at ::
  "nat \<Rightarrow> ('u Violation \<Rightarrow> 'u Violation) \<Rightarrow> 'u Violations \<Rightarrow> 'u Violations option" where
  "Violations_mutable_violations_at index f m =
     (if index < length (vs_violations m)
      then Some (m\<lparr>vs_violations := (vs_violations m)[index := f (vs_violations m ! index)]\<rparr>) else None)"

definition Violations_add_violations ::
  "'u wire \<Rightarrow> ('u Violation \<Rightarrow> 'u Violation) \<Rightarrow> 'u Violations \<Rightarrow> 'u Violations" where
  "Violations_add_violations W f m =
     (let m = m\<lparr>vs_violations := vs_violations m @ [f (Violation_new W)]\<rparr>
      in m\<lparr>vs_has_bits := SetHasBit (vs_has_bits m) 0x00000001\<rparr>)"

definition Violations_mutable_violations ::
  "('u Violation list \<Rightarrow> 'u Violation list) \<Rightarrow> 'u Violations \<Rightarrow> 'u Violations" where
  "Violations_mutable_violations f m =
     (let m = m\<lparr>vs_has_bits := SetHasBit (vs_has_bits m) 0x00000001\<rparr>
      in m\<lparr>vs_violations := f (vs_violations m)\<rparr>)"

subsection \<open>The parse table\<close>

definition Violations_table :: parse_table where
  "Violations_table =
     \<lparr>pt_max_field_number = 1, pt_fast_idx_mask = 0, pt_skipmap = 4294967294,
      pt_fast = [Some \<lparr>fast_coded_tag = 10, fast_hasbit = 0, fast_aux = 0\<rparr>],
      pt_entries = [\<lparr>fe_number = 1, fe_card = FcRepeated 0, fe_type = FlMessage\<rparr>]\<rparr>"

definition Violations_parse_field ::
  "(bytes \<Rightarrow> (nat \<times> wval \<times> bytes) option) \<Rightarrow> 'u wire \<Rightarrow>
   nat \<Rightarrow> wval \<Rightarrow> 'u Violations \<Rightarrow> 'u Violations option" where
  "Violations_parse_field nxt W n x m =
     (case lookup_entry Violations_table n of
        None \<Rightarrow> None
      | Some e \<Rightarrow>
          (case decode_value (fe_type e) x of
             Some (PBytes s) \<Rightarrow>
               (case Violation_parse nxt W s (Violation_new W) of
                  None \<Rightarrow> None
                | Some el \<Rightarrow> Some (Violations_add_violations W (\<lambda>_. el) m))
           | _ \<Rightarrow> None))"

definition Violations_parse ::
  "(bytes \<Rightarrow> (nat \<times> wval \<times> bytes) option) \<Rightarrow> 'u wire \<Rightarrow> bytes \<Rightarrow> 'u Violations \<Rightarrow> 'u Violations option" where
  "Violations_parse nxt W b m = parse_with nxt (Violations_parse_field nxt W) b m"

section \<open>What the list shows, and the operations on it\<close>

record 'u ViolList =
  vl_violations :: "'u Viol list"
  vl_unknown :: 'u

definition vs_abs :: "'u Violations \<Rightarrow> 'u ViolList" where
  "vs_abs m = \<lparr>vl_violations = (if hb (vs_has_bits m) 0 then map v_abs (vs_violations m) else []),
     vl_unknown = vs_unknown m\<rparr>"

definition viols_empty :: "'u wire \<Rightarrow> 'u ViolList" where
  "viols_empty W = \<lparr>vl_violations = [], vl_unknown = NoUnknownFields W\<rparr>"

definition viols_merge :: "'u wire \<Rightarrow> 'u ViolList \<Rightarrow> 'u ViolList \<Rightarrow> 'u ViolList" where
  "viols_merge W a b = \<lparr>vl_violations = vl_violations a @ vl_violations b,
     vl_unknown = MergeUnknownFields W (vl_unknown a) (vl_unknown b)\<rparr>"

text \<open>
  The has-bit of a repeated field may be set on an empty list but is never clear on a
  non-empty one (\<open>CheckHasBitConsistency\<close>).
\<close>

definition vs_wf :: "'u wire \<Rightarrow> 'u Violations \<Rightarrow> bool" where
  "vs_wf W m \<longleftrightarrow> (\<not> hb (vs_has_bits m) 0 \<longrightarrow> vs_violations m = []) \<and> list_all (v_wf W) (vs_violations m)"

lemmas vs_ops = Violations_new_def Violations_copy_def Violations_Clear_def Violations_MergeImpl_def
  Violations_CopyFrom_def Violations_clear_violations_def Violations_add_violations_def
  Violations_mutable_violations_def

lemma vs_wf_ops:
  "vs_wf W (Violations_new W)"
  "vs_wf W m \<Longrightarrow> vs_wf W (Violations_copy W m)"
  "vs_wf W m \<Longrightarrow> vs_wf W (Violations_Clear W m)"
  "vs_wf W m \<Longrightarrow> vs_wf W from \<Longrightarrow> vs_wf W (Violations_MergeImpl W m from)"
  "vs_wf W m \<Longrightarrow> vs_wf W (Violations_clear_violations m)"
  "vs_wf W m \<Longrightarrow> v_wf W (f (Violation_new W)) \<Longrightarrow> vs_wf W (Violations_add_violations W f m)"
  "vs_wf W m \<Longrightarrow> list_all (v_wf W) (g (vs_violations m)) \<Longrightarrow> vs_wf W (Violations_mutable_violations g m)"
  by (auto simp: vs_wf_def vs_ops Let_def hasbit_simps list_all_iff v_wf_copy)

lemma vs_wf_ByteSizeLong: "vs_wf W m \<Longrightarrow> vs_wf W (snd (Violations_ByteSizeLong W m))"
  by (auto simp: vs_wf_def Violations_ByteSizeLong_def Let_def list_all_iff v_wf_ByteSizeLong)

lemma vs_abs_new: "vs_abs (Violations_new W) = viols_empty W"
  by (simp add: vs_abs_def Violations_new_def viols_empty_def hasbit_simps)

lemma vs_abs_Clear: "vs_abs (Violations_Clear W m) = viols_empty W"
  by (simp add: vs_abs_def vs_ops viols_empty_def hasbit_simps Let_def)

lemma vs_abs_ByteSizeLong [simp]: "vs_abs (snd (Violations_ByteSizeLong W m)) = vs_abs m"
  by (simp add: vs_abs_def Violations_ByteSizeLong_def Let_def)

context wire_format
begin

lemma vs_abs_Merge:
  assumes "vs_wf W this"
  shows "vs_abs (Violations_MergeImpl W this from) = viols_merge W (vs_abs this) (vs_abs from)"
  using assms
  by (simp add: vs_abs_def Violations_MergeImpl_def viols_merge_def Let_def hasbit_simps v_abs_copy
      vs_wf_def o_def)

lemma viols_merge_empty: "viols_merge W (viols_empty W) p = p"
  by (simp add: viols_merge_def viols_empty_def merge_unknown_left)

lemma vs_abs_CopyFrom:
  "vs_wf W this \<Longrightarrow> vs_abs (Violations_CopyFrom W False this from) = vs_abs from"
  by (simp add: Violations_CopyFrom_def vs_abs_Merge vs_wf_ops vs_abs_Clear viols_merge_empty)

lemma vs_abs_copy: "vs_abs (Violations_copy W m) = vs_abs m"
  by (simp add: vs_abs_def Violations_copy_def merge_unknown_left v_abs_copy o_def)

end

section \<open>Size and round trip\<close>

sublocale wire_format \<subseteq> violations: sized_message W
  "Violation_ByteSizeLong W" "Violation_InternalSerialize W"
  by unfold_locales (rule v_size)

sublocale wire_reader \<subseteq> violations: message_codec W next_field
  "Violation_ByteSizeLong W" "Violation_InternalSerialize W"
  "\<lambda>b. Violation_parse next_field W b (Violation_new W)" v_abs "v_plain W"
  by unfold_locales (rule v_parse_serialize)

abbreviation violations_total :: "'u wire \<Rightarrow> 'u Violation list \<Rightarrow> nat" where
  "violations_total W \<equiv> repeated_total W (Violation_ByteSizeLong W)"

abbreviation write_violation :: "'u wire \<Rightarrow> 'u Violation \<Rightarrow> bytes" where
  "write_violation W \<equiv>
     write_sized W (Violation_ByteSizeLong W) (Violation_InternalSerialize W) 1"

lemma vs_ByteSizeLong_parts:
  "vs_has_bits (snd (Violations_ByteSizeLong W m)) = vs_has_bits m"
  "vs_unknown (snd (Violations_ByteSizeLong W m)) = vs_unknown m"
  "vs_cached_size (snd (Violations_ByteSizeLong W m)) = ToCachedSize (fst (Violations_ByteSizeLong W m))"
  "vs_violations (snd (Violations_ByteSizeLong W m)) =
     (if hb (vs_has_bits m) 0 then map (\<lambda>e. snd (Violation_ByteSizeLong W e)) (vs_violations m)
      else vs_violations m)"
  by (simp_all add: Violations_ByteSizeLong_def Let_def hasbit_simps)

lemma vs_ByteSizeLong_fst:
  "fst (Violations_ByteSizeLong W m) = MaybeComputeUnknownFieldsSize W (vs_unknown m)
     (if hb (vs_has_bits m) 0 then violations_total W (vs_violations m) else 0)"
  by (simp add: Violations_ByteSizeLong_def Let_def hasbit_simps repeated_total_def o_def case_prod_beta)

text \<open>The bytes of the violations after \<open>ByteSizeLong\<close>, in terms of the state before it.\<close>

lemma vs_serialize_sized:
  "Violations_InternalSerialize W (snd (Violations_ByteSizeLong W m)) =
     (if hb (vs_has_bits m) 0 then concat (map (write_violation W) (vs_violations m)) else []) @
     SerializeUnknownTail W (vs_unknown m)"
  by (simp add: Violations_InternalSerialize_def Let_def hasbit_simps vs_ByteSizeLong_parts o_def
      write_sized_def v_ByteSizeLong_parts(8) cong: map_cong)

text \<open>
  The paths the round trip is about: the enumerations of the violations are numbers of the
  descriptor, and neither the path nor an element has unknown fields.
\<close>

definition vs_plain :: "'u wire \<Rightarrow> 'u Violations \<Rightarrow> bool" where
  "vs_plain W m \<longleftrightarrow> (hb (vs_has_bits m) 0 \<longrightarrow> list_all (v_plain W) (vs_violations m)) \<and>
     vs_unknown m = NoUnknownFields W"

lemma vs_abs_add_violations:
  "vs_wf W m \<Longrightarrow> vs_abs (fold (\<lambda>e. Violations_add_violations W (\<lambda>_. e)) es m) =
    vs_abs m\<lparr>vl_violations := vl_violations (vs_abs m) @ map v_abs es\<rparr>"
proof (induction es rule: rev_induct)
  case (snoc e es)
  let ?m = "fold (\<lambda>e. Violations_add_violations W (\<lambda>_. e)) es m"
  have "\<not> hb (vs_has_bits ?m) 0 \<Longrightarrow> vs_violations ?m = []"
    using snoc.prems by (induction es arbitrary: m rule: rev_induct)
      (auto simp: vs_wf_def Violations_add_violations_def hasbit_simps)
  then have "vs_abs (Violations_add_violations W (\<lambda>_. e) ?m) =
      vs_abs ?m\<lparr>vl_violations := vl_violations (vs_abs ?m) @ [v_abs e]\<rparr>"
    by (auto simp: vs_abs_def Violations_add_violations_def hasbit_simps)
  then show ?case using snoc by simp
qed simp

context wire_format
begin

lemma vs_size:
  assumes "fst (Violations_ByteSizeLong W m) < 2 ^ 31"
  shows "length (Violations_InternalSerialize W (snd (Violations_ByteSizeLong W m))) =
    fst (Violations_ByteSizeLong W m)"
  using assms violations.repeated_written [of 1 "vs_violations m"]
  by (auto simp: vs_serialize_sized vs_ByteSizeLong_fst unknown_tail_size split: if_splits)

end

context wire_reader
begin

lemma vs_parse_field:
  "Violations_parse_field next_field W 1 (Delimited b) m =
     map_option (\<lambda>e. Violations_add_violations W (\<lambda>_. e) m) (Violation_parse next_field W b (Violation_new W))"
  by (simp add: Violations_parse_field_def Violations_table_def lookup_entry_def split: option.split)

lemma vs_parse_merge:
  assumes plain: "vs_plain W m" and "vs_wf W m0" "fst (Violations_ByteSizeLong W m) < 2 ^ 31"
  shows "\<exists>m'. Violations_parse next_field W
      (Violations_InternalSerialize W (snd (Violations_ByteSizeLong W m))) m0 = Some m' \<and>
    vs_abs m' = viols_merge W (vs_abs m0) (vs_abs m)"
proof (cases "hb (vs_has_bits m) 0")
  case True
  let ?P = "parse_with next_field (Violations_parse_field next_field W)"
  have "\<exists>es. map v_abs es = map v_abs (vs_violations m) \<and>
      ?P (concat (map (write_violation W) (vs_violations m)) @ []) m0 =
      ?P [] (fold (\<lambda>e. Violations_add_violations W (\<lambda>_. e)) es m0)"
    by (rule violations.repeated_read)
      (use assms True in \<open>simp_all add: vs_parse_field vs_plain_def list_all_iff vs_ByteSizeLong_fst
        unknown_tail_size del: One_nat_def\<close>)
  then obtain es where "map v_abs es = map v_abs (vs_violations m)"
    "?P (concat (map (write_violation W) (vs_violations m))) m0 =
      Some (fold (\<lambda>e. Violations_add_violations W (\<lambda>_. e)) es m0)"
    by (auto simp: parse_with_Nil)
  then show ?thesis
    using plain True
    by (simp add: vs_serialize_sized vs_plain_def Violations_parse_def vs_abs_add_violations [OF assms(2)]
        viols_merge_def) (simp add: vs_abs_def merge_unknown_right)
qed (use assms in \<open>simp add: vs_serialize_sized vs_plain_def Violations_parse_def parse_with_Nil
  viols_merge_def vs_abs_def merge_unknown_right\<close>)

end

section \<open>The empty result\<close>

text \<open>
  A list without unknown fields is serialized to nothing exactly when it has no
  violation: the zero length by which the callers of the shim recognise a valid message.
\<close>

context wire_format
begin

lemma vs_size_zero:
  assumes "vs_wf W m" "vs_unknown m = NoUnknownFields W"
  shows "fst (Violations_ByteSizeLong W m) = 0 \<longleftrightarrow> vs_violations m = []"
  using assms by (auto simp: vs_ByteSizeLong_fst unknown_tail_size repeated_total_def vs_wf_def)

end

end
