(* ===== verification/Compile_Rules.thy ===== *)
theory Compile_Rules
  imports Violations
begin

text \<open>
  \<open>CompileRules\<close> (shim/pv_shim.cc), the ahead-of-time compilation of the rules of a message
  type and of every type reachable from its fields, with the statuses and the libraries the
  shim calls. protobuf, abseil and protovalidate-cc are not in the repository: the record
  \<open>library\<close> collects the functions the shim calls, an argument of every definition.

  The walk returns within fuel one above the number of reachable types, whatever the fuel
  it returns the same, and under the caching the code comments on (\<open>rule_factory\<close>) it is
  right: it succeeds exactly when every reachable type has compiled, it visits exactly the
  reachable types, and a second walk over what a first one cached changes nothing.
\<close>

section \<open>Statuses\<close>

datatype StatusCode = kOk | kCancelled | kUnknown | kInvalidArgument | kDeadlineExceeded | kNotFound
  | kAlreadyExists | kPermissionDenied | kResourceExhausted | kFailedPrecondition | kAborted
  | kOutOfRange | kUnimplemented | kInternal | kUnavailable | kDataLoss | kUnauthenticated

record Status =
  st_code :: StatusCode
  st_message :: bytes

definition OkStatus :: Status where
  "OkStatus = \<lparr>st_code = kOk, st_message = []\<rparr>"

definition ok :: "Status \<Rightarrow> bool" where
  "ok s \<longleftrightarrow> st_code s = kOk"

lemma ok_OkStatus [simp]: "ok OkStatus"
  by (simp add: ok_def OkStatus_def)

definition PV_OK :: int where "PV_OK = 0"
definition PV_ERR_COMPILATION :: int where "PV_ERR_COMPILATION = 1"
definition PV_ERR_RUNTIME :: int where "PV_ERR_RUNTIME = 2"
definition PV_ERR_ARGUMENT :: int where "PV_ERR_ARGUMENT = 3"
definition PV_ERR_UNEXPECTED :: int where "PV_ERR_UNEXPECTED = 4"

lemmas pv_codes = PV_OK_def PV_ERR_COMPILATION_def PV_ERR_RUNTIME_def PV_ERR_ARGUMENT_def
  PV_ERR_UNEXPECTED_def

definition ClassifyStatus :: "Status \<Rightarrow> int" where
  "ClassifyStatus status =
     (case st_code status of
        kInvalidArgument \<Rightarrow> PV_ERR_RUNTIME
      | kFailedPrecondition \<Rightarrow> PV_ERR_COMPILATION
      | _ \<Rightarrow> PV_ERR_UNEXPECTED)"

section \<open>The libraries\<close>

text \<open>
  \<open>'pool\<close> is \<open>DescriptorPool\<close>, \<open>'d\<close> \<open>const Descriptor*\<close>, \<open>'file\<close> a parsed
  \<open>FileDescriptorProto\<close>, \<open>'fac\<close> the \<open>ValidatorFactory\<close> with its cache of compiled rules,
  \<open>'msg\<close> a dynamic message, \<open>'u\<close> the unknown fields of a message.
  \<open>MessageFields d\<close> lists the fields of \<open>d\<close> in order, each \<open>Some\<close> its message type when its
  C++ type is \<open>CPPTYPE_MESSAGE\<close>. \<open>ParseFile\<close> and \<open>ParseMessage\<close> are \<open>ParseFromArray\<close>, with
  the buffer and the \<open>int\<close> size it is called with.
\<close>

record ('pool, 'd, 'file, 'fac, 'msg, 'u) library =
  overlay_pool :: "'pool"
  FindMessageTypeByName :: "'pool \<Rightarrow> bytes \<Rightarrow> 'd option"
  FindFileByName :: "'pool \<Rightarrow> bytes \<Rightarrow> bool"
  ParseFile :: "bytes \<Rightarrow> int \<Rightarrow> 'file option"
  file_name :: "'file \<Rightarrow> bytes"
  BuildFileCollectingErrors :: "'pool \<Rightarrow> 'file \<Rightarrow> (bytes \<times> bytes \<times> bytes) list + 'pool"
  MessageFields :: "'d \<Rightarrow> 'd option list"
  NewFactory :: "Status + 'fac"
  SetMessageFactory :: "'pool \<Rightarrow> 'fac \<Rightarrow> 'fac"
  Add :: "'fac \<Rightarrow> 'd \<Rightarrow> Status \<times> 'fac"
  ParseMessage :: "'d \<Rightarrow> bytes \<Rightarrow> int \<Rightarrow> 'msg option"
  Validate :: "'pool \<Rightarrow> 'fac \<Rightarrow> bool \<Rightarrow> 'msg \<Rightarrow> (Status + 'u Violations) \<times> 'fac"
  SerializeToArray :: "'u Violations \<Rightarrow> int \<Rightarrow> bytes option"
  wire_functions :: "'u wire"

text \<open>\<open>static_cast<int>\<close> of a \<open>size_t\<close>.\<close>

definition to_int :: "nat \<Rightarrow> int" where
  "to_int n = sint (word_of_nat n :: i32)"

section \<open>Compiling the rules a type reaches\<close>

text \<open>
  The walk recurses through the fields; \<open>fuel\<close> bounds the nesting of calls, and \<open>None\<close> is
  running out of it. Every nested call that goes on has inserted a new descriptor in
  \<open>seen\<close>, so one more than the number of reachable types is enough
  (\<open>CompileRules_enough\<close>), and any fuel that is enough gives the same result.
\<close>

function CompileRules ::
  "('pool, 'd, 'file, 'fac, 'msg, 'u) library \<Rightarrow> nat \<Rightarrow> 'fac \<Rightarrow> 'd \<Rightarrow> 'd set \<Rightarrow>
   (Status \<times> 'fac \<times> 'd set) option"
and CompileFields ::
  "('pool, 'd, 'file, 'fac, 'msg, 'u) library \<Rightarrow> nat \<Rightarrow> 'fac \<Rightarrow> 'd option list \<Rightarrow> 'd set \<Rightarrow>
   (Status \<times> 'fac \<times> 'd set) option" where
  "CompileRules L 0 factory descriptor seen = None"
| "CompileRules L (Suc fuel) factory descriptor seen =
     (if descriptor \<in> seen then Some (OkStatus, factory, seen)
      else (let seen = insert descriptor seen;
                (status, factory) = Add L factory descriptor
            in if \<not> ok status then Some (status, factory, seen)
               else CompileFields L fuel factory (MessageFields L descriptor) seen))"
| "CompileFields L fuel factory [] seen = Some (OkStatus, factory, seen)"
| "CompileFields L fuel factory (None # rest) seen = CompileFields L fuel factory rest seen"
| "CompileFields L fuel factory (Some message_type # rest) seen =
     (case CompileRules L fuel factory message_type seen of
        None \<Rightarrow> None
      | Some (status, factory, seen) \<Rightarrow>
          (if \<not> ok status then Some (status, factory, seen)
           else CompileFields L fuel factory rest seen))"
  by pat_completeness auto
termination
  by (relation "measures
    [\<lambda>x. case x of Inl (L, fuel, _) \<Rightarrow> fuel | Inr (L, fuel, _) \<Rightarrow> fuel,
     \<lambda>x. case x of Inl _ \<Rightarrow> 0 | Inr (L, fuel, factory, rest, seen) \<Rightarrow> Suc (length rest)]") auto

section \<open>The walk\<close>

definition field_edge :: "('pool, 'd, 'file, 'fac, 'msg, 'u) library \<Rightarrow> 'd \<Rightarrow> 'd \<Rightarrow> bool" where
  "field_edge L d e \<longleftrightarrow> Some e \<in> set (MessageFields L d)"

definition reachable_types :: "('pool, 'd, 'file, 'fac, 'msg, 'u) library \<Rightarrow> 'd \<Rightarrow> 'd set" where
  "reachable_types L d = {e. (field_edge L)\<^sup>*\<^sup>* d e}"

lemma reachable_self [simp]: "d \<in> reachable_types L d"
  by (simp add: reachable_types_def)

lemma reachable_step: "Some f \<in> set (MessageFields L d) \<Longrightarrow> reachable_types L f \<subseteq> reachable_types L d"
  by (auto simp: reachable_types_def field_edge_def intro: converse_rtranclp_into_rtranclp)

lemma reachable_closed: "e \<in> reachable_types L d \<Longrightarrow> field_edge L e f \<Longrightarrow> f \<in> reachable_types L d"
  by (auto simp: reachable_types_def)

lemma reachable_least:
  assumes "d \<in> S" "\<And>x y. x \<in> S \<Longrightarrow> field_edge L x y \<Longrightarrow> y \<in> S"
  shows "reachable_types L d \<subseteq> S"
proof
  fix e
  assume "e \<in> reachable_types L d"
  then have "(field_edge L)\<^sup>*\<^sup>* d e" by (simp add: reachable_types_def)
  then show "e \<in> S" by (induction rule: rtranclp_induct) (use assms in auto)
qed

declare CompileRules.simps(2) [simp del] CompileFields.simps(3) [simp del]

lemma CompileRules_Suc:
  "CompileRules L (Suc fuel) F d S =
     (if d \<in> S then Some (OkStatus, F, S)
      else if \<not> ok (fst (Add L F d)) then Some (fst (Add L F d), snd (Add L F d), insert d S)
      else CompileFields L fuel (snd (Add L F d)) (MessageFields L d) (insert d S))"
  by (simp add: CompileRules.simps(2) Let_def case_prod_beta)

lemma CompileFields_Some:
  "CompileFields L fuel F (Some f # fs) S = Some (st, F', S') \<longleftrightarrow>
     (CompileRules L fuel F f S = Some (st, F', S') \<and> \<not> ok st) \<or>
     (\<exists>st1 F1 S1. CompileRules L fuel F f S = Some (st1, F1, S1) \<and> ok st1 \<and>
        CompileFields L fuel F1 fs S1 = Some (st, F', S'))"
  by (auto simp: CompileFields.simps(3) split: option.splits if_splits)

lemma CompileRules_SucE [consumes 1, case_names seen failed walked]:
  assumes "CompileRules L (Suc k) F d S = Some (st, F', S')"
  obtains "d \<in> S" "st = OkStatus" "F' = F" "S' = S"
  | "d \<notin> S" "\<not> ok (fst (Add L F d))" "st = fst (Add L F d)" "F' = snd (Add L F d)" "S' = insert d S"
  | "d \<notin> S" "ok (fst (Add L F d))"
    "CompileFields L k (snd (Add L F d)) (MessageFields L d) (insert d S) = Some (st, F', S')"
  using assms by (auto simp: CompileRules_Suc split: if_split_asm)

lemmas walk_simps = CompileRules.simps(1) CompileRules_Suc CompileFields.simps(1,2) CompileFields_Some

lemma walk_induct [case_names no_fuel rules no_fields other field]:
  assumes "\<And>F d S. P 0 F d S"
    and "\<And>k F d S. (d \<notin> S \<Longrightarrow> ok (fst (Add L F d)) \<Longrightarrow>
           Q k (snd (Add L F d)) (MessageFields L d) (insert d S)) \<Longrightarrow> P (Suc k) F d S"
    and "\<And>k F S. Q k F [] S"
    and "\<And>k F fs S. Q k F fs S \<Longrightarrow> Q k F (None # fs) S"
    and "\<And>k F f fs S. P k F f S \<Longrightarrow>
           (\<And>st F1 S1. CompileRules L k F f S = Some (st, F1, S1) \<Longrightarrow> ok st \<Longrightarrow> Q k F1 fs S1) \<Longrightarrow>
           Q k F (Some f # fs) S"
  shows "P k F d S" and "Q k F fs S"
proof -
  have "L' = L \<longrightarrow> P k F d S" and "L' = L \<longrightarrow> Q k F fs S" for L' k F d fs S
  proof (induction L' k F d S and L' k F fs S rule: CompileRules_CompileFields.induct)
    case (2 L' k F d S)
    show ?case
    proof
      assume "L' = L"
      then show "P (Suc k) F d S"
        using 2 [OF _ refl refl prod.collapse] by (intro assms(2)) auto
    qed
  qed (auto intro: assms)
  then show "P k F d S" and "Q k F fs S" by blast+
qed

text \<open>More fuel gives the same result.\<close>

lemma Compile_fuel:
  shows "CompileRules L k F d S = Some (st, F', S') \<Longrightarrow> k \<le> k' \<Longrightarrow>
      CompileRules L k' F d S = Some (st, F', S')"
    and "CompileFields L k F fs S = Some (st, F', S') \<Longrightarrow> k \<le> k' \<Longrightarrow>
      CompileFields L k' F fs S = Some (st, F', S')"
proof (induction k F d S and k F fs S arbitrary: k' st F' S' and k' st F' S' rule: walk_induct [where L = L])
  case (rules k F d S)
  then obtain j where k': "k' = Suc j" and "k \<le> j" by (cases k') auto
  with rules.prems(1) rules.IH [of _ _ _ j] show ?case
    unfolding k' CompileRules_Suc by (simp split: if_split_asm)
next
  case (field k F f fs S)
  then show ?case unfolding CompileFields_Some by blast
next
  case (other k F fs S)
  then show ?case unfolding CompileFields.simps(2) by blast
next
  case (no_fuel F d S)
  then show ?case by simp
next
  case (no_fields k F S)
  then show ?case by simp
qed

lemma Compile_seen_mono:
  shows "CompileRules L k F d S = Some (st, F', S') \<Longrightarrow> S \<subseteq> S'"
    and "CompileFields L k F fs S = Some (st, F', S') \<Longrightarrow> S \<subseteq> S'"
proof (induction k F d S and k F fs S arbitrary: st F' S' and st F' S' rule: walk_induct [where L = L])
  case (rules k F d S)
  then show ?case by (auto simp: CompileRules_Suc split: if_splits)
next
  case (field k F f fs S)
  then show ?case unfolding CompileFields_Some by blast
qed auto

text \<open>A finite set of types closed under fields bounds the fuel.\<close>

lemma Compile_returns:
  assumes U: "finite U" "\<And>x y. x \<in> U \<Longrightarrow> field_edge L x y \<Longrightarrow> y \<in> U"
  shows "d \<in> U \<Longrightarrow> card (U - S) < k \<Longrightarrow> CompileRules L k F d S \<noteq> None"
    and "(\<forall>f. Some f \<in> set fs \<longrightarrow> f \<in> U) \<Longrightarrow> card (U - S) < k \<Longrightarrow> CompileFields L k F fs S \<noteq> None"
proof (induction k F d S and k F fs S rule: walk_induct [where L = L])
  case (rules k F d S)
  have "card (U - insert d S) < k" if "d \<notin> S"
  proof -
    have "U - insert d S \<subset> U - S" using that rules.prems by auto
    then have "card (U - insert d S) < card (U - S)" using U by (intro psubset_card_mono) auto
    with rules.prems show ?thesis by simp
  qed
  moreover have "\<forall>f. Some f \<in> set (MessageFields L d) \<longrightarrow> f \<in> U"
    using rules.prems U(2) by (auto simp: field_edge_def)
  ultimately show ?case
    using rules.IH by (auto simp: CompileRules_Suc)
next
  case (field k F f fs S)
  have less: "card (U - S') < k" if "S \<subseteq> S'" for S'
    using card_mono [of "U - S" "U - S'"] U(1) that field.prems by fastforce
  obtain st F' S' where r: "CompileRules L k F f S = Some (st, F', S')"
    using field by fastforce
  moreover have "CompileFields L k F' fs S' \<noteq> None" if "ok st"
    using field.IH(2) [OF r that] less [OF Compile_seen_mono(1) [OF r]] field.prems by auto
  ultimately show ?case by (auto simp: CompileFields.simps(3))
qed auto

lemma CompileRules_enough:
  assumes "finite (reachable_types L d)" "card (reachable_types L d) < fuel"
  shows "CompileRules L fuel F d {} \<noteq> None"
  by (rule Compile_returns [OF assms(1)]) (use assms(2) reachable_closed in auto)

section \<open>What the walk relies on\<close>

text \<open>
  The factory keeps a status per descriptor. \<open>known F d\<close> is the status it has for \<open>d\<close>, if
  any: \<open>Add\<close> returns a known status without changing anything, stores the status of a new
  type (and may store those of the types nested in it), and never revises one.
\<close>

locale rule_factory =
  fixes L :: "('pool, 'd, 'file, 'fac, 'msg, 'u) library"
    and known :: "'fac \<Rightarrow> 'd \<Rightarrow> Status option"
  assumes add_known: "known F d = Some s \<Longrightarrow> Add L F d = (s, F)"
    and add_stores: "known (snd (Add L F d)) d = Some (fst (Add L F d))"
    and add_keeps: "known F e = Some s \<Longrightarrow> known (snd (Add L F d)) e = Some s"
begin

definition knows :: "'fac \<Rightarrow> 'fac \<Rightarrow> bool" where
  "knows F F' \<longleftrightarrow> (\<forall>e s. known F e = Some s \<longrightarrow> known F' e = Some s)"

lemma knows_refl [simp]: "knows F F"
  by (simp add: knows_def)

lemma knows_trans [trans]: "knows F F' \<Longrightarrow> knows F' F'' \<Longrightarrow> knows F F''"
  by (simp add: knows_def)

lemma knows_Add: "knows F (snd (Add L F d))"
  by (simp add: knows_def add_keeps)

lemma walk_knows:
  shows "CompileRules L k F d S = Some (st, F', S') \<Longrightarrow> knows F F'"
    and "CompileFields L k F fs S = Some (st, F', S') \<Longrightarrow> knows F F'"
proof (induction k F d S and k F fs S arbitrary: st F' S' and st F' S' rule: walk_induct [where L = L])
  case (rules k F d S)
  from rules.prems show ?case
    by (cases rule: CompileRules_SucE) (use rules.IH knows_Add [of F d] knows_trans in \<open>blast | simp\<close>)+
next
  case (field k F f fs S)
  then show ?case unfolding CompileFields_Some using knows_trans by blast
qed auto

lemma walk_fail:
  shows "CompileRules L k F d S = Some (st, F', S') \<Longrightarrow> \<not> ok st \<Longrightarrow>
      \<exists>e \<in> reachable_types L d. known F' e = Some st"
    and "CompileFields L k F fs S = Some (st, F', S') \<Longrightarrow> \<not> ok st \<Longrightarrow>
      \<exists>f. Some f \<in> set fs \<and> (\<exists>e \<in> reachable_types L f. known F' e = Some st)"
proof (induction k F d S and k F fs S arbitrary: st F' S' and st F' S' rule: walk_induct [where L = L])
  case (rules k F d S)
  from rules.prems(1) show ?case
  proof (cases rule: CompileRules_SucE)
    case seen
    with rules.prems(2) show ?thesis by simp
  next
    case failed
    then have "known F' d = Some st" by (simp add: add_stores)
    then show ?thesis using reachable_self [of d L] by blast
  next
    case walked
    from rules.IH [OF walked rules.prems(2)] obtain f e where
      "Some f \<in> set (MessageFields L d)" "e \<in> reachable_types L f" "known F' e = Some st" by blast
    with reachable_step [of f L d] show ?thesis by blast
  qed
next
  case (field k F f fs S)
  then show ?case unfolding CompileFields_Some by fastforce
qed auto

lemma walk_within:
  shows "CompileRules L k F d S = Some (st, F', S') \<Longrightarrow> S' \<subseteq> S \<union> reachable_types L d"
    and "CompileFields L k F fs S = Some (st, F', S') \<Longrightarrow>
      S' \<subseteq> S \<union> (\<Union>f \<in> {f. Some f \<in> set fs}. reachable_types L f)"
proof (induction k F d S and k F fs S arbitrary: st F' S' and st F' S' rule: walk_induct [where L = L])
  case (rules k F d S)
  have "(\<Union>f \<in> {f. Some f \<in> set (MessageFields L d)}. reachable_types L f) \<subseteq> reachable_types L d"
    by (rule UN_least) (simp add: reachable_step)
  moreover from rules.prems have "S' \<subseteq> insert d S \<union>
      (\<Union>f \<in> {f. Some f \<in> set (MessageFields L d)}. reachable_types L f)"
    by (cases rule: CompileRules_SucE) (use rules.IH in blast)+
  ultimately show ?case using reachable_self [of d L] by blast
next
  case (field k F f fs S)
  from field.prems show ?case
    unfolding CompileFields_Some
  proof (elim disjE exE conjE)
    fix st1 F1 S1
    assume r: "CompileRules L k F f S = Some (st1, F1, S1)" "ok st1"
      and w: "CompileFields L k F1 fs S1 = Some (st, F', S')"
    from field.IH(1) [OF r(1)] field.IH(2) [OF r w] show ?thesis by auto
  qed (use field.IH(1) in auto)
qed auto

definition settled :: "'fac \<Rightarrow> 'd set \<Rightarrow> 'd set \<Rightarrow> bool" where
  "settled F S T \<longleftrightarrow> (\<forall>x \<in> S. (\<exists>s. known F x = Some s \<and> ok s) \<and> (\<forall>y. field_edge L x y \<longrightarrow> y \<in> T))"

lemma settled_mono: "settled F S T \<Longrightarrow> knows F F' \<Longrightarrow> T \<subseteq> T' \<Longrightarrow> settled F' S T'"
  unfolding settled_def knows_def by blast

lemma settled_Un: "settled F S T \<Longrightarrow> settled F S' T \<Longrightarrow> settled F (S \<union> S') T"
  unfolding settled_def by blast

lemma settled_subset: "settled F S T \<Longrightarrow> S' \<subseteq> S \<Longrightarrow> settled F S' T"
  unfolding settled_def by blast

lemma walk_ok:
  shows "CompileRules L k F d S = Some (st, F', S') \<Longrightarrow> ok st \<Longrightarrow> d \<in> S' \<and> settled F' (S' - S) S'"
    and "CompileFields L k F fs S = Some (st, F', S') \<Longrightarrow> ok st \<Longrightarrow>
      (\<forall>f. Some f \<in> set fs \<longrightarrow> f \<in> S') \<and> settled F' (S' - S) S'"
proof (induction k F d S and k F fs S arbitrary: st F' S' and st F' S' rule: walk_induct [where L = L])
  case (rules k F d S)
  show ?case
  proof (cases "d \<in> S")
    case True
    with rules.prems show ?thesis by (simp add: CompileRules_Suc settled_def)
  next
    case False
    with rules.prems have added: "ok (fst (Add L F d))"
      and walk: "CompileFields L k (snd (Add L F d)) (MessageFields L d) (insert d S) = Some (st, F', S')"
      by (auto elim: CompileRules_SucE)
    note ih = rules.IH [OF False added walk rules.prems(2)]
    have "known F' d = Some (fst (Add L F d))"
      using walk_knows(2) [OF walk] add_stores by (simp add: knows_def)
    then have "settled F' {d} S'"
      using ih added by (auto simp: settled_def field_edge_def)
    then have "settled F' ({d} \<union> (S' - insert d S)) S'"
      using ih by (intro settled_Un) simp_all
    moreover have "d \<in> S'" using Compile_seen_mono(2) [OF walk] by blast
    moreover have "S' - S \<subseteq> {d} \<union> (S' - insert d S)" by blast
    ultimately show ?thesis using settled_subset by blast
  qed
next
  case (field k F f fs S)
  then obtain st1 F1 S1 where r: "CompileRules L k F f S = Some (st1, F1, S1)" "ok st1"
    and w: "CompileFields L k F1 fs S1 = Some (st, F', S')"
    unfolding CompileFields_Some by blast
  have ih1: "f \<in> S1" "settled F1 (S1 - S) S1" using field.IH(1) [OF r] by simp_all
  have ih2: "\<forall>f. Some f \<in> set fs \<longrightarrow> f \<in> S'" "settled F' (S' - S1) S'"
    using field.IH(2) [OF r w field.prems(2)] by simp_all
  have sub: "S1 \<subseteq> S'" by (rule Compile_seen_mono(2) [OF w])
  have "settled F' (S1 - S) S'"
    by (rule settled_mono [OF ih1(2) walk_knows(2) [OF w] sub])
  from settled_Un [OF this ih2(2)] have "settled F' (S' - S) S'"
    by (auto simp: settled_def)
  with ih1 ih2 sub show ?case by auto
qed (auto simp: settled_def)

text \<open>The walk from scratch: what it visits, and what its status means.\<close>

lemma walk_seen:
  assumes "CompileRules L k F d {} = Some (st, F', S')" "ok st"
  shows "S' = reachable_types L d"
proof
  show "S' \<subseteq> reachable_types L d" using walk_within(1) [OF assms(1)] by simp
  show "reachable_types L d \<subseteq> S'"
    by (rule reachable_least) (use walk_ok(1) [OF assms] in \<open>auto simp: settled_def\<close>)
qed

lemma walk_status:
  assumes "CompileRules L k F d {} = Some (st, F', S')"
  shows "ok st \<longleftrightarrow> (\<forall>e \<in> reachable_types L d. \<exists>s. known F' e = Some s \<and> ok s)"
proof
  assume "ok st"
  then show "\<forall>e \<in> reachable_types L d. \<exists>s. known F' e = Some s \<and> ok s"
    using walk_ok(1) [OF assms] walk_seen [OF assms] by (simp add: settled_def)
next
  assume "\<forall>e \<in> reachable_types L d. \<exists>s. known F' e = Some s \<and> ok s"
  then show "ok st" using walk_fail(1) [OF assms] by force
qed

text \<open>
  A second walk from any factory that knows at least what the first one left behind finds
  every status cached: same result, factory unchanged.
\<close>

lemma walk_replay:
  shows "CompileRules L k F d S = Some (st, F', S') \<Longrightarrow> knows F' G \<Longrightarrow>
      CompileRules L k G d S = Some (st, G, S')"
    and "CompileFields L k F fs S = Some (st, F', S') \<Longrightarrow> knows F' G \<Longrightarrow>
      CompileFields L k G fs S = Some (st, G, S')"
proof (induction k F d S and k F fs S arbitrary: st F' S' and st F' S' rule: walk_induct [where L = L])
  case (rules k F d S)
  have cached: "Add L G d = (fst (Add L F d), G)" if "knows (snd (Add L F d)) G"
    using that add_stores [of F d] by (intro add_known) (simp add: knows_def)
  show ?case
  proof (cases "d \<in> S \<or> \<not> ok (fst (Add L F d))")
    case True
    with rules.prems cached show ?thesis by (auto simp: CompileRules_Suc split: if_split_asm)
  next
    case False
    with rules.prems have walk:
      "CompileFields L k (snd (Add L F d)) (MessageFields L d) (insert d S) = Some (st, F', S')"
      by (simp add: CompileRules_Suc)
    have "knows (snd (Add L F d)) G"
      using walk_knows(2) [OF walk] rules.prems(2) by (rule knows_trans)
    with False cached rules.IH [OF _ _ walk rules.prems(2)] show ?thesis
      by (simp add: CompileRules_Suc)
  qed
next
  case (field k F f fs S)
  from field.prems(1) show ?case
    unfolding CompileFields_Some
  proof (elim disjE exE conjE)
    assume "CompileRules L k F f S = Some (st, F', S')" "\<not> ok st"
    with field.IH(1) field.prems(2) show "(CompileRules L k G f S = Some (st, G, S') \<and> \<not> ok st) \<or>
        (\<exists>st1 F1 S1. CompileRules L k G f S = Some (st1, F1, S1) \<and> ok st1 \<and>
           CompileFields L k F1 fs S1 = Some (st, G, S'))" by blast
  next
    fix st1 F1 S1
    assume r: "CompileRules L k F f S = Some (st1, F1, S1)" "ok st1"
      and w: "CompileFields L k F1 fs S1 = Some (st, F', S')"
    have "knows F1 G" using walk_knows(2) [OF w] field.prems(2) by (rule knows_trans)
    with field.IH(1) [OF r(1)] field.IH(2) [OF r w field.prems(2)] r(2)
    show "(CompileRules L k G f S = Some (st, G, S') \<and> \<not> ok st) \<or>
        (\<exists>st1 F1 S1. CompileRules L k G f S = Some (st1, F1, S1) \<and> ok st1 \<and>
           CompileFields L k F1 fs S1 = Some (st, G, S'))" by blast
  qed
qed auto

end

end
