(* ===== verification/C_Memory.thy ===== *)
theory C_Memory
  imports Base
begin

text \<open>
  The memory the C interface shares with its callers: the \<open>malloc\<close>ed blocks and the
  caller's variables the out-parameters point at. A block is a list of bytes, \<open>None\<close> where
  nothing has been written yet. Addresses are allocation numbers, so a freed address is
  never handed out again; \<open>m_fails\<close> says which allocations return a null pointer, and
  \<open>m_fault\<close> records a \<open>free\<close> of something that is not an allocated block.
\<close>

record cmem =
  m_next :: nat
  m_blocks :: "nat \<Rightarrow> byte option list option"
  m_fails :: "nat \<Rightarrow> bool"
  m_fault :: bool
  m_error :: "nat option"
  m_out :: "nat option"
  m_out_len :: nat

definition mem_empty :: "(nat \<Rightarrow> bool) \<Rightarrow> cmem" where
  "mem_empty fails = \<lparr>m_next = 0, m_blocks = Map.empty, m_fails = fails, m_fault = False,
     m_error = None, m_out = None, m_out_len = 0\<rparr>"

definition malloc :: "nat \<Rightarrow> cmem \<Rightarrow> nat option \<times> cmem" where
  "malloc n m =
     (let a = m_next m; m = m\<lparr>m_next := Suc a\<rparr> in
      if m_fails m a then (None, m)
      else (Some a, m\<lparr>m_blocks := (m_blocks m)(a \<mapsto> replicate n None)\<rparr>))"

definition free :: "nat option \<Rightarrow> cmem \<Rightarrow> cmem" where
  "free p m =
     (case p of
        None \<Rightarrow> m
      | Some a \<Rightarrow>
          (if m_blocks m a = None then m\<lparr>m_fault := True\<rparr>
           else m\<lparr>m_blocks := (m_blocks m)(a := None)\<rparr>))"

text \<open>\<open>memcpy\<close> to the start of a block.\<close>

definition memcpy :: "nat \<Rightarrow> bytes \<Rightarrow> cmem \<Rightarrow> cmem" where
  "memcpy a b m =
     (case m_blocks m a of
        None \<Rightarrow> m\<lparr>m_fault := True\<rparr>
      | Some blk \<Rightarrow>
          (if length b \<le> length blk
           then m\<lparr>m_blocks := (m_blocks m)(a \<mapsto> map Some b @ drop (length b) blk)\<rparr>
           else m\<lparr>m_fault := True\<rparr>))"

text \<open>
  \<open>mem_ok\<close>: no fault so far, and every block has been allocated before. \<open>holds\<close>: the
  block at an address, if any.
\<close>

definition mem_ok :: "cmem \<Rightarrow> bool" where
  "mem_ok m \<longleftrightarrow> \<not> m_fault m \<and> (\<forall>a. m_blocks m a \<noteq> None \<longrightarrow> a < m_next m)"

lemma mem_ok_empty: "mem_ok (mem_empty fails)"
  by (simp add: mem_ok_def mem_empty_def)

lemma mem_ok_fresh: "mem_ok m \<Longrightarrow> m_blocks m (m_next m) = None"
  unfolding mem_ok_def by (metis less_irrefl)

lemma mem_ok_free: "mem_ok m \<Longrightarrow> m_blocks m a \<noteq> None \<Longrightarrow> mem_ok (free (Some a) m)"
  by (auto simp: mem_ok_def free_def)

lemma mem_ok_free_null [simp]: "free None m = m"
  by (simp add: free_def)

end
