(* ===== verification/Engine.thy ===== *)
theory Engine
  imports Compile_Rules C_Memory
begin

text \<open>
  The C ABI over protovalidate-cc (shim/pv_shim.cc, shim/pv_shim.h): the engine record and the
  entry points. Out-parameters and \<open>malloc\<close>ed blocks live in \<open>cmem\<close>; \<open>has_error\<close> says
  whether the caller's \<open>error\<close> is non-null. A buffer argument is the bytes the caller's
  pointer and length name.
\<close>

section \<open>Error strings\<close>

text \<open>\<open>StringErrorCollector\<close>: the text after the errors recorded so far.\<close>

fun RecordError :: "bytes \<Rightarrow> bytes \<times> bytes \<times> bytes \<Rightarrow> bytes" where
  "RecordError collected (filename, element_name, message) =
     (if collected \<noteq> [] then collected @ bytes_of ''; '' else collected) @
     filename @ bytes_of '': '' @ element_name @ bytes_of '': '' @ message"

definition collector_text :: "(bytes \<times> bytes \<times> bytes) list \<Rightarrow> bytes" where
  "collector_text errors = foldl RecordError [] errors"

definition CopyCString :: "bytes \<Rightarrow> cmem \<Rightarrow> nat option \<times> cmem" where
  "CopyCString str m =
     (case malloc (length str + 1) m of
        (None, m) \<Rightarrow> (None, m)
      | (Some out, m) \<Rightarrow> (Some out, memcpy out (str @ [0]) m))"

definition SetError :: "bool \<Rightarrow> bytes \<Rightarrow> cmem \<Rightarrow> cmem" where
  "SetError has_error message m =
     (if has_error
      then (let (p, m) = CopyCString message m in m\<lparr>m_error := p\<rparr>)
      else m)"

section \<open>The engine\<close>

record ('pool, 'd, 'fac) pv_engine =
  pool :: 'pool
  validator_factory :: 'fac
  compiled :: "'d set"

definition FindMessageType ::
  "('pool, 'd, 'file, 'fac, 'msg, 'u) library \<Rightarrow> ('pool, 'd, 'fac) pv_engine \<Rightarrow> bytes \<Rightarrow> bool \<Rightarrow>
   cmem \<Rightarrow> 'd option \<times> cmem" where
  "FindMessageType L engine name has_error m =
     (case FindMessageTypeByName L (pool engine) name of
        None \<Rightarrow> (None, SetError has_error (bytes_of ''unknown message type: '' @ name) m)
      | Some descriptor \<Rightarrow> (Some descriptor, m))"

definition EnsureCompiled ::
  "('pool, 'd, 'file, 'fac, 'msg, 'u) library \<Rightarrow> nat \<Rightarrow> ('pool, 'd, 'fac) pv_engine \<Rightarrow> 'd \<Rightarrow> bool \<Rightarrow>
   cmem \<Rightarrow> (int \<times> ('pool, 'd, 'fac) pv_engine \<times> cmem) option" where
  "EnsureCompiled L fuel engine descriptor has_error m =
     (if descriptor \<in> compiled engine then Some (PV_OK, engine, m)
      else
        (case CompileRules L fuel (validator_factory engine) descriptor {} of
           None \<Rightarrow> None
         | Some (status, factory, seen) \<Rightarrow>
             (let engine = engine\<lparr>validator_factory := factory\<rparr> in
              if \<not> ok status
              then Some (PV_ERR_COMPILATION, engine, SetError has_error (st_message status) m)
              else Some (PV_OK, engine\<lparr>compiled := insert descriptor (compiled engine)\<rparr>, m))))"

definition pv_engine_new ::
  "('pool, 'd, 'file, 'fac, 'msg, 'u) library \<Rightarrow> bool \<Rightarrow> cmem \<Rightarrow>
   ('pool, 'd, 'fac) pv_engine option \<times> cmem" where
  "pv_engine_new L has_error m =
     (case NewFactory L of
        Inl status \<Rightarrow> (None, SetError has_error (st_message status) m)
      | Inr factory \<Rightarrow>
          (Some \<lparr>pool = overlay_pool L,
                 validator_factory = SetMessageFactory L (overlay_pool L) factory,
                 compiled = {}\<rparr>, m))"

definition pv_engine_add_file ::
  "('pool, 'd, 'file, 'fac, 'msg, 'u) library \<Rightarrow> ('pool, 'd, 'fac) pv_engine \<Rightarrow> bytes \<Rightarrow> bool \<Rightarrow>
   cmem \<Rightarrow> int \<times> ('pool, 'd, 'fac) pv_engine \<times> cmem" where
  "pv_engine_add_file L engine file_descriptor_proto has_error m =
     (case ParseFile L file_descriptor_proto (to_int (length file_descriptor_proto)) of
        None \<Rightarrow>
          (PV_ERR_ARGUMENT, engine, SetError has_error (bytes_of ''could not parse FileDescriptorProto'') m)
      | Some proto \<Rightarrow>
          (if FindFileByName L (pool engine) (file_name L proto) then (PV_OK, engine, m)
           else
             (case BuildFileCollectingErrors L (pool engine) proto of
                Inl errors \<Rightarrow>
                  (let message = bytes_of ''could not add '' @ file_name L proto @
                         bytes_of '' to descriptor pool'';
                       message = (if collector_text errors \<noteq> []
                         then message @ bytes_of '': '' @ collector_text errors else message)
                   in (PV_ERR_ARGUMENT, engine, SetError has_error message m))
              | Inr p \<Rightarrow> (PV_OK, engine\<lparr>pool := p\<rparr>, m))))"

definition pv_engine_has_message_type ::
  "('pool, 'd, 'file, 'fac, 'msg, 'u) library \<Rightarrow> ('pool, 'd, 'fac) pv_engine \<Rightarrow> bytes \<Rightarrow> int" where
  "pv_engine_has_message_type L engine type_name =
     of_bool (FindMessageTypeByName L (pool engine) type_name \<noteq> None)"

definition pv_engine_compile ::
  "('pool, 'd, 'file, 'fac, 'msg, 'u) library \<Rightarrow> nat \<Rightarrow> ('pool, 'd, 'fac) pv_engine \<Rightarrow> bytes \<Rightarrow> bool \<Rightarrow>
   cmem \<Rightarrow> (int \<times> ('pool, 'd, 'fac) pv_engine \<times> cmem) option" where
  "pv_engine_compile L fuel engine type_name has_error m =
     (case FindMessageType L engine type_name has_error m of
        (None, m) \<Rightarrow> Some (PV_ERR_ARGUMENT, engine, m)
      | (Some descriptor, m) \<Rightarrow> EnsureCompiled L fuel engine descriptor has_error m)"

text \<open>
  The second half of \<open>pv_engine_validate\<close>, from the size of the violations to the
  out-parameters, and the whole entry point.
\<close>

definition pv_write_result ::
  "('pool, 'd, 'file, 'fac, 'msg, 'u) library \<Rightarrow> 'u Violations \<Rightarrow> bool \<Rightarrow> cmem \<Rightarrow> int \<times> cmem" where
  "pv_write_result L proto has_error m =
     (let (sz, proto) = Violations_ByteSizeLong (wire_functions L) proto in
      case malloc (sz + 1) m of
        (None, m) \<Rightarrow> (PV_ERR_RUNTIME, SetError has_error (bytes_of ''out of memory'') m)
      | (Some buffer, m) \<Rightarrow>
          (case SerializeToArray L proto (to_int sz) of
             None \<Rightarrow>
               (PV_ERR_RUNTIME,
                SetError has_error (bytes_of ''could not serialize violations'') (free (Some buffer) m))
           | Some b \<Rightarrow> (PV_OK, (memcpy buffer b m)\<lparr>m_out := Some buffer, m_out_len := sz\<rparr>)))"

definition pv_engine_validate ::
  "('pool, 'd, 'file, 'fac, 'msg, 'u) library \<Rightarrow> nat \<Rightarrow> ('pool, 'd, 'fac) pv_engine \<Rightarrow> bytes \<Rightarrow> bytes \<Rightarrow>
   int \<Rightarrow> bool \<Rightarrow> cmem \<Rightarrow> (int \<times> ('pool, 'd, 'fac) pv_engine \<times> cmem) option" where
  "pv_engine_validate L fuel engine name payload fail_fast has_error m =
     (case FindMessageType L engine name has_error m of
        (None, m) \<Rightarrow> Some (PV_ERR_ARGUMENT, engine, m)
      | (Some descriptor, m) \<Rightarrow>
          (case EnsureCompiled L fuel engine descriptor has_error m of
             None \<Rightarrow> None
           | Some (code, engine, m) \<Rightarrow>
               if code \<noteq> PV_OK then Some (code, engine, m)
               else
                 (case ParseMessage L descriptor payload (to_int (length payload)) of
                    None \<Rightarrow>
                      Some (PV_ERR_ARGUMENT, engine,
                            SetError has_error (bytes_of ''could not parse payload as '' @ name) m)
                  | Some message \<Rightarrow>
                      (case Validate L (pool engine) (validator_factory engine) (fail_fast \<noteq> 0) message of
                         (Inl status, factory) \<Rightarrow>
                           Some (ClassifyStatus status, engine\<lparr>validator_factory := factory\<rparr>,
                                 SetError has_error (st_message status) m)
                       | (Inr proto, factory) \<Rightarrow>
                           (let (code, m) = pv_write_result L proto has_error m
                            in Some (code, engine\<lparr>validator_factory := factory\<rparr>, m))))))"

definition pv_free :: "nat option \<Rightarrow> cmem \<Rightarrow> cmem" where
  "pv_free ptr m = free ptr m"

section \<open>What the engine relies on\<close>

text \<open>
  \<open>engine_library\<close>: validating never revises a status of the factory's cache, and adding a
  file keeps the types the pool has and makes the file known. \<open>violation_writer\<close>: a buffer
  of \<open>ByteSizeLong\<close> bytes is enough for \<open>SerializeToArray\<close>, up to the 2 GiB limit of the
  library.
\<close>

locale engine_library = rule_factory L known
  for L :: "('pool, 'd, 'file, 'fac, 'msg, 'u) library" and known :: "'fac \<Rightarrow> 'd \<Rightarrow> Status option" +
  assumes validate_keeps:
      "known F e = Some s \<Longrightarrow> known (snd (Validate L p F b msg)) e = Some s"
    and build_keeps: "BuildFileCollectingErrors L p f = Inr p' \<Longrightarrow>
      FindMessageTypeByName L p n = Some d \<Longrightarrow> FindMessageTypeByName L p' n = Some d"
    and build_finds: "BuildFileCollectingErrors L p f = Inr p' \<Longrightarrow>
      FindFileByName L p' (file_name L f)"

locale violation_writer = wire_reader "wire_functions L" next_field
  for L :: "('pool, 'd, 'file, 'fac, 'msg, 'u) library" and next_field +
  assumes serialize_fits: "Violations_ByteSizeLong (wire_functions L) m = (sz, m') \<Longrightarrow> sz < 2 ^ 31 \<Longrightarrow>
      SerializeToArray L m' (int sz) = Some (Violations_InternalSerialize (wire_functions L) m')"

section \<open>Memory\<close>

text \<open>
  What a call leaves in memory: \<open>error_set\<close> says that exactly one new block has appeared,
  the NUL-terminated message, and that \<open>error\<close> points at it; the other variables and
  blocks are as before.
\<close>

definition error_set :: "cmem \<Rightarrow> bytes \<Rightarrow> cmem \<Rightarrow> bool" where
  "error_set m msg m' \<longleftrightarrow>
     m' = m\<lparr>m_next := Suc (m_next m),
            m_blocks := (m_blocks m)(m_next m \<mapsto> map Some (msg @ [0])),
            m_error := Some (m_next m)\<rparr>"

lemma SetError_simps:
  "SetError False msg m = m"
  "m_fails m (m_next m) \<Longrightarrow> SetError True msg m = m\<lparr>m_next := Suc (m_next m), m_error := None\<rparr>"
  "\<not> m_fails m (m_next m) \<Longrightarrow> error_set m msg (SetError True msg m)"
  by (simp_all add: SetError_def CopyCString_def malloc_def memcpy_def error_set_def Let_def)

lemma mem_ok_SetError: "mem_ok m \<Longrightarrow> mem_ok (SetError e msg m)"
  by (cases e; cases "m_fails m (m_next m)")
    (auto simp: mem_ok_def SetError_def CopyCString_def malloc_def memcpy_def Let_def less_Suc_eq)

section \<open>The entry points\<close>

lemma EnsureCompiled_code:
  assumes "EnsureCompiled L fuel e d h m = Some (code, e', m')"
  shows "code = PV_OK \<or> code = PV_ERR_COMPILATION"
  using assms by (auto simp: EnsureCompiled_def Let_def split: if_splits option.splits)

lemma EnsureCompiled_E [consumes 1, case_names cached failed compiled]:
  assumes "EnsureCompiled L fuel e d h m = Some (code, e', m')"
  obtains "d \<in> compiled e" "code = PV_OK" "e' = e" "m' = m"
  | st F S where "d \<notin> compiled e" "CompileRules L fuel (validator_factory e) d {} = Some (st, F, S)"
      "\<not> ok st" "code = PV_ERR_COMPILATION" "e' = e\<lparr>validator_factory := F\<rparr>"
      "m' = SetError h (st_message st) m"
  | st F S where "d \<notin> compiled e" "CompileRules L fuel (validator_factory e) d {} = Some (st, F, S)"
      "ok st" "code = PV_OK" "e' = e\<lparr>validator_factory := F, compiled := insert d (compiled e)\<rparr>" "m' = m"
  using assms by (auto simp: EnsureCompiled_def Let_def split: if_splits option.splits)

definition engine_inv ::
  "('pool, 'd, 'file, 'fac, 'msg, 'u) library \<Rightarrow> ('fac \<Rightarrow> 'd \<Rightarrow> Status option) \<Rightarrow>
   ('pool, 'd, 'fac) pv_engine \<Rightarrow> bool" where
  "engine_inv L known e \<longleftrightarrow>
     (\<forall>d \<in> compiled e. \<forall>x \<in> reachable_types L d. \<exists>s. known (validator_factory e) x = Some s \<and> ok s)"

text \<open>One call of a client, with the fuel its walk is given.\<close>

inductive engine_step ::
  "('pool, 'd, 'file, 'fac, 'msg, 'u) library \<Rightarrow> ('pool, 'd, 'fac) pv_engine \<times> cmem \<Rightarrow>
   ('pool, 'd, 'fac) pv_engine \<times> cmem \<Rightarrow> bool" for L where
  add_file: "pv_engine_add_file L e b h m = (code, e', m') \<Longrightarrow> engine_step L (e, m) (e', m')"
| compile: "pv_engine_compile L fuel e n h m = Some (code, e', m') \<Longrightarrow> engine_step L (e, m) (e', m')"
| validate: "pv_engine_validate L fuel e n b ff h m = Some (code, e', m') \<Longrightarrow> engine_step L (e, m) (e', m')"

context engine_library
begin

lemma engine_inv_knows:
  "engine_inv L known e \<Longrightarrow> knows (validator_factory e) F \<Longrightarrow>
   engine_inv L known (e\<lparr>validator_factory := F\<rparr>)"
  by (fastforce simp: engine_inv_def knows_def)

lemma EnsureCompiled_inv:
  assumes "EnsureCompiled L fuel e d h m = Some (code, e', m')" "engine_inv L known e"
  shows "engine_inv L known e' \<and> knows (validator_factory e) (validator_factory e') \<and>
    compiled e \<subseteq> compiled e' \<and> (code = PV_OK \<longleftrightarrow> d \<in> compiled e') \<and> pool e' = pool e"
  using assms(1)
proof (cases rule: EnsureCompiled_E)
  case cached
  with assms(2) show ?thesis by simp
next
  case (failed st F S)
  then show ?thesis
    using walk_knows(1) [OF failed(2)] engine_inv_knows [OF assms(2)] by (simp add: pv_codes)
next
  case (compiled st F S)
  have "engine_inv L known (e\<lparr>validator_factory := F\<rparr>)"
    using walk_knows(1) [OF compiled(2)] by (rule engine_inv_knows [OF assms(2)])
  moreover have "\<forall>x \<in> reachable_types L d. \<exists>s. known F x = Some s \<and> ok s"
    using walk_status [OF compiled(2)] compiled(3) by simp
  ultimately show ?thesis
    using compiled walk_knows(1) [OF compiled(2)] by (auto simp: engine_inv_def)
qed

lemma pv_engine_compile_inv:
  assumes "pv_engine_compile L fuel e n h m = Some (code, e', m')" "engine_inv L known e"
  shows "engine_inv L known e' \<and> knows (validator_factory e) (validator_factory e') \<and>
    compiled e \<subseteq> compiled e' \<and> pool e' = pool e"
  using assms EnsureCompiled_inv [OF _ assms(2)]
  by (fastforce simp: pv_engine_compile_def FindMessageType_def split: option.splits)

lemma pv_engine_validate_inv:
  assumes "pv_engine_validate L fuel e n b ff h m = Some (code, e', m')" "engine_inv L known e"
  shows "engine_inv L known e' \<and> knows (validator_factory e) (validator_factory e') \<and>
    compiled e \<subseteq> compiled e' \<and> pool e' = pool e"
proof (cases "FindMessageTypeByName L (pool e) n")
  case None
  with assms show ?thesis by (simp add: pv_engine_validate_def FindMessageType_def)
next
  case (Some d)
  with assms(1) obtain code1 e1 m1 where c: "EnsureCompiled L fuel e d h m = Some (code1, e1, m1)"
    by (auto simp: pv_engine_validate_def FindMessageType_def split: option.splits)
  note inv = EnsureCompiled_inv [OF c assms(2)]
  have "e' = e1 \<or> (\<exists>msg. e' = e1\<lparr>validator_factory :=
      snd (Validate L (pool e1) (validator_factory e1) (ff \<noteq> 0) msg)\<rparr>)"
    using assms(1) Some c
    by (auto simp: pv_engine_validate_def FindMessageType_def Let_def case_prod_beta
        split: option.splits if_splits sum.splits)
  moreover have "knows (validator_factory e1) (snd (Validate L (pool e1) (validator_factory e1) (ff \<noteq> 0) msg))" for msg
    by (simp add: knows_def validate_keeps)
  ultimately show ?thesis
    using inv engine_inv_knows knows_trans by auto
qed

lemma engine_step_inv:
  assumes "engine_step L (e, m) (e', m')" "engine_inv L known e"
  shows "engine_inv L known e' \<and> knows (validator_factory e) (validator_factory e') \<and>
    compiled e \<subseteq> compiled e' \<and>
    (\<forall>n d. FindMessageTypeByName L (pool e) n = Some d \<longrightarrow> FindMessageTypeByName L (pool e') n = Some d)"
  using assms(1)
proof cases
  case (add_file b h code)
  then have "e' = e \<or> (\<exists>f p'. BuildFileCollectingErrors L (pool e) f = Inr p' \<and> e' = e\<lparr>pool := p'\<rparr>)"
    by (auto simp: pv_engine_add_file_def Let_def split: option.splits if_splits sum.splits)
  with assms(2) show ?thesis
    using build_keeps by (auto simp: engine_inv_def)
next
  case (compile fuel n h code)
  from pv_engine_compile_inv [OF this assms(2)] show ?thesis by simp
next
  case (validate fuel n b ff h code)
  from pv_engine_validate_inv [OF this assms(2)] show ?thesis by simp
qed

lemma engine_steps_inv:
  assumes "(engine_step L)\<^sup>*\<^sup>* s s'" "engine_inv L known (fst s)"
  shows "engine_inv L known (fst s') \<and> knows (validator_factory (fst s)) (validator_factory (fst s')) \<and>
    compiled (fst s) \<subseteq> compiled (fst s') \<and>
    (\<forall>n d. FindMessageTypeByName L (pool (fst s)) n = Some d \<longrightarrow>
       FindMessageTypeByName L (pool (fst s')) n = Some d)"
  using assms
proof (induction rule: rtranclp_induct)
  case (step t u)
  then have "engine_inv L known (fst t)" by simp
  moreover have "engine_step L (fst t, snd t) (fst u, snd u)" using step by simp
  ultimately show ?case
    using engine_step_inv [of "fst t" "snd t" "fst u" "snd u"] step knows_trans by blast
qed simp

lemma engine_new_inv: "pv_engine_new L h m = (Some e, m') \<Longrightarrow> engine_inv L known e"
  by (auto simp: pv_engine_new_def engine_inv_def split: sum.splits)

text \<open>A type that failed to compile fails the same way for ever, whatever is called in between.\<close>

lemma compile_error_persists:
  assumes inv: "engine_inv L known e"
    and first: "EnsureCompiled L fuel e d h m = Some (PV_ERR_COMPILATION, e1, m1)"
    and later: "(engine_step L)\<^sup>*\<^sup>* (e1, m2) (e', m3)"
  shows "\<exists>msg. m1 = SetError h msg m \<and>
    (\<forall>h' m'. EnsureCompiled L fuel e' d h' m' = Some (PV_ERR_COMPILATION, e', SetError h' msg m'))"
  using first
proof (cases rule: EnsureCompiled_E)
  case (failed st F S)
  have inv1: "engine_inv L known e1" using EnsureCompiled_inv [OF first inv] by simp
  from engine_steps_inv [OF later] inv1
  have inv': "engine_inv L known e'" and kn: "knows F (validator_factory e')"
    using failed by simp_all
  from walk_fail(1) [OF failed(2,3)] obtain x where "x \<in> reachable_types L d" "known F x = Some st" by blast
  then have "d \<notin> compiled e'"
    using inv' kn failed(3) by (fastforce simp: engine_inv_def knows_def)
  moreover have "CompileRules L fuel (validator_factory e') d {} = Some (st, validator_factory e', S)"
    by (rule walk_replay(1) [OF failed(2) kn])
  ultimately show ?thesis
    using failed by (auto simp: EnsureCompiled_def)
qed (simp_all add: pv_codes)

lemma compile_ok_persists:
  assumes inv: "engine_inv L known e"
    and first: "EnsureCompiled L fuel e d h m = Some (PV_OK, e1, m1)"
    and later: "(engine_step L)\<^sup>*\<^sup>* (e1, m2) (e', m3)"
  shows "EnsureCompiled L fuel' e' d h' m' = Some (PV_OK, e', m')"
proof -
  have "engine_inv L known e1" "d \<in> compiled e1" using EnsureCompiled_inv [OF first inv] by simp_all
  with engine_steps_inv [OF later] have "d \<in> compiled e'" by auto
  then show ?thesis by (simp add: EnsureCompiled_def)
qed

end
section \<open>What \<open>pv_engine_validate\<close> promises\<close>

text \<open>
  The contract of the header as a value: what can come out of a validation, the status code
  and the message of each, and the function that decides which.
\<close>

datatype 'u outcome = Unknown_Type | Not_Compiled Status | Bad_Payload | Not_Validated Status
  | Result "'u Violations"

fun outcome_code :: "'u outcome \<Rightarrow> int" where
  "outcome_code Unknown_Type = PV_ERR_ARGUMENT"
| "outcome_code (Not_Compiled st) = PV_ERR_COMPILATION"
| "outcome_code Bad_Payload = PV_ERR_ARGUMENT"
| "outcome_code (Not_Validated st) = ClassifyStatus st"
| "outcome_code (Result vs) = PV_OK"

fun outcome_message :: "bytes \<Rightarrow> 'u outcome \<Rightarrow> bytes" where
  "outcome_message name Unknown_Type = bytes_of ''unknown message type: '' @ name"
| "outcome_message name (Not_Compiled st) = st_message st"
| "outcome_message name Bad_Payload = bytes_of ''could not parse payload as '' @ name"
| "outcome_message name (Not_Validated st) = st_message st"
| "outcome_message name (Result vs) = []"

definition compile_status ::
  "('pool, 'd, 'file, 'fac, 'msg, 'u) library \<Rightarrow> nat \<Rightarrow> ('pool, 'd, 'fac) pv_engine \<Rightarrow> 'd \<Rightarrow>
   (Status \<times> 'fac) option" where
  "compile_status L fuel e d =
     (if d \<in> compiled e then Some (OkStatus, validator_factory e)
      else map_option (\<lambda>(st, F, _). (st, F)) (CompileRules L fuel (validator_factory e) d {}))"

definition validate_outcome ::
  "('pool, 'd, 'file, 'fac, 'msg, 'u) library \<Rightarrow> nat \<Rightarrow> ('pool, 'd, 'fac) pv_engine \<Rightarrow> bytes \<Rightarrow> bytes \<Rightarrow>
   int \<Rightarrow> 'u outcome option" where
  "validate_outcome L fuel e name payload fail_fast =
     (case FindMessageTypeByName L (pool e) name of
        None \<Rightarrow> Some Unknown_Type
      | Some d \<Rightarrow>
          map_option (\<lambda>(st, F).
            if \<not> ok st then Not_Compiled st
            else (case ParseMessage L d payload (to_int (length payload)) of
                    None \<Rightarrow> Bad_Payload
                  | Some msg \<Rightarrow> (case fst (Validate L (pool e) F (fail_fast \<noteq> 0) msg) of
                                   Inl st \<Rightarrow> Not_Validated st
                                 | Inr vs \<Rightarrow> Result vs)))
            (compile_status L fuel e d))"

text \<open>How an outcome is delivered.\<close>

definition deliver ::
  "('pool, 'd, 'file, 'fac, 'msg, 'u) library \<Rightarrow> bytes \<Rightarrow> bool \<Rightarrow> cmem \<Rightarrow> 'u outcome \<Rightarrow> int \<times> cmem" where
  "deliver L name has_error m out =
     (case out of
        Result vs \<Rightarrow> pv_write_result L vs has_error m
      | _ \<Rightarrow> (outcome_code out, SetError has_error (outcome_message name out) m))"

lemma ClassifyStatus_not_ok: "ClassifyStatus st \<noteq> PV_OK"
  by (simp add: ClassifyStatus_def pv_codes split: StatusCode.split)

lemma validate_refines:
  "map_option (\<lambda>(code, _, m'). (code, m')) (pv_engine_validate L fuel e name payload fail_fast has_error m) =
   map_option (deliver L name has_error m) (validate_outcome L fuel e name payload fail_fast)"
proof (cases "FindMessageTypeByName L (pool e) name")
  case None
  then show ?thesis
    by (simp add: pv_engine_validate_def FindMessageType_def validate_outcome_def deliver_def)
next
  case d: (Some d)
  show ?thesis
  proof (cases "d \<in> compiled e")
    case True
    then show ?thesis
      by (simp add: pv_engine_validate_def FindMessageType_def validate_outcome_def deliver_def d
          EnsureCompiled_def compile_status_def case_prod_beta split: option.split sum.split)
  next
    case False
    show ?thesis
    proof (cases "CompileRules L fuel (validator_factory e) d {}")
      case None
      with False show ?thesis
        by (simp add: pv_engine_validate_def FindMessageType_def validate_outcome_def deliver_def d
            EnsureCompiled_def compile_status_def)
    next
      case (Some r)
      obtain st F S where r: "r = (st, F, S)" by (cases r) auto
      with False Some d show ?thesis
        by (simp add: pv_engine_validate_def FindMessageType_def validate_outcome_def deliver_def
            EnsureCompiled_def compile_status_def case_prod_beta pv_codes split: option.split sum.split)
    qed
  qed
qed

text \<open>
  Memory: the blocks a call leaves behind are those \<open>error\<close> and \<open>out\<close> point at, whichever
  allocations fail. \<open>error_blocks\<close> are the addresses the caller must pass to \<open>pv_free\<close>.
\<close>

definition live :: "cmem \<Rightarrow> nat set" where
  "live m = {a. m_blocks m a \<noteq> None}"

definition owed :: "cmem \<Rightarrow> nat set" where
  "owed m = set_option (m_error m) \<union> set_option (m_out m)"

lemma SetError_live:
  assumes "mem_ok m" "m_error m = None"
  shows "mem_ok (SetError h msg m)" "m_out (SetError h msg m) = m_out m"
    "live (SetError h msg m) = live m \<union> set_option (m_error (SetError h msg m))"
    "set_option (m_error (SetError h msg m)) \<inter> live m = {}"
  using mem_ok_SetError [OF assms(1)] mem_ok_fresh [OF assms(1)] assms(2)
  by (auto simp: live_def SetError_def CopyCString_def malloc_def memcpy_def Let_def)

text \<open>
  \<open>SerializeToArray\<close> never writes past the buffer it is given the size of
  (\<open>writes_within\<close>, what its documentation promises).
\<close>

definition writes_within :: "('pool, 'd, 'file, 'fac, 'msg, 'u) library \<Rightarrow> bool" where
  "writes_within L \<longleftrightarrow> (\<forall>vs sz vs' b. Violations_ByteSizeLong (wire_functions L) vs = (sz, vs') \<longrightarrow>
     SerializeToArray L vs' (to_int sz) = Some b \<longrightarrow> length b \<le> sz)"

lemma pv_write_result_live:
  assumes ok: "mem_ok m" and clean: "m_error m = None" "m_out m = None"
    and res: "pv_write_result L vs h m = (code, m')"
    and within: "writes_within L"
  shows "mem_ok m'" "live m' = live m \<union> owed m'" "code = PV_OK \<longleftrightarrow> m_out m' \<noteq> None"
    "m_error m' = None \<or> m_out m' = None" "owed m' \<inter> live m = {}"
proof -
  obtain sz vs' where size: "Violations_ByteSizeLong (wire_functions L) vs = (sz, vs')"
    by (cases "Violations_ByteSizeLong (wire_functions L) vs") auto
  have fresh: "m_blocks m (m_next m) = None" by (rule mem_ok_fresh [OF ok])
  let ?oom = "m\<lparr>m_next := Suc (m_next m)\<rparr>"
  let ?freed = "free (Some (m_next m))
    (m\<lparr>m_next := Suc (m_next m), m_blocks := (m_blocks m)(m_next m \<mapsto> replicate (sz + 1) None)\<rparr>)"
  have freed: "?freed = m\<lparr>m_next := Suc (m_next m), m_blocks := m_blocks m\<rparr>"
    using fresh by (auto simp: free_def fun_eq_iff)
  have oks: "mem_ok ?oom" "mem_ok (m\<lparr>m_next := Suc (m_next m), m_blocks := m_blocks m\<rparr>)"
    using ok by (auto simp: mem_ok_def less_Suc_eq)
  consider "m_fails m (m_next m)" "code = PV_ERR_RUNTIME" "m' = SetError h (bytes_of ''out of memory'') ?oom"
    | "\<not> m_fails m (m_next m)" "code = PV_ERR_RUNTIME"
      "m' = SetError h (bytes_of ''could not serialize violations'')
         (m\<lparr>m_next := Suc (m_next m), m_blocks := m_blocks m\<rparr>)"
    | b where "\<not> m_fails m (m_next m)" "code = PV_OK" "SerializeToArray L vs' (to_int sz) = Some b"
      "m' = (memcpy (m_next m) b (m\<lparr>m_next := Suc (m_next m),
         m_blocks := (m_blocks m)(m_next m \<mapsto> replicate (sz + 1) None)\<rparr>))
         \<lparr>m_out := Some (m_next m), m_out_len := sz\<rparr>"
    using res size freed by (auto simp: pv_write_result_def malloc_def Let_def split: if_splits option.splits)
  then have "mem_ok m' \<and> live m' = live m \<union> owed m' \<and> (code = PV_OK \<longleftrightarrow> m_out m' \<noteq> None) \<and>
    (m_error m' = None \<or> m_out m' = None) \<and> owed m' \<inter> live m = {}"
  proof cases
    case 1
    moreover have "live ?oom = live m" by (simp add: live_def)
    ultimately show ?thesis
      using SetError_live [OF oks(1)] clean by (simp add: owed_def pv_codes)
  next
    case 2
    moreover have "live (m\<lparr>m_next := Suc (m_next m), m_blocks := m_blocks m\<rparr>) = live m"
      by (simp add: live_def)
    ultimately show ?thesis
      using SetError_live [OF oks(2)] clean by (simp add: owed_def pv_codes)
  next
    case (3 b)
    then have "length b \<le> sz" using within size unfolding writes_within_def by blast
    with 3 ok clean fresh show ?thesis
      by (auto simp: memcpy_def mem_ok_def live_def owed_def less_Suc_eq)
  qed
  then show "mem_ok m'" "live m' = live m \<union> owed m'" "code = PV_OK \<longleftrightarrow> m_out m' \<noteq> None"
    "m_error m' = None \<or> m_out m' = None" "owed m' \<inter> live m = {}" by simp_all
qed

definition clean_exit :: "cmem \<Rightarrow> int \<Rightarrow> cmem \<Rightarrow> bool" where
  "clean_exit m code m' \<longleftrightarrow> mem_ok m' \<and> live m' = live m \<union> owed m' \<and>
     owed m' \<inter> live m = {} \<and>
     (code = PV_OK \<longleftrightarrow> m_out m' \<noteq> None) \<and> (m_error m' = None \<or> m_out m' = None)"

lemma deliver_clean:
  assumes "mem_ok m" "m_error m = None" "m_out m = None" "writes_within L"
  shows "clean_exit m (fst (deliver L name h m out)) (snd (deliver L name h m out))"
proof (cases out)
  case (Result vs)
  show ?thesis
    using pv_write_result_live [OF assms(1-3) prod.collapse [symmetric] assms(4), of vs h]
    by (simp add: Result deliver_def clean_exit_def)
qed (use SetError_live [OF assms(1,2)] assms(3) ClassifyStatus_not_ok in
      \<open>simp_all add: deliver_def clean_exit_def owed_def pv_codes\<close>)

lemma validate_clean:
  assumes "pv_engine_validate L fuel e name payload ff h m = Some (code, e', m')"
    and "mem_ok m" "m_error m = None" "m_out m = None" "writes_within L"
  shows "clean_exit m code m'"
proof -
  from validate_refines [of L fuel e name payload ff h m] assms(1)
  obtain out where "deliver L name h m out = (code, m')"
    by (cases "validate_outcome L fuel e name payload ff") auto
  with deliver_clean [OF assms(2-5), of name h out] show ?thesis by simp
qed

section \<open>Adding files\<close>

lemma add_file_known:
  assumes "ParseFile L b (to_int (length b)) = Some f" "FindFileByName L (pool e) (file_name L f)"
  shows "pv_engine_add_file L e b h m = (PV_OK, e, m)"
  using assms by (simp add: pv_engine_add_file_def)

lemma add_file_code:
  assumes "pv_engine_add_file L e b h m = (code, e', m')"
  shows "code = PV_OK \<or> (code = PV_ERR_ARGUMENT \<and> e' = e)"
  using assms by (auto simp: pv_engine_add_file_def Let_def split: option.splits if_splits sum.splits)

context engine_library
begin

lemma add_file_again:
  assumes "pv_engine_add_file L e b h m = (PV_OK, e', m')"
  shows "pv_engine_add_file L e' b h' m'' = (PV_OK, e', m'')"
  using assms build_finds
  by (auto simp: pv_engine_add_file_def pv_codes Let_def split: option.splits if_splits sum.splits)

end

section \<open>Lengths above 2 GiB\<close>

text \<open>
  The lengths are cast to \<open>int\<close>: the parser is called with a size that has lost the
  multiples of \<open>2^32\<close>.
\<close>

lemma to_int_small: "n < 2 ^ 31 \<Longrightarrow> to_int n = int n"
  by (simp add: to_int_def signed_of_nat signed_take_bit_int_eq_self)

lemma to_int_wraps: "to_int (2 ^ 32 + n) = to_int n"
proof -
  have "(word_of_nat (2 ^ 32 + n) :: i32) = word_of_nat n"
    by (rule word_of_nat_eq_iff [THEN iffD2]) (simp add: take_bit_eq_mod)
  then show ?thesis unfolding to_int_def by (rule arg_cong)
qed

definition parses_prefix :: "('pool, 'd, 'file, 'fac, 'msg, 'u) library \<Rightarrow> bool" where
  "parses_prefix L \<longleftrightarrow>
     (\<forall>d b n. n \<le> length b \<longrightarrow> ParseMessage L d b (int n) = ParseMessage L d (take n b) (int n))"

lemma validate_truncates:
  assumes "parses_prefix L" "length payload = 2 ^ 32 + k" "k < 2 ^ 31"
  shows "pv_engine_validate L fuel e name payload ff h m =
    pv_engine_validate L fuel e name (take k payload) ff h m"
proof -
  have len: "length (take k payload) = k"
    unfolding length_take assms(2) by simp
  have "to_int (length payload) = int k"
    unfolding assms(2) to_int_wraps by (rule to_int_small) (rule assms(3))
  moreover have "to_int (length (take k payload)) = int k"
    unfolding len by (rule to_int_small) (rule assms(3))
  moreover have "k \<le> length payload" unfolding assms(2) by simp
  then have "ParseMessage L d payload (int k) = ParseMessage L d (take k payload) (int k)" for d
    using assms(1) unfolding parses_prefix_def by blast
  ultimately have same: "ParseMessage L d payload (to_int (length payload)) =
      ParseMessage L d (take k payload) (to_int (length (take k payload)))" for d
    by metis
  show ?thesis unfolding pv_engine_validate_def same by (rule refl)
qed

section \<open>The violations the caller reads\<close>

context violation_writer
begin

lemma pv_write_result_read:
  assumes "mem_ok m" "\<not> m_fails m (m_next m)"
    and bound: "fst (Violations_ByteSizeLong (wire_functions L) vs) < 2 ^ 31"
  shows "\<exists>m' b. pv_write_result L vs h m = (PV_OK, m') \<and> m_out m' = Some (m_next m) \<and>
    m_blocks m' (m_next m) = Some (map Some b @ [None]) \<and> m_out_len m' = length b \<and>
    b = Violations_InternalSerialize (wire_functions L)
          (snd (Violations_ByteSizeLong (wire_functions L) vs))"
proof -
  obtain sz vs' where size: "Violations_ByteSizeLong (wire_functions L) vs = (sz, vs')"
    by (cases "Violations_ByteSizeLong (wire_functions L) vs") auto
  let ?b = "Violations_InternalSerialize (wire_functions L) vs'"
  have len: "length ?b = sz" using vs_size [OF bound] size by simp
  have "SerializeToArray L vs' (to_int sz) = Some ?b"
    using serialize_fits [OF size] bound size by (simp add: to_int_small)
  with assms size len show ?thesis
    by (simp add: pv_write_result_def malloc_def memcpy_def Let_def replicate_append_same [symmetric])
qed

end

end
