(* ===== verification/Binding.thy ===== *)
theory Binding
  imports Engine
begin

text \<open>
  The safe Rust interface over the C ABI (ext/protovalidate/sys/src/lib.rs): who owns the
  \<open>malloc\<close>ed blocks. A method clears the three out-variables, calls the shim and turns the
  code into a \<open>Result\<close>; an error string is read up to its NUL and freed, an empty result is
  freed at once, a non-empty one is owned by the \<open>PvBuffer\<close> and freed when it is dropped.

  \<open>lossy\<close> is \<open>to_string_lossy\<close> of the standard library, an argument. Reading memory that is
  not an initialised, NUL-terminated block is undefined behaviour, \<open>None\<close> here, like the walk
  running out of fuel; \<open>rust_validate_defined\<close> shows that it does not happen.
\<close>

datatype PvError = Compilation string | Evaluation string | Argument string | Unexpected string
  | Unknown int string

record PvBuffer =
  buf_ptr :: "nat option"
  buf_len :: nat

definition CStr_from_ptr :: "nat \<Rightarrow> cmem \<Rightarrow> bytes option" where
  "CStr_from_ptr a m =
     (case m_blocks m a of
        None \<Rightarrow> None
      | Some blk \<Rightarrow>
          (let s = takeWhile (\<lambda>b. b \<noteq> Some 0) blk
           in if length s < length blk \<and> None \<notin> set s then Some (map the s) else None))"

definition take_error :: "(bytes \<Rightarrow> string) \<Rightarrow> nat option \<Rightarrow> cmem \<Rightarrow> (string \<times> cmem) option" where
  "take_error lossy error m =
     (case error of
        None \<Rightarrow> Some (''unknown error'', m)
      | Some a \<Rightarrow>
          (case CStr_from_ptr a m of
             None \<Rightarrow> None
           | Some message \<Rightarrow> Some (lossy message, pv_free (Some a) m)))"

definition code_error :: "int \<Rightarrow> string \<Rightarrow> PvError" where
  "code_error code message =
     (if code = PV_ERR_COMPILATION then Compilation message
      else if code = PV_ERR_RUNTIME then Evaluation message
      else if code = PV_ERR_ARGUMENT then Argument message
      else if code = PV_ERR_UNEXPECTED then Unexpected message
      else Unknown code message)"

definition status_error :: "(bytes \<Rightarrow> string) \<Rightarrow> int \<Rightarrow> nat option \<Rightarrow> cmem \<Rightarrow> (PvError \<times> cmem) option" where
  "status_error lossy code error m =
     map_option (\<lambda>(message, m). (code_error code message, m)) (take_error lossy error m)"

definition null_outs :: "cmem \<Rightarrow> cmem" where
  "null_outs m = m\<lparr>m_error := None, m_out := None, m_out_len := 0\<rparr>"

definition rust_new ::
  "(bytes \<Rightarrow> string) \<Rightarrow> ('pool, 'd, 'file, 'fac, 'msg, 'u) library \<Rightarrow> cmem \<Rightarrow>
   ((string + ('pool, 'd, 'fac) pv_engine) \<times> cmem) option" where
  "rust_new lossy L m =
     (case pv_engine_new L True (null_outs m) of
        (None, m) \<Rightarrow> map_option (\<lambda>(message, m). (Inl message, m)) (take_error lossy (m_error m) m)
      | (Some engine, m) \<Rightarrow> Some (Inr engine, m))"

definition rust_add_file ::
  "(bytes \<Rightarrow> string) \<Rightarrow> ('pool, 'd, 'file, 'fac, 'msg, 'u) library \<Rightarrow> ('pool, 'd, 'fac) pv_engine \<Rightarrow> bytes \<Rightarrow>
   cmem \<Rightarrow> ((PvError + unit) \<times> ('pool, 'd, 'fac) pv_engine \<times> cmem) option" where
  "rust_add_file lossy L engine b m =
     (case pv_engine_add_file L engine b True (null_outs m) of
        (code, engine, m) \<Rightarrow>
          (if code = PV_OK then Some (Inr (), engine, m)
           else map_option (\<lambda>(err, m). (Inl err, engine, m)) (status_error lossy code (m_error m) m)))"

definition rust_has_message_type ::
  "('pool, 'd, 'file, 'fac, 'msg, 'u) library \<Rightarrow> ('pool, 'd, 'fac) pv_engine \<Rightarrow> bytes \<Rightarrow> bool" where
  "rust_has_message_type L engine type_name \<longleftrightarrow> pv_engine_has_message_type L engine type_name \<noteq> 0"

definition rust_compile ::
  "(bytes \<Rightarrow> string) \<Rightarrow> ('pool, 'd, 'file, 'fac, 'msg, 'u) library \<Rightarrow> nat \<Rightarrow> ('pool, 'd, 'fac) pv_engine \<Rightarrow>
   bytes \<Rightarrow> cmem \<Rightarrow> ((PvError + unit) \<times> ('pool, 'd, 'fac) pv_engine \<times> cmem) option" where
  "rust_compile lossy L fuel engine type_name m =
     (case pv_engine_compile L fuel engine type_name True (null_outs m) of
        None \<Rightarrow> None
      | Some (code, engine, m) \<Rightarrow>
          (if code = PV_OK then Some (Inr (), engine, m)
           else map_option (\<lambda>(err, m). (Inl err, engine, m)) (status_error lossy code (m_error m) m)))"

definition rust_validate ::
  "(bytes \<Rightarrow> string) \<Rightarrow> ('pool, 'd, 'file, 'fac, 'msg, 'u) library \<Rightarrow> nat \<Rightarrow> ('pool, 'd, 'fac) pv_engine \<Rightarrow>
   bytes \<Rightarrow> bytes \<Rightarrow> bool \<Rightarrow> cmem \<Rightarrow>
   ((PvError + PvBuffer option) \<times> ('pool, 'd, 'fac) pv_engine \<times> cmem) option" where
  "rust_validate lossy L fuel engine type_name payload fail_fast m =
     (case pv_engine_validate L fuel engine type_name payload (of_bool fail_fast) True (null_outs m) of
        None \<Rightarrow> None
      | Some (code, engine, m) \<Rightarrow>
          (if code \<noteq> PV_OK
           then map_option (\<lambda>(err, m). (Inl err, engine, m)) (status_error lossy code (m_error m) m)
           else if m_out_len m = 0 then Some (Inr None, engine, pv_free (m_out m) m)
           else Some (Inr (Some \<lparr>buf_ptr = m_out m, buf_len = m_out_len m\<rparr>), engine, m)))"

definition as_slice :: "PvBuffer \<Rightarrow> cmem \<Rightarrow> bytes option" where
  "as_slice b m =
     (case buf_ptr b of
        None \<Rightarrow> None
      | Some a \<Rightarrow>
          (case m_blocks m a of
             None \<Rightarrow> None
           | Some blk \<Rightarrow>
               (if buf_len b \<le> length blk \<and> None \<notin> set (take (buf_len b) blk)
                then Some (map the (take (buf_len b) blk)) else None)))"

definition PvBuffer_drop :: "PvBuffer \<Rightarrow> cmem \<Rightarrow> cmem" where
  "PvBuffer_drop b m = pv_free (buf_ptr b) m"

definition result_drop :: "PvError + PvBuffer option \<Rightarrow> cmem \<Rightarrow> cmem" where
  "result_drop r m = (case r of Inr (Some b) \<Rightarrow> PvBuffer_drop b m | _ \<Rightarrow> m)"

section \<open>Error strings\<close>

lemma null_outs_simps [simp]:
  "m_error (null_outs m) = None" "m_out (null_outs m) = None" "m_out_len (null_outs m) = 0"
  "m_blocks (null_outs m) = m_blocks m" "m_next (null_outs m) = m_next m"
  "m_fails (null_outs m) = m_fails m" "m_fault (null_outs m) = m_fault m"
  "mem_ok (null_outs m) = mem_ok m" "live (null_outs m) = live m"
  by (simp_all add: null_outs_def mem_ok_def live_def)

lemma takeWhile_map_Some: "takeWhile (\<lambda>b. b \<noteq> Some c) (map Some xs) = map Some (takeWhile (\<lambda>b. b \<noteq> c) xs)"
  by (induction xs) auto

text \<open>What the caller reads from an error string is the message up to its first NUL byte.\<close>

lemma CStr_from_ptr_message:
  assumes "m_blocks m a = Some (map Some (msg @ [0]))"
  shows "CStr_from_ptr a m = Some (takeWhile (\<lambda>b. b \<noteq> 0) msg)"
proof -
  have cut: "takeWhile (\<lambda>b. b \<noteq> 0) (msg @ [0]) = takeWhile (\<lambda>b. b \<noteq> (0::byte)) msg"
    by (induction msg) auto
  have "length (takeWhile (\<lambda>b. b \<noteq> (0::byte)) msg) \<le> length msg"
    by (rule length_takeWhile_le)
  then show ?thesis
    using cut unfolding CStr_from_ptr_def assms option.case Let_def takeWhile_map_Some
    by (simp add: o_def del: takeWhile_append)
qed

lemma take_error_SetError:
  assumes m: "mem_ok m" "m_error m = None"
  shows "\<exists>message m'. take_error lossy (m_error (SetError True msg m)) (SetError True msg m) = Some (message, m') \<and>
    mem_ok m' \<and> live m' = live m \<and> m_out m' = m_out m \<and>
    (\<not> m_fails m (m_next m) \<longrightarrow> message = lossy (takeWhile (\<lambda>b. b \<noteq> 0) msg))"
proof (cases "m_fails m (m_next m)")
  case True
  then show ?thesis
    using m by (auto simp: SetError_simps(2) take_error_def mem_ok_def live_def less_Suc_eq)
next
  case False
  let ?m = "SetError True msg m"
  have set: "error_set m msg ?m" by (rule SetError_simps(3) [OF False])
  then have "m_blocks ?m (m_next m) = Some (map Some (msg @ [0]))" "m_error ?m = Some (m_next m)"
    unfolding error_set_def by simp_all
  moreover have "m_blocks m (m_next m) = None" by (rule mem_ok_fresh [OF m(1)])
  then have "mem_ok (pv_free (Some (m_next m)) ?m) \<and> live (pv_free (Some (m_next m)) ?m) = live m \<and>
      m_out (pv_free (Some (m_next m)) ?m) = m_out m"
    using set m(1) unfolding error_set_def
    by (auto simp: pv_free_def free_def live_def mem_ok_def less_Suc_eq)
  ultimately show ?thesis
    using CStr_from_ptr_message [of ?m "m_next m" msg] by (simp add: take_error_def)
qed

section \<open>Ownership\<close>

text \<open>
  A failing call has set the error string last, on memory that owes nothing.
\<close>

definition failed_exit :: "cmem \<Rightarrow> bytes \<Rightarrow> cmem \<Rightarrow> bool" where
  "failed_exit m msg m' \<longleftrightarrow> (\<exists>m1. mem_ok m1 \<and> live m1 = live m \<and> m_error m1 = None \<and> m_out m1 = None \<and>
     m' = SetError True msg m1)"

lemma failed_exitI: "mem_ok m \<Longrightarrow> m_error m = None \<Longrightarrow> m_out m = None \<Longrightarrow> failed_exit m msg (SetError True msg m)"
  unfolding failed_exit_def by blast

lemma write_result_failed:
  assumes "mem_ok m" "m_error m = None" "m_out m = None"
    and "pv_write_result L vs True m = (code, m')" "code \<noteq> PV_OK"
  shows "\<exists>msg. failed_exit m msg m'"
proof (cases "m_fails m (m_next m)")
  case True
  let ?m = "m\<lparr>m_next := Suc (m_next m)\<rparr>"
  have "m' = SetError True (bytes_of ''out of memory'') ?m"
    using assms(4) True by (auto simp: pv_write_result_def malloc_def Let_def split: prod.splits)
  moreover have "mem_ok ?m" "live ?m = live m"
    using assms(1) by (auto simp: mem_ok_def live_def less_Suc_eq)
  ultimately show ?thesis
    using assms(2,3) unfolding failed_exit_def by (intro exI [of _ "bytes_of ''out of memory''"] exI [of _ ?m]) simp
next
  case False
  have fresh: "m_blocks m (m_next m) = None" by (rule mem_ok_fresh [OF assms(1)])
  let ?m = "m\<lparr>m_next := Suc (m_next m), m_blocks := m_blocks m\<rparr>"
  have freed: "free (Some (m_next m))
    (m\<lparr>m_next := Suc (m_next m), m_blocks := (m_blocks m)(m_next m \<mapsto> blk)\<rparr>) = ?m" for blk
    using fresh by (auto simp: free_def fun_eq_iff)
  have "m' = SetError True (bytes_of ''could not serialize violations'') ?m"
    using assms(4,5) False
    by (auto simp: pv_write_result_def malloc_def Let_def freed split: prod.splits option.splits)
  moreover have "mem_ok ?m" "live ?m = live m"
    using assms(1) by (auto simp: mem_ok_def live_def less_Suc_eq)
  ultimately show ?thesis
    using assms(2,3) unfolding failed_exit_def
    by (intro exI [of _ "bytes_of ''could not serialize violations''"] exI [of _ ?m]) simp
qed

lemma deliver_failed:
  assumes "mem_ok m" "m_error m = None" "m_out m = None"
    and "deliver L name True m out = (code, m')" "code \<noteq> PV_OK"
  shows "\<exists>msg. failed_exit m msg m'"
  using assms failed_exitI [OF assms(1-3)] write_result_failed [OF assms(1-3)]
  by (cases out) (auto simp: deliver_def)

lemma status_error_exit:
  assumes "failed_exit m msg m'"
  shows "\<exists>err m''. status_error lossy code (m_error m') m' = Some (err, m'') \<and>
    mem_ok m'' \<and> live m'' = live m \<and> m_out m'' = None"
proof -
  obtain m1 where m1: "mem_ok m1" "live m1 = live m" "m_error m1 = None" "m_out m1 = None"
    "m' = SetError True msg m1"
    using assms unfolding failed_exit_def by blast
  from take_error_SetError [OF m1(1,3), of lossy msg] m1 show ?thesis
    by (auto simp: status_error_def)
qed

text \<open>
  A validation never reads memory it must not, and once its result is dropped the blocks
  are those from before the call, whichever allocations failed.
\<close>

lemma rust_validate_owned:
  assumes call: "pv_engine_validate L fuel e n b (of_bool ff) True (null_outs m) = Some (code, e', m1)"
    and m: "mem_ok m" and within: "writes_within L"
  shows "\<exists>r m'. rust_validate lossy L fuel e n b ff m = Some (r, e', m') \<and>
    mem_ok (result_drop r m') \<and> live (result_drop r m') = live m \<and> (code = PV_OK \<longleftrightarrow> \<not> isl r)"
proof (cases "code = PV_OK")
  case True
  have clean: "clean_exit (null_outs m) code m1"
    by (rule validate_clean [OF call _ _ _ within]) (simp_all add: m)
  then obtain a where a: "m_out m1 = Some a" "m_error m1 = None" "mem_ok m1" "live m1 = insert a (live m)"
    and new: "a \<notin> live m"
    using True by (auto simp: clean_exit_def owed_def)
  have "m_blocks m1 a \<noteq> None" using a(4) unfolding live_def by blast
  moreover have "live (m1\<lparr>m_blocks := (m_blocks m1)(a := None)\<rparr>) = live m1 - {a}"
    by (auto simp: live_def)
  ultimately have "mem_ok (pv_free (Some a) m1)" "live (pv_free (Some a) m1) = live m"
    using a new by (auto simp: pv_free_def free_def mem_ok_def)
  with True call a show ?thesis
    by (auto simp: rust_validate_def result_drop_def PvBuffer_drop_def)
next
  case False
  from validate_refines [of L fuel e n b "of_bool ff" True "null_outs m"] call
  obtain out where "deliver L n True (null_outs m) out = (code, m1)"
    by (cases "validate_outcome L fuel e n b (of_bool ff)") auto
  from deliver_failed [OF _ _ _ this False] m obtain msg where "failed_exit (null_outs m) msg m1" by auto
  from status_error_exit [OF this, of lossy code] False call show ?thesis
    by (auto simp: rust_validate_def result_drop_def)
qed

lemma rust_compile_owned:
  assumes call: "pv_engine_compile L fuel e n True (null_outs m) = Some (code, e', m1)" and m: "mem_ok m"
  shows "\<exists>r m'. rust_compile lossy L fuel e n m = Some (r, e', m') \<and> mem_ok m' \<and> live m' = live m \<and>
    (code = PV_OK \<longleftrightarrow> \<not> isl r)"
proof (cases "code = PV_OK")
  case True
  then have "m1 = null_outs m"
    using call by (auto simp: pv_engine_compile_def FindMessageType_def pv_codes
        elim!: EnsureCompiled_E split: option.splits)
  with True call m show ?thesis by (auto simp: rust_compile_def)
next
  case False
  have "\<exists>msg. failed_exit (null_outs m) msg m1"
    using call False m failed_exitI [of "null_outs m"]
    by (auto simp: pv_engine_compile_def FindMessageType_def elim!: EnsureCompiled_E split: option.splits)
  then obtain msg where "failed_exit (null_outs m) msg m1" by blast
  from status_error_exit [OF this, of lossy code] False call show ?thesis
    by (auto simp: rust_compile_def)
qed

lemma rust_add_file_owned:
  assumes m: "mem_ok m"
  shows "\<exists>r e' m'. rust_add_file lossy L e b m = Some (r, e', m') \<and> mem_ok m' \<and> live m' = live m"
proof -
  obtain code e' m1 where call: "pv_engine_add_file L e b True (null_outs m) = (code, e', m1)"
    by (cases "pv_engine_add_file L e b True (null_outs m)") auto
  show ?thesis
  proof (cases "code = PV_OK")
    case True
    then have "m1 = null_outs m"
      using call by (auto simp: pv_engine_add_file_def Let_def pv_codes
          split: option.splits if_splits sum.splits)
    with True call m show ?thesis by (auto simp: rust_add_file_def)
  next
    case False
    have "\<exists>msg. failed_exit (null_outs m) msg m1"
      using call False m failed_exitI [of "null_outs m"]
      by (auto simp: pv_engine_add_file_def Let_def split: option.splits if_splits sum.splits)
    then obtain msg where "failed_exit (null_outs m) msg m1" by blast
    from status_error_exit [OF this, of lossy code] False call show ?thesis
      by (auto simp: rust_add_file_def)
  qed
qed

section \<open>The result of a validation\<close>

context violation_writer
begin

text \<open>
  When the evaluation has produced violations that fit and the allocation succeeds, the
  result is \<open>None\<close> if they serialize to nothing; otherwise the slice of the buffer is
  their serialization.
\<close>

lemma rust_validate_result:
  assumes out: "validate_outcome L fuel e n b (of_bool ff) = Some (Result vs)"
    and m: "mem_ok m" "\<not> m_fails m (m_next m)"
    and bound: "fst (Violations_ByteSizeLong (wire_functions L) vs) < 2 ^ 31"
  shows "\<exists>e' m' r. rust_validate lossy L fuel e n b ff m = Some (Inr r, e', m') \<and>
    (case r of
       None \<Rightarrow> fst (Violations_ByteSizeLong (wire_functions L) vs) = 0
     | Some buf \<Rightarrow> fst (Violations_ByteSizeLong (wire_functions L) vs) \<noteq> 0 \<and>
         as_slice buf m' = Some (Violations_InternalSerialize (wire_functions L)
           (snd (Violations_ByteSizeLong (wire_functions L) vs))))"
proof -
  let ?b = "Violations_InternalSerialize (wire_functions L) (snd (Violations_ByteSizeLong (wire_functions L) vs))"
  obtain m1 where w: "pv_write_result L vs True (null_outs m) = (PV_OK, m1)"
    "m_out m1 = Some (m_next m)" "m_blocks m1 (m_next m) = Some (map Some ?b @ [None])"
    "m_out_len m1 = length ?b"
    using pv_write_result_read [of "null_outs m" vs True] m bound by auto
  have "map_option (deliver L n True (null_outs m)) (validate_outcome L fuel e n b (of_bool ff)) = Some (PV_OK, m1)"
    using out w by (simp add: deliver_def)
  then obtain e' where call: "pv_engine_validate L fuel e n b (of_bool ff) True (null_outs m) = Some (PV_OK, e', m1)"
    using validate_refines [of L fuel e n b "of_bool ff" True "null_outs m"] by auto
  have len: "length ?b = fst (Violations_ByteSizeLong (wire_functions L) vs)"
    by (rule vs_size [OF bound])
  show ?thesis
  proof (cases "length ?b = 0")
    case True
    then show ?thesis using call w len by (simp add: rust_validate_def)
  next
    case False
    moreover have "as_slice \<lparr>buf_ptr = m_out m1, buf_len = length ?b\<rparr> m1 = Some ?b"
      using w by (auto simp: as_slice_def o_def)
    ultimately show ?thesis using call w len by (auto simp: rust_validate_def)
  qed
qed

end

end
