(* ===== verification/Reference_Library.thy ===== *)
theory Reference_Library
  imports Engine
begin

text \<open>
  An implementation of the library parameters, for any compile function, field lists,
  parsers and evaluation: a pool is the list of its files with the types each defines, the
  factory is a table of the statuses computed so far, violations are written in the
  base-128 encoding. It satisfies the laws the engine relies on, so they are consistent,
  and the statements about the engine are evaluated at it.
\<close>

type_synonym 'd ref_file = "bytes \<times> (bytes \<times> 'd) list"

definition ref_types :: "'d ref_file list \<Rightarrow> (bytes \<times> 'd) list" where
  "ref_types p = concat (map snd p)"

definition ref_build :: "'d ref_file list \<Rightarrow> 'd ref_file \<Rightarrow>
    (bytes \<times> bytes \<times> bytes) list + 'd ref_file list" where
  "ref_build p f =
     (case [t \<leftarrow> map fst (snd f). t \<in> set (map fst (ref_types p))] of
        [] \<Rightarrow> Inr (f # p)
      | ts \<Rightarrow> Inl (map (\<lambda>t. (fst f, t, bytes_of ''already defined'')) ts))"

definition ref_serialize :: "bytes Violations \<Rightarrow> int \<Rightarrow> bytes option" where
  "ref_serialize vs n =
     (let b = Violations_InternalSerialize base128 vs in if int (length b) \<le> n then Some b else None)"

definition ref_library ::
  "(bytes \<Rightarrow> 'd ref_file option) \<Rightarrow> ('d \<Rightarrow> 'd option list) \<Rightarrow> ('d \<Rightarrow> Status) \<Rightarrow>
   ('d \<Rightarrow> bytes \<Rightarrow> 'msg option) \<Rightarrow> (bool \<Rightarrow> 'msg \<Rightarrow> Status + bytes Violations) \<Rightarrow>
   ('d ref_file list, 'd, 'd ref_file, 'd \<Rightarrow> Status option, 'msg, bytes) library" where
  "ref_library read_file fields_of check read_msg run =
     \<lparr>overlay_pool = [],
      FindMessageTypeByName = (\<lambda>p n. map_of (ref_types p) n),
      FindFileByName = (\<lambda>p n. n \<in> set (map fst p)),
      ParseFile = (\<lambda>b n. if n < 0 then None else read_file (take (nat n) b)),
      file_name = fst,
      BuildFileCollectingErrors = ref_build,
      MessageFields = fields_of,
      NewFactory = Inr Map.empty,
      SetMessageFactory = (\<lambda>p F. F),
      Add = (\<lambda>F d. case F d of Some s \<Rightarrow> (s, F) | None \<Rightarrow> (check d, F(d \<mapsto> check d))),
      ParseMessage = (\<lambda>d b n. if n < 0 then None else read_msg d (take (nat n) b)),
      Validate = (\<lambda>p F ff m. (run ff m, F)),
      SerializeToArray = ref_serialize,
      wire_functions = base128\<rparr>"

lemma ref_build_Inr:
  assumes "ref_build p f = Inr p'"
  shows "p' = f # p" "\<And>t. t \<in> set (map fst (snd f)) \<Longrightarrow> t \<notin> set (map fst (ref_types p))"
proof -
  have "[t \<leftarrow> map fst (snd f). t \<in> set (map fst (ref_types p))] = []"
    using assms by (auto simp: ref_build_def split: list.splits)
  then show "t \<in> set (map fst (snd f)) \<Longrightarrow> t \<notin> set (map fst (ref_types p))" for t
    by (auto simp: filter_empty_conv)
  show "p' = f # p"
    using assms by (auto simp: ref_build_def split: list.splits)
qed

interpretation ref: engine_library "ref_library read_file fields_of check read_msg run" "\<lambda>F d. F d"
  for read_file fields_of check read_msg run
proof unfold_locales
  fix p p' :: "'a ref_file list" and f n d
  assume "BuildFileCollectingErrors (ref_library read_file fields_of check read_msg run) p f = Inr p'"
    and n: "FindMessageTypeByName (ref_library read_file fields_of check read_msg run) p n = Some d"
  then have b: "ref_build p f = Inr p'" by (simp add: ref_library_def)
  have "n \<in> set (map fst (ref_types p))"
    using n by (auto simp: ref_library_def dest: map_of_SomeD intro: rev_image_eqI)
  then have "map_of (snd f) n = None"
    using ref_build_Inr(2) [OF b] by (auto simp: map_of_eq_None_iff)
  then show "FindMessageTypeByName (ref_library read_file fields_of check read_msg run) p' n = Some d"
    using n ref_build_Inr(1) [OF b] by (simp add: ref_library_def ref_types_def map_add_def)
next
  fix p p' :: "'a ref_file list" and f
  assume "BuildFileCollectingErrors (ref_library read_file fields_of check read_msg run) p f = Inr p'"
  then have "ref_build p f = Inr p'" by (simp add: ref_library_def)
  from ref_build_Inr(1) [OF this]
  show "FindFileByName (ref_library read_file fields_of check read_msg run) p'
      (file_name (ref_library read_file fields_of check read_msg run) f)"
    by (simp add: ref_library_def)
qed (auto simp: ref_library_def split: option.splits)

lemma ref_wire [simp]: "wire_functions (ref_library read_file fields_of check read_msg run) = base128"
  by (simp add: ref_library_def)

interpretation ref_writer: violation_writer "ref_library read_file fields_of check read_msg run" base128_next
  for read_file fields_of check read_msg run
proof (intro violation_writer.intro violation_writer_axioms.intro)
  show "wire_reader (wire_functions (ref_library read_file fields_of check read_msg run)) base128_next"
    by (simp add: base128.wire_reader_axioms)
  fix m m' :: "bytes Violations" and sz
  assume size: "Violations_ByteSizeLong (wire_functions (ref_library read_file fields_of check read_msg run)) m = (sz, m')"
    and "sz < 2 ^ 31"
  then show "SerializeToArray (ref_library read_file fields_of check read_msg run) m' (int sz) =
      Some (Violations_InternalSerialize (wire_functions (ref_library read_file fields_of check read_msg run)) m')"
    using base128.vs_size [of m] by (simp add: ref_library_def ref_serialize_def)
qed

lemma to_int_le: "to_int n \<le> int n"
proof (cases "n < 2 ^ 31")
  case False
  have "sint (word_of_nat n :: i32) < 2 ^ (LENGTH(32) - 1)" by (rule sint_lt)
  with False show ?thesis by (simp add: to_int_def)
qed (simp add: to_int_small)

lemma ref_writes_within: "writes_within (ref_library read_file fields_of check read_msg run)"
  unfolding writes_within_def
proof (intro allI impI)
  fix vs sz vs' b
  assume "SerializeToArray (ref_library read_file fields_of check read_msg run) vs' (to_int sz) = Some b"
  then have "int (length b) \<le> to_int sz"
    by (auto simp: ref_library_def ref_serialize_def Let_def split: if_splits)
  with to_int_le [of sz] show "length b \<le> sz" by linarith
qed

lemma ref_parses_prefix: "parses_prefix (ref_library read_file fields_of check read_msg run)"
  by (simp add: parses_prefix_def ref_library_def)

end
