(* ===== verification/Concurrency.thy ===== *)
theory Concurrency
  imports Engine
begin

text \<open>
  Threads in \<open>EnsureCompiled\<close> (shim/pv_shim.cc). The lookup in \<open>compiled\<close> holds the reader
  lock, the insertion the writer lock and each \<open>Add\<close> the factory's own, so these are the
  steps that interleave; the walk between them works on variables of the thread. A \<open>task\<close> is
  where a thread is in the function, with the types still to visit and the ones seen as
  explicit variables, and \<open>run_task\<close> one step of it. \<open>interleaving\<close> lets any number of
  threads, each on a type of its own, step in any order.
\<close>

section \<open>Tasks\<close>

datatype 'd task =
    Checking 'd
  | Walking 'd "'d list" "'d set"
  | Recording 'd
  | Done 'd Status

definition field_types :: "('pool, 'd, 'file, 'fac, 'msg, 'u) library \<Rightarrow> 'd \<Rightarrow> 'd list" where
  "field_types L d = concat (map (\<lambda>f. case f of None \<Rightarrow> [] | Some e \<Rightarrow> [e]) (MessageFields L d))"

fun run_task :: "('pool, 'd, 'file, 'fac, 'msg, 'u) library \<Rightarrow> ('pool, 'd, 'fac) pv_engine \<Rightarrow> 'd task \<Rightarrow>
    ('pool, 'd, 'fac) pv_engine \<times> 'd task" where
  "run_task L engine (Checking d) =
     (if d \<in> compiled engine then (engine, Done d OkStatus) else (engine, Walking d [d] {}))"
| "run_task L engine (Walking d [] seen) = (engine, Recording d)"
| "run_task L engine (Walking d (x # work) seen) =
     (if x \<in> seen then (engine, Walking d work seen)
      else let (status, factory) = Add L (validator_factory engine) x;
               engine = engine\<lparr>validator_factory := factory\<rparr> in
        if \<not> ok status then (engine, Done d status)
        else (engine, Walking d (field_types L x @ work) (insert x seen)))"
| "run_task L engine (Recording d) =
     (engine\<lparr>compiled := insert d (compiled engine)\<rparr>, Done d OkStatus)"
| "run_task L engine (Done d status) = (engine, Done d status)"

fun task_type :: "'d task \<Rightarrow> 'd" where
  "task_type (Checking d) = d"
| "task_type (Walking d work seen) = d"
| "task_type (Recording d) = d"
| "task_type (Done d status) = d"

text \<open>One thread by itself.\<close>

inductive alone :: "('pool, 'd, 'file, 'fac, 'msg, 'u) library \<Rightarrow>
    ('pool, 'd, 'fac) pv_engine \<times> 'd task \<Rightarrow> ('pool, 'd, 'fac) pv_engine \<times> 'd task \<Rightarrow> bool" for L where
  step: "run_task L e t = (e', t') \<Longrightarrow> alone L (e, t) (e', t')"

text \<open>All of them: a thread is a number, and a step is a step of one thread.\<close>

inductive interleaving :: "('pool, 'd, 'file, 'fac, 'msg, 'u) library \<Rightarrow>
    ('pool, 'd, 'fac) pv_engine \<times> (nat \<Rightarrow> 'd task) \<Rightarrow> ('pool, 'd, 'fac) pv_engine \<times> (nat \<Rightarrow> 'd task) \<Rightarrow> bool"
  for L where
  step: "run_task L e (ts i) = (e', t') \<Longrightarrow> interleaving L (e, ts) (e', ts(i := t'))"

inductive_cases interleavingE: "interleaving L s s'"

section \<open>One thread by itself is the function\<close>

lemma set_field_types: "set (field_types L d) = {e. field_edge L d e}"
  unfolding field_types_def field_edge_def by (auto split: option.splits)

abbreviation with_factory :: "('pool, 'd, 'fac) pv_engine \<Rightarrow> 'fac \<Rightarrow> ('pool, 'd, 'fac) pv_engine" where
  "with_factory e F \<equiv> e\<lparr>validator_factory := F\<rparr>"

text \<open>What a walk leaves to do: go on with the types after it, or stop with its status.\<close>

definition after_walk :: "'d \<Rightarrow> 'd list \<Rightarrow> Status \<Rightarrow> 'd set \<Rightarrow> 'd task" where
  "after_walk r work st seen = (if ok st then Walking r work seen else Done r st)"

lemma alone_step: "run_task L e t = (e', t') \<Longrightarrow> (alone L)\<^sup>*\<^sup>* (e', t') s \<Longrightarrow> (alone L)\<^sup>*\<^sup>* (e, t) s"
  by (rule converse_rtranclp_into_rtranclp, rule alone.step)

lemma walk_alone:
  shows "CompileRules L k F d S = Some (st, F', S') \<Longrightarrow>
      (alone L)\<^sup>*\<^sup>* (with_factory e F, Walking r (d # work) S) (with_factory e F', after_walk r work st S')"
    and "CompileFields L k F fs S = Some (st, F', S') \<Longrightarrow>
      (alone L)\<^sup>*\<^sup>* (with_factory e F,
          Walking r (concat (map (\<lambda>f. case f of None \<Rightarrow> [] | Some e \<Rightarrow> [e]) fs) @ work) S)
        (with_factory e F', after_walk r work st S')"
proof (induction k F d S and k F fs S arbitrary: st F' S' work and st F' S' work rule: walk_induct [where L = L])
  case (rules k F d S)
  from rules.prems show ?case
  proof (cases rule: CompileRules_SucE)
    case seen
    then have "run_task L (with_factory e F) (Walking r (d # work) S) = (with_factory e F', after_walk r work st S')"
      by (simp add: after_walk_def)
    then show ?thesis by (rule alone_step) simp
  next
    case failed
    then have "run_task L (with_factory e F) (Walking r (d # work) S) = (with_factory e F', after_walk r work st S')"
      by (simp add: after_walk_def case_prod_beta Let_def)
    then show ?thesis by (rule alone_step) simp
  next
    case walked
    then have "run_task L (with_factory e F) (Walking r (d # work) S) =
        (with_factory e (snd (Add L F d)), Walking r (field_types L d @ work) (insert d S))"
      by (simp add: case_prod_beta Let_def)
    then show ?thesis
      using rules.IH [OF walked] unfolding field_types_def by (rule alone_step)
  qed
next
  case (field k F f fs S)
  from field.prems consider "CompileRules L k F f S = Some (st, F', S')" "\<not> ok st"
    | st1 F1 S1 where "CompileRules L k F f S = Some (st1, F1, S1)" "ok st1"
        "CompileFields L k F1 fs S1 = Some (st, F', S')"
    unfolding CompileFields_Some by blast
  then show ?case
  proof cases
    case 1
    with field.IH(1) [OF 1(1), where work = "concat (map (\<lambda>f. case f of None \<Rightarrow> [] | Some e \<Rightarrow> [e]) fs) @ work"]
    show ?thesis by (simp add: after_walk_def)
  next
    case 2
    have "(alone L)\<^sup>*\<^sup>*
        (with_factory e F, Walking r (f # concat (map (\<lambda>f. case f of None \<Rightarrow> [] | Some e \<Rightarrow> [e]) fs) @ work) S)
        (with_factory e F1, Walking r (concat (map (\<lambda>f. case f of None \<Rightarrow> [] | Some e \<Rightarrow> [e]) fs) @ work) S1)"
      using field.IH(1) [OF 2(1), where work = "concat (map (\<lambda>f. case f of None \<Rightarrow> [] | Some e \<Rightarrow> [e]) fs) @ work"]
        2(2) by (simp add: after_walk_def)
    from rtranclp_trans [OF this field.IH(2) [OF 2]] show ?thesis by simp
  qed
qed (simp_all add: after_walk_def)

text \<open>The function \<open>EnsureCompiled\<close> is what a thread does when it runs alone.\<close>

lemma EnsureCompiled_alone:
  assumes "EnsureCompiled L fuel e d h m = Some (code, e', m')"
  shows "\<exists>st. (alone L)\<^sup>*\<^sup>* (e, Checking d) (e', Done d st) \<and> (code = PV_OK \<longleftrightarrow> ok st) \<and>
    (\<not> ok st \<longrightarrow> code = PV_ERR_COMPILATION \<and> m' = SetError h (st_message st) m)"
proof (cases "d \<in> compiled e")
  case True
  then have "run_task L e (Checking d) = (e, Done d OkStatus)" by simp
  with alone_step [OF this] assms True show ?thesis
    by (intro exI [of _ OkStatus]) (auto simp: EnsureCompiled_def)
next
  case False
  with assms obtain st F' S where
      walk: "CompileRules L fuel (validator_factory e) d {} = Some (st, F', S)"
    and result: "if ok st then code = PV_OK \<and> e' = (with_factory e F')\<lparr>compiled := insert d (compiled e)\<rparr>
      else code = PV_ERR_COMPILATION \<and> e' = with_factory e F' \<and> m' = SetError h (st_message st) m"
    by (auto simp: EnsureCompiled_def Let_def split: option.splits if_splits)
  have start: "(alone L)\<^sup>*\<^sup>* (e, Checking d) (with_factory e F', after_walk d [] st S)"
    by (rule alone_step [OF _ walk_alone(1) [OF walk, of e, simplified]]) (use False in simp)
  show ?thesis
  proof (cases "ok st")
    case True
    have "(alone L)\<^sup>*\<^sup>* (with_factory e F', Walking d [] S) (e', Done d OkStatus)"
      by (rule alone_step, simp, rule alone_step, simp) (use result True in simp)
    with start True result show ?thesis
      by (intro exI [of _ OkStatus]) (simp add: after_walk_def)
  next
    case False
    with start result show ?thesis
      by (intro exI [of _ st]) (simp add: after_walk_def pv_codes)
  qed
qed

section \<open>All interleavings\<close>

text \<open>What a thread still has to do, for the lexicographic order: its stage, the types it may still
  visit, the list it works through.\<close>

fun task_left :: "('pool, 'd, 'file, 'fac, 'msg, 'u) library \<Rightarrow> 'd task \<Rightarrow> nat \<times> nat \<times> nat" where
  "task_left L (Checking d) = (3, 0, 0)"
| "task_left L (Walking d work seen) = (2, card (reachable_types L d - seen), length work)"
| "task_left L (Recording d) = (1, 0, 0)"
| "task_left L (Done d status) = (0, 0, 0)"

fun is_done :: "'d task \<Rightarrow> bool" where
  "is_done (Done d status) = True"
| "is_done _ = False"

context rule_factory
begin

definition good :: "('pool, 'd, 'fac) pv_engine \<Rightarrow> 'd \<Rightarrow> bool" where
  "good e x \<longleftrightarrow> (\<exists>s. known (validator_factory e) x = Some s \<and> ok s)"

fun task_ok :: "('pool, 'd, 'fac) pv_engine \<Rightarrow> 'd task \<Rightarrow> bool" where
  "task_ok e (Checking d) \<longleftrightarrow> True"
| "task_ok e (Walking d work seen) \<longleftrightarrow> d \<in> seen \<union> set work \<and> set work \<subseteq> reachable_types L d \<and>
     (\<forall>x \<in> seen. good e x \<and> (\<forall>y. field_edge L x y \<longrightarrow> y \<in> seen \<union> set work))"
| "task_ok e (Recording d) \<longleftrightarrow> (\<forall>x \<in> reachable_types L d. good e x)"
| "task_ok e (Done d st) \<longleftrightarrow>
     (if ok st then \<forall>x \<in> reachable_types L d. good e x
      else \<exists>x \<in> reachable_types L d. known (validator_factory e) x = Some st)"

definition all_ok :: "('pool, 'd, 'fac) pv_engine \<times> (nat \<Rightarrow> 'd task) \<Rightarrow> bool" where
  "all_ok s \<longleftrightarrow> (\<forall>d \<in> compiled (fst s). \<forall>x \<in> reachable_types L d. good (fst s) x) \<and>
     (\<forall>i. task_ok (fst s) (snd s i))"

lemma good_mono: "good e x \<Longrightarrow> knows (validator_factory e) (validator_factory e') \<Longrightarrow> good e' x"
  by (auto simp: good_def knows_def)

lemma task_ok_mono:
  "task_ok e t \<Longrightarrow> knows (validator_factory e) (validator_factory e') \<Longrightarrow> task_ok e' t"
  using good_mono [of e _ e'] by (cases t) (fastforce simp: knows_def)+

lemma run_task_knows:
  "run_task L e t = (e', t') \<Longrightarrow> knows (validator_factory e) (validator_factory e')"
proof (cases t)
  case (Walking d work seen)
  then show "run_task L e t = (e', t') \<Longrightarrow> ?thesis"
    using knows_Add by (cases work) (auto simp: case_prod_beta Let_def split: if_splits)
qed (auto split: if_splits)

lemma run_task_ok:
  assumes "run_task L e t = (e', t')" "task_ok e t"
    and "\<And>d x. d \<in> compiled e \<Longrightarrow> x \<in> reachable_types L d \<Longrightarrow> good e x"
  shows "task_ok e' t'" "\<And>d x. d \<in> compiled e' \<Longrightarrow> x \<in> reachable_types L d \<Longrightarrow> good e' x"
proof -
  have "task_ok e' t' \<and> (\<forall>d \<in> compiled e'. d \<in> compiled e \<or> (\<forall>x \<in> reachable_types L d. good e' x))"
  proof (cases t)
    case (Checking d)
    with assms(1,3) show ?thesis by (auto split: if_splits)
  next
    case (Walking d work seen)
    show ?thesis
    proof (cases work)
      case Nil
      have "reachable_types L d \<subseteq> seen"
        using assms(2) Walking Nil by (intro reachable_least) auto
      then have "\<forall>x \<in> reachable_types L d. good e x" using assms(2) Walking Nil by auto
      with assms(1) Walking Nil show ?thesis by auto
    next
      case (Cons x rest)
      let ?F = "snd (Add L (validator_factory e) x)" and ?st = "fst (Add L (validator_factory e) x)"
      have stored: "known ?F x = Some ?st" by (rule add_stores)
      have x: "x \<in> reachable_types L d" using assms(2) Walking Cons by simp
      have keep: "good (with_factory e ?F) y" if "good e y" for y
        using good_mono [OF that] knows_Add by simp
      show ?thesis
      proof (cases "x \<in> seen")
        case True
        have "task_ok e (Walking d rest seen)"
          using assms(2) True unfolding Walking Cons task_ok.simps by (auto; blast)
        with True assms(1) Walking Cons show ?thesis by auto
      next
        case False
        show ?thesis
        proof (cases "ok ?st")
          case True
          then have "good (with_factory e ?F) x" using stored by (simp add: good_def)
          moreover have "{y. field_edge L x y} \<subseteq> reachable_types L d"
            using reachable_closed [OF x] by blast
          ultimately have "task_ok (with_factory e ?F) (Walking d (field_types L x @ rest) (insert x seen))"
            using assms(2) Walking Cons keep by (auto simp: set_field_types)
          with True False assms(1) Walking Cons show ?thesis
            by (auto simp: case_prod_beta Let_def)
        next
          case bad: False
          have "task_ok (with_factory e ?F) (Done d ?st)"
            using bad stored x by auto
          with bad False assms(1) Walking Cons show ?thesis
            by (auto simp: case_prod_beta Let_def)
        qed
      qed
    qed
  next
    case (Recording d)
    with assms(1,2) show ?thesis by (auto simp: good_def)
  qed (use assms in auto)
  then show "task_ok e' t'" "\<And>d x. d \<in> compiled e' \<Longrightarrow> x \<in> reachable_types L d \<Longrightarrow> good e' x"
    using assms(3) good_mono run_task_knows [OF assms(1)] by blast+
qed

lemma interleaving_ok:
  assumes "interleaving L s s'" "all_ok s"
  shows "all_ok s'"
  using assms(1)
proof (cases rule: interleaving.cases)
  case (step e ts i e' t')
  have old: "task_ok e (ts j)" "d \<in> compiled e \<Longrightarrow> x \<in> reachable_types L d \<Longrightarrow> good e x" for j d x
    using assms(2) step(1) by (auto simp: all_ok_def)
  show ?thesis
    using run_task_ok [OF step(3) old(1) old(2)] task_ok_mono [OF old(1) run_task_knows [OF step(3)]] step(2)
    by (auto simp: all_ok_def)
qed

lemma interleavings_ok: "(interleaving L)\<^sup>*\<^sup>* s s' \<Longrightarrow> all_ok s \<Longrightarrow> all_ok s'"
  by (induction rule: rtranclp_induct) (auto intro: interleaving_ok)

lemma interleavings_type: "(interleaving L)\<^sup>*\<^sup>* s s' \<Longrightarrow> task_type (snd s' i) = task_type (snd s i)"
proof (induction rule: rtranclp_induct)
  case (step s1 s2)
  have same: "task_type t' = task_type t" if "run_task L e t = (e', t')" for e t e' t'
  proof (cases t)
    case (Walking d work seen)
    with that show ?thesis by (cases work) (auto simp: case_prod_beta Let_def split: if_splits)
  qed (use that in \<open>auto split: if_splits\<close>)
  from step(2,3) show ?case by (cases rule: interleaving.cases) (auto dest: same)
qed simp

text \<open>A finished thread is right, and right for good.\<close>

lemma done_status:
  assumes "all_ok (e, ts)" "ts i = Done d st"
  shows "ok st \<longleftrightarrow> (\<forall>x \<in> reachable_types L d. good e x)"
proof -
  have "task_ok e (Done d st)" using assms by (metis all_ok_def fst_conv snd_conv)
  then show ?thesis by (auto simp: good_def split: if_splits) (metis option.inject)
qed

lemma run_task_left:
  assumes "run_task L e t = (e', t')" "task_ok e t" "\<not> is_done t" "finite (reachable_types L (task_type t))"
  shows "(task_left L t', task_left L t) \<in> less_than <*lex*> less_than <*lex*> less_than"
proof (cases t)
  case (Walking d work seen)
  show ?thesis
  proof (cases work)
    case (Cons x rest)
    have "card (reachable_types L d - insert x seen) < card (reachable_types L d - seen)" if "x \<notin> seen"
      using that assms(2,4) Walking Cons by (intro psubset_card_mono) auto
    with assms(1) Walking Cons show ?thesis
      by (auto simp: case_prod_beta Let_def split: if_splits)
  qed (use assms(1) Walking in auto)
qed (use assms in \<open>auto split: if_splits\<close>)

text \<open>Whatever the others have done, a thread that is given enough steps finishes.\<close>

lemma thread_finishes:
  assumes "all_ok (e, ts)" "finite (reachable_types L (task_type (ts i)))"
  shows "\<exists>e' st. (interleaving L)\<^sup>*\<^sup>* (e, ts) (e', ts(i := Done (task_type (ts i)) st))"
proof -
  have "wf (less_than <*lex*> less_than <*lex*> less_than)" by blast
  then show ?thesis using assms
  proof (induction "task_left L (ts i)" arbitrary: e ts rule: wf_induct_rule)
    case less
    show ?case
    proof (cases "is_done (ts i)")
      case True
      then obtain d st where "ts i = Done d st" by (cases "ts i") auto
      then have "ts(i := Done (task_type (ts i)) st) = ts" by auto
      then show ?thesis by (metis rtranclp.rtrancl_refl)
    next
      case False
      obtain e1 t1 where t1: "run_task L e (ts i) = (e1, t1)" by (cases "run_task L e (ts i)")
      have step: "interleaving L (e, ts) (e1, ts(i := t1))" using t1 by (rule interleaving.step)
      have type: "task_type t1 = task_type (ts i)"
        using interleavings_type [OF r_into_rtranclp [of "interleaving L", OF step], of i] by simp
      have "(task_left L t1, task_left L (ts i)) \<in> less_than <*lex*> less_than <*lex*> less_than"
        using run_task_left [OF t1 _ False less(3)] less(2) by (simp add: all_ok_def)
      with less(1) [of "ts(i := t1)" e1] interleaving_ok [OF step less(2)] less(3) type
      have "\<exists>e' st. (interleaving L)\<^sup>*\<^sup>* (e1, ts(i := t1)) (e', ts(i := Done (task_type (ts i)) st))"
        by simp
      with step show ?thesis by (meson converse_rtranclp_into_rtranclp)
    qed
  qed
qed

end

end
