(* ===== verification/Engine_Properties.thy ===== *)
theory Engine_Properties
  imports Binding Reference_Library Concurrency
begin

text \<open>
  What the engine, the C interface and the Rust binding promise, with the laws of the
  libraries as named hypotheses and a witness at the reference library for each. The
  example has two message types that refer to each other, a file that defines both, and
  payloads whose bytes are the message.
\<close>

section \<open>The example\<close>

definition ex_fields :: "nat \<Rightarrow> nat option list" where
  "ex_fields d = (if d = 0 then [None, Some 1] else if d = 1 then [Some 0, Some 1] else [])"

definition ex_bad :: Status where
  "ex_bad = \<lparr>st_code = kFailedPrecondition, st_message = bytes_of ''bad rule''\<rparr>"

definition ex_check :: "nat \<Rightarrow> Status" where
  "ex_check d = (if d = 2 then ex_bad else OkStatus)"

definition ex_file :: "bytes \<Rightarrow> nat ref_file option" where
  "ex_file b = (if b = [] then None else Some (b, [(bytes_of ''A'', 0), (bytes_of ''C'', 2)]))"

definition ex_msg :: "nat \<Rightarrow> bytes \<Rightarrow> bytes option" where
  "ex_msg d b = Some b"

definition ex_violation :: "bytes Violation" where
  "ex_violation = Violation_set_message (bytes_of ''no'') (Violation_new base128)"

definition ex_run :: "bool \<Rightarrow> bytes \<Rightarrow> Status + bytes Violations" where
  "ex_run ff m = Inr (if m = [] then Violations_new base128
     else Violations_add_violations base128 (\<lambda>_. ex_violation) (Violations_new base128))"

abbreviation ex_lib where
  "ex_lib \<equiv> ref_library ex_file ex_fields ex_check ex_msg ex_run"

abbreviation ex_engine :: "(nat ref_file list, nat, nat \<Rightarrow> Status option) pv_engine" where
  "ex_engine \<equiv> \<lparr>pool = [([1], [(bytes_of ''A'', 0), (bytes_of ''C'', 2)])],
     validator_factory = Map.empty, compiled = {}\<rparr>"

lemmas ex_defs = ref_library_def ex_fields_def ex_bad_def ex_check_def ex_file_def ex_msg_def

lemma ex_rule_factory: "rule_factory ex_lib (\<lambda>F d. F d)"
  by (rule ref.rule_factory_axioms)

lemma ex_walk:
  "CompileRules ex_lib 3 Map.empty 0 {} = Some (OkStatus, [0 \<mapsto> OkStatus, 1 \<mapsto> OkStatus], {0, 1})"
  by (simp add: eval_nat_numeral walk_simps CompileFields.simps(3) ex_defs insert_commute)


section \<open>Compiling\<close>

lemma ex_reachable: "reachable_types ex_lib 0 = {0, 1}"
  using rule_factory.walk_seen [OF ex_rule_factory ex_walk] by simp

text \<open>C1: a compilation from scratch succeeds exactly when the factory holds a good status for
  every message type reachable through fields, and then it has visited exactly those types.\<close>

theorem compile_rules_correct:
  assumes "rule_factory L known"
    and "CompileRules L fuel F d {} = Some (st, F', seen)"
  shows "(ok st \<longleftrightarrow> (\<forall>e \<in> reachable_types L d. \<exists>s. known F' e = Some s \<and> ok s)) \<and>
    (ok st \<longrightarrow> seen = reachable_types L d) \<and> (\<forall>e s. known F e = Some s \<longrightarrow> known F' e = Some s)"
proof -

  show ?thesis using rule_factory.walk_status [OF assms] rule_factory.walk_seen [OF assms] rule_factory.walk_knows(1) [OF assms] unfolding rule_factory.knows_def [OF assms(1)] by simp
qed

theorem compile_rules_correct_witness:
  "reachable_types ex_lib 0 = {0, 1}"
  using compile_rules_correct [OF ex_rule_factory ex_walk] by simp

text \<open>C2: when finitely many types are reachable, the walk returns as soon as the fuel
  exceeds their number, and more fuel gives the same result: the recursion of the code ends.\<close>

theorem compile_rules_terminates:
  assumes "finite (reachable_types L d)" "card (reachable_types L d) < fuel"
  shows "\<exists>r. \<forall>fuel' \<ge> fuel. CompileRules L fuel' F d {} = Some r"
proof -
  obtain r where "CompileRules L fuel F d {} = Some r"
    using CompileRules_enough [OF assms, of F] by blast
  then obtain st F' S' where "CompileRules L fuel F d {} = Some (st, F', S')" by (cases r) simp
  then show ?thesis by (intro exI allI impI) (rule Compile_fuel(1))
qed

theorem compile_rules_terminates_witness:
  "\<exists>r. CompileRules ex_lib 4 Map.empty 0 {} = Some r"
proof -
  have "finite (reachable_types ex_lib 0)" "card (reachable_types ex_lib 0) < 4"
    by (simp_all add: ex_reachable)
  from compile_rules_terminates [OF this, of Map.empty] show ?thesis by blast
qed

text \<open>C3: compiling again, from any factory that still knows what the first walk stored,
  gives the same status and types and leaves the factory as it is.\<close>

theorem compile_rules_idempotent:
  assumes "rule_factory L known"
    and "CompileRules L fuel F d {} = Some (st, F', seen)"
    and "\<And>e s. known F' e = Some s \<Longrightarrow> known G e = Some s"
  shows "CompileRules L fuel G d {} = Some (st, G, seen)"
  using rule_factory.walk_replay(1) [OF assms(1,2), of G] assms(3)
  by (simp add: rule_factory.knows_def [OF assms(1)])

theorem compile_rules_idempotent_witness:
  "CompileRules ex_lib 3 [0 \<mapsto> OkStatus, 1 \<mapsto> OkStatus] 0 {} =
     Some (OkStatus, [0 \<mapsto> OkStatus, 1 \<mapsto> OkStatus], {0, 1})"
  by (rule compile_rules_idempotent [OF ex_rule_factory ex_walk])

section \<open>The engine over time\<close>

text \<open>C4: in every state a client can reach from a new engine, each type recorded as compiled
  has a good status for every type it reaches, and known statuses are never revised.\<close>

theorem engine_invariant:
  assumes "engine_library L known"
    and "pv_engine_new L h m = (Some e0, m0)"
    and "(engine_step L)\<^sup>*\<^sup>* (e0, m1) (e, m')"
  shows "\<forall>d \<in> compiled e. \<forall>x \<in> reachable_types L d.
    \<exists>s. known (validator_factory e) x = Some s \<and> ok s"
proof -
  have "engine_inv L known (fst (e0, m1))"
    using engine_library.engine_new_inv [OF assms(1,2)] by simp
  from engine_library.engine_steps_inv [OF assms(1,3) this] show ?thesis
    by (simp add: engine_inv_def)
qed

lemma ex_new: "pv_engine_new ex_lib h m =
    (Some \<lparr>pool = [], validator_factory = Map.empty, compiled = {}\<rparr>, m)"
  by (simp add: pv_engine_new_def ref_library_def)

lemma ex_add: "pv_engine_add_file ex_lib \<lparr>pool = [], validator_factory = Map.empty, compiled = {}\<rparr> [1] h m =
    (PV_OK, ex_engine, m)"
  by (simp add: pv_engine_add_file_def ref_library_def ex_file_def ref_build_def ref_types_def
      to_int_small bytes_of_inj)

lemma ex_find: "FindMessageTypeByName ex_lib [([1], [(bytes_of ''A'', 0), (bytes_of ''C'', 2)])] n =
    (if n = bytes_of ''A'' then Some 0 else if n = bytes_of ''C'' then Some 2 else None)"
  by (simp add: ref_library_def ref_types_def)

lemma ex_compile: "pv_engine_compile ex_lib 3 ex_engine (bytes_of ''A'') h m =
    Some (PV_OK, ex_engine\<lparr>validator_factory := [0 \<mapsto> OkStatus, 1 \<mapsto> OkStatus], compiled := {0}\<rparr>, m)"
  by (simp add: pv_engine_compile_def FindMessageType_def ex_find EnsureCompiled_def ex_walk)

lemma ex_steps: "(engine_step ex_lib)\<^sup>*\<^sup>*
    (\<lparr>pool = [], validator_factory = Map.empty, compiled = {}\<rparr>, m)
    (ex_engine\<lparr>validator_factory := [0 \<mapsto> OkStatus, 1 \<mapsto> OkStatus], compiled := {0}\<rparr>, m)"
  using engine_step.add_file [OF ex_add] engine_step.compile [OF ex_compile]
  by (rule converse_rtranclp_into_rtranclp [OF _ r_into_rtranclp])

lemma ex_library: "engine_library ex_lib (\<lambda>F d. F d)"
  by (rule ref.engine_library_axioms)

theorem engine_invariant_witness:
  "0 \<in> reachable_types ex_lib 0 \<and> (\<exists>s. ([0 \<mapsto> OkStatus, 1 \<mapsto> OkStatus] :: nat \<rightharpoonup> Status) 0 = Some s \<and> ok s)"
proof -
  have "0 \<in> reachable_types ex_lib 0" by (simp add: reachable_types_def)
  then show ?thesis using engine_invariant [OF ex_library ex_new ex_steps] by simp
qed

text \<open>C5: a type that failed to compile fails with the same message for ever, whatever calls
  come in between.\<close>

theorem compile_error_is_permanent:
  assumes "engine_library L known" "engine_inv L known e"
    and "EnsureCompiled L fuel e d h m = Some (PV_ERR_COMPILATION, e1, m1)"
    and "(engine_step L)\<^sup>*\<^sup>* (e1, m2) (e', m3)"
  shows "\<exists>msg. m1 = SetError h msg m \<and>
    (\<forall>h' m'. EnsureCompiled L fuel e' d h' m' = Some (PV_ERR_COMPILATION, e', SetError h' msg m'))"
  by (rule engine_library.compile_error_persists [OF assms])

lemma ex_failing: "EnsureCompiled ex_lib 3 ex_engine 2 h m =
    Some (PV_ERR_COMPILATION, ex_engine\<lparr>validator_factory := [2 \<mapsto> ex_bad]\<rparr>, SetError h (bytes_of ''bad rule'') m)"
  by (simp add: EnsureCompiled_def eval_nat_numeral walk_simps ex_defs ok_def)

lemma ex_inv: "engine_inv ex_lib (\<lambda>F d. F d) ex_engine"
  by (simp add: engine_inv_def)

theorem compile_error_is_permanent_witness:
  "\<exists>msg. \<forall>h' m'. EnsureCompiled ex_lib 3 (ex_engine\<lparr>validator_factory := [2 \<mapsto> ex_bad]\<rparr>) 2 h' m' =
     Some (PV_ERR_COMPILATION, ex_engine\<lparr>validator_factory := [2 \<mapsto> ex_bad]\<rparr>, SetError h' msg m')"
  using compile_error_is_permanent [OF ex_library ex_inv ex_failing rtranclp.rtrancl_refl] by blast

text \<open>C6: once a type has compiled, the later validations and compilations of it skip the walk
  and report success, with the engine and the memory unchanged by that check.\<close>

theorem compile_success_is_permanent:
  assumes "engine_library L known" "engine_inv L known e"
    and "EnsureCompiled L fuel e d h m = Some (PV_OK, e1, m1)"
    and "(engine_step L)\<^sup>*\<^sup>* (e1, m2) (e', m3)"
  shows "EnsureCompiled L fuel' e' d h' m' = Some (PV_OK, e', m')"
  by (rule engine_library.compile_ok_persists [OF assms])

lemma ex_passing: "EnsureCompiled ex_lib 3 ex_engine 0 h m =
    Some (PV_OK, ex_engine\<lparr>validator_factory := [0 \<mapsto> OkStatus, 1 \<mapsto> OkStatus], compiled := {0}\<rparr>, m)"
  by (simp add: EnsureCompiled_def ex_walk)

theorem compile_success_is_permanent_witness:
  "EnsureCompiled ex_lib 0
     (ex_engine\<lparr>validator_factory := [0 \<mapsto> OkStatus, 1 \<mapsto> OkStatus], compiled := {0}\<rparr>) 0 True (mem_empty (\<lambda>_. True)) =
   Some (PV_OK, ex_engine\<lparr>validator_factory := [0 \<mapsto> OkStatus, 1 \<mapsto> OkStatus], compiled := {0}\<rparr>,
     mem_empty (\<lambda>_. True))"
  by (rule compile_success_is_permanent [OF ex_library ex_inv ex_passing rtranclp.rtrancl_refl])

section \<open>Validating\<close>


text \<open>C11: whatever allocation fails, a validation that starts with nothing owed leaves at most one
  new block, the error string or the result and never both, hands out a result exactly when
  it returns PV_OK, and never frees or overwrites memory it must not.\<close>

theorem validate_memory_safe:
  assumes "pv_engine_validate L fuel e name payload ff h m = Some (code, e', m')"
    and "mem_ok m" "m_error m = None" "m_out m = None" "writes_within L"
  shows "mem_ok m' \<and> live m' = live m \<union> owed m' \<and> owed m' \<inter> live m = {} \<and>
    (code = PV_OK \<longleftrightarrow> m_out m' \<noteq> None) \<and> (m_error m' = None \<or> m_out m' = None)"
  using validate_clean [OF assms] by (simp add: clean_exit_def)

lemma ex_unknown_type: "pv_engine_validate ex_lib 3 ex_engine (bytes_of ''B'') [] 0 True (mem_empty (\<lambda>_. False)) =
    Some (PV_ERR_ARGUMENT, ex_engine,
      SetError True (bytes_of ''unknown message type: B'') (mem_empty (\<lambda>_. False)))"
  by (simp add: pv_engine_validate_def FindMessageType_def ex_find bytes_of_inj flip: bytes_of_append)

theorem validate_memory_safe_witness:
  "mem_ok (SetError True (bytes_of ''unknown message type: B'') (mem_empty (\<lambda>_. False)))"
  using validate_memory_safe [OF ex_unknown_type mem_ok_empty _ _ ref_writes_within]
  by (simp add: mem_empty_def)

text \<open>C12: adding a file that was accepted, or is already known, changes nothing more: the second
  call succeeds and leaves the engine as it is; a rejected file leaves the engine unchanged.\<close>

theorem add_file_idempotent:
  assumes "engine_library L known"
  shows "case pv_engine_add_file L e b h m of (code, e', m') \<Rightarrow>
    if code = PV_OK then pv_engine_add_file L e' b h' m'' = (PV_OK, e', m'')
    else code = PV_ERR_ARGUMENT \<and> e' = e"
proof -
  obtain code e' m' where call: "pv_engine_add_file L e b h m = (code, e', m')"
    by (cases "pv_engine_add_file L e b h m") auto
  then show ?thesis
    using add_file_code [OF call] engine_library.add_file_again [OF assms, of e b h m e' m' h' m'']
    by auto
qed

theorem add_file_idempotent_witness:
  "pv_engine_add_file ex_lib ex_engine [1] True (mem_empty (\<lambda>_. True)) =
     (PV_OK, ex_engine, mem_empty (\<lambda>_. True))"
  using add_file_idempotent [OF ex_library, where b = "[1]" and h' = True and m'' = "mem_empty (\<lambda>_. True)" and
      e = "\<lparr>pool = [], validator_factory = Map.empty, compiled = {}\<rparr>"]
  by (simp add: ex_add)

text \<open>C13: a payload of 2^32 + k bytes, k below 2^31, is validated as if it were its first k bytes:
  the cast of the length to int drops the rest.\<close>

theorem long_payload_truncated:
  assumes "parses_prefix L" "length payload = 2 ^ 32 + k" "k < 2 ^ 31"
  shows "pv_engine_validate L fuel e name payload ff h m =
    pv_engine_validate L fuel e name (take k payload) ff h m"
  by (rule validate_truncates [OF assms])

theorem long_payload_truncated_witness:
  "pv_engine_validate ex_lib 3 ex_engine (bytes_of ''A'') (replicate (2 ^ 32 + 2) 7) 0 True (mem_empty (\<lambda>_. False)) =
   pv_engine_validate ex_lib 3 ex_engine (bytes_of ''A'') (take 2 (replicate (2 ^ 32 + 2) 7)) 0 True (mem_empty (\<lambda>_. False))"
  by (rule long_payload_truncated [OF ref_parses_prefix]) simp_all

section \<open>The Rust binding\<close>

text \<open>C14: the binding's validation never reads memory it must not; once its result is dropped the
  allocated blocks are those from before the call, and it is Ok exactly when the shim says so.\<close>

theorem rust_validate_no_leak:
  assumes "pv_engine_validate L fuel e n b (of_bool ff) True (null_outs m) = Some (code, e', m1)"
    and "mem_ok m" and "writes_within L"
  shows "\<exists>r m'. rust_validate lossy L fuel e n b ff m = Some (r, e', m') \<and>
    mem_ok (result_drop r m') \<and> live (result_drop r m') = live m \<and> (code = PV_OK \<longleftrightarrow> \<not> isl r)"
  by (rule rust_validate_owned [OF assms])

lemma ex_null_outs: "null_outs (mem_empty fails) = mem_empty fails"
  by (simp add: null_outs_def mem_empty_def)

theorem rust_validate_no_leak_witness:
  "\<exists>r m'. rust_validate string_of ex_lib 3 ex_engine (bytes_of ''B'') [] False (mem_empty (\<lambda>_. False)) =
      Some (r, ex_engine, m') \<and> live (result_drop r m') = live (mem_empty (\<lambda>_. False))"
proof -
  have call: "pv_engine_validate ex_lib 3 ex_engine (bytes_of ''B'') [] (of_bool False) True
      (null_outs (mem_empty (\<lambda>_. False))) = Some (PV_ERR_ARGUMENT, ex_engine,
      SetError True (bytes_of ''unknown message type: B'') (mem_empty (\<lambda>_. False)))"
    using ex_unknown_type by (simp add: ex_null_outs)
  from rust_validate_no_leak [OF call mem_ok_empty ref_writes_within, of string_of] show ?thesis by blast
qed



text \<open>C16: the text of an error the binding returns is the shim's message up to its first NUL byte
  when the allocation of the string succeeds, and the placeholder otherwise; the string is freed.\<close>

theorem error_text_cut_at_nul:
  assumes "mem_ok m" "m_error m = None"
  shows "\<exists>m'. take_error lossy (m_error (SetError True msg m)) (SetError True msg m) =
      Some (if m_fails m (m_next m) then ''unknown error'' else lossy (takeWhile (\<lambda>c. c \<noteq> 0) msg), m') \<and>
    mem_ok m' \<and> live m' = live m"
proof (cases "m_fails m (m_next m)")
  case True
  with assms show ?thesis
    by (auto simp: SetError_simps(2) take_error_def mem_ok_def live_def less_Suc_eq)
next
  case False
  with take_error_SetError [OF assms, of lossy msg] show ?thesis by auto
qed

theorem error_text_cut_at_nul_witness:
  "\<exists>m'. take_error string_of (m_error (SetError True [110, 0, 111] (mem_empty (\<lambda>_. False))))
      (SetError True [110, 0, 111] (mem_empty (\<lambda>_. False))) = Some (''n'', m')"
proof -
  have "string_of [110] = ''n''" by code_simp
  then show ?thesis
    using error_text_cut_at_nul [OF mem_ok_empty, of "\<lambda>_. False" string_of "[110, 0, 111]"]
    by (auto simp: mem_empty_def)
qed

text \<open>C17: end to end, when the evaluation returns violations that fit: the binding returns None if
  there are none, and otherwise a buffer whose bytes parse to the same violations.\<close>

theorem rust_validate_roundtrip:
  assumes "violation_writer L nxt"
    and "validate_outcome L fuel e n b (of_bool ff) = Some (Result vs)"
    and "mem_ok m" "\<not> m_fails m (m_next m)"
    and "vs_wf (wire_functions L) vs" "vs_plain (wire_functions L) vs"
    and "fst (Violations_ByteSizeLong (wire_functions L) vs) < 2 ^ 31"
  shows "\<exists>e' m' r. rust_validate lossy L fuel e n b ff m = Some (Inr r, e', m') \<and>
    (case r of
       None \<Rightarrow> vs_violations vs = []
     | Some buf \<Rightarrow> vs_violations vs \<noteq> [] \<and>
         (\<exists>bs vs'. as_slice buf m' = Some bs \<and>
            Violations_parse nxt (wire_functions L) bs (Violations_new (wire_functions L)) = Some vs' \<and>
            vs_abs vs' = vs_abs vs))"
proof -
  let ?W = "wire_functions L"
  have reader: "wire_reader ?W nxt" using assms(1) by (rule violation_writer.axioms)
  then have fmt: "wire_format ?W" by (rule wire_reader.axioms)
  have zero: "fst (Violations_ByteSizeLong ?W vs) = 0 \<longleftrightarrow> vs_violations vs = []"
    using assms(6) by (intro wire_format.vs_size_zero [OF fmt assms(5)]) (simp add: vs_plain_def)
  obtain vs' where reread: "Violations_parse nxt ?W (Violations_InternalSerialize ?W (snd (Violations_ByteSizeLong ?W vs)))
      (Violations_new ?W) = Some vs'" "vs_abs vs' = vs_abs vs"
    using wire_reader.vs_parse_merge [OF reader assms(6) vs_wf_ops(1) assms(7)]
    by (auto simp: vs_abs_new wire_format.viols_merge_empty [OF fmt])
  from violation_writer.rust_validate_result [OF assms(1-4,7), of lossy]
  obtain e' m' r where "rust_validate lossy L fuel e n b ff m = Some (Inr r, e', m')"
    and res: "case r of
       None \<Rightarrow> fst (Violations_ByteSizeLong ?W vs) = 0
     | Some buf \<Rightarrow> fst (Violations_ByteSizeLong ?W vs) \<noteq> 0 \<and>
         as_slice buf m' = Some (Violations_InternalSerialize ?W (snd (Violations_ByteSizeLong ?W vs)))"
    by blast
  then show ?thesis
    using zero reread by (intro exI [of _ e'] exI [of _ m'] exI [of _ r]) (simp split: option.splits)
qed

lemma ex_result: "validate_outcome ex_lib 3 ex_engine (bytes_of ''A'') [1] (of_bool False) =
    Some (Result (Violations_add_violations base128 (\<lambda>_. ex_violation) (Violations_new base128)))"
  by (simp add: validate_outcome_def ex_find compile_status_def ex_walk to_int_small)
    (simp add: ref_library_def ex_msg_def ex_run_def)

lemma ex_writer: "violation_writer ex_lib base128_next"
  by (rule ref_writer.violation_writer_axioms)

lemma ex_result_ok:
  "vs_wf base128 (Violations_add_violations base128 (\<lambda>_. ex_violation) (Violations_new base128))"
  "vs_plain base128 (Violations_add_violations base128 (\<lambda>_. ex_violation) (Violations_new base128))"
  "fst (Violations_ByteSizeLong base128
     (Violations_add_violations base128 (\<lambda>_. ex_violation) (Violations_new base128))) < 2 ^ 31"
proof -
  have "v_wf base128 ex_violation"
    unfolding ex_violation_def by (intro v_wf_scalar_accessors v_wf_new)
  then show "vs_wf base128 (Violations_add_violations base128 (\<lambda>_. ex_violation) (Violations_new base128))"
    by (simp add: vs_wf_ops)
  show "vs_plain base128 (Violations_add_violations base128 (\<lambda>_. ex_violation) (Violations_new base128))"
    by (simp add: vs_plain_def v_plain_def ex_violation_def Violations_add_violations_def
        Violations_new_def Violation_new_def Violation_set_message_def hasbit_simps)
  show "fst (Violations_ByteSizeLong base128
     (Violations_add_violations base128 (\<lambda>_. ex_violation) (Violations_new base128))) < 2 ^ 31"
    by (simp add: vs_ByteSizeLong_fst v_ByteSizeLong_fst repeated_total_def ex_violation_def
        Violations_add_violations_def Violations_new_def Violation_new_def Violation_set_message_def
        base128.unknown_tail_size hasbit_simps) (simp add: base128_def varint.simps)
qed

theorem rust_validate_roundtrip_witness:
  "\<exists>e' m' buf bs vs'. rust_validate string_of ex_lib 3 ex_engine (bytes_of ''A'') [1] False
       (mem_empty (\<lambda>_. False)) = Some (Inr (Some buf), e', m') \<and> as_slice buf m' = Some bs \<and>
     Violations_parse base128_next base128 bs (Violations_new base128) = Some vs' \<and>
     vs_abs vs' = vs_abs (Violations_add_violations base128 (\<lambda>_. ex_violation) (Violations_new base128))"
proof -
  have "\<not> m_fails (mem_empty (\<lambda>_. False)) (m_next (mem_empty (\<lambda>_. False)))" by (simp add: mem_empty_def)
  from rust_validate_roundtrip [OF ex_writer ex_result mem_ok_empty this, of string_of] ex_result_ok
  show ?thesis
    by (auto simp: Violations_add_violations_def Violations_new_def split: option.splits)
qed

section \<open>Threads\<close>

text \<open>C7: \<open>EnsureCompiled\<close> is what a thread does when it runs alone: from the check to the end of its
  task it goes through the states of the concurrent model, ends with the same engine, and
  reports success exactly when the task ends with a good status.\<close>

theorem ensure_compiled_is_a_thread:
  assumes "EnsureCompiled L fuel e d h m = Some (code, e', m')"
  shows "\<exists>st. (alone L)\<^sup>*\<^sup>* (e, Checking d) (e', Done d st) \<and> (code = PV_OK \<longleftrightarrow> ok st) \<and>
    (if ok st then True else code = PV_ERR_COMPILATION \<and> m' = SetError h (st_message st) m)"
  using EnsureCompiled_alone [OF assms] by auto

theorem ensure_compiled_is_a_thread_witness:
  "\<exists>st. (alone ex_lib)\<^sup>*\<^sup>* (ex_engine, Checking 2) (ex_engine\<lparr>validator_factory := [2 \<mapsto> ex_bad]\<rparr>, Done 2 st) \<and> \<not> ok st"
proof -
  have "PV_ERR_COMPILATION \<noteq> PV_OK" by (simp add: pv_codes)
  then show ?thesis using ensure_compiled_is_a_thread [OF ex_failing [of True "mem_empty (\<lambda>_. False)"]] by blast
qed

text \<open>C8: However any number of threads interleave in \<open>EnsureCompiled\<close>, a type is recorded as compiled
  only when every type it reaches has a good status, and a thread that has finished was right:
  it reports success exactly when they all have. So two threads on one type agree.\<close>

theorem compiling_race_free:
  assumes "rule_factory L known" "compiled e0 = {}"
    and "(interleaving L)\<^sup>*\<^sup>* (e0, \<lambda>i. Checking (d i)) (e, ts)"
  shows "(\<forall>x \<in> compiled e. \<forall>y \<in> reachable_types L x. \<exists>s. known (validator_factory e) y = Some s \<and> ok s) \<and>
    (\<forall>i st. ts i = Done (d i) st \<longrightarrow>
      (ok st \<longleftrightarrow> (\<forall>y \<in> reachable_types L (d i). \<exists>s. known (validator_factory e) y = Some s \<and> ok s)))"
proof -
  note good = rule_factory.good_def [OF assms(1)] and all_ok = rule_factory.all_ok_def [OF assms(1)]
  have "rule_factory.all_ok L known (e0, \<lambda>i. Checking (d i))"
    using assms(2) by (simp add: all_ok rule_factory.task_ok.simps [OF assms(1)])
  then have ok: "rule_factory.all_ok L known (e, ts)"
    by (rule rule_factory.interleavings_ok [OF assms(1,3)])
  then show ?thesis
    using rule_factory.done_status [OF assms(1) ok] by (auto simp: all_ok good)
qed

lemma ex_thread: "(interleaving ex_lib)\<^sup>*\<^sup>* (ex_engine, \<lambda>i. Checking (2 - i))
    (ex_engine\<lparr>validator_factory := [2 \<mapsto> ex_bad]\<rparr>,
     (\<lambda>i. Checking (2 - i))(1 := Walking 1 [1] {}, 0 := Done 2 ex_bad))"
proof -
  let ?ts = "\<lambda>i :: nat. Checking (2 - i :: nat)"
  have 1: "interleaving ex_lib (ex_engine, ?ts) (ex_engine, ?ts(0 := Walking 2 [2] {}))"
    by (rule interleaving.step) simp
  have 2: "interleaving ex_lib (ex_engine, ?ts(0 := Walking 2 [2] {}))
      (ex_engine, ?ts(0 := Walking 2 [2] {}, 1 := Walking 1 [1] {}))"
    by (rule interleaving.step) simp
  have 3: "interleaving ex_lib (ex_engine, ?ts(0 := Walking 2 [2] {}, 1 := Walking 1 [1] {}))
      (ex_engine\<lparr>validator_factory := [2 \<mapsto> ex_bad]\<rparr>,
       (?ts(0 := Walking 2 [2] {}, 1 := Walking 1 [1] {}))(0 := Done 2 ex_bad))"
    by (rule interleaving.step) (simp add: eval_nat_numeral ex_defs ok_def)
  from 1 2 3 show ?thesis by (auto simp: fun_upd_twist intro: converse_rtranclp_into_rtranclp)
qed

theorem compiling_race_free_witness:
  "\<exists>y \<in> reachable_types ex_lib 2. \<nexists>s. ([2 \<mapsto> ex_bad] :: nat \<rightharpoonup> Status) y = Some s \<and> ok s"
proof -
  have "compiled ex_engine = {}" by simp
  from compiling_race_free [OF ex_rule_factory this ex_thread] have
    "\<forall>i st. ((\<lambda>i. Checking (2 - i))(1 := Walking 1 [1] {}, 0 := Done 2 ex_bad)) i = Done (2 - i) st \<longrightarrow>
      (ok st \<longleftrightarrow> (\<forall>y \<in> reachable_types ex_lib (2 - i). \<exists>s. ([2 \<mapsto> ex_bad] :: nat \<rightharpoonup> Status) y = Some s \<and> ok s))"
    by (simp add: ref_library_def)
  then have "ok ex_bad \<longleftrightarrow>
      (\<forall>y \<in> reachable_types ex_lib 2. \<exists>s. ([2 \<mapsto> ex_bad] :: nat \<rightharpoonup> Status) y = Some s \<and> ok s)"
    by (elim allE [of _ 0] allE [of _ ex_bad]) simp
  then show ?thesis by (simp add: ex_bad_def ok_def)
qed



end
