(* ===== verification/Message_Properties.thy ===== *)
theory Message_Properties
  imports Engine_Properties
begin

text \<open>
  What the generated message classes of a violation report promise (validate.pb.cc,
  validate.pb.h), for any wire encoding that satisfies the laws of the library
  (\<open>wire_format\<close>, \<open>wire_reader\<close>), with witnesses at the base-128 encoding.
\<close>

section \<open>The parse tables\<close>


section \<open>The state of a message\<close>

text \<open>C19: every object reachable from a new Violation by any sequence of its operations keeps the
  has-bits and the members in agreement: a member whose bit is clear shows its default, and a
  path whose bit is set exists.\<close>

theorem violation_state_invariant:
  assumes "(violation_step W)\<^sup>*\<^sup>* (Violation_new W) m"
  shows "v_wf W m"
  using assms by (rule violation_reachable_wf)

theorem violation_state_invariant_witness:
  "v_wf base128 (Violation_Clear base128 (Violation_new base128))"
  by (rule violation_state_invariant [OF r_into_rtranclp [of "violation_step base128", OF violation_step.clear]])

text \<open>C20: merging a message into another shows the merge of what the two show: set scalars of the
  source win, paths and violations are appended, and an absent member changes nothing; a copy
  and CopyFrom show exactly the source.\<close>

theorem merge_and_copy_refine:
  assumes "wire_format W" and "v_wf W this" "v_wf W from" and "vs_wf W these" "vs_wf W others"
  shows "v_abs (Violation_MergeImpl W this from) = viol_merge W (v_abs this) (v_abs from) \<and>
    v_abs (Violation_CopyFrom W False this from) = v_abs from \<and>
    v_abs (Violation_copy W from) = v_abs from \<and>
    vs_abs (Violations_MergeImpl W these others) = viols_merge W (vs_abs these) (vs_abs others) \<and>
    vs_abs (Violations_CopyFrom W False these others) = vs_abs others \<and>
    vs_abs (Violations_copy W others) = vs_abs others"
  using wire_format.v_abs_Merge [OF assms(1-3)] wire_format.v_abs_CopyFrom [OF assms(1-3)]
    wire_format.v_abs_copy [OF assms(1)] wire_format.vs_abs_Merge [OF assms(1,4)]
    wire_format.vs_abs_CopyFrom [OF assms(1,4)] wire_format.vs_abs_copy [OF assms(1)]
  by simp

theorem merge_and_copy_refine_witness:
  "v_abs (Violation_CopyFrom base128 False (Violation_new base128) ex_violation) = v_abs ex_violation"
proof -
  have "v_wf base128 ex_violation"
    unfolding ex_violation_def by (intro v_wf_scalar_accessors v_wf_new)
  from merge_and_copy_refine [OF base128.wire_format_axioms v_wf_new this vs_wf_ops(1) vs_wf_ops(1)]
  show ?thesis by blast
qed

text \<open>C21: a field path element is a oneof with optional scalars: merging and copying it act on what
  it shows field by field, and the subscript of the source replaces that of the target.\<close>

theorem element_merge_refines:
  "fpe_abs (FieldPathElement_MergeImpl W this from) = elem_merge W (fpe_abs this) (fpe_abs from) \<and>
   fpe_abs (FieldPathElement_Clear W this) = elem_empty W"
  by (simp add: fpe_abs_Merge fpe_abs_Clear)

section \<open>Sizes and round trips\<close>

text \<open>C22: below 2 GiB, serializing violations after computing their size writes exactly that many
  bytes, so the buffer the shim allocates is filled exactly.\<close>

theorem violations_size_exact:
  assumes "wire_format W" and "fst (Violations_ByteSizeLong W m) < 2 ^ 31"
  shows "length (Violations_InternalSerialize W (snd (Violations_ByteSizeLong W m))) =
    fst (Violations_ByteSizeLong W m)"
  by (rule wire_format.vs_size [OF assms])

theorem violations_size_exact_witness:
  "length (Violations_InternalSerialize base128 (snd (Violations_ByteSizeLong base128
      (Violations_add_violations base128 (\<lambda>_. ex_violation) (Violations_new base128))))) =
    fst (Violations_ByteSizeLong base128
      (Violations_add_violations base128 (\<lambda>_. ex_violation) (Violations_new base128)))"
  by (rule violations_size_exact [OF base128.wire_format_axioms ex_result_ok(3)])

text \<open>C23: reading back what was serialized, into any well-formed message, adds exactly the
  violations that were written.\<close>

theorem violations_roundtrip:
  assumes "wire_reader W nxt"
    and "vs_plain W m" "vs_wf W m0" "fst (Violations_ByteSizeLong W m) < 2 ^ 31"
  shows "\<exists>m'. Violations_parse nxt W
      (Violations_InternalSerialize W (snd (Violations_ByteSizeLong W m))) m0 = Some m' \<and>
    vs_abs m' = viols_merge W (vs_abs m0) (vs_abs m)"
  by (rule wire_reader.vs_parse_merge [OF assms])

theorem violations_roundtrip_witness:
  "\<exists>m'. Violations_parse base128_next base128
      (Violations_InternalSerialize base128 (snd (Violations_ByteSizeLong base128
        (Violations_add_violations base128 (\<lambda>_. ex_violation) (Violations_new base128)))))
      (Violations_new base128) = Some m' \<and> length (vl_violations (vs_abs m')) = 1"
proof -
  have shown: "vl_violations (vs_abs (Violations_add_violations base128 (\<lambda>_. ex_violation) (Violations_new base128))) =
      [v_abs ex_violation]"
    by (simp add: vs_abs_def Violations_add_violations_def Violations_new_def hasbit_simps)
  from violations_roundtrip [OF base128.wire_reader_axioms ex_result_ok(2) vs_wf_ops(1) ex_result_ok(3)]
  show ?thesis by (auto simp: viols_merge_def vs_abs_new viols_empty_def shown)
qed

text \<open>C24: violations without unknown fields serialize to nothing exactly when there is none, so the
  zero length the binding tests for means a valid message.\<close>

theorem empty_iff_valid:
  assumes "wire_format W" and "vs_wf W m" "vs_unknown m = NoUnknownFields W"
  shows "fst (Violations_ByteSizeLong W m) = 0 \<longleftrightarrow> vs_violations m = []"
  by (rule wire_format.vs_size_zero [OF assms])

theorem empty_iff_valid_witness:
  "fst (Violations_ByteSizeLong base128 (Violations_new base128)) = 0"
  using empty_iff_valid [OF base128.wire_format_axioms vs_wf_ops(1)]
  by (simp add: Violations_new_def)

end
