(* ===== verification/Cel_Grammar.thy ===== *)
theory Cel_Grammar
  imports Base
begin

text \<open>
  The CEL parser's vocabulary (parser/internal/CelParser.h, CelParser.cpp): token types, the
  rules, the context classes of the parse tree, and the tests on the lookahead token the
  generated rule functions make.

  A parse tree is the tree of \<open>ParserRuleContext\<close>s: a node has the dynamic class of its
  context, its children in order and the exception the rule ended with, if any. A child
  carries the name of the context's member the code makes point at it (\<open>e\<close>, \<open>op\<close>, or a
  vector such as \<open>ops\<close> it is pushed to), the empty string if there is none. Token types
  are 64-bit words as in the code (\<open>size_t\<close>, with \<open>EOF\<close> the largest), so the bit-set tests
  are the code's shifts.
\<close>

section \<open>Tokens\<close>

record token =
  tok_type :: u64
  tok_text :: string

definition EQUALS :: u64 where "EQUALS = 1"
definition NOT_EQUALS :: u64 where "NOT_EQUALS = 2"
definition IN :: u64 where "IN = 3"
definition LESS :: u64 where "LESS = 4"
definition LESS_EQUALS :: u64 where "LESS_EQUALS = 5"
definition GREATER_EQUALS :: u64 where "GREATER_EQUALS = 6"
definition GREATER :: u64 where "GREATER = 7"
definition LOGICAL_AND :: u64 where "LOGICAL_AND = 8"
definition LOGICAL_OR :: u64 where "LOGICAL_OR = 9"
definition LBRACKET :: u64 where "LBRACKET = 10"
definition RPRACKET :: u64 where "RPRACKET = 11"
definition LBRACE :: u64 where "LBRACE = 12"
definition RBRACE :: u64 where "RBRACE = 13"
definition LPAREN :: u64 where "LPAREN = 14"
definition RPAREN :: u64 where "RPAREN = 15"
definition DOT :: u64 where "DOT = 16"
definition COMMA :: u64 where "COMMA = 17"
definition MINUS :: u64 where "MINUS = 18"
definition EXCLAM :: u64 where "EXCLAM = 19"
definition QUESTIONMARK :: u64 where "QUESTIONMARK = 20"
definition COLON :: u64 where "COLON = 21"
definition PLUS :: u64 where "PLUS = 22"
definition STAR :: u64 where "STAR = 23"
definition SLASH :: u64 where "SLASH = 24"
definition PERCENT :: u64 where "PERCENT = 25"
definition CEL_TRUE :: u64 where "CEL_TRUE = 26"
definition CEL_FALSE :: u64 where "CEL_FALSE = 27"
definition NUL :: u64 where "NUL = 28"
definition NUM_FLOAT :: u64 where "NUM_FLOAT = 31"
definition NUM_INT :: u64 where "NUM_INT = 32"
definition NUM_UINT :: u64 where "NUM_UINT = 33"
definition STRING :: u64 where "STRING = 34"
definition BYTES :: u64 where "BYTES = 35"
definition IDENTIFIER :: u64 where "IDENTIFIER = 36"
definition ESC_IDENTIFIER :: u64 where "ESC_IDENTIFIER = 37"
definition TOKEN_EOF :: u64 where "TOKEN_EOF = - 1"

lemmas token_types = EQUALS_def NOT_EQUALS_def IN_def LESS_def LESS_EQUALS_def GREATER_EQUALS_def
  GREATER_def LOGICAL_AND_def LOGICAL_OR_def LBRACKET_def RPRACKET_def LBRACE_def RBRACE_def
  LPAREN_def RPAREN_def DOT_def COMMA_def MINUS_def EXCLAM_def QUESTIONMARK_def COLON_def PLUS_def
  STAR_def SLASH_def PERCENT_def CEL_TRUE_def CEL_FALSE_def NUL_def NUM_FLOAT_def NUM_INT_def
  NUM_UINT_def STRING_def BYTES_def IDENTIFIER_def ESC_IDENTIFIER_def TOKEN_EOF_def

text \<open>
  The token stream is the list of the tokens left, the parser's channel only; past its end
  every token is \<open>EOF\<close>. \<open>_input->LT(1)\<close>, \<open>_input->LA(1)\<close>, and the stream after consuming.
\<close>

definition current :: "token list \<Rightarrow> token" where
  "current inp = (case inp of [] \<Rightarrow> \<lparr>tok_type = TOKEN_EOF, tok_text = ''<EOF>''\<rparr> | t # _ \<Rightarrow> t)"

definition advance :: "token list \<Rightarrow> token list" where
  "advance inp = (case inp of [] \<Rightarrow> [] | t # r \<Rightarrow> if tok_type t = TOKEN_EOF then inp else r)"

definition LA1 :: "token list \<Rightarrow> u64" where
  "LA1 inp = tok_type (current inp)"

text \<open>\<open>(_la & ~0x3fULL) == 0 && ((1ULL << _la) & set) != 0\<close>\<close>

definition in_bitset :: "u64 \<Rightarrow> u64 \<Rightarrow> bool" where
  "in_bitset la bits \<longleftrightarrow> la AND NOT 0x3f = 0 \<and> push_bit (unat la) 1 AND bits \<noteq> 0"

section \<open>Contexts and trees\<close>

datatype context_class =
    StartContext | ExprContext | ConditionalOrContext | ConditionalAndContext | RelationContext
  | CalcContext | UnaryContext | LogicalNotContext | MemberExprContext | NegateContext
  | MemberContext | MemberCallContext | SelectContext | PrimaryExprContext | IndexContext
  | PrimaryContext | CreateListContext | IdentContext | ConstantLiteralContext | NestedContext
  | CreateMessageContext | GlobalCallContext | CreateMapContext
  | ExprListContext | ListInitContext | FieldInitializerListContext | OptFieldContext
  | MapInitializerListContext | EscapeIdentContext | EscapedIdentifierContext | SimpleIdentifierContext | OptExprContext
  | LiteralContext | BytesContext | UintContext | NullContext | BoolFalseContext | StringContext
  | DoubleContext | BoolTrueContext | IntContext

datatype recognition_exception = InputMismatchException | NoViableAltException
  | FailedPredicateException nat

text \<open>
  An \<open>ErrorNode\<close> is a token the error strategy has skipped or made up; a \<open>Detached\<close> token
  is one it has made up for a member of the context without adding it to the tree.
\<close>

datatype ptree = Terminal token | ErrorNode token | Detached token
  | Context context_class "(string \<times> ptree) list" "recognition_exception option"

fun yield_of :: "ptree \<Rightarrow> token list" where
  "yield_of (Terminal t) = (if tok_type t = TOKEN_EOF then [] else [t])"
| "yield_of (ErrorNode t) = []"
| "yield_of (Detached t) = []"
| "yield_of (Context c ts e) = concat (map (\<lambda>(l, t). yield_of t) ts)"

abbreviation yields :: "(string \<times> ptree) list \<Rightarrow> token list" where
  "yields ts \<equiv> concat (map (\<lambda>(l, t). yield_of t) ts)"

text \<open>\<open>getRuleIndex\<close> of each class, and the labels of the alternatives of a rule.\<close>

datatype cel_rule = RuleStart | RuleExpr | RuleConditionalOr | RuleConditionalAnd | RuleRelation
  | RuleCalc | RuleUnary | RuleMember | RulePrimary | RuleExprList | RuleListInit
  | RuleFieldInitializerList | RuleOptField | RuleMapInitializerList | RuleEscapeIdent | RuleOptExpr
  | RuleLiteral

fun getRuleIndex :: "context_class \<Rightarrow> cel_rule" where
  "getRuleIndex StartContext = RuleStart"
| "getRuleIndex ExprContext = RuleExpr"
| "getRuleIndex ConditionalOrContext = RuleConditionalOr"
| "getRuleIndex ConditionalAndContext = RuleConditionalAnd"
| "getRuleIndex RelationContext = RuleRelation"
| "getRuleIndex CalcContext = RuleCalc"
| "getRuleIndex UnaryContext = RuleUnary"
| "getRuleIndex LogicalNotContext = RuleUnary"
| "getRuleIndex MemberExprContext = RuleUnary"
| "getRuleIndex NegateContext = RuleUnary"
| "getRuleIndex MemberContext = RuleMember"
| "getRuleIndex MemberCallContext = RuleMember"
| "getRuleIndex SelectContext = RuleMember"
| "getRuleIndex PrimaryExprContext = RuleMember"
| "getRuleIndex IndexContext = RuleMember"
| "getRuleIndex PrimaryContext = RulePrimary"
| "getRuleIndex CreateListContext = RulePrimary"
| "getRuleIndex IdentContext = RulePrimary"
| "getRuleIndex ConstantLiteralContext = RulePrimary"
| "getRuleIndex NestedContext = RulePrimary"
| "getRuleIndex CreateMessageContext = RulePrimary"
| "getRuleIndex GlobalCallContext = RulePrimary"
| "getRuleIndex CreateMapContext = RulePrimary"
| "getRuleIndex ExprListContext = RuleExprList"
| "getRuleIndex ListInitContext = RuleListInit"
| "getRuleIndex FieldInitializerListContext = RuleFieldInitializerList"
| "getRuleIndex OptFieldContext = RuleOptField"
| "getRuleIndex MapInitializerListContext = RuleMapInitializerList"
| "getRuleIndex EscapeIdentContext = RuleEscapeIdent"
| "getRuleIndex EscapedIdentifierContext = RuleEscapeIdent"
| "getRuleIndex SimpleIdentifierContext = RuleEscapeIdent"
| "getRuleIndex OptExprContext = RuleOptExpr"
| "getRuleIndex LiteralContext = RuleLiteral"
| "getRuleIndex BytesContext = RuleLiteral"
| "getRuleIndex UintContext = RuleLiteral"
| "getRuleIndex NullContext = RuleLiteral"
| "getRuleIndex BoolFalseContext = RuleLiteral"
| "getRuleIndex StringContext = RuleLiteral"
| "getRuleIndex DoubleContext = RuleLiteral"
| "getRuleIndex BoolTrueContext = RuleLiteral"
| "getRuleIndex IntContext = RuleLiteral"

section \<open>The bit sets\<close>

lemma and_not_63: "(la :: u64) AND NOT 0x3f = 0 \<longleftrightarrow> la < 64"
proof -
  have m: "(0x3f :: u64) = mask 6" by (simp add: mask_eq_exp_minus_1)
  have "la AND NOT 0x3f = 0 \<longleftrightarrow> take_bit 6 la = la"
    unfolding m bit_eq_iff
    by (auto simp: bit_and_iff bit_not_iff bit_mask_iff bit_take_bit_iff dest: bit_imp_le_length)
  also have "\<dots> \<longleftrightarrow> la < 64"
    by (simp add: word_unat_eq_iff unsigned_take_bit_eq take_bit_nat_eq_self_iff word_less_nat_alt)
  finally show ?thesis .
qed

lemma in_bitset_bit: "in_bitset la bits \<longleftrightarrow> la < 64 \<and> bit bits (unat la)"
proof -
  have "push_bit n (1::u64) AND bits \<noteq> 0 \<longleftrightarrow> bit bits n" if "n < 64" for n
    using that by (auto simp: and_neq_0_iff_bit push_bit_of_1 bit_exp_iff)
  then show ?thesis
    unfolding in_bitset_def and_not_63 word_less_nat_alt by auto
qed

end
