(* ===== verification/Cel_Parser.thy ===== *)
theory Cel_Parser
  imports Cel_Grammar
begin

text \<open>
  The generated recursive-descent parser (parser/internal/CelParser.cpp), one definition per
  rule function, a block of statements in the order of the code. The ANTLR runtime is not in
  the repository: the record \<open>runtime\<close> collects the functions of it that are called, and the
  laws they are known to obey are the locales of Cel_Soundness and Cel_Termination.

  The state of the parser (\<open>pstate\<close>) is what is left of the token stream, the number of
  errors it has run into, how often the error strategy has recovered, the state number (\<open>setState\<close>), the invoking states of the contexts
  from \<open>_ctx\<close> up, and the precedence stack. A statement changes it and the context under
  construction (\<open>_localctx\<close>, \<open>lctx\<close>). It may throw a \<open>RecognitionException\<close> (\<open>Threw\<close>), which
  the rule function catches: it stores the exception in the context, has the error strategy
  report and recover, and returns the context built so far. \<open>Cancelled\<close> is the error
  strategy giving up (\<open>ParseCancellationException\<close>), which no rule function catches.

  Rule functions call each other through \<open>self\<close>, and \<open>run\<close> ties the knot. Its fuel bounds
  the depth of the calls and the iterations of each loop; running out of it is \<open>NoFuel\<close>,
  \<open>Starved\<close> for a call, and Cel_Termination gives a fuel that is enough.
\<close>

section \<open>The runtime\<close>

record pstate =
  ps_input :: "token list"
  ps_errors :: nat
  ps_recoveries :: nat
  ps_state :: u64
  ps_ctx :: "u64 list"
  ps_precs :: "nat list"

text \<open>A reply carries the input that is left, the number of errors and that of recoveries.\<close>

datatype 'a reply = Returns 'a "token list" nat nat | Throws recognition_exception "token list" nat nat
  | Cancels

text \<open>
  \<open>adaptivePredict\<close> throws \<open>NoViableAltException\<close> where it is \<open>None\<close>. \<open>sync\<close> answers the tokens
  it has skipped, as error nodes; \<open>match_token\<close> (\<open>Parser::match\<close>) and \<open>recoverInline\<close> those
  and the node of the token they return. \<open>consume\<close> is \<open>reportMatch\<close> and \<open>consume\<close>,
  \<open>reportAndRecover\<close> is \<open>reportError\<close> and \<open>recover\<close>.
\<close>

record runtime =
  adaptivePredict :: "nat \<Rightarrow> pstate \<Rightarrow> nat option"
  sync :: "pstate \<Rightarrow> ptree list reply"
  match_token :: "u64 \<Rightarrow> pstate \<Rightarrow> (ptree list \<times> ptree) reply"
  recoverInline :: "pstate \<Rightarrow> (ptree list \<times> ptree) reply"
  consume :: "pstate \<Rightarrow> ptree \<times> token list"
  reportAndRecover :: "recognition_exception \<Rightarrow> pstate \<Rightarrow> (ptree list \<times> token list \<times> nat \<times> nat) option"
  precpred :: "pstate \<Rightarrow> nat \<Rightarrow> bool"
  enterRule :: "u64 \<Rightarrow> cel_rule \<Rightarrow> pstate \<Rightarrow> pstate"
  exitRule :: "pstate \<Rightarrow> pstate"
  enterRecursionRule :: "u64 \<Rightarrow> cel_rule \<Rightarrow> nat \<Rightarrow> pstate \<Rightarrow> pstate"
  unrollRecursionContexts :: "u64 list \<Rightarrow> pstate \<Rightarrow> pstate"
  copyFrom :: "(string \<times> ptree) list \<Rightarrow> (string \<times> ptree) list"

datatype call = call_start | call_expr | call_conditionalOr | call_conditionalAnd
  | call_relation nat | call_calc nat | call_unary | call_member nat | call_primary
  | call_exprList | call_listInit | call_fieldInitializerList | call_optField
  | call_mapInitializerList | call_escapeIdent | call_optExpr | call_literal

section \<open>Statements\<close>

record lctx =
  lc_class :: context_class
  lc_children :: "(string \<times> ptree) list"

datatype outcome = Go lctx pstate | Threw recognition_exception lctx pstate | Cancelled | NoFuel

type_synonym action = "lctx \<Rightarrow> pstate \<Rightarrow> outcome"

datatype result = Built ptree pstate | Aborted | Starved

type_synonym calls = "call \<Rightarrow> pstate \<Rightarrow> result"

definition skip :: action where
  "skip l ps = Go l ps"

definition seq :: "action \<Rightarrow> action \<Rightarrow> action" where
  "seq a b l ps = (case a l ps of Go l' ps' \<Rightarrow> b l' ps' | r \<Rightarrow> r)"

definition block :: "action list \<Rightarrow> action" where
  "block as = foldr seq as skip"

definition set_state :: "u64 \<Rightarrow> action" where
  "set_state n l ps = Go l (ps\<lparr>ps_state := n\<rparr>)"

definition throw :: "recognition_exception \<Rightarrow> action" where
  "throw e l ps = Threw e l ps"

definition add :: "(string \<times> ptree) list \<Rightarrow> lctx \<Rightarrow> lctx" where
  "add ts l = l\<lparr>lc_children := lc_children l @ ts\<rparr>"

definition unlabelled :: "ptree list \<Rightarrow> (string \<times> ptree) list" where
  "unlabelled ns = map (\<lambda>n. ([], n)) ns"

definition install :: "token list \<Rightarrow> nat \<Rightarrow> nat \<Rightarrow> pstate \<Rightarrow> pstate" where
  "install inp errs recs ps = ps\<lparr>ps_input := inp, ps_errors := errs, ps_recoveries := recs\<rparr>"

definition synchronize :: "runtime \<Rightarrow> action" where
  "synchronize R l ps =
     (case sync R ps of
        Returns ns inp errs recs \<Rightarrow> Go (add (unlabelled ns) l) (install inp errs recs ps)
      | Throws e inp errs recs \<Rightarrow> Threw e l (install inp errs recs ps)
      | Cancels \<Rightarrow> Cancelled)"

text \<open>The member \<open>label\<close> of the context is assigned the token.\<close>

definition take_token :: "string \<Rightarrow> (ptree list \<times> ptree) reply \<Rightarrow> action" where
  "take_token label r l ps =
     (case r of
        Returns (ns, t) inp errs recs \<Rightarrow> Go (add (unlabelled ns @ [(label, t)]) l) (install inp errs recs ps)
      | Throws e inp errs recs \<Rightarrow> Threw e l (install inp errs recs ps)
      | Cancels \<Rightarrow> Cancelled)"

definition match :: "runtime \<Rightarrow> string \<Rightarrow> u64 \<Rightarrow> action" where
  "match R label ttype l ps = take_token label (match_token R ttype ps) l ps"

definition match_set :: "runtime \<Rightarrow> string \<Rightarrow> (u64 \<Rightarrow> bool) \<Rightarrow> action" where
  "match_set R label test l ps =
     (if \<not> test (LA1 (ps_input ps)) then take_token label (recoverInline R ps) l ps
      else (case consume R ps of (t, inp) \<Rightarrow> Go (add [(label, t)] l) (ps\<lparr>ps_input := inp\<rparr>)))"

definition invoke :: "calls \<Rightarrow> string \<Rightarrow> call \<Rightarrow> action" where
  "invoke self label c l ps =
     (case self c ps of
        Built t ps' \<Rightarrow> Go (add [(label, t)] l) ps'
      | Aborted \<Rightarrow> Cancelled
      | Starved \<Rightarrow> NoFuel)"

definition require_prec :: "runtime \<Rightarrow> nat \<Rightarrow> action" where
  "require_prec R n l ps =
     (if precpred R ps n then Go l ps else Threw (FailedPredicateException n) l ps)"

definition if_LA :: "(u64 \<Rightarrow> bool) \<Rightarrow> action \<Rightarrow> action \<Rightarrow> action" where
  "if_LA test a b l ps = (if test (LA1 (ps_input ps)) then a l ps else b l ps)"

definition switch :: "runtime \<Rightarrow> nat \<Rightarrow> (nat \<Rightarrow> action) \<Rightarrow> action" where
  "switch R decision cases l ps =
     (case adaptivePredict R decision ps of
        None \<Rightarrow> Threw NoViableAltException l ps
      | Some alt \<Rightarrow> cases alt l ps)"

fun while_LA :: "nat \<Rightarrow> (u64 \<Rightarrow> bool) \<Rightarrow> action \<Rightarrow> action" where
  "while_LA 0 test body l ps = (if test (LA1 (ps_input ps)) then NoFuel else Go l ps)"
| "while_LA (Suc n) test body l ps =
     (if test (LA1 (ps_input ps)) then seq body (while_LA n test body) l ps else Go l ps)"

text \<open>\<open>alt = adaptivePredict; while (alt != 2 && alt != INVALID_ALT_NUMBER) { \<dots> alt = adaptivePredict; }\<close>\<close>

fun while_alt :: "runtime \<Rightarrow> nat \<Rightarrow> nat \<Rightarrow> (nat \<Rightarrow> action) \<Rightarrow> action" where
  "while_alt R 0 decision body l ps =
     switch R decision (\<lambda>alt. if alt \<noteq> 2 \<and> alt \<noteq> 0 then (\<lambda>_ _. NoFuel) else skip) l ps"
| "while_alt R (Suc n) decision body l ps =
     switch R decision (\<lambda>alt. if alt \<noteq> 2 \<and> alt \<noteq> 0 then seq (body alt) (while_alt R n decision body) else skip) l ps"

text \<open>
  \<open>_localctx = createInstance<C>(_localctx)\<close> of a labelled alternative (\<open>copyFrom\<close> takes over what
  the runtime lets it), and \<open>pushNewRecursionContext\<close>: the context so far becomes the first child of
  a new one.
\<close>

definition become :: "runtime \<Rightarrow> context_class \<Rightarrow> action" where
  "become R C l ps = Go \<lparr>lc_class = C, lc_children = copyFrom R (lc_children l)\<rparr> ps"

definition finish :: "recognition_exception option \<Rightarrow> lctx \<Rightarrow> ptree" where
  "finish e l = Context (lc_class l) (lc_children l) e"

definition push_recursion :: "context_class \<Rightarrow> action" where
  "push_recursion C l ps = Go \<lparr>lc_class = C, lc_children = [([], finish None l)]\<rparr> ps"

text \<open>
  The frame of a rule function: \<open>enterRule\<close> or \<open>enterRecursionRule\<close>, the body, the handler of
  \<open>RecognitionException\<close>, and \<open>exitRule\<close> or \<open>unrollRecursionContexts\<close>, which always run.
\<close>

definition handle :: "runtime \<Rightarrow> (pstate \<Rightarrow> pstate) \<Rightarrow> outcome \<Rightarrow> result" where
  "handle R onExit r =
     (case r of
        Go l ps \<Rightarrow> Built (finish None l) (onExit ps)
      | Threw e l ps \<Rightarrow>
          (case reportAndRecover R e ps of
             None \<Rightarrow> Aborted
           | Some (ns, inp, errs, recs) \<Rightarrow>
               Built (finish (Some e) (add (unlabelled ns) l)) (onExit (install inp errs recs ps)))
      | Cancelled \<Rightarrow> Aborted
      | NoFuel \<Rightarrow> Starved)"

definition rule_function :: "runtime \<Rightarrow> context_class \<Rightarrow> u64 \<Rightarrow> cel_rule \<Rightarrow> action \<Rightarrow> pstate \<Rightarrow> result" where
  "rule_function R C state r body ps =
     handle R (exitRule R) (body \<lparr>lc_class = C, lc_children = []\<rparr> (enterRule R state r ps))"

definition recursion_function ::
  "runtime \<Rightarrow> context_class \<Rightarrow> u64 \<Rightarrow> cel_rule \<Rightarrow> nat \<Rightarrow> action \<Rightarrow> pstate \<Rightarrow> result" where
  "recursion_function R C state r precedence body ps =
     handle R (unrollRecursionContexts R (ps_ctx ps))
       (body \<lparr>lc_class = C, lc_children = []\<rparr> (enterRecursionRule R state r precedence ps))"

section \<open>The rule functions\<close>

definition start :: "runtime \<Rightarrow> nat \<Rightarrow> calls \<Rightarrow> pstate \<Rightarrow> result" where
  "start R n self = rule_function R StartContext 0 RuleStart (block [
     set_state 34, invoke self ''e'' call_expr,
     set_state 35, match R [] TOKEN_EOF])"

definition expr :: "runtime \<Rightarrow> nat \<Rightarrow> calls \<Rightarrow> pstate \<Rightarrow> result" where
  "expr R n self = rule_function R ExprContext 2 RuleExpr (block [
     set_state 37, invoke self ''e'' call_conditionalOr,
     set_state 43, synchronize R,
     if_LA (\<lambda>la. la = QUESTIONMARK)
       (block [
          set_state 38, match R ''op'' QUESTIONMARK,
          set_state 39, invoke self ''e1'' call_conditionalOr,
          set_state 40, match R [] COLON,
          set_state 41, invoke self ''e2'' call_expr])
       skip])"

definition conditionalOr :: "runtime \<Rightarrow> nat \<Rightarrow> calls \<Rightarrow> pstate \<Rightarrow> result" where
  "conditionalOr R n self = rule_function R ConditionalOrContext 4 RuleConditionalOr (block [
     set_state 45, invoke self ''e'' call_conditionalAnd,
     set_state 50, synchronize R,
     while_LA n (\<lambda>la. la = LOGICAL_OR) (block [
       set_state 46, match R ''ops'' LOGICAL_OR,
       set_state 47, invoke self ''e1'' call_conditionalAnd,
       set_state 52, synchronize R])])"

definition conditionalAnd :: "runtime \<Rightarrow> nat \<Rightarrow> calls \<Rightarrow> pstate \<Rightarrow> result" where
  "conditionalAnd R n self = rule_function R ConditionalAndContext 6 RuleConditionalAnd (block [
     set_state 53, invoke self ''e'' (call_relation 0),
     set_state 58, synchronize R,
     while_LA n (\<lambda>la. la = LOGICAL_AND) (block [
       set_state 54, match R ''ops'' LOGICAL_AND,
       set_state 55, invoke self ''e1'' (call_relation 0),
       set_state 60, synchronize R])])"

definition relation :: "runtime \<Rightarrow> nat \<Rightarrow> calls \<Rightarrow> nat \<Rightarrow> pstate \<Rightarrow> result" where
  "relation R n self precedence = recursion_function R RelationContext 8 RuleRelation precedence (block [
     set_state 62, invoke self [] (call_calc 0),
     set_state 69, synchronize R,
     while_alt R n 3 (\<lambda>alt. block [
       if alt = 1 then block [
         push_recursion RelationContext,
         set_state 64, require_prec R 1,
         set_state 65, match_set R ''op'' (\<lambda>la. in_bitset la 254),
         set_state 66, invoke self [] (call_relation 2)]
       else skip,
       set_state 71, synchronize R])])"

definition calc :: "runtime \<Rightarrow> nat \<Rightarrow> calls \<Rightarrow> nat \<Rightarrow> pstate \<Rightarrow> result" where
  "calc R n self precedence = recursion_function R CalcContext 10 RuleCalc precedence (block [
     set_state 73, invoke self [] call_unary,
     set_state 83, synchronize R,
     while_alt R n 5 (\<lambda>alt. block [
       if alt = 1 then block [
         set_state 81, synchronize R,
         switch R 4 (\<lambda>alt.
           if alt = 1 then block [
             push_recursion CalcContext,
             set_state 75, require_prec R 2,
             set_state 76, match_set R ''op'' (\<lambda>la. in_bitset la 58720256),
             set_state 77, invoke self [] (call_calc 3)]
           else if alt = 2 then block [
             push_recursion CalcContext,
             set_state 78, require_prec R 1,
             set_state 79, match_set R ''op'' (\<lambda>la. la = MINUS \<or> la = PLUS),
             set_state 80, invoke self [] (call_calc 2)]
           else skip)]
       else skip,
       set_state 85, synchronize R])])"

definition unary :: "runtime \<Rightarrow> nat \<Rightarrow> calls \<Rightarrow> pstate \<Rightarrow> result" where
  "unary R n self = rule_function R UnaryContext 12 RuleUnary (block [
     set_state 99, synchronize R,
     switch R 8 (\<lambda>alt.
       if alt = 1 then block [
         become R MemberExprContext,
         set_state 86, invoke self [] (call_member 0)]
       else if alt = 2 then block [
         become R LogicalNotContext,
         set_state 88, synchronize R,
         set_state 87, match R ''ops'' EXCLAM,
         set_state 90, synchronize R,
         while_LA n (\<lambda>la. la = EXCLAM) (block [
           set_state 87, match R ''ops'' EXCLAM,
           set_state 90, synchronize R]),
         set_state 92, invoke self [] (call_member 0)]
       else if alt = 3 then block [
         become R NegateContext,
         set_state 94, synchronize R,
         set_state 93, match R ''ops'' MINUS,
         set_state 96, synchronize R,
         while_alt R n 7 (\<lambda>alt.
           if alt = 1 then block [
             set_state 93, match R ''ops'' MINUS,
             set_state 96, synchronize R]
           else throw NoViableAltException),
         set_state 98, invoke self [] (call_member 0)]
       else skip)])"

definition member :: "runtime \<Rightarrow> nat \<Rightarrow> calls \<Rightarrow> nat \<Rightarrow> pstate \<Rightarrow> result" where
  "member R n self precedence = recursion_function R MemberContext 14 RuleMember precedence (block [
     become R PrimaryExprContext,
     set_state 102, invoke self [] call_primary,
     set_state 128, synchronize R,
     while_alt R n 13 (\<lambda>alt. block [
       if alt = 1 then block [
         set_state 126, synchronize R,
         switch R 12 (\<lambda>alt.
           if alt = 1 then block [
             push_recursion SelectContext,
             set_state 104, require_prec R 3,
             set_state 105, match R ''op'' DOT,
             set_state 107, synchronize R,
             if_LA (\<lambda>la. la = QUESTIONMARK) (block [set_state 106, match R ''opt'' QUESTIONMARK]) skip,
             set_state 109, invoke self ''id'' call_escapeIdent]
           else if alt = 2 then block [
             push_recursion MemberCallContext,
             set_state 110, require_prec R 2,
             set_state 111, match R ''op'' DOT,
             set_state 112, match R ''id'' IDENTIFIER,
             set_state 113, match R ''open'' LPAREN,
             set_state 115, synchronize R,
             if_LA (\<lambda>la. in_bitset la 135762105344)
               (block [set_state 114, invoke self ''args'' call_exprList]) skip,
             set_state 117, match R [] RPAREN]
           else if alt = 3 then block [
             push_recursion IndexContext,
             set_state 118, require_prec R 1,
             set_state 119, match R ''op'' LBRACKET,
             set_state 121, synchronize R,
             if_LA (\<lambda>la. la = QUESTIONMARK) (block [set_state 120, match R ''opt'' QUESTIONMARK]) skip,
             set_state 123, invoke self ''index'' call_expr,
             set_state 124, match R [] RPRACKET]
           else skip)]
       else skip,
       set_state 130, synchronize R])])"

text \<open>The sixth alternative of \<open>primary\<close>.\<close>

definition primary_createMessage :: "runtime \<Rightarrow> nat \<Rightarrow> calls \<Rightarrow> action" where
  "primary_createMessage R n self = block [
     become R CreateMessageContext,
     set_state 165, synchronize R,
     if_LA (\<lambda>la. la = DOT) (block [set_state 164, match R ''leadingDot'' DOT]) skip,
     set_state 167, match R ''ids'' IDENTIFIER,
     set_state 172, synchronize R,
     while_LA n (\<lambda>la. la = DOT) (block [
       set_state 168, match R ''ops'' DOT,
       set_state 169, match R ''ids'' IDENTIFIER,
       set_state 174, synchronize R]),
     set_state 175, match R ''op'' LBRACE,
     set_state 177, synchronize R,
     if_LA (\<lambda>la. in_bitset la 206159478784)
       (block [set_state 176, invoke self ''entries'' call_fieldInitializerList]) skip,
     set_state 180, synchronize R,
     if_LA (\<lambda>la. la = COMMA) (block [set_state 179, match R [] COMMA]) skip,
     set_state 182, match R [] RBRACE]"

definition primary :: "runtime \<Rightarrow> nat \<Rightarrow> calls \<Rightarrow> pstate \<Rightarrow> result" where
  "primary R n self = rule_function R PrimaryContext 16 RulePrimary (block [
     set_state 184, synchronize R,
     switch R 25 (\<lambda>alt.
       if alt = 1 then block [
         become R IdentContext,
         set_state 132, synchronize R,
         if_LA (\<lambda>la. la = DOT) (block [set_state 131, match R ''leadingDot'' DOT]) skip,
         set_state 134, match R ''id'' IDENTIFIER]
       else if alt = 2 then block [
         become R GlobalCallContext,
         set_state 136, synchronize R,
         if_LA (\<lambda>la. la = DOT) (block [set_state 135, match R ''leadingDot'' DOT]) skip,
         set_state 138, match R ''id'' IDENTIFIER,
         set_state 139, match R ''op'' LPAREN,
         set_state 141, synchronize R,
         if_LA (\<lambda>la. in_bitset la 135762105344)
           (block [set_state 140, invoke self ''args'' call_exprList]) skip,
         set_state 143, match R [] RPAREN]
       else if alt = 3 then block [
         become R NestedContext,
         set_state 144, match R [] LPAREN,
         set_state 145, invoke self ''e'' call_expr,
         set_state 146, match R [] RPAREN]
       else if alt = 4 then block [
         become R CreateListContext,
         set_state 148, match R ''op'' LBRACKET,
         set_state 150, synchronize R,
         if_LA (\<lambda>la. in_bitset la 135763153920)
           (block [set_state 149, invoke self ''elems'' call_listInit]) skip,
         set_state 153, synchronize R,
         if_LA (\<lambda>la. la = COMMA) (block [set_state 152, match R [] COMMA]) skip,
         set_state 155, match R [] RPRACKET]
       else if alt = 5 then block [
         become R CreateMapContext,
         set_state 156, match R ''op'' LBRACE,
         set_state 158, synchronize R,
         if_LA (\<lambda>la. in_bitset la 135763153920)
           (block [set_state 157, invoke self ''entries'' call_mapInitializerList]) skip,
         set_state 161, synchronize R,
         if_LA (\<lambda>la. la = COMMA) (block [set_state 160, match R [] COMMA]) skip,
         set_state 163, match R [] RBRACE]
       else if alt = 6 then primary_createMessage R n self
       else if alt = 7 then block [
         become R ConstantLiteralContext,
         set_state 183, invoke self [] call_literal]
       else skip)])"

definition exprList :: "runtime \<Rightarrow> nat \<Rightarrow> calls \<Rightarrow> pstate \<Rightarrow> result" where
  "exprList R n self = rule_function R ExprListContext 18 RuleExprList (block [
     set_state 186, invoke self ''e'' call_expr,
     set_state 191, synchronize R,
     while_LA n (\<lambda>la. la = COMMA) (block [
       set_state 187, match R [] COMMA,
       set_state 188, invoke self ''e'' call_expr,
       set_state 193, synchronize R])])"

definition listInit :: "runtime \<Rightarrow> nat \<Rightarrow> calls \<Rightarrow> pstate \<Rightarrow> result" where
  "listInit R n self = rule_function R ListInitContext 20 RuleListInit (block [
     set_state 194, invoke self ''elems'' call_optExpr,
     set_state 199, synchronize R,
     while_alt R n 27 (\<lambda>alt. block [
       if alt = 1 then block [
         set_state 195, match R [] COMMA,
         set_state 196, invoke self ''elems'' call_optExpr]
       else skip,
       set_state 201, synchronize R])])"

definition fieldInitializerList :: "runtime \<Rightarrow> nat \<Rightarrow> calls \<Rightarrow> pstate \<Rightarrow> result" where
  "fieldInitializerList R n self = rule_function R FieldInitializerListContext 22 RuleFieldInitializerList (block [
     set_state 202, invoke self ''fields'' call_optField,
     set_state 203, match R ''cols'' COLON,
     set_state 204, invoke self ''values'' call_expr,
     set_state 212, synchronize R,
     while_alt R n 28 (\<lambda>alt. block [
       if alt = 1 then block [
         set_state 205, match R [] COMMA,
         set_state 206, invoke self ''fields'' call_optField,
         set_state 207, match R ''cols'' COLON,
         set_state 208, invoke self ''values'' call_expr]
       else skip,
       set_state 214, synchronize R])])"

definition optField :: "runtime \<Rightarrow> nat \<Rightarrow> calls \<Rightarrow> pstate \<Rightarrow> result" where
  "optField R n self = rule_function R OptFieldContext 24 RuleOptField (block [
     set_state 216, synchronize R,
     if_LA (\<lambda>la. la = QUESTIONMARK) (block [set_state 215, match R ''opt'' QUESTIONMARK]) skip,
     set_state 218, invoke self [] call_escapeIdent])"

definition mapInitializerList :: "runtime \<Rightarrow> nat \<Rightarrow> calls \<Rightarrow> pstate \<Rightarrow> result" where
  "mapInitializerList R n self = rule_function R MapInitializerListContext 26 RuleMapInitializerList (block [
     set_state 220, invoke self ''keys'' call_optExpr,
     set_state 221, match R ''cols'' COLON,
     set_state 222, invoke self ''values'' call_expr,
     set_state 230, synchronize R,
     while_alt R n 30 (\<lambda>alt. block [
       if alt = 1 then block [
         set_state 223, match R [] COMMA,
         set_state 224, invoke self ''keys'' call_optExpr,
         set_state 225, match R ''cols'' COLON,
         set_state 226, invoke self ''values'' call_expr]
       else skip,
       set_state 232, synchronize R])])"

definition escapeIdent :: "runtime \<Rightarrow> nat \<Rightarrow> calls \<Rightarrow> pstate \<Rightarrow> result" where
  "escapeIdent R n self = rule_function R EscapeIdentContext 28 RuleEscapeIdent (block [
     set_state 235, synchronize R,
     if_LA (\<lambda>la. la = IDENTIFIER)
       (block [
          become R SimpleIdentifierContext,
          set_state 233, match R ''id'' IDENTIFIER])
     (if_LA (\<lambda>la. la = ESC_IDENTIFIER)
       (block [
          become R EscapedIdentifierContext,
          set_state 234, match R ''id'' ESC_IDENTIFIER])
       (throw NoViableAltException))])"

definition optExpr :: "runtime \<Rightarrow> nat \<Rightarrow> calls \<Rightarrow> pstate \<Rightarrow> result" where
  "optExpr R n self = rule_function R OptExprContext 30 RuleOptExpr (block [
     set_state 238, synchronize R,
     if_LA (\<lambda>la. la = QUESTIONMARK) (block [set_state 237, match R ''opt'' QUESTIONMARK]) skip,
     set_state 240, invoke self ''e'' call_expr])"

definition literal :: "runtime \<Rightarrow> nat \<Rightarrow> calls \<Rightarrow> pstate \<Rightarrow> result" where
  "literal R n self = rule_function R LiteralContext 32 RuleLiteral (block [
     set_state 256, synchronize R,
     switch R 35 (\<lambda>alt.
       if alt = 1 then block [
         become R IntContext,
         set_state 243, synchronize R,
         if_LA (\<lambda>la. la = MINUS) (block [set_state 242, match R ''sign'' MINUS]) skip,
         set_state 245, match R ''tok'' NUM_INT]
       else if alt = 2 then block [
         become R UintContext,
         set_state 246, match R ''tok'' NUM_UINT]
       else if alt = 3 then block [
         become R DoubleContext,
         set_state 248, synchronize R,
         if_LA (\<lambda>la. la = MINUS) (block [set_state 247, match R ''sign'' MINUS]) skip,
         set_state 250, match R ''tok'' NUM_FLOAT]
       else if alt = 4 then block [
         become R StringContext,
         set_state 251, match R ''tok'' STRING]
       else if alt = 5 then block [
         become R BytesContext,
         set_state 252, match R ''tok'' BYTES]
       else if alt = 6 then block [
         become R BoolTrueContext,
         set_state 253, match R ''tok'' CEL_TRUE]
       else if alt = 7 then block [
         become R BoolFalseContext,
         set_state 254, match R ''tok'' CEL_FALSE]
       else if alt = 8 then block [
         become R NullContext,
         set_state 255, match R ''tok'' NUL]
       else skip)])"

section \<open>The parser\<close>

fun dispatch :: "runtime \<Rightarrow> nat \<Rightarrow> calls \<Rightarrow> calls" where
  "dispatch R n self call_start = start R n self"
| "dispatch R n self call_expr = expr R n self"
| "dispatch R n self call_conditionalOr = conditionalOr R n self"
| "dispatch R n self call_conditionalAnd = conditionalAnd R n self"
| "dispatch R n self (call_relation p) = relation R n self p"
| "dispatch R n self (call_calc p) = calc R n self p"
| "dispatch R n self call_unary = unary R n self"
| "dispatch R n self (call_member p) = member R n self p"
| "dispatch R n self call_primary = primary R n self"
| "dispatch R n self call_exprList = exprList R n self"
| "dispatch R n self call_listInit = listInit R n self"
| "dispatch R n self call_fieldInitializerList = fieldInitializerList R n self"
| "dispatch R n self call_optField = optField R n self"
| "dispatch R n self call_mapInitializerList = mapInitializerList R n self"
| "dispatch R n self call_escapeIdent = escapeIdent R n self"
| "dispatch R n self call_optExpr = optExpr R n self"
| "dispatch R n self call_literal = literal R n self"

fun run :: "runtime \<Rightarrow> nat \<Rightarrow> calls" where
  "run R 0 c ps = Starved"
| "run R (Suc fuel) c ps = dispatch R fuel (run R fuel) c ps"

text \<open>A new parser on a token stream: \<open>INVALID_STATE_NUMBER\<close>, no context, precedence 0.\<close>

definition new_parser :: "token list \<Rightarrow> pstate" where
  "new_parser inp = \<lparr>ps_input = inp, ps_errors = 0, ps_recoveries = 0,
     ps_state = - 1, ps_ctx = [], ps_precs = [0]\<rparr>"

definition parse :: "runtime \<Rightarrow> nat \<Rightarrow> token list \<Rightarrow> result" where
  "parse R fuel inp = run R fuel call_start (new_parser inp)"

text \<open>The predicates the runtime evaluates while predicting.\<close>

definition relationSempred :: "runtime \<Rightarrow> pstate \<Rightarrow> nat \<Rightarrow> bool" where
  "relationSempred R ps predicateIndex =
     (if predicateIndex = 0 then precpred R ps 1 else True)"

definition calcSempred :: "runtime \<Rightarrow> pstate \<Rightarrow> nat \<Rightarrow> bool" where
  "calcSempred R ps predicateIndex =
     (if predicateIndex = 1 then precpred R ps 2
      else if predicateIndex = 2 then precpred R ps 1
      else True)"

definition memberSempred :: "runtime \<Rightarrow> pstate \<Rightarrow> nat \<Rightarrow> bool" where
  "memberSempred R ps predicateIndex =
     (if predicateIndex = 3 then precpred R ps 3
      else if predicateIndex = 4 then precpred R ps 2
      else if predicateIndex = 5 then precpred R ps 1
      else True)"

definition sempred :: "runtime \<Rightarrow> pstate \<Rightarrow> nat \<Rightarrow> nat \<Rightarrow> bool" where
  "sempred R ps ruleIndex predicateIndex =
     (if ruleIndex = 4 then relationSempred R ps predicateIndex
      else if ruleIndex = 5 then calcSempred R ps predicateIndex
      else if ruleIndex = 7 then memberSempred R ps predicateIndex
      else True)"

section \<open>Blocks\<close>

lemmas rule_defs = primary_createMessage_def start_def expr_def conditionalOr_def conditionalAnd_def relation_def calc_def
  unary_def member_def primary_def exprList_def listInit_def fieldInitializerList_def optField_def
  mapInitializerList_def escapeIdent_def optExpr_def literal_def

text \<open>Blocks as right-nested sequences, with branches moved to the front.\<close>

lemma seq_assoc: "seq (seq a b) c = seq a (seq b c)"
  by (intro ext) (simp add: seq_def split: outcome.split)

lemma seq_skip: "seq skip a = a" "seq a skip = a"
  by (intro ext; simp add: seq_def skip_def split: outcome.split)+

lemma block_simps: "block [] = skip" "block (a # as) = seq a (block as)"
  by (simp_all add: block_def)

lemma seq_if: "seq (if c then a else b) d = (if c then seq a d else seq b d)"
  by simp

lemma seq_if_LA: "seq (if_LA test a b) c = if_LA test (seq a c) (seq b c)"
  by (intro ext) (simp add: seq_def if_LA_def)

lemma seq_switch: "seq (switch R d f) c = switch R d (\<lambda>alt. seq (f alt) c)"
  by (intro ext) (simp add: seq_def switch_def split: option.split)

lemma seq_throw: "seq (throw e) a = throw e"
  by (intro ext) (simp add: seq_def throw_def)

lemmas block_norm = block_simps seq_assoc seq_skip seq_if seq_if_LA seq_switch seq_throw

end
