(* ===== verification/Cel_Productions.thy ===== *)
theory Cel_Productions
  imports Cel_Parser
begin

text \<open>
  The grammar the generated parser (CelParser.cpp) is for, as a specification of its trees:
  the right-hand side of each alternative with the members of the context its children are
  assigned to, and the precedence of the binary operators. \<open>conforms\<close> says that a tree has
  no error in it, that the children of every node are a word of its production, and that the
  right operand of every binary operator binds tighter than the operator. Membership is
  decided with derivatives, so \<open>conforms\<close> is executable.
\<close>

section \<open>Right-hand sides\<close>

datatype sym = T u64 | N cel_rule | Err

fun sym_of :: "ptree \<Rightarrow> sym" where
  "sym_of (Terminal t) = T (tok_type t)"
| "sym_of (Context c ts e) = N (getRuleIndex c)"
| "sym_of (ErrorNode t) = Err"
| "sym_of (Detached t) = Err"

definition child_sym :: "string \<times> ptree \<Rightarrow> string \<times> sym" where
  "child_sym x = (fst x, sym_of (snd x))"

datatype rx = Empty | Eps | Tok string "u64 list" | Rule string cel_rule | Seq rx rx | Alt rx rx | Star rx

abbreviation Opt :: "rx \<Rightarrow> rx" where
  "Opt r \<equiv> Alt Eps r"

fun nullable :: "rx \<Rightarrow> bool" where
  "nullable Empty = False"
| "nullable Eps = True"
| "nullable (Tok l ts) = False"
| "nullable (Rule l r) = False"
| "nullable (Seq a b) = (nullable a \<and> nullable b)"
| "nullable (Alt a b) = (nullable a \<or> nullable b)"
| "nullable (Star a) = True"

fun deriv :: "string \<times> sym \<Rightarrow> rx \<Rightarrow> rx" where
  "deriv s Empty = Empty"
| "deriv s Eps = Empty"
| "deriv s (Tok l ts) =
     (case snd s of T t \<Rightarrow> if fst s = l \<and> t \<in> set ts then Eps else Empty | _ \<Rightarrow> Empty)"
| "deriv s (Rule l r) = (if s = (l, N r) then Eps else Empty)"
| "deriv s (Seq a b) =
     (if nullable a then Alt (Seq (deriv s a) b) (deriv s b) else Seq (deriv s a) b)"
| "deriv s (Alt a b) = Alt (deriv s a) (deriv s b)"
| "deriv s (Star a) = Seq (deriv s a) (Star a)"

fun matches :: "rx \<Rightarrow> (string \<times> sym) list \<Rightarrow> bool" where
  "matches r [] = nullable r"
| "matches r (s # w) = matches (deriv s r) w"

lemma matches_Empty [simp]: "\<not> matches Empty w"
  by (induction w) auto

lemma matches_Eps [simp]: "matches Eps w \<longleftrightarrow> w = []"
  by (cases w) auto

lemma matches_Alt [simp]: "matches (Alt a b) w \<longleftrightarrow> matches a w \<or> matches b w"
  by (induction w arbitrary: a b) auto

lemma matches_Seq: "matches (Seq a b) w \<longleftrightarrow> (\<exists>u v. w = u @ v \<and> matches a u \<and> matches b v)"
proof (induction w arbitrary: a b)
  case (Cons s w)
  have split: "(\<exists>u v. s # w = u @ v \<and> P u v) \<longleftrightarrow> P [] (s # w) \<or> (\<exists>u v. w = u @ v \<and> P (s # u) v)" for P
    unfolding Cons_eq_append_conv by (rule iffI; elim exE disjE conjE) (simp | blast)+
  have "matches (Seq a b) (s # w) \<longleftrightarrow>
      matches (Seq (deriv s a) b) w \<or> (nullable a \<and> matches b (s # w))"
    by simp
  also have "\<dots> \<longleftrightarrow> (\<exists>u v. s # w = u @ v \<and> matches a u \<and> matches b v)"
    unfolding Cons.IH split [of "\<lambda>u v. matches a u \<and> matches b v"] by auto
  finally show ?case .
qed simp

lemma matches_Seq_append: "matches a u \<Longrightarrow> matches b v \<Longrightarrow> matches (Seq a b) (u @ v)"
  unfolding matches_Seq by blast

lemma matches_Star_snoc: "matches (Star a) u \<Longrightarrow> matches a v \<Longrightarrow> matches (Star a) (u @ v)"
proof (induction u rule: length_induct)
  case (1 u)
  show ?case
  proof (cases u)
    case Nil
    show ?thesis
    proof (cases v)
      case (Cons s w)
      then show ?thesis
        using 1(3) matches_Seq_append [of "deriv s a" w "Star a" "[]"] Nil by simp
    qed (simp add: Nil)
  next
    case (Cons s w)
    then have "matches (Seq (deriv s a) (Star a)) w" using 1(2) by simp
    then obtain x y where w: "w = x @ y" "matches (deriv s a) x" "matches (Star a) y"
      unfolding matches_Seq by blast
    then have "matches (Star a) (y @ v)" using 1(1,3) Cons by simp
    then show ?thesis using matches_Seq_append [OF w(2)] w(1) Cons by simp
  qed
qed

section \<open>The grammar\<close>

definition relation_ops :: "u64 list" where
  "relation_ops = [EQUALS, NOT_EQUALS, IN, LESS, LESS_EQUALS, GREATER_EQUALS, GREATER]"

definition factor_ops :: "u64 list" where
  "factor_ops = [STAR, SLASH, PERCENT]"

definition term_ops :: "u64 list" where
  "term_ops = [MINUS, PLUS]"

text \<open>
  The classes of a rule with labelled alternatives (\<open>UnaryContext\<close>, \<open>MemberContext\<close>,
  \<open>PrimaryContext\<close>, \<open>EscapeIdentContext\<close>, \<open>LiteralContext\<close>) are bases of others and label no
  alternative.
\<close>

fun production :: "context_class \<Rightarrow> rx" where
  "production StartContext = Seq (Rule ''e'' RuleExpr) (Tok [] [TOKEN_EOF])"
| "production ExprContext = Seq (Rule ''e'' RuleConditionalOr)
     (Opt (Seq (Tok ''op'' [QUESTIONMARK]) (Seq (Rule ''e1'' RuleConditionalOr)
       (Seq (Tok [] [COLON]) (Rule ''e2'' RuleExpr)))))"
| "production ConditionalOrContext = Seq (Rule ''e'' RuleConditionalAnd)
     (Star (Seq (Tok ''ops'' [LOGICAL_OR]) (Rule ''e1'' RuleConditionalAnd)))"
| "production ConditionalAndContext = Seq (Rule ''e'' RuleRelation)
     (Star (Seq (Tok ''ops'' [LOGICAL_AND]) (Rule ''e1'' RuleRelation)))"
| "production RelationContext = Alt (Rule [] RuleCalc)
     (Seq (Rule [] RuleRelation) (Seq (Tok ''op'' relation_ops) (Rule [] RuleRelation)))"
| "production CalcContext = Alt (Rule [] RuleUnary)
     (Seq (Rule [] RuleCalc) (Seq (Tok ''op'' (factor_ops @ term_ops)) (Rule [] RuleCalc)))"
| "production UnaryContext = Empty"
| "production LogicalNotContext =
     Seq (Seq (Tok ''ops'' [EXCLAM]) (Star (Tok ''ops'' [EXCLAM]))) (Rule [] RuleMember)"
| "production MemberExprContext = Rule [] RuleMember"
| "production NegateContext =
     Seq (Seq (Tok ''ops'' [MINUS]) (Star (Tok ''ops'' [MINUS]))) (Rule [] RuleMember)"
| "production MemberContext = Empty"
| "production MemberCallContext = Seq (Rule [] RuleMember) (Seq (Tok ''op'' [DOT])
     (Seq (Tok ''id'' [IDENTIFIER]) (Seq (Tok ''open'' [LPAREN])
       (Seq (Opt (Rule ''args'' RuleExprList)) (Tok [] [RPAREN])))))"
| "production SelectContext = Seq (Rule [] RuleMember) (Seq (Tok ''op'' [DOT])
     (Seq (Opt (Tok ''opt'' [QUESTIONMARK])) (Rule ''id'' RuleEscapeIdent)))"
| "production PrimaryExprContext = Rule [] RulePrimary"
| "production IndexContext = Seq (Rule [] RuleMember) (Seq (Tok ''op'' [LBRACKET])
     (Seq (Opt (Tok ''opt'' [QUESTIONMARK])) (Seq (Rule ''index'' RuleExpr) (Tok [] [RPRACKET]))))"
| "production PrimaryContext = Empty"
| "production CreateListContext = Seq (Tok ''op'' [LBRACKET]) (Seq (Opt (Rule ''elems'' RuleListInit))
     (Seq (Opt (Tok [] [COMMA])) (Tok [] [RPRACKET])))"
| "production IdentContext = Seq (Opt (Tok ''leadingDot'' [DOT])) (Tok ''id'' [IDENTIFIER])"
| "production ConstantLiteralContext = Rule [] RuleLiteral"
| "production NestedContext = Seq (Tok [] [LPAREN]) (Seq (Rule ''e'' RuleExpr) (Tok [] [RPAREN]))"
| "production CreateMessageContext =
     Seq (Seq (Seq (Opt (Tok ''leadingDot'' [DOT])) (Tok ''ids'' [IDENTIFIER]))
         (Star (Seq (Tok ''ops'' [DOT]) (Tok ''ids'' [IDENTIFIER]))))
       (Seq (Tok ''op'' [LBRACE]) (Seq (Opt (Rule ''entries'' RuleFieldInitializerList))
         (Seq (Opt (Tok [] [COMMA])) (Tok [] [RBRACE]))))"
| "production GlobalCallContext = Seq (Opt (Tok ''leadingDot'' [DOT])) (Seq (Tok ''id'' [IDENTIFIER])
     (Seq (Tok ''op'' [LPAREN]) (Seq (Opt (Rule ''args'' RuleExprList)) (Tok [] [RPAREN]))))"
| "production CreateMapContext = Seq (Tok ''op'' [LBRACE])
     (Seq (Opt (Rule ''entries'' RuleMapInitializerList)) (Seq (Opt (Tok [] [COMMA])) (Tok [] [RBRACE])))"
| "production ExprListContext = Seq (Rule ''e'' RuleExpr) (Star (Seq (Tok [] [COMMA]) (Rule ''e'' RuleExpr)))"
| "production ListInitContext =
     Seq (Rule ''elems'' RuleOptExpr) (Star (Seq (Tok [] [COMMA]) (Rule ''elems'' RuleOptExpr)))"
| "production FieldInitializerListContext =
     Seq (Seq (Rule ''fields'' RuleOptField) (Seq (Tok ''cols'' [COLON]) (Rule ''values'' RuleExpr)))
       (Star (Seq (Tok [] [COMMA])
         (Seq (Rule ''fields'' RuleOptField) (Seq (Tok ''cols'' [COLON]) (Rule ''values'' RuleExpr)))))"
| "production OptFieldContext = Seq (Opt (Tok ''opt'' [QUESTIONMARK])) (Rule [] RuleEscapeIdent)"
| "production MapInitializerListContext =
     Seq (Seq (Rule ''keys'' RuleOptExpr) (Seq (Tok ''cols'' [COLON]) (Rule ''values'' RuleExpr)))
       (Star (Seq (Tok [] [COMMA])
         (Seq (Rule ''keys'' RuleOptExpr) (Seq (Tok ''cols'' [COLON]) (Rule ''values'' RuleExpr)))))"
| "production EscapeIdentContext = Empty"
| "production EscapedIdentifierContext = Tok ''id'' [ESC_IDENTIFIER]"
| "production SimpleIdentifierContext = Tok ''id'' [IDENTIFIER]"
| "production OptExprContext = Seq (Opt (Tok ''opt'' [QUESTIONMARK])) (Rule ''e'' RuleExpr)"
| "production LiteralContext = Empty"
| "production BytesContext = Tok ''tok'' [BYTES]"
| "production UintContext = Tok ''tok'' [NUM_UINT]"
| "production NullContext = Tok ''tok'' [NUL]"
| "production BoolFalseContext = Tok ''tok'' [CEL_FALSE]"
| "production StringContext = Tok ''tok'' [STRING]"
| "production DoubleContext = Seq (Opt (Tok ''sign'' [MINUS])) (Tok ''tok'' [NUM_FLOAT])"
| "production BoolTrueContext = Tok ''tok'' [CEL_TRUE]"
| "production IntContext = Seq (Opt (Tok ''sign'' [MINUS])) (Tok ''tok'' [NUM_INT])"

text \<open>
  Precedence: \<open>root_prec\<close> is the precedence the operator at the root of a tree has in its
  rule (the argument of its \<open>precpred\<close>), \<open>tighter n t\<close> that the root of \<open>t\<close> binds tighter
  than \<open>n\<close>.
\<close>

fun root_prec :: "ptree \<Rightarrow> nat option" where
  "root_prec (Context RelationContext [l, op, r] e) = Some 1"
| "root_prec (Context CalcContext [l, (_, Terminal op), r] e) =
     Some (if tok_type op \<in> set factor_ops then 2 else 1)"
| "root_prec t = None"

definition tighter :: "nat \<Rightarrow> ptree \<Rightarrow> bool" where
  "tighter n t = (case root_prec t of None \<Rightarrow> True | Some k \<Rightarrow> n < k)"

fun assoc_ok :: "context_class \<Rightarrow> (string \<times> ptree) list \<Rightarrow> bool" where
  "assoc_ok c [l, op, r] =
     (case root_prec (Context c [l, op, r] None) of None \<Rightarrow> True | Some n \<Rightarrow> tighter n (snd r))"
| "assoc_ok c ts = True"

fun conforms :: "ptree \<Rightarrow> bool" where
  "conforms (Terminal t) = True"
| "conforms (ErrorNode t) = False"
| "conforms (Detached t) = False"
| "conforms (Context c ts e) =
     (e = None \<and> matches (production c) (map child_sym ts) \<and> assoc_ok c ts \<and>
      list_all (\<lambda>(l, t). conforms t) ts)"

end
