(* ===== verification/Cel_Soundness.thy ===== *)
theory Cel_Soundness
  imports Cel_Productions
begin

text \<open>
  What the generated parser accepts (CelParser.cpp): with a runtime that keeps its documented
  behaviour (\<open>antlr_runtime\<close>), a parse that ends without an error has consumed exactly the
  leaves of its tree, and the tree conforms to the grammar. The proof runs the statements of
  each rule function (\<open>runs\<close>) from the context they start with to the one they finish.
\<close>

section \<open>What the runtime promises\<close>

text \<open>
  The alternatives of each decision of the grammar, and the documented behaviour of the
  runtime: a prediction is an alternative of its decision; a precedence predicate compares
  with the precedence on top of the stack; \<open>match\<close> consumes the token it is asked for;
  \<open>consume\<close> consumes the current token; \<open>sync\<close> changes nothing unless it reports an error; and
  everything else the error strategy does counts as an error. Entering a rule makes a context
  that remembers the state it is invoked from, leaving it takes that context off again; a
  left-recursive rule puts its precedence on the stack and takes it off. The context of a
  labelled alternative takes nothing over from an empty one.
\<close>

fun alternatives :: "nat \<Rightarrow> nat" where
  "alternatives d =
     (if d = 25 then 7 else if d = 35 then 8 else if d = 8 \<or> d = 12 then 3 else 2)"

declare alternatives.simps [simp del]

locale antlr_runtime =
  fixes R :: runtime
  assumes predict_range: "adaptivePredict R d ps = Some alt \<Longrightarrow> 1 \<le> alt \<and> alt \<le> alternatives d"
    and precpred_top: "ps_precs ps = p # q \<Longrightarrow> precpred R ps n \<longleftrightarrow> p \<le> n"
    and match_hit: "LA1 (ps_input ps) = ttype \<Longrightarrow> match_token R ttype ps =
      Returns ([], Terminal (current (ps_input ps))) (advance (ps_input ps)) (ps_errors ps) (ps_recoveries ps)"
    and match_miss: "LA1 (ps_input ps) \<noteq> ttype \<Longrightarrow> match_token R ttype ps = Returns x inp errs recs \<Longrightarrow> 0 < errs"
    and inline_error: "recoverInline R ps = Returns x inp errs recs \<Longrightarrow> 0 < errs"
    and consume_current: "consume R ps = (Terminal (current (ps_input ps)), advance (ps_input ps))"
    and sync_quiet: "sync R ps = Returns ns inp errs recs \<Longrightarrow>
      (ns = [] \<and> inp = ps_input ps \<and> errs = ps_errors ps \<and> recs = ps_recoveries ps) \<or> 0 < errs"
    and recover_error: "reportAndRecover R e ps = Some (ns, inp, errs, recs) \<Longrightarrow> 0 < errs"
    and enter_keeps: "enterRule R s r ps =
      ps\<lparr>ps_state := ps_state (enterRule R s r ps), ps_ctx := ps_state ps # ps_ctx ps\<rparr>"
    and exit_keeps: "exitRule R ps = ps\<lparr>ps_state := hd (ps_ctx ps), ps_ctx := tl (ps_ctx ps)\<rparr>"
    and enter_recursion_keeps: "enterRecursionRule R s r k ps =
      ps\<lparr>ps_state := ps_state (enterRecursionRule R s r k ps), ps_ctx := ps_state ps # ps_ctx ps,
        ps_precs := k # ps_precs ps\<rparr>"
    and unroll_keeps: "unrollRecursionContexts R ctx ps = ps\<lparr>ps_ctx := ctx, ps_precs := tl (ps_precs ps)\<rparr>"
    and copy_nothing: "copyFrom R [] = []"

section \<open>Errors are never forgotten\<close>

definition sticky :: "action \<Rightarrow> bool" where
  "sticky a \<longleftrightarrow> (\<forall>l ps l' ps'. a l ps = Go l' ps' \<longrightarrow> ps_errors ps' = 0 \<longrightarrow> ps_errors ps = 0)"

definition sticky_calls :: "calls \<Rightarrow> bool" where
  "sticky_calls self \<longleftrightarrow> (\<forall>c ps t ps'. self c ps = Built t ps' \<longrightarrow> ps_errors ps' = 0 \<longrightarrow> ps_errors ps = 0)"

lemma sticky_skip [simp]: "sticky skip"
  by (simp add: sticky_def skip_def)

lemma sticky_seq [simp]: "sticky a \<Longrightarrow> sticky b \<Longrightarrow> sticky (seq a b)"
  unfolding sticky_def seq_def by (fastforce split: outcome.splits)

lemma sticky_set_state [simp]: "sticky (set_state n)"
  by (auto simp: sticky_def set_state_def)

lemma sticky_throw [simp]: "sticky (throw e)" "sticky (\<lambda>_ _. NoFuel)"
  by (simp_all add: sticky_def throw_def)

lemma sticky_contexts [simp]: "sticky (become R C)" "sticky (push_recursion C)"
  by (simp_all add: sticky_def become_def push_recursion_def)

lemma sticky_require_prec [simp]: "sticky (require_prec R n)"
  by (auto simp: sticky_def require_prec_def split: if_splits)

lemma sticky_if_LA [simp]: "sticky a \<Longrightarrow> sticky b \<Longrightarrow> sticky (if_LA test a b)"
  by (simp add: sticky_def if_LA_def)

lemma sticky_if [simp]: "sticky a \<Longrightarrow> sticky b \<Longrightarrow> sticky (if c then a else b)"
  by simp

lemma sticky_switch [simp]: "(\<And>alt. sticky (f alt)) \<Longrightarrow> sticky (switch R d f)"
  by (simp add: sticky_def switch_def split: option.split)

lemma sticky_while_LA [simp]: "sticky body \<Longrightarrow> sticky (while_LA n test body)"
proof (induction n)
  case (Suc n)
  then have "sticky (seq body (while_LA n test body))" by simp
  then show ?case by (simp add: sticky_def)
qed (simp add: sticky_def)

lemma sticky_while_alt [simp]: "(\<And>alt. sticky (body alt)) \<Longrightarrow> sticky (while_alt R n d body)"
proof (induction n)
  case 0
  have "while_alt R 0 d body = switch R d (\<lambda>alt. if alt \<noteq> 2 \<and> alt \<noteq> 0 then (\<lambda>_ _. NoFuel) else skip)"
    by (intro ext) simp
  then show ?case by simp
next
  case (Suc n)
  have "while_alt R (Suc n) d body =
      switch R d (\<lambda>alt. if alt \<noteq> 2 \<and> alt \<noteq> 0 then seq (body alt) (while_alt R n d body) else skip)"
    by (intro ext) simp
  with Suc show ?case by simp
qed

lemma sticky_invoke [simp]: "sticky_calls self \<Longrightarrow> sticky (invoke self label c)"
  unfolding sticky_def sticky_calls_def invoke_def by (auto split: result.splits)

lemma sticky_handle:
  assumes "sticky body" "body l0 ps0 = r" "\<And>ps. ps_errors (f ps) = ps_errors ps"
    and "handle R f r = Built t ps'" "ps_errors ps' = 0"
    and "\<And>e ps ns inp errs recs. reportAndRecover R e ps = Some (ns, inp, errs, recs) \<Longrightarrow> 0 < errs"
  shows "ps_errors ps0 = 0"
proof -
  have "reportAndRecover R e ps \<noteq> Some (ns, inp, 0, recs)" for e ps ns inp recs
    using assms(6) [of e ps ns inp 0 recs] by blast
  with assms(1-5) show ?thesis
    by (auto simp: handle_def sticky_def install_def split: outcome.splits option.splits)
qed

context antlr_runtime
begin

lemma sticky_synchronize [simp]: "sticky (synchronize R)"
  unfolding sticky_def synchronize_def install_def by (auto split: reply.splits dest: sync_quiet)

lemma sticky_match [simp]: "sticky (match R label ttype)"
proof -
  have "ps_errors ps = 0 \<or> 0 < errs" if "match_token R ttype ps = Returns x inp errs recs" for ps x inp errs recs
    using that match_hit [of ps ttype] match_miss [of ps ttype x inp errs recs]
    by (cases "LA1 (ps_input ps) = ttype") auto
  then show ?thesis
    unfolding sticky_def match_def take_token_def install_def by (fastforce split: reply.splits)
qed

lemma sticky_match_set [simp]: "sticky (match_set R label test)"
  unfolding sticky_def match_set_def take_token_def install_def
  by (auto split: reply.splits if_splits prod.splits dest: inline_error)

lemma sticky_dispatch:
  assumes "sticky_calls self"
  shows "sticky_calls (dispatch R n self)"
proof -
  have frame [simp]: "ps_errors (enterRule R st r ps) = ps_errors ps" "ps_errors (exitRule R ps) = ps_errors ps"
    "ps_errors (enterRecursionRule R st r p ps) = ps_errors ps"
    "ps_errors (unrollRecursionContexts R ctx ps) = ps_errors ps" for st r p ctx ps
    by (subst enter_keeps exit_keeps enter_recursion_keeps unroll_keeps; simp)+
  have rule: "ps_errors ps = 0" if "rule_function R C st r body ps = Built t ps'" "ps_errors ps' = 0" "sticky body"
    for C st r body ps t ps'
    using sticky_handle [OF that(3) refl _ that(1) [unfolded rule_function_def] that(2)] recover_error by auto
  have recursion: "ps_errors ps = 0"
    if "recursion_function R C st r p body ps = Built t ps'" "ps_errors ps' = 0" "sticky body"
    for C st r p body ps t ps'
    using sticky_handle [OF that(3) refl _ that(1) [unfolded recursion_function_def] that(2)] recover_error by auto
  have "dispatch R n self c ps = Built t ps' \<Longrightarrow> ps_errors ps' = 0 \<Longrightarrow> ps_errors ps = 0" for c ps t ps'
    by (cases c; simp only: dispatch.simps rule_defs;
        (rule rule, assumption | rule recursion, assumption); simp add: block_simps assms)
  then show ?thesis unfolding sticky_calls_def by blast
qed

lemma sticky_run: "sticky_calls (run R fuel)"
proof (induction fuel)
  case (Suc fuel)
  have "run R (Suc fuel) = dispatch R fuel (run R fuel)" by (intro ext) simp
  then show ?case using sticky_dispatch [OF Suc] by simp
qed (simp add: sticky_calls_def)

end

section \<open>Running the statements of a rule function\<close>

text \<open>
  \<open>runs p l a Q\<close>: started on the context \<open>l\<close> under the precedence stack \<open>p\<close>, when \<open>a\<close> ends
  without an error so far, the stack is back, the tokens consumed are the leaves added, and
  the context satisfies \<open>Q\<close>.
\<close>

definition runs :: "nat list \<Rightarrow> lctx \<Rightarrow> action \<Rightarrow> (lctx \<Rightarrow> bool) \<Rightarrow> bool" where
  "runs p l a Q \<longleftrightarrow> (\<forall>ps l' ps'. a l ps = Go l' ps' \<longrightarrow> ps_precs ps = p \<longrightarrow>
     ps_errors ps = 0 \<longrightarrow> ps_errors ps' = 0 \<longrightarrow> ps_precs ps' = p \<and> Q l' \<and>
     yields (lc_children l) @ ps_input ps = yields (lc_children l') @ ps_input ps')"

lemma runsI:
  assumes "\<And>ps l' ps'. a l ps = Go l' ps' \<Longrightarrow> ps_precs ps = p \<Longrightarrow> ps_errors ps = 0 \<Longrightarrow>
    ps_errors ps' = 0 \<Longrightarrow> ps_precs ps' = p \<and> Q l' \<and>
    yields (lc_children l) @ ps_input ps = yields (lc_children l') @ ps_input ps'"
  shows "runs p l a Q"
  using assms unfolding runs_def by blast

lemma runsD:
  assumes "runs p l a Q" "a l ps = Go l' ps'" "ps_precs ps = p" "ps_errors ps = 0" "ps_errors ps' = 0"
  shows "ps_precs ps' = p" "Q l'"
    "yields (lc_children l) @ ps_input ps = yields (lc_children l') @ ps_input ps'"
  using assms unfolding runs_def by blast+

lemma runs_seq:
  assumes a: "runs p l a P" and b: "\<And>l'. P l' \<Longrightarrow> runs p l' b Q" and "sticky b"
  shows "runs p l (seq a b) Q"
proof (rule runsI)
  fix ps l2 ps2
  assume go: "seq a b l ps = Go l2 ps2" and start: "ps_precs ps = p" "ps_errors ps = 0"
    and clean: "ps_errors ps2 = 0"
  then obtain l1 ps1 where s: "a l ps = Go l1 ps1" "b l1 ps1 = Go l2 ps2"
    by (auto simp: seq_def split: outcome.splits)
  have mid: "ps_errors ps1 = 0" using assms(3) s(2) clean unfolding sticky_def by blast
  note A = runsD [OF a s(1) start mid]
  note B = runsD [OF b [OF A(2)] s(2) A(1) mid clean]
  show "ps_precs ps2 = p \<and> Q l2 \<and>
      yields (lc_children l) @ ps_input ps = yields (lc_children l2) @ ps_input ps2"
    using A B by simp
qed

lemma runs_skip: "Q l \<Longrightarrow> runs p l skip Q"
  by (simp add: runs_def skip_def)

lemma runs_set_state:
  assumes "runs p l a Q"
  shows "runs p l (seq (set_state n) a) Q"
proof (rule runsI)
  fix ps l' ps'
  assume "seq (set_state n) a l ps = Go l' ps'" "ps_precs ps = p" "ps_errors ps = 0" "ps_errors ps' = 0"
  then show "ps_precs ps' = p \<and> Q l' \<and>
      yields (lc_children l) @ ps_input ps = yields (lc_children l') @ ps_input ps'"
    using runsD [OF assms, of "ps\<lparr>ps_state := n\<rparr>" l' ps'] by (simp add: seq_def set_state_def)
qed

lemma runs_throw: "runs p l (throw e) Q" "runs p l (\<lambda>_ _. NoFuel) Q"
  by (simp_all add: runs_def throw_def)

lemma runs_push:
  assumes "runs p \<lparr>lc_class = C, lc_children = [([], finish None l)]\<rparr> a Q"
  shows "runs p l (seq (push_recursion C) a) Q"
  using assms unfolding runs_def seq_def push_recursion_def finish_def by simp

lemma runs_if_LA: "runs p l a Q \<Longrightarrow> runs p l b Q \<Longrightarrow> runs p l (if_LA test a b) Q"
  by (simp add: runs_def if_LA_def)

lemma runs_if: "(c \<Longrightarrow> runs p l a Q) \<Longrightarrow> (\<not> c \<Longrightarrow> runs p l b Q) \<Longrightarrow> runs p l (if c then a else b) Q"
  by simp

lemma runs_while_LA:
  assumes "\<And>l. I l \<Longrightarrow> runs p l body I" "sticky body"
  shows "I l \<Longrightarrow> runs p l (while_LA n test body) I"
proof (induction n arbitrary: l)
  case (Suc n)
  have "runs p l (seq body (while_LA n test body)) I"
    by (rule runs_seq [OF assms(1) [OF Suc.prems] Suc.IH]) (simp_all add: assms(2))
  with Suc.prems show ?case by (simp add: runs_def)
qed (simp add: runs_def)

text \<open>A call of a rule function that behaves.\<close>

fun call_rule :: "call \<Rightarrow> cel_rule" where
  "call_rule call_start = RuleStart"
| "call_rule call_expr = RuleExpr"
| "call_rule call_conditionalOr = RuleConditionalOr"
| "call_rule call_conditionalAnd = RuleConditionalAnd"
| "call_rule (call_relation p) = RuleRelation"
| "call_rule (call_calc p) = RuleCalc"
| "call_rule call_unary = RuleUnary"
| "call_rule (call_member p) = RuleMember"
| "call_rule call_primary = RulePrimary"
| "call_rule call_exprList = RuleExprList"
| "call_rule call_listInit = RuleListInit"
| "call_rule call_fieldInitializerList = RuleFieldInitializerList"
| "call_rule call_optField = RuleOptField"
| "call_rule call_mapInitializerList = RuleMapInitializerList"
| "call_rule call_escapeIdent = RuleEscapeIdent"
| "call_rule call_optExpr = RuleOptExpr"
| "call_rule call_literal = RuleLiteral"

fun call_prec :: "call \<Rightarrow> nat" where
  "call_prec (call_relation p) = p"
| "call_prec (call_calc p) = p"
| "call_prec c = 0"

definition at_least :: "nat \<Rightarrow> ptree \<Rightarrow> bool" where
  "at_least n t = (case root_prec t of None \<Rightarrow> True | Some k \<Rightarrow> n \<le> k)"

definition call_ok :: "call \<Rightarrow> ptree \<Rightarrow> bool" where
  "call_ok c t \<longleftrightarrow> sym_of t = N (call_rule c) \<and> conforms t \<and> at_least (call_prec c) t"

definition good :: "call \<Rightarrow> (pstate \<Rightarrow> result) \<Rightarrow> bool" where
  "good c f \<longleftrightarrow> (\<forall>ps t ps'. f ps = Built t ps' \<longrightarrow> ps_errors ps = 0 \<longrightarrow> ps_errors ps' = 0 \<longrightarrow>
     ps_precs ps' = ps_precs ps \<and> call_ok c t \<and> ps_input ps = yield_of t @ ps_input ps')"

definition good_calls :: "calls \<Rightarrow> bool" where
  "good_calls self \<longleftrightarrow> sticky_calls self \<and> (\<forall>c. good c (self c))"

lemma runs_invoke:
  assumes "good_calls self" "\<And>t. call_ok c t \<Longrightarrow> runs p (add [(label, t)] l) a Q" "sticky a"
  shows "runs p l (seq (invoke self label c) a) Q"
proof (rule runs_seq)
  show "runs p l (invoke self label c) (\<lambda>l'. \<exists>t. call_ok c t \<and> l' = add [(label, t)] l)"
  proof (rule runsI)
    fix ps l' ps'
    assume go: "invoke self label c l ps = Go l' ps'" and ps: "ps_precs ps = p" "ps_errors ps = 0"
      "ps_errors ps' = 0"
    from go obtain t where t: "self c ps = Built t ps'" "l' = add [(label, t)] l"
      by (auto simp: invoke_def split: result.splits)
    with assms(1) ps show "ps_precs ps' = p \<and> (\<exists>t. call_ok c t \<and> l' = add [(label, t)] l) \<and>
        yields (lc_children l) @ ps_input ps = yields (lc_children l') @ ps_input ps'"
      unfolding good_calls_def good_def by (fastforce simp: add_def)
  qed
qed (use assms in auto)

context antlr_runtime
begin

lemma runs_become:
  "lc_children l = [] \<Longrightarrow> runs p \<lparr>lc_class = C, lc_children = []\<rparr> a Q \<Longrightarrow> runs p l (seq (become R C) a) Q"
  unfolding runs_def seq_def become_def by (auto simp: copy_nothing)

lemma runs_sync:
  assumes "runs p l a Q" "sticky a"
  shows "runs p l (seq (synchronize R) a) Q"
proof (rule runs_seq)
  show "runs p l (synchronize R) (\<lambda>l'. l' = l)"
  proof (rule runsI)
    fix ps l' ps'
    assume "synchronize R l ps = Go l' ps'" "ps_precs ps = p" "ps_errors ps = 0" "ps_errors ps' = 0"
    then show "ps_precs ps' = p \<and> l' = l \<and>
        yields (lc_children l) @ ps_input ps = yields (lc_children l') @ ps_input ps'"
      using sync_quiet [of ps]
      by (cases "sync R ps") (fastforce simp: synchronize_def install_def add_def unlabelled_def)+
  qed
qed (use assms in auto)

lemma consumed:
  "LA1 inp = tok_type (current inp)"
  "inp = yield_of (Terminal (current inp)) @ advance inp"
  by (auto simp: LA1_def current_def advance_def split: list.split)

lemma runs_match:
  assumes "\<And>k. tok_type k = ttype \<Longrightarrow> runs p (add [(label, Terminal k)] l) a Q" "sticky a"
  shows "runs p l (seq (match R label ttype) a) Q"
proof (rule runs_seq)
  show "runs p l (match R label ttype) (\<lambda>l'. \<exists>k. tok_type k = ttype \<and> l' = add [(label, Terminal k)] l)"
  proof (rule runsI)
    fix ps l' ps'
    assume go: "match R label ttype l ps = Go l' ps'" and "ps_precs ps = p"
      "ps_errors ps = 0" "ps_errors ps' = 0"
    have "LA1 (ps_input ps) = ttype"
      using go match_miss [of ps ttype] \<open>ps_errors ps' = 0\<close>
      by (fastforce simp: match_def take_token_def install_def split: reply.splits)
    with go \<open>ps_precs ps = p\<close> match_hit [OF this]
    show "ps_precs ps' = p \<and> (\<exists>k. tok_type k = ttype \<and> l' = add [(label, Terminal k)] l) \<and>
        yields (lc_children l) @ ps_input ps = yields (lc_children l') @ ps_input ps'"
      using consumed [of "ps_input ps"]
      by (auto simp: match_def take_token_def install_def add_def unlabelled_def)
  qed
qed (use assms in auto)

lemma runs_match_set:
  assumes "\<And>k. test (tok_type k) \<Longrightarrow> runs p (add [(label, Terminal k)] l) a Q" "sticky a"
  shows "runs p l (seq (match_set R label test) a) Q"
proof (rule runs_seq)
  show "runs p l (match_set R label test) (\<lambda>l'. \<exists>k. test (tok_type k) \<and> l' = add [(label, Terminal k)] l)"
  proof (rule runsI)
    fix ps l' ps'
    assume go: "match_set R label test l ps = Go l' ps'" and "ps_precs ps = p"
      "ps_errors ps = 0" "ps_errors ps' = 0"
    have "test (LA1 (ps_input ps))"
      using go inline_error [of ps] \<open>ps_errors ps' = 0\<close>
      by (fastforce simp: match_set_def take_token_def install_def split: reply.splits if_splits)
    with go \<open>ps_precs ps = p\<close>
    show "ps_precs ps' = p \<and> (\<exists>k. test (tok_type k) \<and> l' = add [(label, Terminal k)] l) \<and>
        yields (lc_children l) @ ps_input ps = yields (lc_children l') @ ps_input ps'"
      using consumed [of "ps_input ps"] by (auto simp: match_set_def consume_current add_def)
  qed
qed (use assms in auto)

lemma runs_require:
  assumes "hd p \<le> n \<Longrightarrow> runs p l a Q" "p \<noteq> []"
  shows "runs p l (seq (require_prec R n) a) Q"
proof (rule runsI)
  fix ps l' ps'
  assume go: "seq (require_prec R n) a l ps = Go l' ps'" and ps: "ps_precs ps = p"
    "ps_errors ps = 0" "ps_errors ps' = 0"
  then have "precpred R ps n" "a l ps = Go l' ps'"
    by (auto simp: seq_def require_prec_def split: if_splits)
  moreover have "hd p \<le> n"
    using precpred_top [of ps "hd p" "tl p" n] \<open>precpred R ps n\<close> ps(1) assms(2) by simp
  ultimately show "ps_precs ps' = p \<and> Q l' \<and>
      yields (lc_children l) @ ps_input ps = yields (lc_children l') @ ps_input ps'"
    using runsD [OF assms(1) _ ps] by blast
qed

lemma runs_switch:
  assumes "\<And>alt. 1 \<le> alt \<Longrightarrow> alt \<le> alternatives d \<Longrightarrow> runs p l (f alt) Q"
  shows "runs p l (switch R d f) Q"
proof (rule runsI)
  fix ps l' ps'
  assume go: "switch R d f l ps = Go l' ps'" and ps: "ps_precs ps = p"
    "ps_errors ps = 0" "ps_errors ps' = 0"
  then obtain alt where alt: "adaptivePredict R d ps = Some alt" "f alt l ps = Go l' ps'"
    by (auto simp: switch_def split: option.splits)
  from runsD [OF assms alt(2) ps] predict_range [OF alt(1)]
  show "ps_precs ps' = p \<and> Q l' \<and>
      yields (lc_children l) @ ps_input ps = yields (lc_children l') @ ps_input ps'"
    by blast
qed

lemma runs_while_alt:
  assumes "\<And>l. I l \<Longrightarrow> runs p l (body 1) I" "\<And>alt. sticky (body alt)" "alternatives d = 2"
  shows "I l \<Longrightarrow> runs p l (while_alt R n d body) I"
proof (induction n arbitrary: l)
  case 0
  have "while_alt R 0 d body = switch R d (\<lambda>alt. if alt \<noteq> 2 \<and> alt \<noteq> 0 then (\<lambda>_ _. NoFuel) else skip)"
    by (intro ext) simp
  with 0 show ?case by (simp add: runs_switch runs_skip runs_throw)
next
  case (Suc n)
  have step: "while_alt R (Suc n) d body =
      switch R d (\<lambda>alt. if alt \<noteq> 2 \<and> alt \<noteq> 0 then seq (body alt) (while_alt R n d body) else skip)"
    by (intro ext) simp
  have "runs p l (seq (body 1) (while_alt R n d body)) I"
    by (rule runs_seq [OF assms(1) [OF Suc.prems] Suc.IH]) (simp_all add: assms(2))
  then have "runs p l (if alt \<noteq> 2 \<and> alt \<noteq> 0 then seq (body alt) (while_alt R n d body) else skip) I"
    if "1 \<le> alt" "alt \<le> 2" for alt
    using that Suc.prems by (cases "alt = 1") (auto simp: runs_skip)
  then show ?case unfolding step using assms(3) by (intro runs_switch) simp
qed

end

section \<open>The rule functions\<close>

text \<open>
  Blocks as sequences ended by \<open>skip\<close>, so that each statement is run by its rule and the
  last one leaves the condition on the context.
\<close>

lemmas block_steps = block_simps seq_assoc seq_skip(1) seq_if seq_if_LA seq_switch seq_throw

lemma add_simps [simp]:
  "add ys (add xs l) = add (xs @ ys) l"
  "lc_class (add xs l) = lc_class l"
  "lc_children (add xs l) = lc_children l @ xs"
  by (simp_all add: add_def)

lemma finish_simps [simp]:
  "yield_of (finish e l) = yields (lc_children l)"
  "sym_of (finish e l) = N (getRuleIndex (lc_class l))"
  by (simp_all add: finish_def)

lemma conforms_finish [simp]:
  "conforms (finish None l) \<longleftrightarrow> matches (production (lc_class l)) (map child_sym (lc_children l)) \<and>
     assoc_ok (lc_class l) (lc_children l) \<and> list_all (\<lambda>(l, t). conforms t) (lc_children l)"
  by (simp add: finish_def)

text \<open>The context built so far is a sequence of repetitions of \<open>b\<close> after \<open>a\<close>.\<close>

definition repeated :: "context_class \<Rightarrow> rx \<Rightarrow> rx \<Rightarrow> lctx \<Rightarrow> bool" where
  "repeated C a b l \<longleftrightarrow> lc_class l = C \<and> matches (Seq a (Star b)) (map child_sym (lc_children l)) \<and>
     list_all (\<lambda>(l, t). conforms t) (lc_children l)"

lemma repeated_none:
  "matches a (map child_sym xs) \<Longrightarrow> list_all (\<lambda>(l, t). conforms t) xs \<Longrightarrow>
   repeated C a b (add xs \<lparr>lc_class = C, lc_children = []\<rparr>)"
  using matches_Seq_append [of a "map child_sym xs" "Star b" "[]"] by (simp add: repeated_def)

lemma matches_once_more:
  assumes "matches (Seq a (Star b)) u" "matches b v"
  shows "matches (Seq a (Star b)) (u @ v)"
proof -
  from assms(1) obtain x y where "u = x @ y" "matches a x" "matches (Star b) y"
    unfolding matches_Seq by blast
  then show ?thesis
    using matches_Seq_append [OF _ matches_Star_snoc [OF _ assms(2)]] by simp
qed

lemma root_prec_other:
  "c \<noteq> RelationContext \<Longrightarrow> c \<noteq> CalcContext \<Longrightarrow> root_prec (Context c ts e) = None"
  by (cases "Context c ts e" rule: root_prec.cases) simp_all

lemma assoc_ok_other:
  "c \<noteq> RelationContext \<Longrightarrow> c \<noteq> CalcContext \<Longrightarrow> assoc_ok c ts"
  by (cases "(c, ts)" rule: assoc_ok.cases) (simp_all add: root_prec_other)

lemma runs_while_LA_then:
  assumes "I l" "\<And>l. I l \<Longrightarrow> runs p l body I" "sticky body" "\<And>l. I l \<Longrightarrow> runs p l a Q" "sticky a"
  shows "runs p l (seq (while_LA n test body) a) Q"
proof (rule runs_seq)
  show "runs p l (while_LA n test body) I" by (rule runs_while_LA) (fact assms)+
qed (fact assms)+

lemma in_bitset_list:
  "in_bitset la bits \<longleftrightarrow> la \<in> set (map of_nat (filter (bit bits) [0..<64]))"
  unfolding in_bitset_bit
  by (auto simp: word_less_nat_alt image_iff unat_of_nat intro!: bexI [of _ "unat la"])

lemma in_bitset_relation: "in_bitset la 254 \<longleftrightarrow> la \<in> set relation_ops"
  unfolding in_bitset_list by (simp add: upt_rec relation_ops_def token_types)

lemma in_bitset_factor: "in_bitset la 58720256 \<longleftrightarrow> la \<in> set factor_ops"
  unfolding in_bitset_list by (simp add: upt_rec factor_ops_def token_types)

context antlr_runtime
begin

lemma recover_counts: "reportAndRecover R e ps = Some (ns, inp, errs, recs) \<Longrightarrow> errs \<noteq> 0"
  using recover_error by blast

lemma good_rule:
  assumes "\<And>p. runs p \<lparr>lc_class = C, lc_children = []\<rparr> body (\<lambda>l. call_ok c (finish None l))"
  shows "good c (rule_function R C st r body)"
  unfolding good_def
proof (intro allI impI)
  fix ps t ps'
  assume go: "rule_function R C st r body ps = Built t ps'" and clean: "ps_errors ps = 0" "ps_errors ps' = 0"
  define ps0 where "ps0 = enterRule R st r ps"
  have enter: "ps_precs ps0 = ps_precs ps" "ps_errors ps0 = ps_errors ps" "ps_input ps0 = ps_input ps"
    unfolding ps0_def by (subst enter_keeps; simp)+
  from go clean obtain l1 ps1 where
      body: "body \<lparr>lc_class = C, lc_children = []\<rparr> ps0 = Go l1 ps1"
    and t: "t = finish None l1" "ps' = exitRule R ps1"
    by (auto simp: rule_function_def handle_def install_def exit_keeps ps0_def dest: recover_counts
        split: outcome.splits option.splits)
  from runsD [OF assms(1) body] clean t enter
  show "ps_precs ps' = ps_precs ps \<and> call_ok c t \<and> ps_input ps = yield_of t @ ps_input ps'"
    by (simp add: exit_keeps)
qed

lemma good_recursion:
  assumes "\<And>q. runs (k # q) \<lparr>lc_class = C, lc_children = []\<rparr> body (\<lambda>l. call_ok c (finish None l))"
  shows "good c (recursion_function R C st r k body)"
  unfolding good_def
proof (intro allI impI)
  fix ps t ps'
  assume go: "recursion_function R C st r k body ps = Built t ps'"
    and clean: "ps_errors ps = 0" "ps_errors ps' = 0"
  define ps0 where "ps0 = enterRecursionRule R st r k ps"
  have enter: "ps_precs ps0 = k # ps_precs ps" "ps_errors ps0 = ps_errors ps" "ps_input ps0 = ps_input ps"
    unfolding ps0_def by (subst enter_recursion_keeps; simp)+
  from go clean obtain l1 ps1 where
      body: "body \<lparr>lc_class = C, lc_children = []\<rparr> ps0 = Go l1 ps1"
    and t: "t = finish None l1" "ps' = unrollRecursionContexts R (ps_ctx ps) ps1"
    by (auto simp: recursion_function_def handle_def install_def unroll_keeps ps0_def dest: recover_counts
        split: outcome.splits option.splits)
  from runsD [OF assms(1) body] clean t enter
  show "ps_precs ps' = ps_precs ps \<and> call_ok c t \<and> ps_input ps = yield_of t @ ps_input ps'"
    by (simp add: unroll_keeps)
qed

lemma runs_while_alt_then:
  assumes "I l" "\<And>l. I l \<Longrightarrow> runs p l (body 1) I" "\<And>alt. sticky (body alt)" "alternatives d = 2"
    "\<And>l. I l \<Longrightarrow> runs p l a Q" "sticky a"
  shows "runs p l (seq (while_alt R n d body) a) Q"
proof (rule runs_seq)
  show "runs p l (while_alt R n d body) I" by (rule runs_while_alt) (fact assms)+
qed (fact assms)+

lemmas runs_rules = runs_skip runs_set_state runs_throw runs_become runs_push runs_if_LA runs_if
  runs_sync runs_match runs_match_set runs_switch

lemmas tree_simps = call_ok_def child_sym_def finish_def alternatives.simps

lemmas repeat_simps = repeated_none repeated_def matches_once_more matches_Seq_append root_prec_other
  assoc_ok_other

lemma at_least_0 [simp]: "at_least 0 t"
  by (simp add: at_least_def split: option.split)

lemma at_least_context:
  "at_least n (Context c [x] e)"
  "at_least n (Context RelationContext [l, x, r] e) \<longleftrightarrow> n \<le> 1"
  "at_least n (Context CalcContext [l, (m, Terminal o1), r] e) \<longleftrightarrow>
     n \<le> (if tok_type o1 \<in> set factor_ops then 2 else 1)"
  by (cases c; simp add: at_least_def)+

lemma tighter_at_least: "tighter (Suc 0) t \<longleftrightarrow> at_least 2 t" "tighter 2 t \<longleftrightarrow> at_least 3 t"
  by (auto simp: at_least_def tighter_def split: option.split)

lemma stickyI: "good_calls self \<Longrightarrow> sticky_calls self"
  by (simp add: good_calls_def)

lemma good_start:
  assumes self: "good_calls self"
  shows "good call_start (start R n self)"
  unfolding start_def block_steps
  by (rule good_rule, intro runs_rules runs_invoke [OF self])
    (simp_all add: stickyI [OF self] tree_simps)

lemma good_expr:
  assumes self: "good_calls self"
  shows "good call_expr (expr R n self)"
  unfolding expr_def block_steps
  by (rule good_rule, intro runs_rules runs_invoke [OF self])
    (simp_all add: stickyI [OF self] tree_simps)

lemma good_conditionalOr:
  assumes self: "good_calls self"
  shows "good call_conditionalOr (conditionalOr R n self)"
  unfolding conditionalOr_def block_steps
  by (rule good_rule, intro runs_rules runs_invoke [OF self]
      runs_while_LA_then [where I = "repeated ConditionalOrContext (Rule ''e'' RuleConditionalAnd)
        (Seq (Tok ''ops'' [LOGICAL_OR]) (Rule ''e1'' RuleConditionalAnd))"])
    (simp_all add: stickyI [OF self] tree_simps repeat_simps)

lemma good_conditionalAnd:
  assumes self: "good_calls self"
  shows "good call_conditionalAnd (conditionalAnd R n self)"
  unfolding conditionalAnd_def block_steps
  by (rule good_rule, intro runs_rules runs_invoke [OF self]
      runs_while_LA_then [where I = "repeated ConditionalAndContext (Rule ''e'' RuleRelation)
        (Seq (Tok ''ops'' [LOGICAL_AND]) (Rule ''e1'' RuleRelation))"])
    (simp_all add: stickyI [OF self] tree_simps repeat_simps)

lemma good_unary:
  assumes self: "good_calls self"
  shows "good call_unary (unary R n self)"
  unfolding unary_def block_steps
  by (rule good_rule, intro runs_rules runs_invoke [OF self]
      runs_while_LA_then [where I = "repeated LogicalNotContext
        (Tok ''ops'' [EXCLAM]) (Tok ''ops'' [EXCLAM])"]
      runs_while_alt_then [where I = "repeated NegateContext
        (Tok ''ops'' [MINUS]) (Tok ''ops'' [MINUS])"])
    (simp_all add: stickyI [OF self] tree_simps repeat_simps)

lemma good_primary:
  assumes self: "good_calls self"
  shows "good call_primary (primary R n self)"
  unfolding primary_def primary_createMessage_def block_steps
  by (rule good_rule, intro runs_rules runs_invoke [OF self]
      runs_while_LA_then [where I = "repeated CreateMessageContext
        (Seq (Opt (Tok ''leadingDot'' [DOT])) (Tok ''ids'' [IDENTIFIER]))
        (Seq (Tok ''ops'' [DOT]) (Tok ''ids'' [IDENTIFIER]))"])
    (simp_all add: stickyI [OF self] tree_simps repeat_simps)

lemma good_exprList:
  assumes self: "good_calls self"
  shows "good call_exprList (exprList R n self)"
  unfolding exprList_def block_steps
  by (rule good_rule, intro runs_rules runs_invoke [OF self]
      runs_while_LA_then [where I = "repeated ExprListContext (Rule ''e'' RuleExpr)
        (Seq (Tok [] [COMMA]) (Rule ''e'' RuleExpr))"])
    (simp_all add: stickyI [OF self] tree_simps repeat_simps)

lemma good_listInit:
  assumes self: "good_calls self"
  shows "good call_listInit (listInit R n self)"
  unfolding listInit_def block_steps
  by (rule good_rule, intro runs_rules runs_invoke [OF self]
      runs_while_alt_then [where I = "repeated ListInitContext (Rule ''elems'' RuleOptExpr)
        (Seq (Tok [] [COMMA]) (Rule ''elems'' RuleOptExpr))"])
    (simp_all add: stickyI [OF self] tree_simps repeat_simps)

lemma good_fieldInitializerList:
  assumes self: "good_calls self"
  shows "good call_fieldInitializerList (fieldInitializerList R n self)"
  unfolding fieldInitializerList_def block_steps
  by (rule good_rule, intro runs_rules runs_invoke [OF self]
      runs_while_alt_then [where I = "repeated FieldInitializerListContext
        (Seq (Rule ''fields'' RuleOptField) (Seq (Tok ''cols'' [COLON]) (Rule ''values'' RuleExpr)))
        (Seq (Tok [] [COMMA])
          (Seq (Rule ''fields'' RuleOptField) (Seq (Tok ''cols'' [COLON]) (Rule ''values'' RuleExpr))))"])
    (simp_all add: stickyI [OF self] tree_simps repeat_simps)

lemma good_optField:
  assumes self: "good_calls self"
  shows "good call_optField (optField R n self)"
  unfolding optField_def block_steps
  by (rule good_rule, intro runs_rules runs_invoke [OF self])
    (simp_all add: stickyI [OF self] tree_simps)

lemma good_mapInitializerList:
  assumes self: "good_calls self"
  shows "good call_mapInitializerList (mapInitializerList R n self)"
  unfolding mapInitializerList_def block_steps
  by (rule good_rule, intro runs_rules runs_invoke [OF self]
      runs_while_alt_then [where I = "repeated MapInitializerListContext
        (Seq (Rule ''keys'' RuleOptExpr) (Seq (Tok ''cols'' [COLON]) (Rule ''values'' RuleExpr)))
        (Seq (Tok [] [COMMA])
          (Seq (Rule ''keys'' RuleOptExpr) (Seq (Tok ''cols'' [COLON]) (Rule ''values'' RuleExpr))))"])
    (simp_all add: stickyI [OF self] tree_simps repeat_simps)

lemma good_escapeIdent:
  assumes self: "good_calls self"
  shows "good call_escapeIdent (escapeIdent R n self)"
  unfolding escapeIdent_def block_steps
  by (rule good_rule, intro runs_rules runs_invoke [OF self])
    (simp_all add: stickyI [OF self] tree_simps)

lemma good_optExpr:
  assumes self: "good_calls self"
  shows "good call_optExpr (optExpr R n self)"
  unfolding optExpr_def block_steps
  by (rule good_rule, intro runs_rules runs_invoke [OF self])
    (simp_all add: stickyI [OF self] tree_simps)

lemma good_literal:
  assumes self: "good_calls self"
  shows "good call_literal (literal R n self)"
  unfolding literal_def block_steps
  by (rule good_rule, intro runs_rules runs_invoke [OF self])
    (simp_all add: stickyI [OF self] tree_simps)

lemma good_member:
  assumes self: "good_calls self"
  shows "good (call_member k) (member R n self k)"
  unfolding member_def block_steps
  by (rule good_recursion, intro runs_rules runs_require runs_invoke [OF self]
      runs_while_alt_then [where I = "\<lambda>l. call_ok (call_member k) (finish None l)"])
    (simp_all add: stickyI [OF self] tree_simps assoc_ok_other)

lemma good_relation:
  assumes self: "good_calls self"
  shows "good (call_relation k) (relation R n self k)"
  unfolding relation_def block_steps
  by (rule good_recursion, intro runs_rules runs_require runs_invoke [OF self]
      runs_while_alt_then [where I = "\<lambda>l. call_ok (call_relation k) (finish None l)"])
    (simp_all add: stickyI [OF self] tree_simps at_least_context in_bitset_relation tighter_at_least)

lemma good_calc:
  assumes self: "good_calls self"
  shows "good (call_calc k) (calc R n self k)"
  unfolding calc_def block_steps
  by (rule good_recursion, intro runs_rules runs_require runs_invoke [OF self]
      runs_while_alt_then [where I = "\<lambda>l. call_ok (call_calc k) (finish None l)"])
    (auto simp: stickyI [OF self] tree_simps at_least_context tighter_at_least in_bitset_factor
      factor_ops_def term_ops_def token_types)

lemma good_dispatch:
  assumes "good_calls self"
  shows "good_calls (dispatch R n self)"
  unfolding good_calls_def
proof (intro conjI allI)
  show "sticky_calls (dispatch R n self)"
    using assms by (intro sticky_dispatch) (simp add: good_calls_def)
  show "good c (dispatch R n self c)" for c
    using assms by (cases c)
      (simp_all add: good_start good_expr good_conditionalOr good_conditionalAnd good_relation good_calc
        good_unary good_member good_primary good_exprList good_listInit good_fieldInitializerList
        good_optField good_mapInitializerList good_escapeIdent good_optExpr good_literal)
qed

lemma good_run: "good_calls (run R fuel)"
proof (induction fuel)
  case 0
  then show ?case by (simp add: good_calls_def good_def sticky_calls_def)
next
  case (Suc fuel)
  have "run R (Suc fuel) = dispatch R fuel (run R fuel)" by (intro ext) simp
  then show ?case using good_dispatch [OF Suc] by simp
qed

text \<open>A call of any rule function on a parser that has seen no error.\<close>

lemma run_conforms:
  assumes "run R fuel c ps = Built t ps'" "ps_errors ps = 0" "ps_errors ps' = 0"
  shows "sym_of t = N (call_rule c)" "conforms t" "at_least (call_prec c) t"
    "ps_precs ps' = ps_precs ps" "ps_input ps = yield_of t @ ps_input ps'"
  using good_run [of fuel] assms unfolding good_calls_def good_def call_ok_def by blast+

lemma parse_conforms:
  assumes "parse R fuel inp = Built t ps'" "ps_errors ps' = 0"
  shows "sym_of t = N RuleStart" "conforms t" "ps_precs ps' = [0]" "inp = yield_of t @ ps_input ps'"
  using run_conforms [OF assms(1) [unfolded parse_def] _ assms(2)] by (simp_all add: new_parser_def)

text \<open>\<open>start\<close> ends at the end of the input.\<close>

lemma at_end: "LA1 inp = TOKEN_EOF \<Longrightarrow> advance inp = inp"
  by (auto simp: LA1_def advance_def current_def split: list.splits)

lemma start_ends:
  assumes "start R n self ps = Built t ps'" "ps_errors ps' = 0"
  shows "LA1 (ps_input ps') = TOKEN_EOF"
proof -
  have last: "LA1 (ps_input ps2) = TOKEN_EOF"
    if "match R [] TOKEN_EOF l1 ps1 = Go l2 ps2" "ps_errors ps2 = 0" for l1 ps1 l2 ps2
  proof -
    have hit: "LA1 (ps_input ps1) = TOKEN_EOF"
      using that match_miss [of ps1 TOKEN_EOF]
      by (fastforce simp: match_def take_token_def install_def split: reply.splits)
    with that(1) match_hit [OF this] at_end [OF hit] show ?thesis
      by (auto simp: match_def take_token_def install_def)
  qed
  from assms obtain l1 ps1 l2 ps2 where "match R [] TOKEN_EOF l1 ps1 = Go l2 ps2" "ps' = exitRule R ps2"
    by (auto simp: start_def rule_function_def handle_def install_def exit_keeps block_def seq_def skip_def
        set_state_def dest: recover_counts split: outcome.splits option.splits)
  with last [of l1 ps1 l2 ps2] assms(2) show ?thesis by (simp add: exit_keeps)
qed

lemma parse_ends:
  assumes "parse R fuel inp = Built t ps'" "ps_errors ps' = 0"
  shows "LA1 (ps_input ps') = TOKEN_EOF"
  using assms start_ends by (cases fuel) (auto simp: parse_def)

end

end
