(* ===== verification/Cel_Termination.thy ===== *)
theory Cel_Termination
  imports Cel_Soundness
begin

text \<open>
  The generated parser always comes back (CelParser.cpp). Recursive descent could be caught in
  a rule that neither consumes a token nor fails; with error recovery it could also recover
  for ever. The first is excluded by the rule functions themselves, the second by the error
  strategy's recovery limit, a law of the runtime here. Every call of a rule function lowers
  \<open>potential\<close>, the tokens and the recoveries left, by one at least, so a fuel linear in it
  is enough; and the fuel does not matter beyond that.
\<close>

section \<open>The recovery limit\<close>

text \<open>
  Nothing gives tokens back; each attempt to recover, inline or not, counts, and the one past
  the limit cancels the parse.
\<close>

locale bounded_runtime = antlr_runtime +
  fixes limit :: nat
  assumes sync_returns: "sync R ps = Returns ns inp errs recs \<Longrightarrow>
      length inp \<le> length (ps_input ps) \<and> recs = ps_recoveries ps"
    and sync_throws: "sync R ps = Throws e inp errs recs \<Longrightarrow>
      length inp \<le> length (ps_input ps) \<and> recs = ps_recoveries ps"
    and miss_returns: "LA1 (ps_input ps) \<noteq> ttype \<Longrightarrow> match_token R ttype ps = Returns x inp errs recs \<Longrightarrow>
      length inp \<le> length (ps_input ps) \<and> recs = Suc (ps_recoveries ps) \<and> recs \<le> limit"
    and miss_throws: "match_token R ttype ps = Throws e inp errs recs \<Longrightarrow>
      length inp \<le> length (ps_input ps) \<and> recs = Suc (ps_recoveries ps) \<and> recs \<le> limit"
    and inline_returns: "recoverInline R ps = Returns x inp errs recs \<Longrightarrow>
      length inp \<le> length (ps_input ps) \<and> recs = Suc (ps_recoveries ps) \<and> recs \<le> limit"
    and inline_throws: "recoverInline R ps = Throws e inp errs recs \<Longrightarrow>
      length inp \<le> length (ps_input ps) \<and> recs = Suc (ps_recoveries ps) \<and> recs \<le> limit"
    and recover_returns: "reportAndRecover R e ps = Some (ns, inp, errs, recs) \<Longrightarrow>
      length inp \<le> length (ps_input ps) \<and> recs = Suc (ps_recoveries ps) \<and> recs \<le> limit"

definition potential :: "nat \<Rightarrow> pstate \<Rightarrow> nat" where
  "potential limit ps = length (ps_input ps) + (limit - ps_recoveries ps)"

lemma potential_update [simp]:
  "potential limit (ps\<lparr>ps_state := n\<rparr>) = potential limit ps"
  "potential limit (ps\<lparr>ps_ctx := c\<rparr>) = potential limit ps"
  "potential limit (ps\<lparr>ps_precs := q\<rparr>) = potential limit ps"
  by (simp_all add: potential_def)

lemma advance_length:
  "length (advance inp) \<le> length inp"
  "LA1 inp \<noteq> TOKEN_EOF \<Longrightarrow> length (advance inp) < length inp"
  by (auto simp: advance_def LA1_def current_def split: list.split)

section \<open>What the statements cost\<close>

text \<open>
  \<open>fits v m d a\<close>: started with a potential of at most \<open>m\<close>, below it when \<open>d\<close>, \<open>a\<close> has fuel
  enough and ends below \<open>m\<close>, or throws with at most \<open>m\<close>.
\<close>

definition below :: "nat \<Rightarrow> nat \<Rightarrow> bool \<Rightarrow> pstate \<Rightarrow> bool" where
  "below v m d ps \<longleftrightarrow> (if d then potential v ps < m else potential v ps \<le> m)"

definition fits :: "nat \<Rightarrow> nat \<Rightarrow> bool \<Rightarrow> action \<Rightarrow> bool" where
  "fits v m d a \<longleftrightarrow> (\<forall>l ps. below v m d ps \<longrightarrow>
     (case a l ps of Go l' ps' \<Rightarrow> potential v ps' < m | Threw e l' ps' \<Rightarrow> potential v ps' \<le> m
      | Cancelled \<Rightarrow> True | NoFuel \<Rightarrow> False))"

lemma fits_seq:
  assumes "\<And>l ps. below v m d ps \<Longrightarrow> (case a l ps of Go l' ps' \<Rightarrow> below v m d' ps'
     | Threw e l' ps' \<Rightarrow> potential v ps' \<le> m | Cancelled \<Rightarrow> True | NoFuel \<Rightarrow> False)"
    and "fits v m d' b"
  shows "fits v m d (seq a b)"
  unfolding fits_def
proof (intro allI impI)
  fix l ps
  assume "below v m d ps"
  from assms(1) [OF this, of l] assms(2)
  show "case seq a b l ps of Go l' ps' \<Rightarrow> potential v ps' < m | Threw e l' ps' \<Rightarrow> potential v ps' \<le> m
      | Cancelled \<Rightarrow> True | NoFuel \<Rightarrow> False"
    by (cases "a l ps") (auto simp: seq_def fits_def)
qed

lemma fits_skip: "fits v m True skip"
  by (simp add: fits_def below_def skip_def)

lemma fits_throw: "fits v m d (throw e)"
  by (auto simp: fits_def below_def throw_def split: if_splits)

lemma fits_plain:
  assumes "fits v m d a"
  shows "fits v m d (seq (set_state n) a)" "fits v m d (seq (become R C) a)"
    "fits v m d (seq (push_recursion C) a)" "fits v m d (seq (require_prec R k) a)"
  by (rule fits_seq [OF _ assms]; auto simp: set_state_def become_def push_recursion_def
      require_prec_def below_def split: if_splits)+

lemma fits_if_LA: "fits v m d a \<Longrightarrow> fits v m d b \<Longrightarrow> fits v m d (if_LA test a b)"
  by (simp add: fits_def if_LA_def)

lemma fits_if: "(c \<Longrightarrow> fits v m d a) \<Longrightarrow> (\<not> c \<Longrightarrow> fits v m d b) \<Longrightarrow> fits v m d (if c then a else b)"
  by simp

lemma fits_while_LA:
  assumes "\<And>m'. m' < m \<Longrightarrow> fits v m' False body"
  shows "potential v ps < n \<Longrightarrow> potential v ps < m \<Longrightarrow>
    (case while_LA n test body l ps of Go l' ps' \<Rightarrow> potential v ps' < m
      | Threw e l' ps' \<Rightarrow> potential v ps' \<le> m | Cancelled \<Rightarrow> True | NoFuel \<Rightarrow> False)"
proof (induction n arbitrary: l ps)
  case (Suc n)
  note body = assms [OF Suc.prems(2), unfolded fits_def, rule_format, of ps l]
  show ?case
  proof (cases "body l ps")
    case (Go l1 ps1)
    with body have "potential v ps1 < potential v ps" by (simp add: below_def)
    with Go Suc.IH [of ps1 l1] Suc.prems show ?thesis by (simp add: seq_def)
  qed (use body Suc.prems in \<open>auto simp: seq_def below_def\<close>)
qed simp

lemma fits_while_LA_then:
  assumes "m \<le> n" "\<And>m'. m' < m \<Longrightarrow> fits v m' False body" "fits v m True a"
  shows "fits v m True (seq (while_LA n test body) a)"
proof (rule fits_seq [OF _ assms(3)])
  fix l ps
  assume "below v m True ps"
  with fits_while_LA [of m v body ps n test l] assms(1,2)
  show "case while_LA n test body l ps of Go l' ps' \<Rightarrow> below v m True ps'
      | Threw e l' ps' \<Rightarrow> potential v ps' \<le> m | Cancelled \<Rightarrow> True | NoFuel \<Rightarrow> False"
    by (auto simp: below_def split: outcome.splits)
qed

text \<open>
  The rules that call each other before they have consumed a token are ranked, and a call is
  affordable with twelve units of fuel for each unit of potential and its rank.
\<close>

fun rank :: "call \<Rightarrow> nat" where
  "rank call_start = 10"
| "rank call_expr = 9"
| "rank call_conditionalOr = 8"
| "rank call_conditionalAnd = 7"
| "rank (call_relation p) = 6"
| "rank (call_calc p) = 5"
| "rank call_unary = 4"
| "rank (call_member p) = 3"
| "rank call_primary = 2"
| "rank call_exprList = 10"
| "rank call_listInit = 11"
| "rank call_fieldInitializerList = 3"
| "rank call_optField = 2"
| "rank call_mapInitializerList = 11"
| "rank call_escapeIdent = 1"
| "rank call_optExpr = 10"
| "rank call_literal = 1"

definition affords :: "nat \<Rightarrow> nat \<Rightarrow> calls \<Rightarrow> bool" where
  "affords v n self \<longleftrightarrow> (\<forall>c ps. 12 * potential v ps + rank c < n \<longrightarrow>
     self c ps \<noteq> Starved \<and> (\<forall>t ps'. self c ps = Built t ps' \<longrightarrow> potential v ps' < potential v ps))"

lemma fits_invoke:
  assumes "affords v n self" "12 * m + rank c < (if d then n + 12 else n)" "fits v m True a"
  shows "fits v m d (seq (invoke self label c) a)"
proof (rule fits_seq [OF _ assms(3)])
  fix l ps
  assume "below v m d ps"
  then have "12 * potential v ps + rank c < n" "potential v ps \<le> m"
    using assms(2) by (auto simp: below_def split: if_splits)
  then have "self c ps \<noteq> Starved" "\<And>t ps'. self c ps = Built t ps' \<Longrightarrow> potential v ps' < m"
    using assms(1) unfolding affords_def by (blast, fastforce)
  then show "case invoke self label c l ps of Go l' ps' \<Rightarrow> below v m True ps'
      | Threw e l' ps' \<Rightarrow> potential v ps' \<le> m | Cancelled \<Rightarrow> True | NoFuel \<Rightarrow> False"
    by (auto simp: invoke_def below_def split: result.split)
qed

text \<open>Not above the potential \<open>k\<close>.\<close>

abbreviation costs :: "nat \<Rightarrow> (nat \<Rightarrow> nat \<Rightarrow> bool) \<Rightarrow> nat \<Rightarrow> outcome \<Rightarrow> bool" where
  "costs v rel k r \<equiv> (case r of Go l ps \<Rightarrow> rel (potential v ps) k
     | Threw e l ps \<Rightarrow> rel (potential v ps) k | Cancelled \<Rightarrow> True | NoFuel \<Rightarrow> False)"

context bounded_runtime
begin

lemma spent:
  assumes "length inp \<le> length (ps_input ps) \<and> recs = Suc (ps_recoveries ps) \<and> recs \<le> limit"
  shows "potential limit (install inp errs recs ps) < potential limit ps"
  using assms by (auto simp: install_def potential_def)

lemma sync_costs: "costs limit (\<le>) (potential limit ps) (synchronize R l ps)"
proof (cases "sync R ps")
  case (Returns ns inp errs recs)
  with sync_returns [OF this] show ?thesis by (simp add: synchronize_def install_def potential_def)
next
  case (Throws e inp errs recs)
  with sync_throws [OF this] show ?thesis by (simp add: synchronize_def install_def potential_def)
qed (simp add: synchronize_def)

lemma miss_costs:
  assumes "LA1 (ps_input ps) \<noteq> ttype"
  shows "costs limit (<) (potential limit ps) (match R label ttype l ps)"
proof (cases "match_token R ttype ps")
  case (Returns x inp errs recs)
  with spent [OF miss_returns [OF assms this]] show ?thesis
    by (cases x) (simp add: match_def take_token_def)
next
  case (Throws e inp errs recs)
  with spent [OF miss_throws [OF this]] show ?thesis by (simp add: match_def take_token_def)
qed (simp add: match_def take_token_def)

lemma match_costs:
  "costs limit (\<le>) (potential limit ps) (match R label ttype l ps)"
  "ttype \<noteq> TOKEN_EOF \<Longrightarrow> costs limit (<) (potential limit ps) (match R label ttype l ps)"
proof -
  have hit: "match R label ttype l ps =
      Go (add [(label, Terminal (current (ps_input ps)))] l) (ps\<lparr>ps_input := advance (ps_input ps)\<rparr>)"
    if "LA1 (ps_input ps) = ttype"
    using match_hit [OF that] by (simp add: match_def take_token_def install_def unlabelled_def)
  show "costs limit (\<le>) (potential limit ps) (match R label ttype l ps)"
    using hit miss_costs [of ps ttype label l] advance_length(1) [of "ps_input ps"]
    by (cases "LA1 (ps_input ps) = ttype") (auto simp: potential_def split: outcome.splits)
  show "costs limit (<) (potential limit ps) (match R label ttype l ps)" if "ttype \<noteq> TOKEN_EOF"
    using that hit miss_costs [of ps ttype label l] advance_length(2) [of "ps_input ps"]
    by (cases "LA1 (ps_input ps) = ttype") (auto simp: potential_def split: outcome.splits)
qed

lemma match_set_costs: "costs limit (\<le>) (potential limit ps) (match_set R label test l ps)"
proof (cases "test (LA1 (ps_input ps))")
  case True
  then show ?thesis
    using advance_length(1) [of "ps_input ps"] by (simp add: match_set_def consume_current potential_def)
next
  case False
  then have "match_set R label test l ps = take_token label (recoverInline R ps) l ps"
    by (simp add: match_set_def)
  then show ?thesis
    using less_imp_le [OF spent [OF inline_returns, of ps]] less_imp_le [OF spent [OF inline_throws, of ps]]
    by (cases "recoverInline R ps") (auto simp: take_token_def)
qed

lemma fits_sync:
  assumes "fits limit m d a"
  shows "fits limit m d (seq (synchronize R) a)"
proof (rule fits_seq [OF _ assms])
  fix l ps
  assume "below limit m d ps"
  with sync_costs [of ps l]
  show "case synchronize R l ps of Go l' ps' \<Rightarrow> below limit m d ps'
      | Threw e l' ps' \<Rightarrow> potential limit ps' \<le> m | Cancelled \<Rightarrow> True | NoFuel \<Rightarrow> False"
    by (auto simp: below_def split: outcome.splits if_splits)
qed

lemma fits_match:
  assumes "ttype \<noteq> TOKEN_EOF" "fits limit m True a"
  shows "fits limit m d (seq (match R label ttype) a)"
proof (rule fits_seq [OF _ assms(2)])
  fix l ps
  assume "below limit m d ps"
  with match_costs(2) [OF assms(1), of ps label l]
  show "case match R label ttype l ps of Go l' ps' \<Rightarrow> below limit m True ps'
      | Threw e l' ps' \<Rightarrow> potential limit ps' \<le> m | Cancelled \<Rightarrow> True | NoFuel \<Rightarrow> False"
    by (auto simp: below_def split: outcome.splits if_splits)
qed

lemma fits_match_EOF:
  assumes "fits limit m d a"
  shows "fits limit m d (seq (match R label TOKEN_EOF) a)"
proof (rule fits_seq [OF _ assms])
  fix l ps
  assume "below limit m d ps"
  with match_costs(1) [of ps label TOKEN_EOF l]
  show "case match R label TOKEN_EOF l ps of Go l' ps' \<Rightarrow> below limit m d ps'
      | Threw e l' ps' \<Rightarrow> potential limit ps' \<le> m | Cancelled \<Rightarrow> True | NoFuel \<Rightarrow> False"
    by (auto simp: below_def split: outcome.splits if_splits)
qed

lemma fits_match_set:
  assumes "fits limit m d a"
  shows "fits limit m d (seq (match_set R label test) a)"
proof (rule fits_seq [OF _ assms])
  fix l ps
  assume "below limit m d ps"
  with match_set_costs [of ps label test l]
  show "case match_set R label test l ps of Go l' ps' \<Rightarrow> below limit m d ps'
      | Threw e l' ps' \<Rightarrow> potential limit ps' \<le> m | Cancelled \<Rightarrow> True | NoFuel \<Rightarrow> False"
    by (auto simp: below_def split: outcome.splits if_splits)
qed

lemma fits_switch:
  assumes "\<And>alt. 1 \<le> alt \<Longrightarrow> alt \<le> alternatives d \<Longrightarrow> fits limit m b (f alt)"
  shows "fits limit m b (switch R d f)"
  unfolding fits_def
proof (intro allI impI)
  fix l ps
  assume start: "below limit m b ps"
  show "case switch R d f l ps of Go l' ps' \<Rightarrow> potential limit ps' < m
      | Threw e l' ps' \<Rightarrow> potential limit ps' \<le> m | Cancelled \<Rightarrow> True | NoFuel \<Rightarrow> False"
  proof (cases "adaptivePredict R d ps")
    case None
    with start show ?thesis by (auto simp: switch_def below_def split: if_splits)
  next
    case (Some alt)
    with assms predict_range [OF Some] start show ?thesis by (simp add: switch_def fits_def)
  qed
qed

lemma fits_while_alt:
  assumes "\<And>m'. m' < m \<Longrightarrow> fits limit m' False (body 1)" "alternatives d = 2"
  shows "potential limit ps < n \<Longrightarrow> potential limit ps < m \<Longrightarrow>
    (case while_alt R n d body l ps of Go l' ps' \<Rightarrow> potential limit ps' < m
      | Threw e l' ps' \<Rightarrow> potential limit ps' \<le> m | Cancelled \<Rightarrow> True | NoFuel \<Rightarrow> False)"
proof (induction n arbitrary: l ps)
  case (Suc n)
  show ?case
  proof (cases "adaptivePredict R d ps")
    case None
    with Suc.prems show ?thesis by (simp add: switch_def)
  next
    case (Some alt)
    note body = assms(1) [OF Suc.prems(2), unfolded fits_def, rule_format, of ps l]
    consider "alt = 1" | "alt = 2" using predict_range [OF Some] assms(2) by linarith
    then show ?thesis
    proof cases
      case 1
      show ?thesis
      proof (cases "body 1 l ps")
        case (Go l1 ps1)
        with body have "potential limit ps1 < potential limit ps" by (simp add: below_def)
        with Go 1 Some Suc.IH [of ps1 l1] Suc.prems show ?thesis by (simp add: switch_def seq_def)
      qed (use body 1 Some Suc.prems in \<open>auto simp: switch_def seq_def below_def\<close>)
    next
      case 2
      with Some Suc.prems show ?thesis by (simp add: switch_def skip_def)
    qed
  qed
qed simp

lemma fits_while_alt_then:
  assumes "m \<le> n" "\<And>m'. m' < m \<Longrightarrow> fits limit m' False (body 1)" "alternatives d = 2"
    "fits limit m True a"
  shows "fits limit m True (seq (while_alt R n d body) a)"
proof (rule fits_seq [OF _ assms(4)])
  fix l ps
  assume "below limit m True ps"
  with fits_while_alt [of m body d ps n l] assms(1-3)
  show "case while_alt R n d body l ps of Go l' ps' \<Rightarrow> below limit m True ps'
      | Threw e l' ps' \<Rightarrow> potential limit ps' \<le> m | Cancelled \<Rightarrow> True | NoFuel \<Rightarrow> False"
    by (auto simp: below_def split: outcome.splits)
qed

lemma handle_costs:
  assumes "costs limit (<) m r \<or> (\<exists>e l ps. r = Threw e l ps \<and> potential limit ps \<le> m)"
    "\<And>ps. potential limit (f ps) = potential limit ps"
  shows "handle R f r \<noteq> Starved" "handle R f r = Built t ps' \<Longrightarrow> potential limit ps' < m"
proof -
  have recover: "potential limit (install inp errs recs ps) < potential limit ps"
    if "reportAndRecover R e ps = Some (ns, inp, errs, recs)" for e ps ns inp errs recs
    by (rule spent [OF recover_returns [OF that]])
  show "handle R f r \<noteq> Starved"
    using assms(1) by (auto simp: handle_def split: outcome.splits option.splits)
  show "potential limit ps' < m" if "handle R f r = Built t ps'"
    using that assms by (auto simp: handle_def dest!: recover split: outcome.splits option.splits)
qed

lemma fits_costs:
  assumes "fits limit m d a" "below limit m d ps"
  shows "costs limit (<) m (a l ps) \<or> (\<exists>e l' ps'. a l ps = Threw e l' ps' \<and> potential limit ps' \<le> m)"
  using assms unfolding fits_def by (fastforce split: outcome.splits)

definition cheap :: "nat \<Rightarrow> call \<Rightarrow> (pstate \<Rightarrow> result) \<Rightarrow> bool" where
  "cheap n c f \<longleftrightarrow> (\<forall>ps. 12 * potential limit ps + rank c \<le> n \<longrightarrow>
     f ps \<noteq> Starved \<and> (\<forall>t ps'. f ps = Built t ps' \<longrightarrow> potential limit ps' < potential limit ps))"

lemma cheap_rule:
  assumes "\<And>m. 12 * m + rank c \<le> n \<Longrightarrow> fits limit m False body"
  shows "cheap n c (rule_function R C st r body)" "cheap n c (recursion_function R C st r k body)"
proof -
  have *: "handle R f (body l ps') \<noteq> Starved \<and>
      (\<forall>t ps''. handle R f (body l ps') = Built t ps'' \<longrightarrow> potential limit ps'' < potential limit ps)"
    if "12 * potential limit ps + rank c \<le> n" "potential limit ps' = potential limit ps"
      "\<And>ps. potential limit (f ps) = potential limit ps" for f l ps ps'
  proof -
    have "below limit (potential limit ps) False ps'" using that(2) by (simp add: below_def)
    note r = fits_costs [OF assms [OF that(1)] this, of l]
    show ?thesis using handle_costs(1) [OF r that(3)] handle_costs(2) [OF r that(3)] by blast
  qed
  have "potential limit (enterRule R st r ps) = potential limit ps"
    "potential limit (enterRecursionRule R st r k ps) = potential limit ps"
    "potential limit (exitRule R ps) = potential limit ps"
    "potential limit (unrollRecursionContexts R ctx ps) = potential limit ps" for ctx ps
    by (subst enter_keeps enter_recursion_keeps exit_keeps unroll_keeps; simp)+
  then show "cheap n c (rule_function R C st r body)" "cheap n c (recursion_function R C st r k body)"
    unfolding cheap_def rule_function_def recursion_function_def by (intro allI impI *; simp)+
qed

lemmas fits_rules = fits_skip fits_throw fits_plain fits_if_LA fits_if fits_sync fits_match_EOF
  fits_match fits_match_set fits_switch fits_while_LA_then fits_while_alt_then

lemma cheap_dispatch:
  assumes "affords limit n self"
  shows "cheap n c (dispatch R n self c)"
  by (cases c; simp only: dispatch.simps rule_defs block_steps; rule cheap_rule;
      intro fits_rules fits_invoke [OF assms]; simp add: token_types alternatives.simps)

lemma affords_run: "affords limit n (run R n)"
proof (induction n)
  case 0
  then show ?case by (simp add: affords_def)
next
  case (Suc n)
  have "run R (Suc n) c = dispatch R n (run R n) c" for c by (intro ext) simp
  then show ?case
    using cheap_dispatch [OF Suc] unfolding affords_def cheap_def by (simp add: less_Suc_eq_le)
qed

lemma parse_returns:
  assumes "12 * (length inp + limit) + 10 < fuel"
  shows "parse R fuel inp \<noteq> Starved"
  using affords_run [of fuel] assms
  by (auto simp: affords_def parse_def new_parser_def potential_def)

end

section \<open>More fuel changes nothing\<close>

definition extends :: "action \<Rightarrow> action \<Rightarrow> bool" where
  "extends a b \<longleftrightarrow> (\<forall>l ps. a l ps \<noteq> NoFuel \<longrightarrow> b l ps = a l ps)"

definition extends_calls :: "calls \<Rightarrow> calls \<Rightarrow> bool" where
  "extends_calls f g \<longleftrightarrow> (\<forall>c ps. f c ps \<noteq> Starved \<longrightarrow> g c ps = f c ps)"

lemma extends_refl [intro!]: "extends a a"
  by (simp add: extends_def)

lemma extends_seq [intro!]:
  assumes "extends a a'" "extends b b'"
  shows "extends (seq a b) (seq a' b')"
  unfolding extends_def
proof (intro allI impI)
  fix l ps
  assume *: "seq a b l ps \<noteq> NoFuel"
  then have "a l ps \<noteq> NoFuel" by (auto simp: seq_def)
  then have "a' l ps = a l ps" using assms(1) by (simp add: extends_def)
  with * assms(2) show "seq a' b' l ps = seq a b l ps"
    by (auto simp: extends_def seq_def split: outcome.splits)
qed

lemma extends_if_LA [intro!]: "extends a a' \<Longrightarrow> extends b b' \<Longrightarrow> extends (if_LA test a b) (if_LA test a' b')"
  by (simp add: extends_def if_LA_def)

lemma extends_if [intro!]: "extends a a' \<Longrightarrow> extends b b' \<Longrightarrow> extends (if c then a else b) (if c then a' else b')"
  by simp

lemma extends_switch [intro!]: "(\<And>alt. extends (f alt) (g alt)) \<Longrightarrow> extends (switch R d f) (switch R d g)"
  by (auto simp: extends_def switch_def split: option.splits)

lemma extends_invoke [intro!]: "extends_calls f g \<Longrightarrow> extends (invoke f label c) (invoke g label c)"
  unfolding extends_def extends_calls_def
proof (intro allI impI)
  fix l ps
  assume f: "\<forall>c ps. f c ps \<noteq> Starved \<longrightarrow> g c ps = f c ps" "invoke f label c l ps \<noteq> NoFuel"
  then have "f c ps \<noteq> Starved" by (auto simp: invoke_def)
  with f show "invoke g label c l ps = invoke f label c l ps" by (simp add: invoke_def)
qed

lemma extends_while_LA [intro!]:
  assumes "n \<le> n'" "extends body body'"
  shows "extends (while_LA n test body) (while_LA n' test body')"
  using assms(1)
proof (induction n arbitrary: n')
  case 0
  then show ?case by (cases n') (auto simp: extends_def)
next
  case (Suc n)
  then obtain k where k: "n' = Suc k" "n \<le> k" by (cases n') auto
  have "extends (seq body (while_LA n test body)) (seq body' (while_LA k test body'))"
    using Suc.IH [OF k(2)] assms(2) by blast
  then show ?case by (auto simp: extends_def k)
qed

lemma extends_while_alt [intro!]:
  assumes "n \<le> n'" "\<And>alt. extends (body alt) (body' alt)"
  shows "extends (while_alt R n d body) (while_alt R n' d body')"
  using assms(1)
proof (induction n arbitrary: n')
  case 0
  then show ?case by (cases n') (auto simp: extends_def switch_def split: option.splits if_splits)
next
  case (Suc n)
  then obtain k where k: "n' = Suc k" "n \<le> k" by (cases n') auto
  have "extends (seq (body alt) (while_alt R n d body)) (seq (body' alt) (while_alt R k d body'))" for alt
    using Suc.IH [OF k(2)] assms(2) by blast
  then show ?case
    by (auto simp: extends_def k switch_def split: option.split)
qed

lemma extends_frames:
  assumes "extends body body'"
  shows "rule_function R C st r body ps \<noteq> Starved \<Longrightarrow> rule_function R C st r body' ps = rule_function R C st r body ps"
    "recursion_function R C st r k body ps \<noteq> Starved \<Longrightarrow>
       recursion_function R C st r k body' ps = recursion_function R C st r k body ps"
proof -
  have "body' l ps = body l ps" if "handle R f (body l ps) \<noteq> Starved" for f l ps
    using assms that by (cases "body l ps") (auto simp: extends_def handle_def)
  then show "rule_function R C st r body ps \<noteq> Starved \<Longrightarrow> rule_function R C st r body' ps = rule_function R C st r body ps"
    "recursion_function R C st r k body ps \<noteq> Starved \<Longrightarrow>
       recursion_function R C st r k body' ps = recursion_function R C st r k body ps"
    unfolding rule_function_def recursion_function_def by metis+
qed

lemma extends_dispatch:
  assumes "extends_calls f g" "n \<le> n'"
  shows "extends_calls (dispatch R n f) (dispatch R n' g)"
  unfolding extends_calls_def
proof (intro allI impI)
  show "dispatch R n f c ps \<noteq> Starved \<Longrightarrow> dispatch R n' g c ps = dispatch R n f c ps" for c ps
    by (cases c; simp only: dispatch.simps rule_defs block_simps;
        (rule extends_frames(1) [rotated], assumption | rule extends_frames(2) [rotated], assumption);
        intro extends_refl extends_seq extends_if_LA extends_if extends_switch extends_invoke
          extends_while_LA extends_while_alt assms)
qed

lemma extends_run: "fuel \<le> fuel' \<Longrightarrow> extends_calls (run R fuel) (run R fuel')"
proof (induction fuel arbitrary: fuel')
  case 0
  then show ?case by (simp add: extends_calls_def)
next
  case (Suc fuel)
  then obtain k where k: "fuel' = Suc k" "fuel \<le> k" by (cases fuel') auto
  have "run R (Suc n) = dispatch R n (run R n)" for n by (intro ext) simp
  then show ?case using extends_dispatch [OF Suc.IH [OF k(2)] k(2)] k(1) by simp
qed

lemma parse_more_fuel: "parse R fuel inp \<noteq> Starved \<Longrightarrow> fuel \<le> fuel' \<Longrightarrow> parse R fuel' inp = parse R fuel inp"
  using extends_run [of fuel fuel' R] by (simp add: extends_calls_def parse_def)

end
