(* ===== verification/Cel_Contexts.thy ===== *)
theory Cel_Contexts
  imports Cel_Productions
begin

text \<open>
  The context classes of the generated parser (CelParser.h, CelParser.cpp): what each declares,
  the members its children are assigned to and the accessors for its children, one definition
  each. The children are found by four functions of the ANTLR runtime, the record \<open>tree_api\<close>;
  \<open>tree_access\<close> is what they are documented to return.
\<close>

section \<open>The runtime's access to children\<close>

record tree_api =
  getToken :: "u64 \<Rightarrow> nat \<Rightarrow> ptree list \<Rightarrow> ptree option"
  getTokens :: "u64 \<Rightarrow> ptree list \<Rightarrow> ptree list"
  getRuleContext :: "context_class \<Rightarrow> nat \<Rightarrow> ptree list \<Rightarrow> ptree option"
  getRuleContexts :: "context_class \<Rightarrow> ptree list \<Rightarrow> ptree list"

text \<open>A token node is a leaf, an error node as well; \<open>dynamic_cast\<close> follows the base classes.\<close>

fun is_token :: "u64 \<Rightarrow> ptree \<Rightarrow> bool" where
  "is_token ttype (Terminal t) = (tok_type t = ttype)"
| "is_token ttype (ErrorNode t) = (tok_type t = ttype)"
| "is_token ttype _ = False"

fun base_class :: "context_class \<Rightarrow> context_class option" where
  "base_class LogicalNotContext = Some UnaryContext"
| "base_class MemberExprContext = Some UnaryContext"
| "base_class NegateContext = Some UnaryContext"
| "base_class MemberCallContext = Some MemberContext"
| "base_class SelectContext = Some MemberContext"
| "base_class PrimaryExprContext = Some MemberContext"
| "base_class IndexContext = Some MemberContext"
| "base_class CreateListContext = Some PrimaryContext"
| "base_class IdentContext = Some PrimaryContext"
| "base_class ConstantLiteralContext = Some PrimaryContext"
| "base_class NestedContext = Some PrimaryContext"
| "base_class CreateMessageContext = Some PrimaryContext"
| "base_class GlobalCallContext = Some PrimaryContext"
| "base_class CreateMapContext = Some PrimaryContext"
| "base_class EscapedIdentifierContext = Some EscapeIdentContext"
| "base_class SimpleIdentifierContext = Some EscapeIdentContext"
| "base_class BytesContext = Some LiteralContext"
| "base_class UintContext = Some LiteralContext"
| "base_class NullContext = Some LiteralContext"
| "base_class BoolFalseContext = Some LiteralContext"
| "base_class StringContext = Some LiteralContext"
| "base_class DoubleContext = Some LiteralContext"
| "base_class BoolTrueContext = Some LiteralContext"
| "base_class IntContext = Some LiteralContext"
| "base_class _ = None"

definition instance_of :: "context_class \<Rightarrow> ptree \<Rightarrow> bool" where
  "instance_of B t = (case t of Context c ts e \<Rightarrow> c = B \<or> base_class c = Some B | _ \<Rightarrow> False)"

definition nth_of :: "'a list \<Rightarrow> nat \<Rightarrow> 'a option" where
  "nth_of xs i = (if i < length xs then Some (xs ! i) else None)"

locale tree_access =
  fixes A :: tree_api
  assumes tokens_law: "getTokens A ttype ts = filter (is_token ttype) ts"
    and token_law: "getToken A ttype i ts = nth_of (filter (is_token ttype) ts) i"
    and contexts_law: "getRuleContexts A B ts = filter (instance_of B) ts"
    and context_law: "getRuleContext A B i ts = nth_of (filter (instance_of B) ts) i"

section \<open>Members\<close>

datatype member_kind = Token_of | Tokens_of | Context_of cel_rule | Contexts_of cel_rule

definition StartContext_members :: "(string \<times> member_kind) list" where
  "StartContext_members = [(''e'', Context_of RuleExpr)]"

definition ExprContext_members :: "(string \<times> member_kind) list" where
  "ExprContext_members = [(''e'', Context_of RuleConditionalOr), (''op'', Token_of),
     (''e1'', Context_of RuleConditionalOr), (''e2'', Context_of RuleExpr)]"

definition ConditionalOrContext_members :: "(string \<times> member_kind) list" where
  "ConditionalOrContext_members = [(''e'', Context_of RuleConditionalAnd), (''s9'', Token_of),
     (''ops'', Tokens_of),
     (''conditionalAndContext'', Context_of RuleConditionalAnd),
     (''e1'', Contexts_of RuleConditionalAnd)]"

definition ConditionalAndContext_members :: "(string \<times> member_kind) list" where
  "ConditionalAndContext_members = [(''e'', Context_of RuleRelation), (''s8'', Token_of),
     (''ops'', Tokens_of), (''relationContext'', Context_of RuleRelation),
     (''e1'', Contexts_of RuleRelation)]"

definition RelationContext_members :: "(string \<times> member_kind) list" where
  "RelationContext_members = [(''op'', Token_of)]"

definition CalcContext_members :: "(string \<times> member_kind) list" where
  "CalcContext_members = [(''op'', Token_of)]"

definition LogicalNotContext_members :: "(string \<times> member_kind) list" where
  "LogicalNotContext_members = [(''s19'', Token_of), (''ops'', Tokens_of)]"

definition NegateContext_members :: "(string \<times> member_kind) list" where
  "NegateContext_members = [(''s18'', Token_of), (''ops'', Tokens_of)]"

definition MemberCallContext_members :: "(string \<times> member_kind) list" where
  "MemberCallContext_members = [(''op'', Token_of), (''id'', Token_of), (''open'', Token_of),
     (''args'', Context_of RuleExprList)]"

definition SelectContext_members :: "(string \<times> member_kind) list" where
  "SelectContext_members = [(''op'', Token_of), (''opt'', Token_of),
     (''id'', Context_of RuleEscapeIdent)]"

definition IndexContext_members :: "(string \<times> member_kind) list" where
  "IndexContext_members = [(''op'', Token_of), (''opt'', Token_of),
     (''index'', Context_of RuleExpr)]"

definition CreateListContext_members :: "(string \<times> member_kind) list" where
  "CreateListContext_members = [(''op'', Token_of), (''elems'', Context_of RuleListInit)]"

definition IdentContext_members :: "(string \<times> member_kind) list" where
  "IdentContext_members = [(''leadingDot'', Token_of), (''id'', Token_of)]"

definition NestedContext_members :: "(string \<times> member_kind) list" where
  "NestedContext_members = [(''e'', Context_of RuleExpr)]"

definition CreateMessageContext_members :: "(string \<times> member_kind) list" where
  "CreateMessageContext_members = [(''leadingDot'', Token_of), (''identifierToken'', Token_of),
     (''ids'', Tokens_of), (''s16'', Token_of), (''ops'', Tokens_of),
     (''op'', Token_of), (''entries'', Context_of RuleFieldInitializerList)]"

definition GlobalCallContext_members :: "(string \<times> member_kind) list" where
  "GlobalCallContext_members = [(''leadingDot'', Token_of), (''id'', Token_of), (''op'', Token_of),
     (''args'', Context_of RuleExprList)]"

definition CreateMapContext_members :: "(string \<times> member_kind) list" where
  "CreateMapContext_members = [(''op'', Token_of), (''entries'', Context_of RuleMapInitializerList)]"

definition ExprListContext_members :: "(string \<times> member_kind) list" where
  "ExprListContext_members = [(''exprContext'', Context_of RuleExpr), (''e'', Contexts_of RuleExpr)]"

definition ListInitContext_members :: "(string \<times> member_kind) list" where
  "ListInitContext_members = [(''optExprContext'', Context_of RuleOptExpr),
     (''elems'', Contexts_of RuleOptExpr)]"

definition FieldInitializerListContext_members :: "(string \<times> member_kind) list" where
  "FieldInitializerListContext_members = [(''optFieldContext'', Context_of RuleOptField),
     (''fields'', Contexts_of RuleOptField), (''s21'', Token_of),
     (''cols'', Tokens_of), (''exprContext'', Context_of RuleExpr),
     (''values'', Contexts_of RuleExpr)]"

definition OptFieldContext_members :: "(string \<times> member_kind) list" where
  "OptFieldContext_members = [(''opt'', Token_of)]"

definition MapInitializerListContext_members :: "(string \<times> member_kind) list" where
  "MapInitializerListContext_members = [(''optExprContext'', Context_of RuleOptExpr),
     (''keys'', Contexts_of RuleOptExpr), (''s21'', Token_of),
     (''cols'', Tokens_of), (''exprContext'', Context_of RuleExpr),
     (''values'', Contexts_of RuleExpr)]"

definition EscapedIdentifierContext_members :: "(string \<times> member_kind) list" where
  "EscapedIdentifierContext_members = [(''id'', Token_of)]"

definition SimpleIdentifierContext_members :: "(string \<times> member_kind) list" where
  "SimpleIdentifierContext_members = [(''id'', Token_of)]"

definition OptExprContext_members :: "(string \<times> member_kind) list" where
  "OptExprContext_members = [(''opt'', Token_of), (''e'', Context_of RuleExpr)]"

definition BytesContext_members :: "(string \<times> member_kind) list" where
  "BytesContext_members = [(''tok'', Token_of)]"

definition UintContext_members :: "(string \<times> member_kind) list" where
  "UintContext_members = [(''tok'', Token_of)]"

definition NullContext_members :: "(string \<times> member_kind) list" where
  "NullContext_members = [(''tok'', Token_of)]"

definition BoolFalseContext_members :: "(string \<times> member_kind) list" where
  "BoolFalseContext_members = [(''tok'', Token_of)]"

definition StringContext_members :: "(string \<times> member_kind) list" where
  "StringContext_members = [(''tok'', Token_of)]"

definition DoubleContext_members :: "(string \<times> member_kind) list" where
  "DoubleContext_members = [(''sign'', Token_of), (''tok'', Token_of)]"

definition BoolTrueContext_members :: "(string \<times> member_kind) list" where
  "BoolTrueContext_members = [(''tok'', Token_of)]"

definition IntContext_members :: "(string \<times> member_kind) list" where
  "IntContext_members = [(''sign'', Token_of), (''tok'', Token_of)]"

fun members :: "context_class \<Rightarrow> (string \<times> member_kind) list" where
  "members StartContext = StartContext_members"
| "members ExprContext = ExprContext_members"
| "members ConditionalOrContext = ConditionalOrContext_members"
| "members ConditionalAndContext = ConditionalAndContext_members"
| "members RelationContext = RelationContext_members"
| "members CalcContext = CalcContext_members"
| "members UnaryContext = []"
| "members LogicalNotContext = LogicalNotContext_members"
| "members MemberExprContext = []"
| "members NegateContext = NegateContext_members"
| "members MemberContext = []"
| "members MemberCallContext = MemberCallContext_members"
| "members SelectContext = SelectContext_members"
| "members PrimaryExprContext = []"
| "members IndexContext = IndexContext_members"
| "members PrimaryContext = []"
| "members CreateListContext = CreateListContext_members"
| "members IdentContext = IdentContext_members"
| "members ConstantLiteralContext = []"
| "members NestedContext = NestedContext_members"
| "members CreateMessageContext = CreateMessageContext_members"
| "members GlobalCallContext = GlobalCallContext_members"
| "members CreateMapContext = CreateMapContext_members"
| "members ExprListContext = ExprListContext_members"
| "members ListInitContext = ListInitContext_members"
| "members FieldInitializerListContext = FieldInitializerListContext_members"
| "members OptFieldContext = OptFieldContext_members"
| "members MapInitializerListContext = MapInitializerListContext_members"
| "members EscapeIdentContext = []"
| "members EscapedIdentifierContext = EscapedIdentifierContext_members"
| "members SimpleIdentifierContext = SimpleIdentifierContext_members"
| "members OptExprContext = OptExprContext_members"
| "members LiteralContext = []"
| "members BytesContext = BytesContext_members"
| "members UintContext = UintContext_members"
| "members NullContext = NullContext_members"
| "members BoolFalseContext = BoolFalseContext_members"
| "members StringContext = StringContext_members"
| "members DoubleContext = DoubleContext_members"
| "members BoolTrueContext = BoolTrueContext_members"
| "members IntContext = IntContext_members"

lemmas members_defs = StartContext_members_def ExprContext_members_def
  ConditionalOrContext_members_def ConditionalAndContext_members_def RelationContext_members_def
  CalcContext_members_def LogicalNotContext_members_def NegateContext_members_def
  MemberCallContext_members_def SelectContext_members_def IndexContext_members_def
  CreateListContext_members_def IdentContext_members_def NestedContext_members_def
  CreateMessageContext_members_def GlobalCallContext_members_def CreateMapContext_members_def
  ExprListContext_members_def ListInitContext_members_def FieldInitializerListContext_members_def
  OptFieldContext_members_def MapInitializerListContext_members_def
  EscapedIdentifierContext_members_def SimpleIdentifierContext_members_def
  OptExprContext_members_def BytesContext_members_def UintContext_members_def
  NullContext_members_def BoolFalseContext_members_def StringContext_members_def
  DoubleContext_members_def BoolTrueContext_members_def IntContext_members_def

section \<open>Accessors\<close>

definition StartContext_EOF :: "tree_api \<Rightarrow> ptree list \<Rightarrow> ptree option" where
  "StartContext_EOF A ts = getToken A TOKEN_EOF 0 ts"

definition StartContext_expr :: "tree_api \<Rightarrow> ptree list \<Rightarrow> ptree option" where
  "StartContext_expr A ts = getRuleContext A ExprContext 0 ts"

definition ExprContext_conditionalOr_all :: "tree_api \<Rightarrow> ptree list \<Rightarrow> ptree list" where
  "ExprContext_conditionalOr_all A ts = getRuleContexts A ConditionalOrContext ts"

definition ExprContext_conditionalOr_at :: "tree_api \<Rightarrow> nat \<Rightarrow> ptree list \<Rightarrow> ptree option" where
  "ExprContext_conditionalOr_at A i ts = getRuleContext A ConditionalOrContext i ts"

definition ExprContext_COLON :: "tree_api \<Rightarrow> ptree list \<Rightarrow> ptree option" where
  "ExprContext_COLON A ts = getToken A COLON 0 ts"

definition ExprContext_QUESTIONMARK :: "tree_api \<Rightarrow> ptree list \<Rightarrow> ptree option" where
  "ExprContext_QUESTIONMARK A ts = getToken A QUESTIONMARK 0 ts"

definition ExprContext_expr :: "tree_api \<Rightarrow> ptree list \<Rightarrow> ptree option" where
  "ExprContext_expr A ts = getRuleContext A ExprContext 0 ts"

definition ConditionalOrContext_conditionalAnd_all :: "tree_api \<Rightarrow> ptree list \<Rightarrow> ptree list" where
  "ConditionalOrContext_conditionalAnd_all A ts = getRuleContexts A ConditionalAndContext ts"

definition ConditionalOrContext_conditionalAnd_at :: "tree_api \<Rightarrow> nat \<Rightarrow> ptree list \<Rightarrow> ptree option" where
  "ConditionalOrContext_conditionalAnd_at A i ts = getRuleContext A ConditionalAndContext i ts"

definition ConditionalOrContext_LOGICAL_OR_all :: "tree_api \<Rightarrow> ptree list \<Rightarrow> ptree list" where
  "ConditionalOrContext_LOGICAL_OR_all A ts = getTokens A LOGICAL_OR ts"

definition ConditionalOrContext_LOGICAL_OR_at :: "tree_api \<Rightarrow> nat \<Rightarrow> ptree list \<Rightarrow> ptree option" where
  "ConditionalOrContext_LOGICAL_OR_at A i ts = getToken A LOGICAL_OR i ts"

definition ConditionalAndContext_relation_all :: "tree_api \<Rightarrow> ptree list \<Rightarrow> ptree list" where
  "ConditionalAndContext_relation_all A ts = getRuleContexts A RelationContext ts"

definition ConditionalAndContext_relation_at :: "tree_api \<Rightarrow> nat \<Rightarrow> ptree list \<Rightarrow> ptree option" where
  "ConditionalAndContext_relation_at A i ts = getRuleContext A RelationContext i ts"

definition ConditionalAndContext_LOGICAL_AND_all :: "tree_api \<Rightarrow> ptree list \<Rightarrow> ptree list" where
  "ConditionalAndContext_LOGICAL_AND_all A ts = getTokens A LOGICAL_AND ts"

definition ConditionalAndContext_LOGICAL_AND_at :: "tree_api \<Rightarrow> nat \<Rightarrow> ptree list \<Rightarrow> ptree option" where
  "ConditionalAndContext_LOGICAL_AND_at A i ts = getToken A LOGICAL_AND i ts"

definition RelationContext_calc :: "tree_api \<Rightarrow> ptree list \<Rightarrow> ptree option" where
  "RelationContext_calc A ts = getRuleContext A CalcContext 0 ts"

definition RelationContext_relation_all :: "tree_api \<Rightarrow> ptree list \<Rightarrow> ptree list" where
  "RelationContext_relation_all A ts = getRuleContexts A RelationContext ts"

definition RelationContext_relation_at :: "tree_api \<Rightarrow> nat \<Rightarrow> ptree list \<Rightarrow> ptree option" where
  "RelationContext_relation_at A i ts = getRuleContext A RelationContext i ts"

definition RelationContext_LESS :: "tree_api \<Rightarrow> ptree list \<Rightarrow> ptree option" where
  "RelationContext_LESS A ts = getToken A LESS 0 ts"

definition RelationContext_LESS_EQUALS :: "tree_api \<Rightarrow> ptree list \<Rightarrow> ptree option" where
  "RelationContext_LESS_EQUALS A ts = getToken A LESS_EQUALS 0 ts"

definition RelationContext_GREATER_EQUALS :: "tree_api \<Rightarrow> ptree list \<Rightarrow> ptree option" where
  "RelationContext_GREATER_EQUALS A ts = getToken A GREATER_EQUALS 0 ts"

definition RelationContext_GREATER :: "tree_api \<Rightarrow> ptree list \<Rightarrow> ptree option" where
  "RelationContext_GREATER A ts = getToken A GREATER 0 ts"

definition RelationContext_EQUALS :: "tree_api \<Rightarrow> ptree list \<Rightarrow> ptree option" where
  "RelationContext_EQUALS A ts = getToken A EQUALS 0 ts"

definition RelationContext_NOT_EQUALS :: "tree_api \<Rightarrow> ptree list \<Rightarrow> ptree option" where
  "RelationContext_NOT_EQUALS A ts = getToken A NOT_EQUALS 0 ts"

definition RelationContext_IN :: "tree_api \<Rightarrow> ptree list \<Rightarrow> ptree option" where
  "RelationContext_IN A ts = getToken A IN 0 ts"

definition CalcContext_unary :: "tree_api \<Rightarrow> ptree list \<Rightarrow> ptree option" where
  "CalcContext_unary A ts = getRuleContext A UnaryContext 0 ts"

definition CalcContext_calc_all :: "tree_api \<Rightarrow> ptree list \<Rightarrow> ptree list" where
  "CalcContext_calc_all A ts = getRuleContexts A CalcContext ts"

definition CalcContext_calc_at :: "tree_api \<Rightarrow> nat \<Rightarrow> ptree list \<Rightarrow> ptree option" where
  "CalcContext_calc_at A i ts = getRuleContext A CalcContext i ts"

definition CalcContext_STAR :: "tree_api \<Rightarrow> ptree list \<Rightarrow> ptree option" where
  "CalcContext_STAR A ts = getToken A STAR 0 ts"

definition CalcContext_SLASH :: "tree_api \<Rightarrow> ptree list \<Rightarrow> ptree option" where
  "CalcContext_SLASH A ts = getToken A SLASH 0 ts"

definition CalcContext_PERCENT :: "tree_api \<Rightarrow> ptree list \<Rightarrow> ptree option" where
  "CalcContext_PERCENT A ts = getToken A PERCENT 0 ts"

definition CalcContext_PLUS :: "tree_api \<Rightarrow> ptree list \<Rightarrow> ptree option" where
  "CalcContext_PLUS A ts = getToken A PLUS 0 ts"

definition CalcContext_MINUS :: "tree_api \<Rightarrow> ptree list \<Rightarrow> ptree option" where
  "CalcContext_MINUS A ts = getToken A MINUS 0 ts"

definition LogicalNotContext_member :: "tree_api \<Rightarrow> ptree list \<Rightarrow> ptree option" where
  "LogicalNotContext_member A ts = getRuleContext A MemberContext 0 ts"

definition LogicalNotContext_EXCLAM_all :: "tree_api \<Rightarrow> ptree list \<Rightarrow> ptree list" where
  "LogicalNotContext_EXCLAM_all A ts = getTokens A EXCLAM ts"

definition LogicalNotContext_EXCLAM_at :: "tree_api \<Rightarrow> nat \<Rightarrow> ptree list \<Rightarrow> ptree option" where
  "LogicalNotContext_EXCLAM_at A i ts = getToken A EXCLAM i ts"

definition MemberExprContext_member :: "tree_api \<Rightarrow> ptree list \<Rightarrow> ptree option" where
  "MemberExprContext_member A ts = getRuleContext A MemberContext 0 ts"

definition NegateContext_member :: "tree_api \<Rightarrow> ptree list \<Rightarrow> ptree option" where
  "NegateContext_member A ts = getRuleContext A MemberContext 0 ts"

definition NegateContext_MINUS_all :: "tree_api \<Rightarrow> ptree list \<Rightarrow> ptree list" where
  "NegateContext_MINUS_all A ts = getTokens A MINUS ts"

definition NegateContext_MINUS_at :: "tree_api \<Rightarrow> nat \<Rightarrow> ptree list \<Rightarrow> ptree option" where
  "NegateContext_MINUS_at A i ts = getToken A MINUS i ts"

definition MemberCallContext_member :: "tree_api \<Rightarrow> ptree list \<Rightarrow> ptree option" where
  "MemberCallContext_member A ts = getRuleContext A MemberContext 0 ts"

definition MemberCallContext_RPAREN :: "tree_api \<Rightarrow> ptree list \<Rightarrow> ptree option" where
  "MemberCallContext_RPAREN A ts = getToken A RPAREN 0 ts"

definition MemberCallContext_DOT :: "tree_api \<Rightarrow> ptree list \<Rightarrow> ptree option" where
  "MemberCallContext_DOT A ts = getToken A DOT 0 ts"

definition MemberCallContext_IDENTIFIER :: "tree_api \<Rightarrow> ptree list \<Rightarrow> ptree option" where
  "MemberCallContext_IDENTIFIER A ts = getToken A IDENTIFIER 0 ts"

definition MemberCallContext_LPAREN :: "tree_api \<Rightarrow> ptree list \<Rightarrow> ptree option" where
  "MemberCallContext_LPAREN A ts = getToken A LPAREN 0 ts"

definition MemberCallContext_exprList :: "tree_api \<Rightarrow> ptree list \<Rightarrow> ptree option" where
  "MemberCallContext_exprList A ts = getRuleContext A ExprListContext 0 ts"

definition SelectContext_member :: "tree_api \<Rightarrow> ptree list \<Rightarrow> ptree option" where
  "SelectContext_member A ts = getRuleContext A MemberContext 0 ts"

definition SelectContext_DOT :: "tree_api \<Rightarrow> ptree list \<Rightarrow> ptree option" where
  "SelectContext_DOT A ts = getToken A DOT 0 ts"

definition SelectContext_escapeIdent :: "tree_api \<Rightarrow> ptree list \<Rightarrow> ptree option" where
  "SelectContext_escapeIdent A ts = getRuleContext A EscapeIdentContext 0 ts"

definition SelectContext_QUESTIONMARK :: "tree_api \<Rightarrow> ptree list \<Rightarrow> ptree option" where
  "SelectContext_QUESTIONMARK A ts = getToken A QUESTIONMARK 0 ts"

definition PrimaryExprContext_primary :: "tree_api \<Rightarrow> ptree list \<Rightarrow> ptree option" where
  "PrimaryExprContext_primary A ts = getRuleContext A PrimaryContext 0 ts"

definition IndexContext_member :: "tree_api \<Rightarrow> ptree list \<Rightarrow> ptree option" where
  "IndexContext_member A ts = getRuleContext A MemberContext 0 ts"

definition IndexContext_RPRACKET :: "tree_api \<Rightarrow> ptree list \<Rightarrow> ptree option" where
  "IndexContext_RPRACKET A ts = getToken A RPRACKET 0 ts"

definition IndexContext_LBRACKET :: "tree_api \<Rightarrow> ptree list \<Rightarrow> ptree option" where
  "IndexContext_LBRACKET A ts = getToken A LBRACKET 0 ts"

definition IndexContext_expr :: "tree_api \<Rightarrow> ptree list \<Rightarrow> ptree option" where
  "IndexContext_expr A ts = getRuleContext A ExprContext 0 ts"

definition IndexContext_QUESTIONMARK :: "tree_api \<Rightarrow> ptree list \<Rightarrow> ptree option" where
  "IndexContext_QUESTIONMARK A ts = getToken A QUESTIONMARK 0 ts"

definition CreateListContext_RPRACKET :: "tree_api \<Rightarrow> ptree list \<Rightarrow> ptree option" where
  "CreateListContext_RPRACKET A ts = getToken A RPRACKET 0 ts"

definition CreateListContext_LBRACKET :: "tree_api \<Rightarrow> ptree list \<Rightarrow> ptree option" where
  "CreateListContext_LBRACKET A ts = getToken A LBRACKET 0 ts"

definition CreateListContext_COMMA :: "tree_api \<Rightarrow> ptree list \<Rightarrow> ptree option" where
  "CreateListContext_COMMA A ts = getToken A COMMA 0 ts"

definition CreateListContext_listInit :: "tree_api \<Rightarrow> ptree list \<Rightarrow> ptree option" where
  "CreateListContext_listInit A ts = getRuleContext A ListInitContext 0 ts"

definition IdentContext_IDENTIFIER :: "tree_api \<Rightarrow> ptree list \<Rightarrow> ptree option" where
  "IdentContext_IDENTIFIER A ts = getToken A IDENTIFIER 0 ts"

definition IdentContext_DOT :: "tree_api \<Rightarrow> ptree list \<Rightarrow> ptree option" where
  "IdentContext_DOT A ts = getToken A DOT 0 ts"

definition ConstantLiteralContext_literal :: "tree_api \<Rightarrow> ptree list \<Rightarrow> ptree option" where
  "ConstantLiteralContext_literal A ts = getRuleContext A LiteralContext 0 ts"

definition NestedContext_LPAREN :: "tree_api \<Rightarrow> ptree list \<Rightarrow> ptree option" where
  "NestedContext_LPAREN A ts = getToken A LPAREN 0 ts"

definition NestedContext_RPAREN :: "tree_api \<Rightarrow> ptree list \<Rightarrow> ptree option" where
  "NestedContext_RPAREN A ts = getToken A RPAREN 0 ts"

definition NestedContext_expr :: "tree_api \<Rightarrow> ptree list \<Rightarrow> ptree option" where
  "NestedContext_expr A ts = getRuleContext A ExprContext 0 ts"

definition CreateMessageContext_RBRACE :: "tree_api \<Rightarrow> ptree list \<Rightarrow> ptree option" where
  "CreateMessageContext_RBRACE A ts = getToken A RBRACE 0 ts"

definition CreateMessageContext_IDENTIFIER_all :: "tree_api \<Rightarrow> ptree list \<Rightarrow> ptree list" where
  "CreateMessageContext_IDENTIFIER_all A ts = getTokens A IDENTIFIER ts"

definition CreateMessageContext_IDENTIFIER_at :: "tree_api \<Rightarrow> nat \<Rightarrow> ptree list \<Rightarrow> ptree option" where
  "CreateMessageContext_IDENTIFIER_at A i ts = getToken A IDENTIFIER i ts"

definition CreateMessageContext_LBRACE :: "tree_api \<Rightarrow> ptree list \<Rightarrow> ptree option" where
  "CreateMessageContext_LBRACE A ts = getToken A LBRACE 0 ts"

definition CreateMessageContext_COMMA :: "tree_api \<Rightarrow> ptree list \<Rightarrow> ptree option" where
  "CreateMessageContext_COMMA A ts = getToken A COMMA 0 ts"

definition CreateMessageContext_DOT_all :: "tree_api \<Rightarrow> ptree list \<Rightarrow> ptree list" where
  "CreateMessageContext_DOT_all A ts = getTokens A DOT ts"

definition CreateMessageContext_DOT_at :: "tree_api \<Rightarrow> nat \<Rightarrow> ptree list \<Rightarrow> ptree option" where
  "CreateMessageContext_DOT_at A i ts = getToken A DOT i ts"

definition CreateMessageContext_fieldInitializerList :: "tree_api \<Rightarrow> ptree list \<Rightarrow> ptree option" where
  "CreateMessageContext_fieldInitializerList A ts = getRuleContext A FieldInitializerListContext 0 ts"

definition GlobalCallContext_IDENTIFIER :: "tree_api \<Rightarrow> ptree list \<Rightarrow> ptree option" where
  "GlobalCallContext_IDENTIFIER A ts = getToken A IDENTIFIER 0 ts"

definition GlobalCallContext_RPAREN :: "tree_api \<Rightarrow> ptree list \<Rightarrow> ptree option" where
  "GlobalCallContext_RPAREN A ts = getToken A RPAREN 0 ts"

definition GlobalCallContext_LPAREN :: "tree_api \<Rightarrow> ptree list \<Rightarrow> ptree option" where
  "GlobalCallContext_LPAREN A ts = getToken A LPAREN 0 ts"

definition GlobalCallContext_DOT :: "tree_api \<Rightarrow> ptree list \<Rightarrow> ptree option" where
  "GlobalCallContext_DOT A ts = getToken A DOT 0 ts"

definition GlobalCallContext_exprList :: "tree_api \<Rightarrow> ptree list \<Rightarrow> ptree option" where
  "GlobalCallContext_exprList A ts = getRuleContext A ExprListContext 0 ts"

definition CreateMapContext_RBRACE :: "tree_api \<Rightarrow> ptree list \<Rightarrow> ptree option" where
  "CreateMapContext_RBRACE A ts = getToken A RBRACE 0 ts"

definition CreateMapContext_LBRACE :: "tree_api \<Rightarrow> ptree list \<Rightarrow> ptree option" where
  "CreateMapContext_LBRACE A ts = getToken A LBRACE 0 ts"

definition CreateMapContext_COMMA :: "tree_api \<Rightarrow> ptree list \<Rightarrow> ptree option" where
  "CreateMapContext_COMMA A ts = getToken A COMMA 0 ts"

definition CreateMapContext_mapInitializerList :: "tree_api \<Rightarrow> ptree list \<Rightarrow> ptree option" where
  "CreateMapContext_mapInitializerList A ts = getRuleContext A MapInitializerListContext 0 ts"

definition ExprListContext_expr_all :: "tree_api \<Rightarrow> ptree list \<Rightarrow> ptree list" where
  "ExprListContext_expr_all A ts = getRuleContexts A ExprContext ts"

definition ExprListContext_expr_at :: "tree_api \<Rightarrow> nat \<Rightarrow> ptree list \<Rightarrow> ptree option" where
  "ExprListContext_expr_at A i ts = getRuleContext A ExprContext i ts"

definition ExprListContext_COMMA_all :: "tree_api \<Rightarrow> ptree list \<Rightarrow> ptree list" where
  "ExprListContext_COMMA_all A ts = getTokens A COMMA ts"

definition ExprListContext_COMMA_at :: "tree_api \<Rightarrow> nat \<Rightarrow> ptree list \<Rightarrow> ptree option" where
  "ExprListContext_COMMA_at A i ts = getToken A COMMA i ts"

definition ListInitContext_optExpr_all :: "tree_api \<Rightarrow> ptree list \<Rightarrow> ptree list" where
  "ListInitContext_optExpr_all A ts = getRuleContexts A OptExprContext ts"

definition ListInitContext_optExpr_at :: "tree_api \<Rightarrow> nat \<Rightarrow> ptree list \<Rightarrow> ptree option" where
  "ListInitContext_optExpr_at A i ts = getRuleContext A OptExprContext i ts"

definition ListInitContext_COMMA_all :: "tree_api \<Rightarrow> ptree list \<Rightarrow> ptree list" where
  "ListInitContext_COMMA_all A ts = getTokens A COMMA ts"

definition ListInitContext_COMMA_at :: "tree_api \<Rightarrow> nat \<Rightarrow> ptree list \<Rightarrow> ptree option" where
  "ListInitContext_COMMA_at A i ts = getToken A COMMA i ts"

definition FieldInitializerListContext_optField_all :: "tree_api \<Rightarrow> ptree list \<Rightarrow> ptree list" where
  "FieldInitializerListContext_optField_all A ts = getRuleContexts A OptFieldContext ts"

definition FieldInitializerListContext_optField_at :: "tree_api \<Rightarrow> nat \<Rightarrow> ptree list \<Rightarrow> ptree option" where
  "FieldInitializerListContext_optField_at A i ts = getRuleContext A OptFieldContext i ts"

definition FieldInitializerListContext_COLON_all :: "tree_api \<Rightarrow> ptree list \<Rightarrow> ptree list" where
  "FieldInitializerListContext_COLON_all A ts = getTokens A COLON ts"

definition FieldInitializerListContext_COLON_at :: "tree_api \<Rightarrow> nat \<Rightarrow> ptree list \<Rightarrow> ptree option" where
  "FieldInitializerListContext_COLON_at A i ts = getToken A COLON i ts"

definition FieldInitializerListContext_expr_all :: "tree_api \<Rightarrow> ptree list \<Rightarrow> ptree list" where
  "FieldInitializerListContext_expr_all A ts = getRuleContexts A ExprContext ts"

definition FieldInitializerListContext_expr_at :: "tree_api \<Rightarrow> nat \<Rightarrow> ptree list \<Rightarrow> ptree option" where
  "FieldInitializerListContext_expr_at A i ts = getRuleContext A ExprContext i ts"

definition FieldInitializerListContext_COMMA_all :: "tree_api \<Rightarrow> ptree list \<Rightarrow> ptree list" where
  "FieldInitializerListContext_COMMA_all A ts = getTokens A COMMA ts"

definition FieldInitializerListContext_COMMA_at :: "tree_api \<Rightarrow> nat \<Rightarrow> ptree list \<Rightarrow> ptree option" where
  "FieldInitializerListContext_COMMA_at A i ts = getToken A COMMA i ts"

definition OptFieldContext_escapeIdent :: "tree_api \<Rightarrow> ptree list \<Rightarrow> ptree option" where
  "OptFieldContext_escapeIdent A ts = getRuleContext A EscapeIdentContext 0 ts"

definition OptFieldContext_QUESTIONMARK :: "tree_api \<Rightarrow> ptree list \<Rightarrow> ptree option" where
  "OptFieldContext_QUESTIONMARK A ts = getToken A QUESTIONMARK 0 ts"

definition MapInitializerListContext_optExpr_all :: "tree_api \<Rightarrow> ptree list \<Rightarrow> ptree list" where
  "MapInitializerListContext_optExpr_all A ts = getRuleContexts A OptExprContext ts"

definition MapInitializerListContext_optExpr_at :: "tree_api \<Rightarrow> nat \<Rightarrow> ptree list \<Rightarrow> ptree option" where
  "MapInitializerListContext_optExpr_at A i ts = getRuleContext A OptExprContext i ts"

definition MapInitializerListContext_COLON_all :: "tree_api \<Rightarrow> ptree list \<Rightarrow> ptree list" where
  "MapInitializerListContext_COLON_all A ts = getTokens A COLON ts"

definition MapInitializerListContext_COLON_at :: "tree_api \<Rightarrow> nat \<Rightarrow> ptree list \<Rightarrow> ptree option" where
  "MapInitializerListContext_COLON_at A i ts = getToken A COLON i ts"

definition MapInitializerListContext_expr_all :: "tree_api \<Rightarrow> ptree list \<Rightarrow> ptree list" where
  "MapInitializerListContext_expr_all A ts = getRuleContexts A ExprContext ts"

definition MapInitializerListContext_expr_at :: "tree_api \<Rightarrow> nat \<Rightarrow> ptree list \<Rightarrow> ptree option" where
  "MapInitializerListContext_expr_at A i ts = getRuleContext A ExprContext i ts"

definition MapInitializerListContext_COMMA_all :: "tree_api \<Rightarrow> ptree list \<Rightarrow> ptree list" where
  "MapInitializerListContext_COMMA_all A ts = getTokens A COMMA ts"

definition MapInitializerListContext_COMMA_at :: "tree_api \<Rightarrow> nat \<Rightarrow> ptree list \<Rightarrow> ptree option" where
  "MapInitializerListContext_COMMA_at A i ts = getToken A COMMA i ts"

definition EscapedIdentifierContext_ESC_IDENTIFIER :: "tree_api \<Rightarrow> ptree list \<Rightarrow> ptree option" where
  "EscapedIdentifierContext_ESC_IDENTIFIER A ts = getToken A ESC_IDENTIFIER 0 ts"

definition SimpleIdentifierContext_IDENTIFIER :: "tree_api \<Rightarrow> ptree list \<Rightarrow> ptree option" where
  "SimpleIdentifierContext_IDENTIFIER A ts = getToken A IDENTIFIER 0 ts"

definition OptExprContext_expr :: "tree_api \<Rightarrow> ptree list \<Rightarrow> ptree option" where
  "OptExprContext_expr A ts = getRuleContext A ExprContext 0 ts"

definition OptExprContext_QUESTIONMARK :: "tree_api \<Rightarrow> ptree list \<Rightarrow> ptree option" where
  "OptExprContext_QUESTIONMARK A ts = getToken A QUESTIONMARK 0 ts"

definition BytesContext_BYTES :: "tree_api \<Rightarrow> ptree list \<Rightarrow> ptree option" where
  "BytesContext_BYTES A ts = getToken A BYTES 0 ts"

definition UintContext_NUM_UINT :: "tree_api \<Rightarrow> ptree list \<Rightarrow> ptree option" where
  "UintContext_NUM_UINT A ts = getToken A NUM_UINT 0 ts"

definition NullContext_NUL :: "tree_api \<Rightarrow> ptree list \<Rightarrow> ptree option" where
  "NullContext_NUL A ts = getToken A NUL 0 ts"

definition BoolFalseContext_CEL_FALSE :: "tree_api \<Rightarrow> ptree list \<Rightarrow> ptree option" where
  "BoolFalseContext_CEL_FALSE A ts = getToken A CEL_FALSE 0 ts"

definition StringContext_STRING :: "tree_api \<Rightarrow> ptree list \<Rightarrow> ptree option" where
  "StringContext_STRING A ts = getToken A STRING 0 ts"

definition DoubleContext_NUM_FLOAT :: "tree_api \<Rightarrow> ptree list \<Rightarrow> ptree option" where
  "DoubleContext_NUM_FLOAT A ts = getToken A NUM_FLOAT 0 ts"

definition DoubleContext_MINUS :: "tree_api \<Rightarrow> ptree list \<Rightarrow> ptree option" where
  "DoubleContext_MINUS A ts = getToken A MINUS 0 ts"

definition BoolTrueContext_CEL_TRUE :: "tree_api \<Rightarrow> ptree list \<Rightarrow> ptree option" where
  "BoolTrueContext_CEL_TRUE A ts = getToken A CEL_TRUE 0 ts"

definition IntContext_NUM_INT :: "tree_api \<Rightarrow> ptree list \<Rightarrow> ptree option" where
  "IntContext_NUM_INT A ts = getToken A NUM_INT 0 ts"

definition IntContext_MINUS :: "tree_api \<Rightarrow> ptree list \<Rightarrow> ptree option" where
  "IntContext_MINUS A ts = getToken A MINUS 0 ts"

lemmas accessor_defs = StartContext_EOF_def StartContext_expr_def ExprContext_conditionalOr_all_def
  ExprContext_conditionalOr_at_def ExprContext_COLON_def ExprContext_QUESTIONMARK_def
  ExprContext_expr_def ConditionalOrContext_conditionalAnd_all_def
  ConditionalOrContext_conditionalAnd_at_def ConditionalOrContext_LOGICAL_OR_all_def
  ConditionalOrContext_LOGICAL_OR_at_def ConditionalAndContext_relation_all_def
  ConditionalAndContext_relation_at_def ConditionalAndContext_LOGICAL_AND_all_def
  ConditionalAndContext_LOGICAL_AND_at_def RelationContext_calc_def RelationContext_relation_all_def
  RelationContext_relation_at_def RelationContext_LESS_def RelationContext_LESS_EQUALS_def
  RelationContext_GREATER_EQUALS_def RelationContext_GREATER_def RelationContext_EQUALS_def
  RelationContext_NOT_EQUALS_def RelationContext_IN_def CalcContext_unary_def
  CalcContext_calc_all_def CalcContext_calc_at_def CalcContext_STAR_def CalcContext_SLASH_def
  CalcContext_PERCENT_def CalcContext_PLUS_def CalcContext_MINUS_def LogicalNotContext_member_def
  LogicalNotContext_EXCLAM_all_def LogicalNotContext_EXCLAM_at_def MemberExprContext_member_def
  NegateContext_member_def NegateContext_MINUS_all_def NegateContext_MINUS_at_def
  MemberCallContext_member_def MemberCallContext_RPAREN_def MemberCallContext_DOT_def
  MemberCallContext_IDENTIFIER_def MemberCallContext_LPAREN_def MemberCallContext_exprList_def
  SelectContext_member_def SelectContext_DOT_def SelectContext_escapeIdent_def
  SelectContext_QUESTIONMARK_def PrimaryExprContext_primary_def IndexContext_member_def
  IndexContext_RPRACKET_def IndexContext_LBRACKET_def IndexContext_expr_def
  IndexContext_QUESTIONMARK_def CreateListContext_RPRACKET_def CreateListContext_LBRACKET_def
  CreateListContext_COMMA_def CreateListContext_listInit_def IdentContext_IDENTIFIER_def
  IdentContext_DOT_def ConstantLiteralContext_literal_def NestedContext_LPAREN_def
  NestedContext_RPAREN_def NestedContext_expr_def CreateMessageContext_RBRACE_def
  CreateMessageContext_IDENTIFIER_all_def CreateMessageContext_IDENTIFIER_at_def
  CreateMessageContext_LBRACE_def CreateMessageContext_COMMA_def CreateMessageContext_DOT_all_def
  CreateMessageContext_DOT_at_def CreateMessageContext_fieldInitializerList_def
  GlobalCallContext_IDENTIFIER_def GlobalCallContext_RPAREN_def GlobalCallContext_LPAREN_def
  GlobalCallContext_DOT_def GlobalCallContext_exprList_def CreateMapContext_RBRACE_def
  CreateMapContext_LBRACE_def CreateMapContext_COMMA_def CreateMapContext_mapInitializerList_def
  ExprListContext_expr_all_def ExprListContext_expr_at_def ExprListContext_COMMA_all_def
  ExprListContext_COMMA_at_def ListInitContext_optExpr_all_def ListInitContext_optExpr_at_def
  ListInitContext_COMMA_all_def ListInitContext_COMMA_at_def
  FieldInitializerListContext_optField_all_def FieldInitializerListContext_optField_at_def
  FieldInitializerListContext_COLON_all_def FieldInitializerListContext_COLON_at_def
  FieldInitializerListContext_expr_all_def FieldInitializerListContext_expr_at_def
  FieldInitializerListContext_COMMA_all_def FieldInitializerListContext_COMMA_at_def
  OptFieldContext_escapeIdent_def OptFieldContext_QUESTIONMARK_def
  MapInitializerListContext_optExpr_all_def MapInitializerListContext_optExpr_at_def
  MapInitializerListContext_COLON_all_def MapInitializerListContext_COLON_at_def
  MapInitializerListContext_expr_all_def MapInitializerListContext_expr_at_def
  MapInitializerListContext_COMMA_all_def MapInitializerListContext_COMMA_at_def
  EscapedIdentifierContext_ESC_IDENTIFIER_def SimpleIdentifierContext_IDENTIFIER_def
  OptExprContext_expr_def OptExprContext_QUESTIONMARK_def BytesContext_BYTES_def
  UintContext_NUM_UINT_def NullContext_NUL_def BoolFalseContext_CEL_FALSE_def
  StringContext_STRING_def DoubleContext_NUM_FLOAT_def DoubleContext_MINUS_def
  BoolTrueContext_CEL_TRUE_def IntContext_NUM_INT_def IntContext_MINUS_def

text \<open>All the accessors of a class return: each child once, in the order of the declarations.\<close>

abbreviation opt :: "'a option \<Rightarrow> 'a list" where
  "opt x \<equiv> (case x of None \<Rightarrow> [] | Some y \<Rightarrow> [y])"

fun parts :: "tree_api \<Rightarrow> context_class \<Rightarrow> ptree list \<Rightarrow> ptree list" where
  "parts A StartContext ts =
     opt (StartContext_EOF A ts) @ opt (StartContext_expr A ts)"
| "parts A ExprContext ts =
     ExprContext_conditionalOr_all A ts @ opt (ExprContext_COLON A ts) @
     opt (ExprContext_QUESTIONMARK A ts) @ opt (ExprContext_expr A ts)"
| "parts A ConditionalOrContext ts =
     ConditionalOrContext_conditionalAnd_all A ts @ ConditionalOrContext_LOGICAL_OR_all A ts"
| "parts A ConditionalAndContext ts =
     ConditionalAndContext_relation_all A ts @ ConditionalAndContext_LOGICAL_AND_all A ts"
| "parts A RelationContext ts =
     opt (RelationContext_calc A ts) @ RelationContext_relation_all A ts @
     opt (RelationContext_LESS A ts) @ opt (RelationContext_LESS_EQUALS A ts) @
     opt (RelationContext_GREATER_EQUALS A ts) @ opt (RelationContext_GREATER A ts) @
     opt (RelationContext_EQUALS A ts) @ opt (RelationContext_NOT_EQUALS A ts) @
     opt (RelationContext_IN A ts)"
| "parts A CalcContext ts =
     opt (CalcContext_unary A ts) @ CalcContext_calc_all A ts @ opt (CalcContext_STAR A ts) @
     opt (CalcContext_SLASH A ts) @ opt (CalcContext_PERCENT A ts) @
     opt (CalcContext_PLUS A ts) @ opt (CalcContext_MINUS A ts)"
| "parts A UnaryContext ts =
     []"
| "parts A LogicalNotContext ts =
     opt (LogicalNotContext_member A ts) @ LogicalNotContext_EXCLAM_all A ts"
| "parts A MemberExprContext ts =
     opt (MemberExprContext_member A ts)"
| "parts A NegateContext ts =
     opt (NegateContext_member A ts) @ NegateContext_MINUS_all A ts"
| "parts A MemberContext ts =
     []"
| "parts A MemberCallContext ts =
     opt (MemberCallContext_member A ts) @ opt (MemberCallContext_RPAREN A ts) @
     opt (MemberCallContext_DOT A ts) @ opt (MemberCallContext_IDENTIFIER A ts) @
     opt (MemberCallContext_LPAREN A ts) @ opt (MemberCallContext_exprList A ts)"
| "parts A SelectContext ts =
     opt (SelectContext_member A ts) @ opt (SelectContext_DOT A ts) @
     opt (SelectContext_escapeIdent A ts) @ opt (SelectContext_QUESTIONMARK A ts)"
| "parts A PrimaryExprContext ts =
     opt (PrimaryExprContext_primary A ts)"
| "parts A IndexContext ts =
     opt (IndexContext_member A ts) @ opt (IndexContext_RPRACKET A ts) @
     opt (IndexContext_LBRACKET A ts) @ opt (IndexContext_expr A ts) @
     opt (IndexContext_QUESTIONMARK A ts)"
| "parts A PrimaryContext ts =
     []"
| "parts A CreateListContext ts =
     opt (CreateListContext_RPRACKET A ts) @ opt (CreateListContext_LBRACKET A ts) @
     opt (CreateListContext_COMMA A ts) @ opt (CreateListContext_listInit A ts)"
| "parts A IdentContext ts =
     opt (IdentContext_IDENTIFIER A ts) @ opt (IdentContext_DOT A ts)"
| "parts A ConstantLiteralContext ts =
     opt (ConstantLiteralContext_literal A ts)"
| "parts A NestedContext ts =
     opt (NestedContext_LPAREN A ts) @ opt (NestedContext_RPAREN A ts) @
     opt (NestedContext_expr A ts)"
| "parts A CreateMessageContext ts =
     opt (CreateMessageContext_RBRACE A ts) @ CreateMessageContext_IDENTIFIER_all A ts @
     opt (CreateMessageContext_LBRACE A ts) @ opt (CreateMessageContext_COMMA A ts) @
     CreateMessageContext_DOT_all A ts @
     opt (CreateMessageContext_fieldInitializerList A ts)"
| "parts A GlobalCallContext ts =
     opt (GlobalCallContext_IDENTIFIER A ts) @ opt (GlobalCallContext_RPAREN A ts) @
     opt (GlobalCallContext_LPAREN A ts) @ opt (GlobalCallContext_DOT A ts) @
     opt (GlobalCallContext_exprList A ts)"
| "parts A CreateMapContext ts =
     opt (CreateMapContext_RBRACE A ts) @ opt (CreateMapContext_LBRACE A ts) @
     opt (CreateMapContext_COMMA A ts) @ opt (CreateMapContext_mapInitializerList A ts)"
| "parts A ExprListContext ts =
     ExprListContext_expr_all A ts @ ExprListContext_COMMA_all A ts"
| "parts A ListInitContext ts =
     ListInitContext_optExpr_all A ts @ ListInitContext_COMMA_all A ts"
| "parts A FieldInitializerListContext ts =
     FieldInitializerListContext_optField_all A ts @
     FieldInitializerListContext_COLON_all A ts @ FieldInitializerListContext_expr_all A ts @
     FieldInitializerListContext_COMMA_all A ts"
| "parts A OptFieldContext ts =
     opt (OptFieldContext_escapeIdent A ts) @ opt (OptFieldContext_QUESTIONMARK A ts)"
| "parts A MapInitializerListContext ts =
     MapInitializerListContext_optExpr_all A ts @ MapInitializerListContext_COLON_all A ts @
     MapInitializerListContext_expr_all A ts @ MapInitializerListContext_COMMA_all A ts"
| "parts A EscapeIdentContext ts =
     []"
| "parts A EscapedIdentifierContext ts =
     opt (EscapedIdentifierContext_ESC_IDENTIFIER A ts)"
| "parts A SimpleIdentifierContext ts =
     opt (SimpleIdentifierContext_IDENTIFIER A ts)"
| "parts A OptExprContext ts =
     opt (OptExprContext_expr A ts) @ opt (OptExprContext_QUESTIONMARK A ts)"
| "parts A LiteralContext ts =
     []"
| "parts A BytesContext ts =
     opt (BytesContext_BYTES A ts)"
| "parts A UintContext ts =
     opt (UintContext_NUM_UINT A ts)"
| "parts A NullContext ts =
     opt (NullContext_NUL A ts)"
| "parts A BoolFalseContext ts =
     opt (BoolFalseContext_CEL_FALSE A ts)"
| "parts A StringContext ts =
     opt (StringContext_STRING A ts)"
| "parts A DoubleContext ts =
     opt (DoubleContext_NUM_FLOAT A ts) @ opt (DoubleContext_MINUS A ts)"
| "parts A BoolTrueContext ts =
     opt (BoolTrueContext_CEL_TRUE A ts)"
| "parts A IntContext ts =
     opt (IntContext_NUM_INT A ts) @ opt (IntContext_MINUS A ts)"

text \<open>
  The accessors a class declares (CelParser.h): what each returns, and whether one child or a
  vector. Those that take an index come with the vectors.
\<close>

definition StartContext_accessors :: "(sym \<times> bool) list" where
  "StartContext_accessors = [(T TOKEN_EOF, True), (N RuleExpr, True)]"

definition ExprContext_accessors :: "(sym \<times> bool) list" where
  "ExprContext_accessors = 
     [(N RuleConditionalOr, False), (T COLON, True), (T QUESTIONMARK, True), (N RuleExpr,
      True)]"

definition ConditionalOrContext_accessors :: "(sym \<times> bool) list" where
  "ConditionalOrContext_accessors = [(N RuleConditionalAnd, False), (T LOGICAL_OR, False)]"

definition ConditionalAndContext_accessors :: "(sym \<times> bool) list" where
  "ConditionalAndContext_accessors = [(N RuleRelation, False), (T LOGICAL_AND, False)]"

definition RelationContext_accessors :: "(sym \<times> bool) list" where
  "RelationContext_accessors = 
     [(N RuleCalc, True), (N RuleRelation, False), (T LESS, True), (T LESS_EQUALS, True), (T
      GREATER_EQUALS, True), (T GREATER, True), (T EQUALS, True), (T NOT_EQUALS, True), (T
      IN, True)]"

definition CalcContext_accessors :: "(sym \<times> bool) list" where
  "CalcContext_accessors = 
     [(N RuleUnary, True), (N RuleCalc, False), (T STAR, True), (T SLASH, True), (T PERCENT,
      True), (T PLUS, True), (T MINUS, True)]"

definition LogicalNotContext_accessors :: "(sym \<times> bool) list" where
  "LogicalNotContext_accessors = [(N RuleMember, True), (T EXCLAM, False)]"

definition MemberExprContext_accessors :: "(sym \<times> bool) list" where
  "MemberExprContext_accessors = [(N RuleMember, True)]"

definition NegateContext_accessors :: "(sym \<times> bool) list" where
  "NegateContext_accessors = [(N RuleMember, True), (T MINUS, False)]"

definition MemberCallContext_accessors :: "(sym \<times> bool) list" where
  "MemberCallContext_accessors = 
     [(N RuleMember, True), (T RPAREN, True), (T DOT, True), (T IDENTIFIER, True), (T
      LPAREN, True), (N RuleExprList, True)]"

definition SelectContext_accessors :: "(sym \<times> bool) list" where
  "SelectContext_accessors = 
     [(N RuleMember, True), (T DOT, True), (N RuleEscapeIdent, True), (T QUESTIONMARK,
      True)]"

definition PrimaryExprContext_accessors :: "(sym \<times> bool) list" where
  "PrimaryExprContext_accessors = [(N RulePrimary, True)]"

definition IndexContext_accessors :: "(sym \<times> bool) list" where
  "IndexContext_accessors = 
     [(N RuleMember, True), (T RPRACKET, True), (T LBRACKET, True), (N RuleExpr, True), (T
      QUESTIONMARK, True)]"

definition CreateListContext_accessors :: "(sym \<times> bool) list" where
  "CreateListContext_accessors = 
     [(T RPRACKET, True), (T LBRACKET, True), (T COMMA, True), (N RuleListInit, True)]"

definition IdentContext_accessors :: "(sym \<times> bool) list" where
  "IdentContext_accessors = [(T IDENTIFIER, True), (T DOT, True)]"

definition ConstantLiteralContext_accessors :: "(sym \<times> bool) list" where
  "ConstantLiteralContext_accessors = [(N RuleLiteral, True)]"

definition NestedContext_accessors :: "(sym \<times> bool) list" where
  "NestedContext_accessors = [(T LPAREN, True), (T RPAREN, True), (N RuleExpr, True)]"

definition CreateMessageContext_accessors :: "(sym \<times> bool) list" where
  "CreateMessageContext_accessors = 
     [(T RBRACE, True), (T IDENTIFIER, False), (T LBRACE, True), (T COMMA, True), (T DOT,
      False), (N RuleFieldInitializerList, True)]"

definition GlobalCallContext_accessors :: "(sym \<times> bool) list" where
  "GlobalCallContext_accessors = 
     [(T IDENTIFIER, True), (T RPAREN, True), (T LPAREN, True), (T DOT, True), (N
      RuleExprList, True)]"

definition CreateMapContext_accessors :: "(sym \<times> bool) list" where
  "CreateMapContext_accessors = 
     [(T RBRACE, True), (T LBRACE, True), (T COMMA, True), (N RuleMapInitializerList, True)]"

definition ExprListContext_accessors :: "(sym \<times> bool) list" where
  "ExprListContext_accessors = [(N RuleExpr, False), (T COMMA, False)]"

definition ListInitContext_accessors :: "(sym \<times> bool) list" where
  "ListInitContext_accessors = [(N RuleOptExpr, False), (T COMMA, False)]"

definition FieldInitializerListContext_accessors :: "(sym \<times> bool) list" where
  "FieldInitializerListContext_accessors = 
     [(N RuleOptField, False), (T COLON, False), (N RuleExpr, False), (T COMMA, False)]"

definition OptFieldContext_accessors :: "(sym \<times> bool) list" where
  "OptFieldContext_accessors = [(N RuleEscapeIdent, True), (T QUESTIONMARK, True)]"

definition MapInitializerListContext_accessors :: "(sym \<times> bool) list" where
  "MapInitializerListContext_accessors = 
     [(N RuleOptExpr, False), (T COLON, False), (N RuleExpr, False), (T COMMA, False)]"

definition EscapedIdentifierContext_accessors :: "(sym \<times> bool) list" where
  "EscapedIdentifierContext_accessors = [(T ESC_IDENTIFIER, True)]"

definition SimpleIdentifierContext_accessors :: "(sym \<times> bool) list" where
  "SimpleIdentifierContext_accessors = [(T IDENTIFIER, True)]"

definition OptExprContext_accessors :: "(sym \<times> bool) list" where
  "OptExprContext_accessors = [(N RuleExpr, True), (T QUESTIONMARK, True)]"

definition BytesContext_accessors :: "(sym \<times> bool) list" where
  "BytesContext_accessors = [(T BYTES, True)]"

definition UintContext_accessors :: "(sym \<times> bool) list" where
  "UintContext_accessors = [(T NUM_UINT, True)]"

definition NullContext_accessors :: "(sym \<times> bool) list" where
  "NullContext_accessors = [(T NUL, True)]"

definition BoolFalseContext_accessors :: "(sym \<times> bool) list" where
  "BoolFalseContext_accessors = [(T CEL_FALSE, True)]"

definition StringContext_accessors :: "(sym \<times> bool) list" where
  "StringContext_accessors = [(T STRING, True)]"

definition DoubleContext_accessors :: "(sym \<times> bool) list" where
  "DoubleContext_accessors = [(T NUM_FLOAT, True), (T MINUS, True)]"

definition BoolTrueContext_accessors :: "(sym \<times> bool) list" where
  "BoolTrueContext_accessors = [(T CEL_TRUE, True)]"

definition IntContext_accessors :: "(sym \<times> bool) list" where
  "IntContext_accessors = [(T NUM_INT, True), (T MINUS, True)]"

lemmas declared_accessors =
  StartContext_accessors_def ExprContext_accessors_def ConditionalOrContext_accessors_def
  ConditionalAndContext_accessors_def RelationContext_accessors_def CalcContext_accessors_def
  LogicalNotContext_accessors_def MemberExprContext_accessors_def NegateContext_accessors_def
  MemberCallContext_accessors_def SelectContext_accessors_def PrimaryExprContext_accessors_def
  IndexContext_accessors_def CreateListContext_accessors_def IdentContext_accessors_def
  ConstantLiteralContext_accessors_def NestedContext_accessors_def
  CreateMessageContext_accessors_def GlobalCallContext_accessors_def
  CreateMapContext_accessors_def ExprListContext_accessors_def ListInitContext_accessors_def
  FieldInitializerListContext_accessors_def OptFieldContext_accessors_def
  MapInitializerListContext_accessors_def EscapedIdentifierContext_accessors_def
  SimpleIdentifierContext_accessors_def OptExprContext_accessors_def BytesContext_accessors_def
  UintContext_accessors_def NullContext_accessors_def BoolFalseContext_accessors_def
  StringContext_accessors_def DoubleContext_accessors_def BoolTrueContext_accessors_def
  IntContext_accessors_def

fun accessed :: "context_class \<Rightarrow> (sym \<times> bool) list" where
  "accessed StartContext = StartContext_accessors"
| "accessed ExprContext = ExprContext_accessors"
| "accessed ConditionalOrContext = ConditionalOrContext_accessors"
| "accessed ConditionalAndContext = ConditionalAndContext_accessors"
| "accessed RelationContext = RelationContext_accessors"
| "accessed CalcContext = CalcContext_accessors"
| "accessed UnaryContext = []"
| "accessed LogicalNotContext = LogicalNotContext_accessors"
| "accessed MemberExprContext = MemberExprContext_accessors"
| "accessed NegateContext = NegateContext_accessors"
| "accessed MemberContext = []"
| "accessed MemberCallContext = MemberCallContext_accessors"
| "accessed SelectContext = SelectContext_accessors"
| "accessed PrimaryExprContext = PrimaryExprContext_accessors"
| "accessed IndexContext = IndexContext_accessors"
| "accessed PrimaryContext = []"
| "accessed CreateListContext = CreateListContext_accessors"
| "accessed IdentContext = IdentContext_accessors"
| "accessed ConstantLiteralContext = ConstantLiteralContext_accessors"
| "accessed NestedContext = NestedContext_accessors"
| "accessed CreateMessageContext = CreateMessageContext_accessors"
| "accessed GlobalCallContext = GlobalCallContext_accessors"
| "accessed CreateMapContext = CreateMapContext_accessors"
| "accessed ExprListContext = ExprListContext_accessors"
| "accessed ListInitContext = ListInitContext_accessors"
| "accessed FieldInitializerListContext = FieldInitializerListContext_accessors"
| "accessed OptFieldContext = OptFieldContext_accessors"
| "accessed MapInitializerListContext = MapInitializerListContext_accessors"
| "accessed EscapeIdentContext = []"
| "accessed EscapedIdentifierContext = EscapedIdentifierContext_accessors"
| "accessed SimpleIdentifierContext = SimpleIdentifierContext_accessors"
| "accessed OptExprContext = OptExprContext_accessors"
| "accessed LiteralContext = []"
| "accessed BytesContext = BytesContext_accessors"
| "accessed UintContext = UintContext_accessors"
| "accessed NullContext = NullContext_accessors"
| "accessed BoolFalseContext = BoolFalseContext_accessors"
| "accessed StringContext = StringContext_accessors"
| "accessed DoubleContext = DoubleContext_accessors"
| "accessed BoolTrueContext = BoolTrueContext_accessors"
| "accessed IntContext = IntContext_accessors"

end
