(* ===== verification/Cel_Typing.thy ===== *)
theory Cel_Typing
  imports Cel_Soundness Cel_Contexts
begin

text \<open>
  The trees the generated parser builds are well typed, on any input and whatever the error
  strategy does: every node has a class of the rule that was called, and every child that is
  assigned to a member of its context is assigned to one its class declares, of the kind it
  declares (CelParser.h). So the downcasts of CelParser.cpp are to the class of the object.
\<close>

section \<open>Well-typed trees\<close>

fun token_node :: "ptree \<Rightarrow> bool" where
  "token_node (Context c ts e) = False"
| "token_node _ = True"

fun error_node :: "ptree \<Rightarrow> bool" where
  "error_node (ErrorNode t) = True"
| "error_node _ = False"

fun of_kind :: "member_kind \<Rightarrow> ptree \<Rightarrow> bool" where
  "of_kind Token_of t = token_node t"
| "of_kind Tokens_of t = token_node t"
| "of_kind (Context_of r) t = (sym_of t = N r)"
| "of_kind (Contexts_of r) t = (sym_of t = N r)"

definition member_ok :: "context_class \<Rightarrow> string \<Rightarrow> ptree \<Rightarrow> bool" where
  "member_ok c l t \<longleftrightarrow> (if l = [] then True
     else case map_of (members c) l of None \<Rightarrow> False | Some k \<Rightarrow> of_kind k t)"

fun well_typed :: "ptree \<Rightarrow> bool" where
  "well_typed (Context c ts e) = list_all (\<lambda>(l, t). member_ok c l t \<and> well_typed t) ts"
| "well_typed _ = True"

abbreviation typed :: "lctx \<Rightarrow> bool" where
  "typed l \<equiv> list_all (\<lambda>(m, t). member_ok (lc_class l) m t \<and> well_typed t) (lc_children l)"

text \<open>The nodes the runtime makes are tokens, those it adds by itself error nodes.\<close>

locale typed_runtime = antlr_runtime +
  assumes sync_nodes: "sync R ps = Returns ns inp errs recs \<Longrightarrow> list_all error_node ns"
    and match_nodes: "match_token R ttype ps = Returns (ns, t) inp errs recs \<Longrightarrow>
      list_all error_node ns \<and> token_node t"
    and inline_nodes: "recoverInline R ps = Returns (ns, t) inp errs recs \<Longrightarrow>
      list_all error_node ns \<and> token_node t"
    and recover_nodes: "reportAndRecover R e ps = Some (ns, inp, errs, recs) \<Longrightarrow> list_all error_node ns"
    and copied_nodes: "set (copyFrom R ts) \<subseteq> set ts"

lemma typed_token: "token_node t \<Longrightarrow> well_typed t" "error_node t \<Longrightarrow> well_typed t"
  by (cases t; simp)+

lemma typed_errors: "list_all error_node ns \<Longrightarrow> list_all (\<lambda>(m, t). member_ok c m t \<and> well_typed t) (unlabelled ns)"
  by (auto simp: unlabelled_def list_all_iff member_ok_def typed_token)

lemma typed_add: "typed (add [(m, t)] l) \<longleftrightarrow> typed l \<and> member_ok (lc_class l) m t \<and> well_typed t"
  by (auto simp: add_def)

lemma well_typed_finish: "well_typed (finish e l) \<longleftrightarrow> typed l"
  by (simp add: finish_def)

section \<open>Statements keep contexts well typed\<close>

definition types :: "cel_rule \<Rightarrow> context_class \<Rightarrow> action \<Rightarrow> (context_class \<Rightarrow> bool) \<Rightarrow> bool" where
  "types r C a Q \<longleftrightarrow> (\<forall>l ps. lc_class l = C \<longrightarrow> typed l \<longrightarrow> getRuleIndex C = r \<longrightarrow>
     (case a l ps of
        Go l' ps' \<Rightarrow> typed l' \<and> getRuleIndex (lc_class l') = r \<and> Q (lc_class l')
      | Threw e l' ps' \<Rightarrow> typed l' \<and> getRuleIndex (lc_class l') = r
      | _ \<Rightarrow> True))"

lemma types_seq:
  assumes "types r C a P" "\<And>D. P D \<Longrightarrow> types r D b Q"
  shows "types r C (seq a b) Q"
  unfolding types_def
proof (intro allI impI)
  fix l ps
  assume "lc_class l = C" "typed l" "getRuleIndex C = r"
  with assms(1) have a: "case a l ps of
        Go l' ps' \<Rightarrow> typed l' \<and> getRuleIndex (lc_class l') = r \<and> P (lc_class l')
      | Threw e l' ps' \<Rightarrow> typed l' \<and> getRuleIndex (lc_class l') = r | _ \<Rightarrow> True"
    unfolding types_def by blast
  show "case seq a b l ps of
        Go l' ps' \<Rightarrow> typed l' \<and> getRuleIndex (lc_class l') = r \<and> Q (lc_class l')
      | Threw e l' ps' \<Rightarrow> typed l' \<and> getRuleIndex (lc_class l') = r | _ \<Rightarrow> True"
  proof (cases "a l ps")
    case (Go l1 ps1)
    with a assms(2) [of "lc_class l1"] show ?thesis by (simp add: seq_def types_def)
  qed (use a in \<open>simp_all add: seq_def\<close>)
qed

lemma types_skip: "Q C \<Longrightarrow> types r C skip Q"
  by (simp add: types_def skip_def)

lemma types_throw: "types r C (throw e) Q" "types r C (\<lambda>_ _. NoFuel) Q"
  by (simp_all add: types_def throw_def)

lemma types_then:
  assumes "types r C a (\<lambda>D. D = C)" "types r C b Q"
  shows "types r C (seq a b) Q"
  by (rule types_seq [OF assms(1)]) (use assms(2) in simp)

lemma types_set_state: "types r C a Q \<Longrightarrow> types r C (seq (set_state n) a) Q"
  by (rule types_then) (simp_all add: types_def set_state_def)

lemma types_require: "types r C a Q \<Longrightarrow> types r C (seq (require_prec R n) a) Q"
  by (rule types_then) (simp_all add: types_def require_prec_def)

lemma types_push:
  "getRuleIndex D = r \<Longrightarrow> types r D a Q \<Longrightarrow> types r C (seq (push_recursion D) a) Q"
  by (rule types_seq [where P = "\<lambda>X. X = D"])
    (simp_all add: types_def push_recursion_def member_ok_def well_typed_finish)

lemma types_if_LA: "types r C a Q \<Longrightarrow> types r C b Q \<Longrightarrow> types r C (if_LA test a b) Q"
  by (simp add: types_def if_LA_def)

lemma types_if: "(c \<Longrightarrow> types r C a Q) \<Longrightarrow> (\<not> c \<Longrightarrow> types r C b Q) \<Longrightarrow> types r C (if c then a else b) Q"
  by simp

lemma types_switch: "(\<And>alt. types r C (f alt) Q) \<Longrightarrow> types r C (switch R d f) Q"
  by (simp add: types_def switch_def split: option.split)

lemma types_while_LA: "I C \<Longrightarrow> (\<And>D. I D \<Longrightarrow> types r D body I) \<Longrightarrow> types r C (while_LA n test body) I"
proof (induction n arbitrary: C)
  case (Suc n)
  have "types r C (seq body (while_LA n test body)) I"
    by (rule types_seq [OF Suc.prems(2) [OF Suc.prems(1)]]) (use Suc in blast)
  with Suc.prems(1) show ?case by (simp add: types_def)
qed (simp add: types_def)

lemma types_while_alt:
  "I C \<Longrightarrow> (\<And>D alt. I D \<Longrightarrow> types r D (body alt) I) \<Longrightarrow> types r C (while_alt R n d body) I"
proof (induction n arbitrary: C)
  case 0
  have "while_alt R 0 d body = switch R d (\<lambda>alt. if alt \<noteq> 2 \<and> alt \<noteq> 0 then (\<lambda>_ _. NoFuel) else skip)"
    by (intro ext) simp
  with 0 show ?case by (simp add: types_switch types_skip types_throw)
next
  case (Suc n)
  have step: "while_alt R (Suc n) d body =
      switch R d (\<lambda>alt. if alt \<noteq> 2 \<and> alt \<noteq> 0 then seq (body alt) (while_alt R n d body) else skip)"
    by (intro ext) simp
  have "types r C (seq (body alt) (while_alt R n d body)) I" for alt
    by (rule types_seq [OF Suc.prems(2) [OF Suc.prems(1)]]) (use Suc in blast)
  with Suc.prems(1) show ?case unfolding step by (intro types_switch) (simp add: types_skip)
qed

lemma types_loops:
  "I C \<Longrightarrow> (\<And>D. I D \<Longrightarrow> types r D body I) \<Longrightarrow> (\<And>D. I D \<Longrightarrow> types r D a Q) \<Longrightarrow>
     types r C (seq (while_LA n test body) a) Q"
  "I C \<Longrightarrow> (\<And>D alt. I D \<Longrightarrow> types r D (f alt) I) \<Longrightarrow> (\<And>D. I D \<Longrightarrow> types r D a Q) \<Longrightarrow>
     types r C (seq (while_alt R n d f) a) Q"
  by (rule types_seq [OF types_while_LA] types_seq [OF types_while_alt]; assumption)+

definition typed_calls :: "calls \<Rightarrow> bool" where
  "typed_calls self \<longleftrightarrow> (\<forall>c ps t ps'. self c ps = Built t ps' \<longrightarrow> sym_of t = N (call_rule c) \<and> well_typed t)"

lemma types_invoke:
  assumes "typed_calls self" "\<And>t. sym_of t = N (call_rule c) \<Longrightarrow> member_ok C m t" "types r C a Q"
  shows "types r C (seq (invoke self m c) a) Q"
  by (rule types_then [OF _ assms(3)])
    (use assms(1,2) in \<open>auto simp: types_def invoke_def typed_calls_def typed_add add_def split: result.split\<close>)

context typed_runtime
begin

lemma types_sync: "types r C a Q \<Longrightarrow> types r C (seq (synchronize R) a) Q"
proof (rule types_then)
  show "types r C (synchronize R) (\<lambda>D. D = C)"
    unfolding types_def
    by (auto simp: synchronize_def add_def typed_errors dest!: sync_nodes split: reply.split)
qed

lemma types_take_token:
  assumes "\<And>t. token_node t \<Longrightarrow> member_ok C m t"
    and "\<And>ps ns t inp errs recs. f ps = Returns (ns, t) inp errs recs \<Longrightarrow> list_all error_node ns \<and> token_node t"
  shows "types r C (\<lambda>l ps. take_token m (f ps) l ps) (\<lambda>D. D = C)"
  unfolding types_def
proof (intro allI impI)
  fix l ps
  assume l: "lc_class l = C" "typed l" "getRuleIndex C = r"
  show "case take_token m (f ps) l ps of
        Go l' ps' \<Rightarrow> typed l' \<and> getRuleIndex (lc_class l') = r \<and> lc_class l' = C
      | Threw e l' ps' \<Rightarrow> typed l' \<and> getRuleIndex (lc_class l') = r | _ \<Rightarrow> True"
  proof (cases "f ps")
    case (Returns x inp errs recs)
    then obtain ns t where "f ps = Returns (ns, t) inp errs recs" by (cases x) auto
    with assms(2) [OF this] assms(1) [of t] l show ?thesis
      by (simp add: take_token_def add_def typed_errors typed_token)
  qed (use l in \<open>simp_all add: take_token_def\<close>)
qed

lemma types_match:
  assumes "\<And>t. token_node t \<Longrightarrow> member_ok C m t" "types r C a Q"
  shows "types r C (seq (match R m ttype) a) Q"
proof (rule types_then [OF _ assms(2)])
  have "match R m ttype = (\<lambda>l ps. take_token m (match_token R ttype ps) l ps)"
    by (intro ext) (simp add: match_def)
  then show "types r C (match R m ttype) (\<lambda>D. D = C)"
    using types_take_token [OF assms(1) match_nodes] by simp
qed

lemma types_match_set:
  assumes "\<And>t. token_node t \<Longrightarrow> member_ok C m t" "types r C a Q"
  shows "types r C (seq (match_set R m test) a) Q"
proof (rule types_then [OF _ assms(2)])
  have "types r C (\<lambda>l ps. take_token m (recoverInline R ps) l ps) (\<lambda>D. D = C)"
    using types_take_token [OF assms(1) inline_nodes] by simp
  with assms(1) show "types r C (match_set R m test) (\<lambda>D. D = C)"
    by (simp add: types_def match_set_def consume_current add_def)
qed

lemma types_become:
  assumes "members C = []" "getRuleIndex D = r" "types r D a Q"
  shows "types r C (seq (become R D) a) Q"
proof (rule types_seq [where P = "\<lambda>X. X = D"])
  show "types r C (become R D) (\<lambda>X. X = D)"
    unfolding types_def
  proof (intro allI impI)
    fix l ps
    assume "lc_class l = C" "typed l" "getRuleIndex C = r"
    then have "\<forall>(m, t) \<in> set (lc_children l). m = [] \<and> well_typed t"
      using assms(1) by (fastforce simp: list_all_iff member_ok_def split: if_splits)
    then have "\<forall>(m, t) \<in> set (copyFrom R (lc_children l)). m = [] \<and> well_typed t"
      using copied_nodes by blast
    then show "case become R D l ps of
        Go l' ps' \<Rightarrow> typed l' \<and> getRuleIndex (lc_class l') = r \<and> lc_class l' = D
      | Threw e l' ps' \<Rightarrow> typed l' \<and> getRuleIndex (lc_class l') = r | _ \<Rightarrow> True"
      using assms(2) by (auto simp: become_def list_all_iff member_ok_def)
  qed
qed (use assms(3) in simp)

lemma typed_handle:
  assumes "types r C body Q" "getRuleIndex C = r"
    and "handle R f (body \<lparr>lc_class = C, lc_children = []\<rparr> ps) = Built t ps'"
  shows "sym_of t = N r \<and> well_typed t"
proof -
  have "case body \<lparr>lc_class = C, lc_children = []\<rparr> ps of
        Go l' ps' \<Rightarrow> typed l' \<and> getRuleIndex (lc_class l') = r \<and> Q (lc_class l')
      | Threw e l' ps' \<Rightarrow> typed l' \<and> getRuleIndex (lc_class l') = r | _ \<Rightarrow> True"
    using assms(1,2) by (simp add: types_def)
  with assms(3) show ?thesis
    by (auto simp: handle_def well_typed_finish add_def typed_errors finish_def
        split: outcome.splits option.splits dest!: recover_nodes)
qed

lemma typed_frames:
  assumes "types (call_rule c) C body (\<lambda>_. True)" "getRuleIndex C = call_rule c"
  shows "rule_function R C st r body ps = Built t ps' \<Longrightarrow> sym_of t = N (call_rule c) \<and> well_typed t"
    "recursion_function R C st r k body ps = Built t ps' \<Longrightarrow> sym_of t = N (call_rule c) \<and> well_typed t"
  unfolding rule_function_def recursion_function_def by (rule typed_handle [OF assms]; assumption)+

lemma types_loops_same:
  "types r C body (\<lambda>D. D = C) \<Longrightarrow> types r C a Q \<Longrightarrow> types r C (seq (while_LA n test body) a) Q"
  "(\<And>alt. types r C (f alt) (\<lambda>D. D = C)) \<Longrightarrow> types r C a Q \<Longrightarrow> types r C (seq (while_alt R n d f) a) Q"
  by (rule types_loops [where I = "\<lambda>D. D = C"]; simp)+

lemmas types_rules = types_skip types_throw types_set_state types_require types_become types_push
  types_if_LA types_if types_switch types_sync types_match types_match_set

lemma typed_member:
  assumes "typed_calls self"
  shows "member R n self k ps = Built t ps' \<Longrightarrow> sym_of t = N RuleMember \<and> well_typed t"
  unfolding member_def block_steps
  by (erule typed_frames(2) [where c = "call_member 0", unfolded call_rule.simps, rotated 2];
      (intro types_rules types_invoke [OF assms] types_loops(2) [where I = "\<lambda>D. getRuleIndex D = RuleMember"])?)
    (simp_all add: member_ok_def members_defs)

lemma typed_dispatch:
  assumes "typed_calls self"
  shows "typed_calls (dispatch R n self)"
proof -
  have "dispatch R n self c ps = Built t ps' \<Longrightarrow> sym_of t = N (call_rule c) \<and> well_typed t" for c ps t ps'
  proof (cases c)
    case (call_member k)
    then show "dispatch R n self c ps = Built t ps' \<Longrightarrow> ?thesis" using typed_member [OF assms] by simp
  qed (simp only: dispatch.simps rule_defs block_steps;
      (erule typed_frames(1) [rotated 2] | erule typed_frames(2) [rotated 2]);
      (intro types_rules types_invoke [OF assms] types_loops_same)?; simp add: member_ok_def members_defs)+
  then show ?thesis by (simp add: typed_calls_def)
qed

lemma typed_run: "typed_calls (run R fuel)"
proof (induction fuel)
  case (Suc fuel)
  have "run R (Suc fuel) = dispatch R fuel (run R fuel)" by (intro ext) simp
  then show ?case using typed_dispatch [OF Suc] by simp
qed (simp add: typed_calls_def)

end

end
