(* ===== verification/Cel_Access.thy ===== *)
theory Cel_Access
  imports Cel_Contexts "HOL-Library.Multiset"
begin

text \<open>
  What the accessors of the context classes give on the trees of the grammar: between them
  they return every child exactly once, so an accessor declared for one child never hides a
  second one; and the vectors a visitor walks in step have the same length.
\<close>

section \<open>How often a symbol occurs in a production\<close>

fun occ :: "sym \<Rightarrow> rx \<Rightarrow> nat" where
  "occ s Empty = 0"
| "occ s Eps = 0"
| "occ s (Tok l ts) = (if s \<in> T ` set ts then 1 else 0)"
| "occ s (Rule l r) = (if s = N r then 1 else 0)"
| "occ s (Seq a b) = occ s a + occ s b"
| "occ s (Alt a b) = max (occ s a) (occ s b)"
| "occ s (Star a) = (if occ s a = 0 then 0 else 2)"

fun letters :: "rx \<Rightarrow> sym list" where
  "letters Empty = []"
| "letters Eps = []"
| "letters (Tok l ts) = map T ts"
| "letters (Rule l r) = [N r]"
| "letters (Seq a b) = letters a @ letters b"
| "letters (Alt a b) = letters a @ letters b"
| "letters (Star a) = letters a"

abbreviation count_sym :: "sym \<Rightarrow> (string \<times> sym) list \<Rightarrow> nat" where
  "count_sym s w \<equiv> length (filter (\<lambda>x. snd x = s) w)"

lemma matches_Tok: "matches (Tok l ts) w \<longleftrightarrow> (\<exists>t \<in> set ts. w = [(l, T t)])"
  by (cases w) (auto split: sym.splits if_splits)

lemma matches_Rule: "matches (Rule l r) w \<longleftrightarrow> w = [(l, N r)]"
  by (cases w) (auto split: if_splits)

lemma matches_Star_induct [consumes 1, case_names none more]:
  assumes "matches (Star a) w" "Q []" "\<And>u v. matches a u \<Longrightarrow> Q v \<Longrightarrow> Q (u @ v)"
  shows "Q w"
  using assms(1)
proof (induction w rule: length_induct)
  case (1 w)
  show ?case
  proof (cases w)
    case (Cons s r)
    then have "matches (Seq (deriv s a) (Star a)) r" using 1(2) by simp
    then obtain x y where r: "r = x @ y" "matches (deriv s a) x" "matches (Star a) y"
      unfolding matches_Seq by blast
    then have "Q y" using 1(1) Cons by simp
    moreover have "matches a (s # x)" using r(2) by simp
    ultimately show ?thesis using assms(3) [of "s # x" y] Cons r(1) by simp
  qed (simp add: assms(2))
qed

lemma matches_letters: "matches r w \<Longrightarrow> snd ` set w \<subseteq> set (letters r)"
proof (induction r arbitrary: w)
  case (Star a)
  from Star.prems show ?case
  proof (induction rule: matches_Star_induct)
    case (more u v)
    then show ?case using Star.IH [of u] by (simp add: image_Un)
  qed simp
next
  case (Seq a b)
  from Seq.prems obtain u v where w: "w = u @ v" "matches a u" "matches b v"
    unfolding matches_Seq by blast
  then show ?case using Seq.IH(1) [OF w(2)] Seq.IH(2) [OF w(3)] by (auto simp: image_Un)
next
  case (Alt a b)
  then show ?case by auto
qed (auto simp: matches_Tok matches_Rule)

lemma matches_occ: "matches r w \<Longrightarrow> occ s r \<le> 1 \<Longrightarrow> count_sym s w \<le> occ s r"
proof (induction r arbitrary: w)
  case (Star a)
  have none: "occ s a = 0" using Star.prems(2) by (simp split: if_splits)
  from Star.prems(1) have "count_sym s w = 0"
    by (induction rule: matches_Star_induct) (use Star.IH none in auto)
  then show ?case by simp
next
  case (Seq a b)
  from Seq.prems(1) obtain u v where w: "w = u @ v" "matches a u" "matches b v"
    unfolding matches_Seq by blast
  from Seq.IH(1) [OF w(2)] Seq.IH(2) [OF w(3)] Seq.prems(2) w(1) show ?case by simp
next
  case (Alt a b)
  then show ?case by (auto simp: le_max_iff_disj)
qed (auto simp: matches_Tok matches_Rule)

section \<open>Splitting the children by symbol\<close>

abbreviation with_sym :: "ptree list \<Rightarrow> sym \<Rightarrow> ptree list" where
  "with_sym ts s \<equiv> filter (\<lambda>t. sym_of t = s) ts"

lemma split_by_sym:
  "distinct ss \<Longrightarrow> sym_of ` set ts \<subseteq> set ss \<Longrightarrow> mset (concat (map (with_sym ts) ss)) = mset ts"
proof (induction ss arbitrary: ts)
  case (Cons s ss)
  have "with_sym ts s' = with_sym (filter (\<lambda>t. sym_of t \<noteq> s) ts) s'" if "s' \<in> set ss" for s'
    using that Cons.prems(1) by (auto intro: filter_cong)
  then have "mset (concat (map (with_sym ts) ss)) = mset (concat (map (with_sym (filter (\<lambda>t. sym_of t \<noteq> s) ts)) ss))"
    by (metis (no_types, lifting) map_cong)
  also have "\<dots> = mset (filter (\<lambda>t. sym_of t \<noteq> s) ts)"
    using Cons.prems by (intro Cons.IH) auto
  finally show ?case
    using multiset_partition [of "mset ts" "\<lambda>t. sym_of t = s"] by simp
qed simp

lemma opt_first: "length xs \<le> 1 \<Longrightarrow> opt (nth_of xs 0) = xs"
  by (cases xs) (auto simp: nth_of_def)

lemma instance_of_root: "base_class B = None \<Longrightarrow> instance_of B t \<longleftrightarrow> sym_of t = N (getRuleIndex B)"
proof (cases t)
  case (Context c ts e)
  show "base_class B = None \<Longrightarrow> ?thesis"
    unfolding Context by (cases B; cases c; simp add: instance_of_def)
qed (simp_all add: instance_of_def)

lemma accessed_letters:
  "set (letters (production c)) \<subseteq> set (map fst (accessed c))" "distinct (map fst (accessed c))"
  by (cases c; simp add: declared_accessors relation_ops_def factor_ops_def term_ops_def token_types)+

lemma accessed_once: "(s, True) \<in> set (accessed c) \<Longrightarrow> occ s (production c) \<le> 1"
  by (cases c; auto simp: declared_accessors relation_ops_def factor_ops_def term_ops_def token_types)

lemma conforms_children:
  assumes "conforms (Context c ts e)" "t \<in> set (map snd ts)"
  shows "is_token k t \<longleftrightarrow> sym_of t = T k" "sym_of t \<in> set (map fst (accessed c))"
proof -
  have "conforms t" using assms by (auto simp: list_all_iff)
  then show "is_token k t \<longleftrightarrow> sym_of t = T k" by (cases t) simp_all
  have "snd ` set (map child_sym ts) \<subseteq> set (letters (production c))"
    using assms(1) by (intro matches_letters) simp
  then show "sym_of t \<in> set (map fst (accessed c))"
    using assms(2) accessed_letters(1) [of c] by (fastforce simp: child_sym_def)
qed

definition pieces :: "ptree list \<Rightarrow> (sym \<times> bool) list \<Rightarrow> ptree list" where
  "pieces ts ss = concat (map (\<lambda>(s, one). if one then opt (nth_of (with_sym ts s) 0) else with_sym ts s) ss)"

lemma pieces_all:
  assumes "conforms (Context c ts e)"
  shows "pieces (map snd ts) (accessed c) = concat (map (with_sym (map snd ts)) (map fst (accessed c)))"
proof -
  have "opt (nth_of (with_sym (map snd ts) s) 0) = with_sym (map snd ts) s" if "(s, True) \<in> set (accessed c)" for s
  proof (rule opt_first)
    have "length (with_sym (map snd ts) s) = count_sym s (map child_sym ts)"
      by (induction ts) (auto simp: child_sym_def)
    also have "\<dots> \<le> 1"
      using matches_occ [of "production c" "map child_sym ts" s] accessed_once [OF that] assms by simp
    finally show "length (with_sym (map snd ts) s) \<le> 1" .
  qed
  then show ?thesis
    unfolding pieces_def map_map by (intro arg_cong [where f = concat] map_cong) auto
qed

lemma parts_pieces:
  assumes "tree_access A" "\<And>t k. t \<in> set ts \<Longrightarrow> is_token k t \<longleftrightarrow> sym_of t = T k"
  shows "parts A c ts = pieces ts (accessed c)"
proof -
  have token: "filter (is_token k) ts = with_sym ts (T k)" for k
    using assms(2) by (intro filter_cong) auto
  have sub: "filter (instance_of B) ts = with_sym ts (N (getRuleIndex B))" if "base_class B = None" for B
    using instance_of_root [OF that] by (intro filter_cong) auto
  show ?thesis
    by (cases c; simp add: declared_accessors pieces_def accessor_defs token sub tree_access.tokens_law [OF assms(1)]
        tree_access.token_law [OF assms(1)] tree_access.contexts_law [OF assms(1)]
        tree_access.context_law [OF assms(1)])
qed

lemma parts_all:
  assumes "tree_access A" "conforms (Context c ts e)"
  shows "mset (parts A c (map snd ts)) = mset (map snd ts)"
proof -
  have "parts A c (map snd ts) = concat (map (with_sym (map snd ts)) (map fst (accessed c)))"
    using parts_pieces [OF assms(1), of "map snd ts" c] conforms_children(1) [OF assms(2)]
      pieces_all [OF assms(2)] by simp
  moreover have "sym_of ` set (map snd ts) \<subseteq> set (map fst (accessed c))"
    using conforms_children(2) [OF assms(2)] by blast
  ultimately show ?thesis using split_by_sym [OF accessed_letters(2)] by simp
qed

text \<open>The indexed accessors are the vectors' elements.\<close>

lemma accessors_at:
  assumes "tree_access A"
  shows "ExprContext_conditionalOr_at A i ts = nth_of (ExprContext_conditionalOr_all A ts) i"
    "ConditionalOrContext_conditionalAnd_at A i ts = nth_of (ConditionalOrContext_conditionalAnd_all A ts) i"
    "ConditionalOrContext_LOGICAL_OR_at A i ts = nth_of (ConditionalOrContext_LOGICAL_OR_all A ts) i"
    "ConditionalAndContext_relation_at A i ts = nth_of (ConditionalAndContext_relation_all A ts) i"
    "ConditionalAndContext_LOGICAL_AND_at A i ts = nth_of (ConditionalAndContext_LOGICAL_AND_all A ts) i"
    "RelationContext_relation_at A i ts = nth_of (RelationContext_relation_all A ts) i"
    "CalcContext_calc_at A i ts = nth_of (CalcContext_calc_all A ts) i"
    "LogicalNotContext_EXCLAM_at A i ts = nth_of (LogicalNotContext_EXCLAM_all A ts) i"
    "NegateContext_MINUS_at A i ts = nth_of (NegateContext_MINUS_all A ts) i"
    "CreateMessageContext_IDENTIFIER_at A i ts = nth_of (CreateMessageContext_IDENTIFIER_all A ts) i"
    "CreateMessageContext_DOT_at A i ts = nth_of (CreateMessageContext_DOT_all A ts) i"
    "ExprListContext_expr_at A i ts = nth_of (ExprListContext_expr_all A ts) i"
    "ExprListContext_COMMA_at A i ts = nth_of (ExprListContext_COMMA_all A ts) i"
    "ListInitContext_optExpr_at A i ts = nth_of (ListInitContext_optExpr_all A ts) i"
    "ListInitContext_COMMA_at A i ts = nth_of (ListInitContext_COMMA_all A ts) i"
    "FieldInitializerListContext_optField_at A i ts = nth_of (FieldInitializerListContext_optField_all A ts) i"
    "FieldInitializerListContext_COLON_at A i ts = nth_of (FieldInitializerListContext_COLON_all A ts) i"
    "FieldInitializerListContext_expr_at A i ts = nth_of (FieldInitializerListContext_expr_all A ts) i"
    "FieldInitializerListContext_COMMA_at A i ts = nth_of (FieldInitializerListContext_COMMA_all A ts) i"
    "MapInitializerListContext_optExpr_at A i ts = nth_of (MapInitializerListContext_optExpr_all A ts) i"
    "MapInitializerListContext_COLON_at A i ts = nth_of (MapInitializerListContext_COLON_all A ts) i"
    "MapInitializerListContext_expr_at A i ts = nth_of (MapInitializerListContext_expr_all A ts) i"
    "MapInitializerListContext_COMMA_at A i ts = nth_of (MapInitializerListContext_COMMA_all A ts) i"
  unfolding accessor_defs tree_access.tokens_law [OF assms] tree_access.token_law [OF assms]
    tree_access.contexts_law [OF assms] tree_access.context_law [OF assms] by (rule refl)+

section \<open>Vectors in step\<close>

text \<open>The children assigned to a member, and the vectors that are walked together.\<close>

definition labelled :: "string \<Rightarrow> (string \<times> 'a) list \<Rightarrow> 'a list" where
  "labelled l ts = map snd (filter (\<lambda>x. fst x = l) ts)"

fun in_step :: "context_class \<Rightarrow> (string \<times> 'a) list \<Rightarrow> bool" where
  "in_step ConditionalOrContext ts \<longleftrightarrow> length (labelled ''ops'' ts) = length (labelled ''e1'' ts)"
| "in_step ConditionalAndContext ts \<longleftrightarrow> length (labelled ''ops'' ts) = length (labelled ''e1'' ts)"
| "in_step LogicalNotContext ts \<longleftrightarrow> labelled ''ops'' ts \<noteq> []"
| "in_step NegateContext ts \<longleftrightarrow> labelled ''ops'' ts \<noteq> []"
| "in_step CreateMessageContext ts \<longleftrightarrow> length (labelled ''ids'' ts) = Suc (length (labelled ''ops'' ts))"
| "in_step ExprListContext ts \<longleftrightarrow> labelled ''e'' ts \<noteq> []"
| "in_step ListInitContext ts \<longleftrightarrow> labelled ''elems'' ts \<noteq> []"
| "in_step FieldInitializerListContext ts \<longleftrightarrow> labelled ''fields'' ts \<noteq> [] \<and>
     length (labelled ''fields'' ts) = length (labelled ''cols'' ts) \<and>
     length (labelled ''values'' ts) = length (labelled ''cols'' ts)"
| "in_step MapInitializerListContext ts \<longleftrightarrow> labelled ''keys'' ts \<noteq> [] \<and>
     length (labelled ''keys'' ts) = length (labelled ''cols'' ts) \<and>
     length (labelled ''values'' ts) = length (labelled ''cols'' ts)"
| "in_step _ ts \<longleftrightarrow> True"

lemma labelled_simps [simp]:
  "labelled l [] = []"
  "labelled l (x # ts) = (if fst x = l then snd x # labelled l ts else labelled l ts)"
  "labelled l (ts @ us) = labelled l ts @ labelled l us"
  by (simp_all add: labelled_def)

lemma labelled_child_sym: "labelled l (map child_sym ts) = map sym_of (labelled l ts)"
  by (induction ts) (auto simp: child_sym_def)

lemma in_step_child_sym: "in_step c (map child_sym ts) = in_step c ts"
  by (cases c) (simp_all add: labelled_child_sym)

lemma same_length_Star:
  assumes "matches (Star a) w"
    and "\<And>u. matches a u \<Longrightarrow> length (labelled l u) = length (labelled k u)"
  shows "length (labelled l w) = length (labelled k w)"
  using assms(1) by (induction rule: matches_Star_induct) (use assms(2) in auto)

lemmas word_simps = matches_Tok matches_Rule matches_Seq

lemma conforms_in_step:
  assumes "conforms (Context c ts e)"
  shows "in_step c ts"
proof -
  have "matches (production c) w \<Longrightarrow> in_step c w" for w
    by (cases c; auto simp: word_simps; (erule same_length_Star, auto simp: word_simps)?)
  then show ?thesis
    using assms in_step_child_sym [of c ts] by simp
qed

section \<open>Every node of a tree\<close>

fun every_node :: "(context_class \<Rightarrow> (string \<times> ptree) list \<Rightarrow> bool) \<Rightarrow> ptree \<Rightarrow> bool" where
  "every_node P (Context c ts e) \<longleftrightarrow> P c ts \<and> list_all (\<lambda>(l, t). every_node P t) ts"
| "every_node P t \<longleftrightarrow> True"

lemma conforms_every_node:
  assumes "\<And>c ts e. conforms (Context c ts e) \<Longrightarrow> P c ts"
  shows "conforms t \<Longrightarrow> every_node P t"
proof (induction t)
  case (Context c ts e)
  then have "list_all (\<lambda>(l, t). conforms t) ts" by simp
  then have "list_all (\<lambda>(l, t). every_node P t) ts"
    unfolding list_all_iff using Context.IH by fastforce
  with assms [OF Context.prems] show ?case by simp
qed simp_all

end
