(* ===== verification/Cel_Visitor.thy ===== *)
theory Cel_Visitor
  imports Cel_Access
begin

text \<open>
  Visiting a parse tree (CelVisitor.h, CelBaseVisitor.h and the \<open>accept\<close> methods of
  CelParser.cpp): a context calls the method of the visitor named after its class, and the
  base visitor's methods visit the children. How the runtime visits the children of a node,
  a leaf or an error node is \<open>tree_visitor\<close>, as documented for \<open>AbstractParseTreeVisitor\<close>.
\<close>

section \<open>Visitors\<close>

text \<open>The methods \<open>CelVisitor\<close> declares, and a visitor, which may or may not be one.\<close>

record 'r cel_methods =
  visitStart :: "ptree \<Rightarrow> 'r"
  visitExpr :: "ptree \<Rightarrow> 'r"
  visitConditionalOr :: "ptree \<Rightarrow> 'r"
  visitConditionalAnd :: "ptree \<Rightarrow> 'r"
  visitRelation :: "ptree \<Rightarrow> 'r"
  visitCalc :: "ptree \<Rightarrow> 'r"
  visitMemberExpr :: "ptree \<Rightarrow> 'r"
  visitLogicalNot :: "ptree \<Rightarrow> 'r"
  visitNegate :: "ptree \<Rightarrow> 'r"
  visitMemberCall :: "ptree \<Rightarrow> 'r"
  visitSelect :: "ptree \<Rightarrow> 'r"
  visitPrimaryExpr :: "ptree \<Rightarrow> 'r"
  visitIndex :: "ptree \<Rightarrow> 'r"
  visitIdent :: "ptree \<Rightarrow> 'r"
  visitGlobalCall :: "ptree \<Rightarrow> 'r"
  visitNested :: "ptree \<Rightarrow> 'r"
  visitCreateList :: "ptree \<Rightarrow> 'r"
  visitCreateMap :: "ptree \<Rightarrow> 'r"
  visitCreateMessage :: "ptree \<Rightarrow> 'r"
  visitConstantLiteral :: "ptree \<Rightarrow> 'r"
  visitExprList :: "ptree \<Rightarrow> 'r"
  visitListInit :: "ptree \<Rightarrow> 'r"
  visitFieldInitializerList :: "ptree \<Rightarrow> 'r"
  visitOptField :: "ptree \<Rightarrow> 'r"
  visitMapInitializerList :: "ptree \<Rightarrow> 'r"
  visitSimpleIdentifier :: "ptree \<Rightarrow> 'r"
  visitEscapedIdentifier :: "ptree \<Rightarrow> 'r"
  visitOptExpr :: "ptree \<Rightarrow> 'r"
  visitInt :: "ptree \<Rightarrow> 'r"
  visitUint :: "ptree \<Rightarrow> 'r"
  visitDouble :: "ptree \<Rightarrow> 'r"
  visitString :: "ptree \<Rightarrow> 'r"
  visitBytes :: "ptree \<Rightarrow> 'r"
  visitBoolTrue :: "ptree \<Rightarrow> 'r"
  visitBoolFalse :: "ptree \<Rightarrow> 'r"
  visitNull :: "ptree \<Rightarrow> 'r"

record 'r visitor =
  visitChildren :: "ptree \<Rightarrow> 'r"
  visitTerminal :: "token \<Rightarrow> 'r"
  visitErrorNode :: "token \<Rightarrow> 'r"
  as_CelVisitor :: "'r cel_methods option"

section \<open>\<open>accept\<close>\<close>

definition StartContext_accept :: "'r visitor \<Rightarrow> ptree \<Rightarrow> 'r" where
  "StartContext_accept visitor this =
     (case as_CelVisitor visitor of Some parserVisitor \<Rightarrow> visitStart parserVisitor this
      | None \<Rightarrow> visitChildren visitor this)"

definition ExprContext_accept :: "'r visitor \<Rightarrow> ptree \<Rightarrow> 'r" where
  "ExprContext_accept visitor this =
     (case as_CelVisitor visitor of Some parserVisitor \<Rightarrow> visitExpr parserVisitor this
      | None \<Rightarrow> visitChildren visitor this)"

definition ConditionalOrContext_accept :: "'r visitor \<Rightarrow> ptree \<Rightarrow> 'r" where
  "ConditionalOrContext_accept visitor this =
     (case as_CelVisitor visitor of Some parserVisitor \<Rightarrow> visitConditionalOr parserVisitor this
      | None \<Rightarrow> visitChildren visitor this)"

definition ConditionalAndContext_accept :: "'r visitor \<Rightarrow> ptree \<Rightarrow> 'r" where
  "ConditionalAndContext_accept visitor this =
     (case as_CelVisitor visitor of Some parserVisitor \<Rightarrow> visitConditionalAnd parserVisitor this
      | None \<Rightarrow> visitChildren visitor this)"

definition RelationContext_accept :: "'r visitor \<Rightarrow> ptree \<Rightarrow> 'r" where
  "RelationContext_accept visitor this =
     (case as_CelVisitor visitor of Some parserVisitor \<Rightarrow> visitRelation parserVisitor this
      | None \<Rightarrow> visitChildren visitor this)"

definition CalcContext_accept :: "'r visitor \<Rightarrow> ptree \<Rightarrow> 'r" where
  "CalcContext_accept visitor this =
     (case as_CelVisitor visitor of Some parserVisitor \<Rightarrow> visitCalc parserVisitor this
      | None \<Rightarrow> visitChildren visitor this)"

definition LogicalNotContext_accept :: "'r visitor \<Rightarrow> ptree \<Rightarrow> 'r" where
  "LogicalNotContext_accept visitor this =
     (case as_CelVisitor visitor of Some parserVisitor \<Rightarrow> visitLogicalNot parserVisitor this
      | None \<Rightarrow> visitChildren visitor this)"

definition MemberExprContext_accept :: "'r visitor \<Rightarrow> ptree \<Rightarrow> 'r" where
  "MemberExprContext_accept visitor this =
     (case as_CelVisitor visitor of Some parserVisitor \<Rightarrow> visitMemberExpr parserVisitor this
      | None \<Rightarrow> visitChildren visitor this)"

definition NegateContext_accept :: "'r visitor \<Rightarrow> ptree \<Rightarrow> 'r" where
  "NegateContext_accept visitor this =
     (case as_CelVisitor visitor of Some parserVisitor \<Rightarrow> visitNegate parserVisitor this
      | None \<Rightarrow> visitChildren visitor this)"

definition MemberCallContext_accept :: "'r visitor \<Rightarrow> ptree \<Rightarrow> 'r" where
  "MemberCallContext_accept visitor this =
     (case as_CelVisitor visitor of Some parserVisitor \<Rightarrow> visitMemberCall parserVisitor this
      | None \<Rightarrow> visitChildren visitor this)"

definition SelectContext_accept :: "'r visitor \<Rightarrow> ptree \<Rightarrow> 'r" where
  "SelectContext_accept visitor this =
     (case as_CelVisitor visitor of Some parserVisitor \<Rightarrow> visitSelect parserVisitor this
      | None \<Rightarrow> visitChildren visitor this)"

definition PrimaryExprContext_accept :: "'r visitor \<Rightarrow> ptree \<Rightarrow> 'r" where
  "PrimaryExprContext_accept visitor this =
     (case as_CelVisitor visitor of Some parserVisitor \<Rightarrow> visitPrimaryExpr parserVisitor this
      | None \<Rightarrow> visitChildren visitor this)"

definition IndexContext_accept :: "'r visitor \<Rightarrow> ptree \<Rightarrow> 'r" where
  "IndexContext_accept visitor this =
     (case as_CelVisitor visitor of Some parserVisitor \<Rightarrow> visitIndex parserVisitor this
      | None \<Rightarrow> visitChildren visitor this)"

definition CreateListContext_accept :: "'r visitor \<Rightarrow> ptree \<Rightarrow> 'r" where
  "CreateListContext_accept visitor this =
     (case as_CelVisitor visitor of Some parserVisitor \<Rightarrow> visitCreateList parserVisitor this
      | None \<Rightarrow> visitChildren visitor this)"

definition IdentContext_accept :: "'r visitor \<Rightarrow> ptree \<Rightarrow> 'r" where
  "IdentContext_accept visitor this =
     (case as_CelVisitor visitor of Some parserVisitor \<Rightarrow> visitIdent parserVisitor this
      | None \<Rightarrow> visitChildren visitor this)"

definition ConstantLiteralContext_accept :: "'r visitor \<Rightarrow> ptree \<Rightarrow> 'r" where
  "ConstantLiteralContext_accept visitor this =
     (case as_CelVisitor visitor of Some parserVisitor \<Rightarrow> visitConstantLiteral parserVisitor this
      | None \<Rightarrow> visitChildren visitor this)"

definition NestedContext_accept :: "'r visitor \<Rightarrow> ptree \<Rightarrow> 'r" where
  "NestedContext_accept visitor this =
     (case as_CelVisitor visitor of Some parserVisitor \<Rightarrow> visitNested parserVisitor this
      | None \<Rightarrow> visitChildren visitor this)"

definition CreateMessageContext_accept :: "'r visitor \<Rightarrow> ptree \<Rightarrow> 'r" where
  "CreateMessageContext_accept visitor this =
     (case as_CelVisitor visitor of Some parserVisitor \<Rightarrow> visitCreateMessage parserVisitor this
      | None \<Rightarrow> visitChildren visitor this)"

definition GlobalCallContext_accept :: "'r visitor \<Rightarrow> ptree \<Rightarrow> 'r" where
  "GlobalCallContext_accept visitor this =
     (case as_CelVisitor visitor of Some parserVisitor \<Rightarrow> visitGlobalCall parserVisitor this
      | None \<Rightarrow> visitChildren visitor this)"

definition CreateMapContext_accept :: "'r visitor \<Rightarrow> ptree \<Rightarrow> 'r" where
  "CreateMapContext_accept visitor this =
     (case as_CelVisitor visitor of Some parserVisitor \<Rightarrow> visitCreateMap parserVisitor this
      | None \<Rightarrow> visitChildren visitor this)"

definition ExprListContext_accept :: "'r visitor \<Rightarrow> ptree \<Rightarrow> 'r" where
  "ExprListContext_accept visitor this =
     (case as_CelVisitor visitor of Some parserVisitor \<Rightarrow> visitExprList parserVisitor this
      | None \<Rightarrow> visitChildren visitor this)"

definition ListInitContext_accept :: "'r visitor \<Rightarrow> ptree \<Rightarrow> 'r" where
  "ListInitContext_accept visitor this =
     (case as_CelVisitor visitor of Some parserVisitor \<Rightarrow> visitListInit parserVisitor this
      | None \<Rightarrow> visitChildren visitor this)"

definition FieldInitializerListContext_accept :: "'r visitor \<Rightarrow> ptree \<Rightarrow> 'r" where
  "FieldInitializerListContext_accept visitor this =
     (case as_CelVisitor visitor of Some parserVisitor \<Rightarrow> visitFieldInitializerList parserVisitor this
      | None \<Rightarrow> visitChildren visitor this)"

definition OptFieldContext_accept :: "'r visitor \<Rightarrow> ptree \<Rightarrow> 'r" where
  "OptFieldContext_accept visitor this =
     (case as_CelVisitor visitor of Some parserVisitor \<Rightarrow> visitOptField parserVisitor this
      | None \<Rightarrow> visitChildren visitor this)"

definition MapInitializerListContext_accept :: "'r visitor \<Rightarrow> ptree \<Rightarrow> 'r" where
  "MapInitializerListContext_accept visitor this =
     (case as_CelVisitor visitor of Some parserVisitor \<Rightarrow> visitMapInitializerList parserVisitor this
      | None \<Rightarrow> visitChildren visitor this)"

definition EscapedIdentifierContext_accept :: "'r visitor \<Rightarrow> ptree \<Rightarrow> 'r" where
  "EscapedIdentifierContext_accept visitor this =
     (case as_CelVisitor visitor of Some parserVisitor \<Rightarrow> visitEscapedIdentifier parserVisitor this
      | None \<Rightarrow> visitChildren visitor this)"

definition SimpleIdentifierContext_accept :: "'r visitor \<Rightarrow> ptree \<Rightarrow> 'r" where
  "SimpleIdentifierContext_accept visitor this =
     (case as_CelVisitor visitor of Some parserVisitor \<Rightarrow> visitSimpleIdentifier parserVisitor this
      | None \<Rightarrow> visitChildren visitor this)"

definition OptExprContext_accept :: "'r visitor \<Rightarrow> ptree \<Rightarrow> 'r" where
  "OptExprContext_accept visitor this =
     (case as_CelVisitor visitor of Some parserVisitor \<Rightarrow> visitOptExpr parserVisitor this
      | None \<Rightarrow> visitChildren visitor this)"

definition BytesContext_accept :: "'r visitor \<Rightarrow> ptree \<Rightarrow> 'r" where
  "BytesContext_accept visitor this =
     (case as_CelVisitor visitor of Some parserVisitor \<Rightarrow> visitBytes parserVisitor this
      | None \<Rightarrow> visitChildren visitor this)"

definition UintContext_accept :: "'r visitor \<Rightarrow> ptree \<Rightarrow> 'r" where
  "UintContext_accept visitor this =
     (case as_CelVisitor visitor of Some parserVisitor \<Rightarrow> visitUint parserVisitor this
      | None \<Rightarrow> visitChildren visitor this)"

definition NullContext_accept :: "'r visitor \<Rightarrow> ptree \<Rightarrow> 'r" where
  "NullContext_accept visitor this =
     (case as_CelVisitor visitor of Some parserVisitor \<Rightarrow> visitNull parserVisitor this
      | None \<Rightarrow> visitChildren visitor this)"

definition BoolFalseContext_accept :: "'r visitor \<Rightarrow> ptree \<Rightarrow> 'r" where
  "BoolFalseContext_accept visitor this =
     (case as_CelVisitor visitor of Some parserVisitor \<Rightarrow> visitBoolFalse parserVisitor this
      | None \<Rightarrow> visitChildren visitor this)"

definition StringContext_accept :: "'r visitor \<Rightarrow> ptree \<Rightarrow> 'r" where
  "StringContext_accept visitor this =
     (case as_CelVisitor visitor of Some parserVisitor \<Rightarrow> visitString parserVisitor this
      | None \<Rightarrow> visitChildren visitor this)"

definition DoubleContext_accept :: "'r visitor \<Rightarrow> ptree \<Rightarrow> 'r" where
  "DoubleContext_accept visitor this =
     (case as_CelVisitor visitor of Some parserVisitor \<Rightarrow> visitDouble parserVisitor this
      | None \<Rightarrow> visitChildren visitor this)"

definition BoolTrueContext_accept :: "'r visitor \<Rightarrow> ptree \<Rightarrow> 'r" where
  "BoolTrueContext_accept visitor this =
     (case as_CelVisitor visitor of Some parserVisitor \<Rightarrow> visitBoolTrue parserVisitor this
      | None \<Rightarrow> visitChildren visitor this)"

definition IntContext_accept :: "'r visitor \<Rightarrow> ptree \<Rightarrow> 'r" where
  "IntContext_accept visitor this =
     (case as_CelVisitor visitor of Some parserVisitor \<Rightarrow> visitInt parserVisitor this
      | None \<Rightarrow> visitChildren visitor this)"

text \<open>The contexts that override nothing, the bases of labelled alternatives, are visited by
  their children; a \<open>Detached\<close> token is not in the tree.\<close>

fun accept :: "'r visitor \<Rightarrow> ptree \<Rightarrow> 'r" where
  "accept v (Terminal t) = visitTerminal v t"
| "accept v (ErrorNode t) = visitErrorNode v t"
| "accept v (Detached t) = visitErrorNode v t"
| "accept v (Context c ts e) =
     (case c of
        StartContext \<Rightarrow> StartContext_accept v (Context c ts e)
      | ExprContext \<Rightarrow> ExprContext_accept v (Context c ts e)
      | ConditionalOrContext \<Rightarrow> ConditionalOrContext_accept v (Context c ts e)
      | ConditionalAndContext \<Rightarrow> ConditionalAndContext_accept v (Context c ts e)
      | RelationContext \<Rightarrow> RelationContext_accept v (Context c ts e)
      | CalcContext \<Rightarrow> CalcContext_accept v (Context c ts e)
      | LogicalNotContext \<Rightarrow> LogicalNotContext_accept v (Context c ts e)
      | MemberExprContext \<Rightarrow> MemberExprContext_accept v (Context c ts e)
      | NegateContext \<Rightarrow> NegateContext_accept v (Context c ts e)
      | MemberCallContext \<Rightarrow> MemberCallContext_accept v (Context c ts e)
      | SelectContext \<Rightarrow> SelectContext_accept v (Context c ts e)
      | PrimaryExprContext \<Rightarrow> PrimaryExprContext_accept v (Context c ts e)
      | IndexContext \<Rightarrow> IndexContext_accept v (Context c ts e)
      | CreateListContext \<Rightarrow> CreateListContext_accept v (Context c ts e)
      | IdentContext \<Rightarrow> IdentContext_accept v (Context c ts e)
      | ConstantLiteralContext \<Rightarrow> ConstantLiteralContext_accept v (Context c ts e)
      | NestedContext \<Rightarrow> NestedContext_accept v (Context c ts e)
      | CreateMessageContext \<Rightarrow> CreateMessageContext_accept v (Context c ts e)
      | GlobalCallContext \<Rightarrow> GlobalCallContext_accept v (Context c ts e)
      | CreateMapContext \<Rightarrow> CreateMapContext_accept v (Context c ts e)
      | ExprListContext \<Rightarrow> ExprListContext_accept v (Context c ts e)
      | ListInitContext \<Rightarrow> ListInitContext_accept v (Context c ts e)
      | FieldInitializerListContext \<Rightarrow> FieldInitializerListContext_accept v (Context c ts e)
      | OptFieldContext \<Rightarrow> OptFieldContext_accept v (Context c ts e)
      | MapInitializerListContext \<Rightarrow> MapInitializerListContext_accept v (Context c ts e)
      | EscapedIdentifierContext \<Rightarrow> EscapedIdentifierContext_accept v (Context c ts e)
      | SimpleIdentifierContext \<Rightarrow> SimpleIdentifierContext_accept v (Context c ts e)
      | OptExprContext \<Rightarrow> OptExprContext_accept v (Context c ts e)
      | BytesContext \<Rightarrow> BytesContext_accept v (Context c ts e)
      | UintContext \<Rightarrow> UintContext_accept v (Context c ts e)
      | NullContext \<Rightarrow> NullContext_accept v (Context c ts e)
      | BoolFalseContext \<Rightarrow> BoolFalseContext_accept v (Context c ts e)
      | StringContext \<Rightarrow> StringContext_accept v (Context c ts e)
      | DoubleContext \<Rightarrow> DoubleContext_accept v (Context c ts e)
      | BoolTrueContext \<Rightarrow> BoolTrueContext_accept v (Context c ts e)
      | IntContext \<Rightarrow> IntContext_accept v (Context c ts e)
      | _ \<Rightarrow> visitChildren v (Context c ts e))"

lemmas accept_defs = StartContext_accept_def ExprContext_accept_def ConditionalOrContext_accept_def
  ConditionalAndContext_accept_def RelationContext_accept_def CalcContext_accept_def
  LogicalNotContext_accept_def MemberExprContext_accept_def NegateContext_accept_def
  MemberCallContext_accept_def SelectContext_accept_def PrimaryExprContext_accept_def
  IndexContext_accept_def CreateListContext_accept_def IdentContext_accept_def
  ConstantLiteralContext_accept_def NestedContext_accept_def CreateMessageContext_accept_def
  GlobalCallContext_accept_def CreateMapContext_accept_def ExprListContext_accept_def
  ListInitContext_accept_def FieldInitializerListContext_accept_def OptFieldContext_accept_def
  MapInitializerListContext_accept_def EscapedIdentifierContext_accept_def
  SimpleIdentifierContext_accept_def OptExprContext_accept_def BytesContext_accept_def
  UintContext_accept_def NullContext_accept_def BoolFalseContext_accept_def StringContext_accept_def
  DoubleContext_accept_def BoolTrueContext_accept_def IntContext_accept_def

section \<open>The base visitor\<close>

definition CelBaseVisitor_visitStart :: "'r visitor \<Rightarrow> ptree \<Rightarrow> 'r" where
  "CelBaseVisitor_visitStart this ctx = visitChildren this ctx"

definition CelBaseVisitor_visitExpr :: "'r visitor \<Rightarrow> ptree \<Rightarrow> 'r" where
  "CelBaseVisitor_visitExpr this ctx = visitChildren this ctx"

definition CelBaseVisitor_visitConditionalOr :: "'r visitor \<Rightarrow> ptree \<Rightarrow> 'r" where
  "CelBaseVisitor_visitConditionalOr this ctx = visitChildren this ctx"

definition CelBaseVisitor_visitConditionalAnd :: "'r visitor \<Rightarrow> ptree \<Rightarrow> 'r" where
  "CelBaseVisitor_visitConditionalAnd this ctx = visitChildren this ctx"

definition CelBaseVisitor_visitRelation :: "'r visitor \<Rightarrow> ptree \<Rightarrow> 'r" where
  "CelBaseVisitor_visitRelation this ctx = visitChildren this ctx"

definition CelBaseVisitor_visitCalc :: "'r visitor \<Rightarrow> ptree \<Rightarrow> 'r" where
  "CelBaseVisitor_visitCalc this ctx = visitChildren this ctx"

definition CelBaseVisitor_visitMemberExpr :: "'r visitor \<Rightarrow> ptree \<Rightarrow> 'r" where
  "CelBaseVisitor_visitMemberExpr this ctx = visitChildren this ctx"

definition CelBaseVisitor_visitLogicalNot :: "'r visitor \<Rightarrow> ptree \<Rightarrow> 'r" where
  "CelBaseVisitor_visitLogicalNot this ctx = visitChildren this ctx"

definition CelBaseVisitor_visitNegate :: "'r visitor \<Rightarrow> ptree \<Rightarrow> 'r" where
  "CelBaseVisitor_visitNegate this ctx = visitChildren this ctx"

definition CelBaseVisitor_visitMemberCall :: "'r visitor \<Rightarrow> ptree \<Rightarrow> 'r" where
  "CelBaseVisitor_visitMemberCall this ctx = visitChildren this ctx"

definition CelBaseVisitor_visitSelect :: "'r visitor \<Rightarrow> ptree \<Rightarrow> 'r" where
  "CelBaseVisitor_visitSelect this ctx = visitChildren this ctx"

definition CelBaseVisitor_visitPrimaryExpr :: "'r visitor \<Rightarrow> ptree \<Rightarrow> 'r" where
  "CelBaseVisitor_visitPrimaryExpr this ctx = visitChildren this ctx"

definition CelBaseVisitor_visitIndex :: "'r visitor \<Rightarrow> ptree \<Rightarrow> 'r" where
  "CelBaseVisitor_visitIndex this ctx = visitChildren this ctx"

definition CelBaseVisitor_visitIdent :: "'r visitor \<Rightarrow> ptree \<Rightarrow> 'r" where
  "CelBaseVisitor_visitIdent this ctx = visitChildren this ctx"

definition CelBaseVisitor_visitGlobalCall :: "'r visitor \<Rightarrow> ptree \<Rightarrow> 'r" where
  "CelBaseVisitor_visitGlobalCall this ctx = visitChildren this ctx"

definition CelBaseVisitor_visitNested :: "'r visitor \<Rightarrow> ptree \<Rightarrow> 'r" where
  "CelBaseVisitor_visitNested this ctx = visitChildren this ctx"

definition CelBaseVisitor_visitCreateList :: "'r visitor \<Rightarrow> ptree \<Rightarrow> 'r" where
  "CelBaseVisitor_visitCreateList this ctx = visitChildren this ctx"

definition CelBaseVisitor_visitCreateMap :: "'r visitor \<Rightarrow> ptree \<Rightarrow> 'r" where
  "CelBaseVisitor_visitCreateMap this ctx = visitChildren this ctx"

definition CelBaseVisitor_visitCreateMessage :: "'r visitor \<Rightarrow> ptree \<Rightarrow> 'r" where
  "CelBaseVisitor_visitCreateMessage this ctx = visitChildren this ctx"

definition CelBaseVisitor_visitConstantLiteral :: "'r visitor \<Rightarrow> ptree \<Rightarrow> 'r" where
  "CelBaseVisitor_visitConstantLiteral this ctx = visitChildren this ctx"

definition CelBaseVisitor_visitExprList :: "'r visitor \<Rightarrow> ptree \<Rightarrow> 'r" where
  "CelBaseVisitor_visitExprList this ctx = visitChildren this ctx"

definition CelBaseVisitor_visitListInit :: "'r visitor \<Rightarrow> ptree \<Rightarrow> 'r" where
  "CelBaseVisitor_visitListInit this ctx = visitChildren this ctx"

definition CelBaseVisitor_visitFieldInitializerList :: "'r visitor \<Rightarrow> ptree \<Rightarrow> 'r" where
  "CelBaseVisitor_visitFieldInitializerList this ctx = visitChildren this ctx"

definition CelBaseVisitor_visitOptField :: "'r visitor \<Rightarrow> ptree \<Rightarrow> 'r" where
  "CelBaseVisitor_visitOptField this ctx = visitChildren this ctx"

definition CelBaseVisitor_visitMapInitializerList :: "'r visitor \<Rightarrow> ptree \<Rightarrow> 'r" where
  "CelBaseVisitor_visitMapInitializerList this ctx = visitChildren this ctx"

definition CelBaseVisitor_visitSimpleIdentifier :: "'r visitor \<Rightarrow> ptree \<Rightarrow> 'r" where
  "CelBaseVisitor_visitSimpleIdentifier this ctx = visitChildren this ctx"

definition CelBaseVisitor_visitEscapedIdentifier :: "'r visitor \<Rightarrow> ptree \<Rightarrow> 'r" where
  "CelBaseVisitor_visitEscapedIdentifier this ctx = visitChildren this ctx"

definition CelBaseVisitor_visitOptExpr :: "'r visitor \<Rightarrow> ptree \<Rightarrow> 'r" where
  "CelBaseVisitor_visitOptExpr this ctx = visitChildren this ctx"

definition CelBaseVisitor_visitInt :: "'r visitor \<Rightarrow> ptree \<Rightarrow> 'r" where
  "CelBaseVisitor_visitInt this ctx = visitChildren this ctx"

definition CelBaseVisitor_visitUint :: "'r visitor \<Rightarrow> ptree \<Rightarrow> 'r" where
  "CelBaseVisitor_visitUint this ctx = visitChildren this ctx"

definition CelBaseVisitor_visitDouble :: "'r visitor \<Rightarrow> ptree \<Rightarrow> 'r" where
  "CelBaseVisitor_visitDouble this ctx = visitChildren this ctx"

definition CelBaseVisitor_visitString :: "'r visitor \<Rightarrow> ptree \<Rightarrow> 'r" where
  "CelBaseVisitor_visitString this ctx = visitChildren this ctx"

definition CelBaseVisitor_visitBytes :: "'r visitor \<Rightarrow> ptree \<Rightarrow> 'r" where
  "CelBaseVisitor_visitBytes this ctx = visitChildren this ctx"

definition CelBaseVisitor_visitBoolTrue :: "'r visitor \<Rightarrow> ptree \<Rightarrow> 'r" where
  "CelBaseVisitor_visitBoolTrue this ctx = visitChildren this ctx"

definition CelBaseVisitor_visitBoolFalse :: "'r visitor \<Rightarrow> ptree \<Rightarrow> 'r" where
  "CelBaseVisitor_visitBoolFalse this ctx = visitChildren this ctx"

definition CelBaseVisitor_visitNull :: "'r visitor \<Rightarrow> ptree \<Rightarrow> 'r" where
  "CelBaseVisitor_visitNull this ctx = visitChildren this ctx"

definition CelBaseVisitor :: "'r visitor \<Rightarrow> 'r cel_methods" where
  "CelBaseVisitor this = \<lparr>
     visitStart = CelBaseVisitor_visitStart this,
     visitExpr = CelBaseVisitor_visitExpr this,
     visitConditionalOr = CelBaseVisitor_visitConditionalOr this,
     visitConditionalAnd = CelBaseVisitor_visitConditionalAnd this,
     visitRelation = CelBaseVisitor_visitRelation this,
     visitCalc = CelBaseVisitor_visitCalc this,
     visitMemberExpr = CelBaseVisitor_visitMemberExpr this,
     visitLogicalNot = CelBaseVisitor_visitLogicalNot this,
     visitNegate = CelBaseVisitor_visitNegate this,
     visitMemberCall = CelBaseVisitor_visitMemberCall this,
     visitSelect = CelBaseVisitor_visitSelect this,
     visitPrimaryExpr = CelBaseVisitor_visitPrimaryExpr this,
     visitIndex = CelBaseVisitor_visitIndex this,
     visitIdent = CelBaseVisitor_visitIdent this,
     visitGlobalCall = CelBaseVisitor_visitGlobalCall this,
     visitNested = CelBaseVisitor_visitNested this,
     visitCreateList = CelBaseVisitor_visitCreateList this,
     visitCreateMap = CelBaseVisitor_visitCreateMap this,
     visitCreateMessage = CelBaseVisitor_visitCreateMessage this,
     visitConstantLiteral = CelBaseVisitor_visitConstantLiteral this,
     visitExprList = CelBaseVisitor_visitExprList this,
     visitListInit = CelBaseVisitor_visitListInit this,
     visitFieldInitializerList = CelBaseVisitor_visitFieldInitializerList this,
     visitOptField = CelBaseVisitor_visitOptField this,
     visitMapInitializerList = CelBaseVisitor_visitMapInitializerList this,
     visitSimpleIdentifier = CelBaseVisitor_visitSimpleIdentifier this,
     visitEscapedIdentifier = CelBaseVisitor_visitEscapedIdentifier this,
     visitOptExpr = CelBaseVisitor_visitOptExpr this,
     visitInt = CelBaseVisitor_visitInt this,
     visitUint = CelBaseVisitor_visitUint this,
     visitDouble = CelBaseVisitor_visitDouble this,
     visitString = CelBaseVisitor_visitString this,
     visitBytes = CelBaseVisitor_visitBytes this,
     visitBoolTrue = CelBaseVisitor_visitBoolTrue this,
     visitBoolFalse = CelBaseVisitor_visitBoolFalse this,
     visitNull = CelBaseVisitor_visitNull this\<rparr>"

lemmas base_visitor_defs = CelBaseVisitor_def CelBaseVisitor_visitStart_def
  CelBaseVisitor_visitExpr_def CelBaseVisitor_visitConditionalOr_def
  CelBaseVisitor_visitConditionalAnd_def CelBaseVisitor_visitRelation_def
  CelBaseVisitor_visitCalc_def CelBaseVisitor_visitMemberExpr_def CelBaseVisitor_visitLogicalNot_def
  CelBaseVisitor_visitNegate_def CelBaseVisitor_visitMemberCall_def CelBaseVisitor_visitSelect_def
  CelBaseVisitor_visitPrimaryExpr_def CelBaseVisitor_visitIndex_def CelBaseVisitor_visitIdent_def
  CelBaseVisitor_visitGlobalCall_def CelBaseVisitor_visitNested_def
  CelBaseVisitor_visitCreateList_def CelBaseVisitor_visitCreateMap_def
  CelBaseVisitor_visitCreateMessage_def CelBaseVisitor_visitConstantLiteral_def
  CelBaseVisitor_visitExprList_def CelBaseVisitor_visitListInit_def
  CelBaseVisitor_visitFieldInitializerList_def CelBaseVisitor_visitOptField_def
  CelBaseVisitor_visitMapInitializerList_def CelBaseVisitor_visitSimpleIdentifier_def
  CelBaseVisitor_visitEscapedIdentifier_def CelBaseVisitor_visitOptExpr_def
  CelBaseVisitor_visitInt_def CelBaseVisitor_visitUint_def CelBaseVisitor_visitDouble_def
  CelBaseVisitor_visitString_def CelBaseVisitor_visitBytes_def CelBaseVisitor_visitBoolTrue_def
  CelBaseVisitor_visitBoolFalse_def CelBaseVisitor_visitNull_def

section \<open>Visiting a whole tree\<close>

fun in_tree :: "ptree \<Rightarrow> bool" where
  "in_tree (Detached t) = False"
| "in_tree t = True"

text \<open>The leaves of a tree, with error nodes marked, and a fold over them.\<close>

fun leaves :: "ptree \<Rightarrow> (bool \<times> token) list" where
  "leaves (Terminal t) = [(False, t)]"
| "leaves (ErrorNode t) = [(True, t)]"
| "leaves (Detached t) = []"
| "leaves (Context c ts e) = concat (map (\<lambda>(l, t). leaves t) ts)"

locale tree_visitor =
  fixes v :: "'r visitor" and defaultResult :: 'r and aggregateResult :: "'r \<Rightarrow> 'r \<Rightarrow> 'r"
  assumes children_law: "visitChildren v (Context c ts e) =
      foldl (\<lambda>r t. aggregateResult r (accept v t)) defaultResult (filter in_tree (map snd ts))"

text \<open>A base visitor whose results are put together in order, as in a list.\<close>

locale collecting_visitor = tree_visitor +
  assumes base: "as_CelVisitor v = Some (CelBaseVisitor v) \<or> as_CelVisitor v = None"
    and unit: "aggregateResult defaultResult x = x" "aggregateResult x defaultResult = x"
    and assoc: "aggregateResult (aggregateResult x y) z = aggregateResult x (aggregateResult y z)"
begin

definition leaf where
  "leaf x = (if fst x then visitErrorNode v (snd x) else visitTerminal v (snd x))"

definition collected where
  "collected xs = foldr (\<lambda>x. aggregateResult (leaf x)) xs defaultResult"

lemma collected_append: "collected (xs @ ys) = aggregateResult (collected xs) (collected ys)"
  by (induction xs) (simp_all add: collected_def unit assoc)

lemma foldl_aggregate:
  "foldl (\<lambda>r t. aggregateResult r (f t)) r xs = aggregateResult r (foldl (\<lambda>r t. aggregateResult r (f t)) defaultResult xs)"
proof (induction xs arbitrary: r)
  case (Cons x xs)
  show ?case
    unfolding foldl_Cons Cons.IH [of "aggregateResult r (f x)"] Cons.IH [of "aggregateResult defaultResult (f x)"]
    by (simp add: unit assoc)
qed (simp add: unit)

lemma accept_context: "accept v (Context c ts e) = visitChildren v (Context c ts e)"
  using base by (cases c) (auto simp: accept_defs base_visitor_defs)

lemma accept_collects: "in_tree t \<Longrightarrow> accept v t = collected (leaves t)"
proof (induction t)
  case (Context c ts e)
  have "foldl (\<lambda>r t. aggregateResult r (accept v t)) defaultResult (filter in_tree (map snd us)) =
      collected (concat (map (\<lambda>(l, t). leaves t) us))" if "set us \<subseteq> set ts" for us
    using that
  proof (induction us)
    case Nil
    then show ?case by (simp add: collected_def)
  next
    case (Cons x us)
    obtain l t where x: "x = (l, t)" by (cases x)
    have child: "accept v t = collected (leaves t)" if "in_tree t"
      using Context.IH [of x t] Cons.prems that by (simp add: x)
    show ?case
    proof (cases "in_tree t")
      case True
      with Cons child x show ?thesis
        by (simp add: collected_append unit foldl_aggregate [of "accept v" "collected (leaves t)"])
    next
      case False
      then have "leaves t = []" by (cases t) simp_all
      with False Cons x show ?thesis by simp
    qed
  qed
  from this [of ts] show ?case unfolding accept_context children_law by simp
qed (simp_all add: collected_def leaf_def unit)

end

section \<open>The tokens of a tree\<close>

text \<open>Collecting the tokens: the result is the list of them, the aggregate the concatenation.\<close>

definition all_tokens :: "ptree \<Rightarrow> token list" where
  "all_tokens t = map snd (leaves t)"

definition token_visitor :: "token list visitor" where
  "token_visitor =
     (let v = \<lparr>visitChildren = all_tokens, visitTerminal = (\<lambda>t. [t]), visitErrorNode = (\<lambda>t. [t]),
        as_CelVisitor = None\<rparr>
      in v\<lparr>as_CelVisitor := Some (CelBaseVisitor v)\<rparr>)"

lemma accept_token_visitor: "in_tree t \<Longrightarrow> accept token_visitor t = all_tokens t"
proof (cases t)
  case (Context c ts e)
  show ?thesis
    unfolding Context by (cases c) (simp_all add: token_visitor_def Let_def accept_defs base_visitor_defs)
qed (simp_all add: token_visitor_def Let_def all_tokens_def)

lemma foldl_append: "foldl (\<lambda>r t. r @ f t) r xs = r @ concat (map f xs)"
  by (induction xs arbitrary: r) simp_all

lemma CelBaseVisitor_cong: "visitChildren u = visitChildren v \<Longrightarrow> CelBaseVisitor u = CelBaseVisitor v"
  by (simp add: base_visitor_defs fun_eq_iff)

interpretation tokens: collecting_visitor token_visitor "[]" "(@)"
proof
  fix c e and ts :: "(string \<times> ptree) list"
  have "concat (map (accept token_visitor) (filter in_tree (map snd ts))) = all_tokens (Context c ts e)"
  proof (induction ts)
    case (Cons x ts)
    show ?case
    proof (cases "in_tree (snd x)")
      case True
      with Cons show ?thesis by (simp add: accept_token_visitor split_beta all_tokens_def)
    next
      case False
      then have "leaves (snd x) = []" by (cases "snd x") simp_all
      with Cons False show ?thesis by (simp add: split_beta all_tokens_def)
    qed
  qed (simp add: all_tokens_def)
  then show "visitChildren token_visitor (Context c ts e) =
      foldl (\<lambda>r t. r @ accept token_visitor t) [] (filter in_tree (map snd ts))"
    by (simp add: foldl_append token_visitor_def Let_def)
qed (auto simp: token_visitor_def Let_def intro!: CelBaseVisitor_cong)

section \<open>The leaves of a tree of the grammar\<close>

lemma letters_inner:
  "c \<noteq> StartContext \<Longrightarrow> T TOKEN_EOF \<notin> set (letters (production c)) \<and> N RuleStart \<notin> set (letters (production c))"
  by (cases c; simp add: relation_ops_def factor_ops_def term_ops_def token_types)

lemma conforming_leaves:
  "conforms t \<Longrightarrow> sym_of t \<noteq> N RuleStart \<Longrightarrow> sym_of t \<noteq> T TOKEN_EOF \<Longrightarrow>
   leaves t = map (Pair False) (yield_of t)"
proof (induction t)
  case (Context c ts e)
  then have c: "c \<noteq> StartContext" by auto
  have "leaves t = map (Pair False) (yield_of t)" if "(l, t) \<in> set ts" for l t
  proof (rule Context.IH [of "(l, t)" t])
    have "snd ` set (map child_sym ts) \<subseteq> set (letters (production c))"
      using Context.prems(1) by (intro matches_letters) simp
    moreover have "sym_of t \<in> snd ` set (map child_sym ts)"
      using that by (force simp: child_sym_def)
    ultimately have "sym_of t \<in> set (letters (production c))" by blast
    then show "sym_of t \<noteq> N RuleStart" "sym_of t \<noteq> T TOKEN_EOF"
      using letters_inner [OF c] by metis+
  qed (use that Context.prems in \<open>auto simp: list_all_iff\<close>)
  then have eq: "map (\<lambda>(l, t). leaves t) ts = map (\<lambda>(l, t). map (Pair False) (yield_of t)) ts"
    by (intro map_cong) auto
  show ?case unfolding leaves.simps yield_of.simps eq by (simp add: map_concat split_def comp_def)
qed simp_all

lemma start_leaves:
  assumes "conforms t" "sym_of t = N RuleStart"
  shows "\<exists>k. tok_type k = TOKEN_EOF \<and> leaves t = map (Pair False) (yield_of t @ [k])"
proof -
  obtain ts where t: "t = Context StartContext ts None"
  proof (cases t)
    case (Context c ts e)
    with assms that [of ts] show ?thesis by (cases c) auto
  qed (use assms in auto)
  have "matches (production StartContext) (map child_sym ts)" using assms(1) t by simp
  then have "map child_sym ts = [(''e'', N RuleExpr), ([], T TOKEN_EOF)]"
    by (auto simp: word_simps)
  then obtain x y where ts: "ts = [x, y]" "sym_of (snd x) = N RuleExpr" "sym_of (snd y) = T TOKEN_EOF"
    by (auto simp: child_sym_def map_eq_Cons_conv)
  then obtain k where k: "snd y = Terminal k" "tok_type k = TOKEN_EOF" by (cases "snd y") auto
  have "leaves (snd x) = map (Pair False) (yield_of (snd x))"
    using assms(1) t ts by (intro conforming_leaves) (auto simp: list_all_iff split_beta)
  then show ?thesis using t ts k by (auto simp: split_beta)
qed

end

