(* ===== verification/Cel_Reference.thy ===== *)
theory Cel_Reference
  imports Cel_Termination Cel_Typing Cel_Visitor
begin

text \<open>
  A small runtime that keeps the laws, to run the generated parser on: it decides with a few
  tokens of lookahead, and its error strategy skips one token at a time up to a limit. The
  theorems about the parser hold for any runtime with the laws; this one shows that there is
  one, and lets the rule functions be evaluated on concrete tokens.
\<close>

section \<open>Predictions\<close>

text \<open>The token types ahead, from the current one on.\<close>

abbreviation ahead :: "token list \<Rightarrow> u64 list" where
  "ahead inp \<equiv> map tok_type inp"

text \<open>After an identifier: \<open>. id\<close> any number of times, then a brace.\<close>

fun message_ahead :: "u64 list \<Rightarrow> bool" where
  "message_ahead (x # i # r) = (x = LBRACE \<or> (x = DOT \<and> i = IDENTIFIER \<and> message_ahead r))"
| "message_ahead [x] = (x = LBRACE)"
| "message_ahead [] = False"

fun identifier_ahead :: "u64 list \<Rightarrow> nat option" where
  "identifier_ahead (i # r) =
     (if i \<noteq> IDENTIFIER then None else if message_ahead r then Some 6
      else if r \<noteq> [] \<and> hd r = LPAREN then Some 2 else Some 1)"
| "identifier_ahead [] = None"

fun primary_ahead :: "u64 list \<Rightarrow> nat option" where
  "primary_ahead (x # r) =
     (if x = DOT then identifier_ahead r
      else if x = LPAREN then Some 3
      else if x = LBRACKET then Some 4
      else if x = LBRACE then Some 5
      else if x \<in> set [MINUS, NUM_INT, NUM_UINT, NUM_FLOAT, STRING, BYTES, CEL_TRUE, CEL_FALSE, NUL] then Some 7
      else identifier_ahead (x # r))"
| "primary_ahead [] = None"

fun literal_ahead :: "u64 list \<Rightarrow> nat option" where
  "literal_ahead (x # r) =
     (if x = MINUS then (if r \<noteq> [] \<and> hd r = NUM_FLOAT then Some 3 else Some 1)
      else map_of [(NUM_INT, 1), (NUM_UINT, 2), (NUM_FLOAT, 3), (STRING, 4), (BYTES, 5),
        (CEL_TRUE, 6), (CEL_FALSE, 7), (NUL, 8)] x)"
| "literal_ahead [] = None"

definition unary_ahead :: "u64 list \<Rightarrow> nat" where
  "unary_ahead xs =
     (if xs \<noteq> [] \<and> hd xs = EXCLAM then 2
      else if xs \<noteq> [] \<and> hd xs = MINUS \<and> (tl xs = [] \<or> hd (tl xs) \<notin> {NUM_INT, NUM_FLOAT}) then 3
      else 1)"

definition member_ahead :: "u64 list \<Rightarrow> nat option" where
  "member_ahead xs =
     (if xs \<noteq> [] \<and> hd xs = LBRACKET then Some 3
      else if xs \<noteq> [] \<and> hd xs = DOT then (if take 2 (tl xs) = [IDENTIFIER, LPAREN] then Some 2 else Some 1)
      else None)"

text \<open>Stay in the loop (1) or leave it (2).\<close>

definition loop_if :: "bool \<Rightarrow> nat option" where
  "loop_if stay = Some (if stay then 1 else 2)"

definition first_in :: "u64 list \<Rightarrow> u64 list \<Rightarrow> bool" where
  "first_in ts xs \<longleftrightarrow> xs \<noteq> [] \<and> hd xs \<in> set ts"

definition another_entry :: "u64 \<Rightarrow> u64 list \<Rightarrow> bool" where
  "another_entry bracket xs \<longleftrightarrow> first_in [COMMA] xs \<and> \<not> first_in [bracket] (tl xs)"

definition predict :: "nat \<Rightarrow> pstate \<Rightarrow> nat option" where
  "predict d ps =
     (let xs = ahead (ps_input ps); p = hd (ps_precs ps @ [0]) in
      if d = 3 then loop_if (first_in relation_ops xs \<and> p \<le> 1)
      else if d = 5 then loop_if (first_in factor_ops xs \<and> p \<le> 2 \<or> first_in term_ops xs \<and> p \<le> 1)
      else if d = 4 then loop_if (first_in factor_ops xs)
      else if d = 7 then loop_if (first_in [MINUS] xs \<and> \<not> first_in [NUM_INT, NUM_FLOAT] (tl xs))
      else if d = 8 then Some (unary_ahead xs)
      else if d = 12 then member_ahead xs
      else if d = 13 then loop_if (first_in [DOT, LBRACKET] xs)
      else if d = 25 then primary_ahead xs
      else if d = 27 then loop_if (another_entry RPRACKET xs)
      else if d = 28 \<or> d = 30 then loop_if (another_entry RBRACE xs)
      else if d = 35 then literal_ahead xs
      else None)"

section \<open>The error strategy\<close>

definition skip_one :: "nat \<Rightarrow> recognition_exception \<Rightarrow> pstate \<Rightarrow> (ptree list \<times> token list \<times> nat \<times> nat) option" where
  "skip_one limit e ps =
     (if limit \<le> ps_recoveries ps then None
      else Some (case ps_input ps of
          [] \<Rightarrow> ([], [], Suc (ps_errors ps), Suc (ps_recoveries ps))
        | t # r \<Rightarrow> ([ErrorNode t], r, Suc (ps_errors ps), Suc (ps_recoveries ps))))"

definition no_recovery :: "nat \<Rightarrow> pstate \<Rightarrow> 'a reply" where
  "no_recovery limit ps =
     (if limit \<le> ps_recoveries ps then Cancels
      else Throws InputMismatchException (ps_input ps) (Suc (ps_errors ps)) (Suc (ps_recoveries ps)))"

definition reference_runtime :: "nat \<Rightarrow> runtime" where
  "reference_runtime limit = \<lparr>
     adaptivePredict = predict,
     sync = (\<lambda>ps. Returns [] (ps_input ps) (ps_errors ps) (ps_recoveries ps)),
     match_token = (\<lambda>ttype ps.
       if LA1 (ps_input ps) = ttype
       then Returns ([], Terminal (current (ps_input ps))) (advance (ps_input ps)) (ps_errors ps) (ps_recoveries ps)
       else no_recovery limit ps),
     recoverInline = no_recovery limit,
     consume = (\<lambda>ps. (Terminal (current (ps_input ps)), advance (ps_input ps))),
     reportAndRecover = skip_one limit,
     precpred = (\<lambda>ps n. hd (ps_precs ps @ [0]) \<le> n),
     enterRule = (\<lambda>s r ps. ps\<lparr>ps_state := s, ps_ctx := ps_state ps # ps_ctx ps\<rparr>),
     exitRule = (\<lambda>ps. ps\<lparr>ps_state := hd (ps_ctx ps), ps_ctx := tl (ps_ctx ps)\<rparr>),
     enterRecursionRule = (\<lambda>s r k ps.
       ps\<lparr>ps_state := s, ps_ctx := ps_state ps # ps_ctx ps, ps_precs := k # ps_precs ps\<rparr>),
     unrollRecursionContexts = (\<lambda>ctx ps. ps\<lparr>ps_ctx := ctx, ps_precs := tl (ps_precs ps)\<rparr>),
     copyFrom = (\<lambda>ts. filter (\<lambda>(l, t). case t of ErrorNode k \<Rightarrow> True | _ \<Rightarrow> False) ts)\<rparr>"

lemma predict_range: "predict d ps = Some alt \<Longrightarrow> 1 \<le> alt \<and> alt \<le> alternatives d"
proof -
  have id: "identifier_ahead xs = Some n \<Longrightarrow> 1 \<le> n \<and> n \<le> 7" for xs n
    by (cases xs) (auto split: if_splits)
  have primary: "primary_ahead xs = Some n \<Longrightarrow> 1 \<le> n \<and> n \<le> 7" for xs n
    by (cases xs) (auto split: if_splits dest!: id simp del: identifier_ahead.simps)
  have literal: "literal_ahead xs = Some n \<Longrightarrow> 1 \<le> n \<and> n \<le> 8" for xs n
    by (cases xs) (auto split: if_splits)
  show "predict d ps = Some alt \<Longrightarrow> 1 \<le> alt \<and> alt \<le> alternatives d"
    by (auto simp: predict_def loop_if_def unary_ahead_def member_ahead_def alternatives.simps Let_def
        split: if_splits dest: primary literal)
qed

interpretation reference: bounded_runtime "reference_runtime limit" limit
proof
  show "adaptivePredict (reference_runtime limit) d ps = Some alt \<Longrightarrow> 1 \<le> alt \<and> alt \<le> alternatives d" for d ps alt
    using predict_range by (simp add: reference_runtime_def)
qed (auto simp: reference_runtime_def no_recovery_def skip_one_def split: if_splits list.splits)

interpretation reference_nodes: typed_runtime "reference_runtime limit"
  by unfold_locales
    (auto simp: reference_runtime_def no_recovery_def skip_one_def split: if_splits list.splits)

text \<open>The access to the children, as documented.\<close>

definition reference_access :: tree_api where
  "reference_access = \<lparr>
     getToken = (\<lambda>k i ts. nth_of (filter (is_token k) ts) i),
     getTokens = (\<lambda>k ts. filter (is_token k) ts),
     getRuleContext = (\<lambda>B i ts. nth_of (filter (instance_of B) ts) i),
     getRuleContexts = (\<lambda>B ts. filter (instance_of B) ts)\<rparr>"

interpretation reference_access: tree_access reference_access
  by unfold_locales (simp_all add: reference_access_def)

section \<open>Examples\<close>

definition toks :: "u64 list \<Rightarrow> token list" where
  "toks ts = map (\<lambda>t. \<lparr>tok_type = t, tok_text = []\<rparr>) ts"

end
