(* ===== verification/Cel_Balance.thy ===== *)
theory Cel_Balance
  imports Cel_Soundness
begin

text \<open>
  The parser's stacks: whatever happens in a rule function, recovered errors included, it
  leaves the chain of contexts and the precedence stack as it found them (the \<open>finally\<close>
  blocks of CelParser.cpp), and a rule function that is not left-recursive also the state.
\<close>

section \<open>Statements leave the stacks alone\<close>

definition balanced :: "action \<Rightarrow> bool" where
  "balanced a \<longleftrightarrow> (\<forall>l ps l' ps'. (a l ps = Go l' ps' \<or> (\<exists>e. a l ps = Threw e l' ps')) \<longrightarrow>
     ps_ctx ps' = ps_ctx ps \<and> ps_precs ps' = ps_precs ps)"

definition balanced_calls :: "calls \<Rightarrow> bool" where
  "balanced_calls self \<longleftrightarrow> (\<forall>c ps t ps'. self c ps = Built t ps' \<longrightarrow>
     ps_ctx ps' = ps_ctx ps \<and> ps_precs ps' = ps_precs ps)"

lemma install_stacks [simp]:
  "ps_ctx (install inp errs recs ps) = ps_ctx ps" "ps_precs (install inp errs recs ps) = ps_precs ps"
  by (simp_all add: install_def)

lemma balanced_simple [simp]:
  "balanced skip" "balanced (set_state n)" "balanced (throw e)" "balanced (\<lambda>_ _. NoFuel)"
  "balanced (become R C)" "balanced (push_recursion C)" "balanced (require_prec R k)"
  by (auto simp: balanced_def skip_def set_state_def throw_def become_def push_recursion_def
      require_prec_def split: if_splits)

lemma balanced_seq [simp]: "balanced a \<Longrightarrow> balanced b \<Longrightarrow> balanced (seq a b)"
  unfolding balanced_def seq_def by (fastforce split: outcome.splits)

lemma balanced_if_LA [simp]: "balanced a \<Longrightarrow> balanced b \<Longrightarrow> balanced (if_LA test a b)"
  by (simp add: balanced_def if_LA_def)

lemma balanced_switch [simp]: "(\<And>alt. balanced (f alt)) \<Longrightarrow> balanced (switch R d f)"
  by (simp add: balanced_def switch_def split: option.split)

lemma balanced_while_LA [simp]: "balanced body \<Longrightarrow> balanced (while_LA n test body)"
proof (induction n)
  case (Suc n)
  then have "balanced (seq body (while_LA n test body))" by simp
  then show ?case by (simp add: balanced_def)
qed (simp add: balanced_def)

lemma balanced_while_alt [simp]: "(\<And>alt. balanced (body alt)) \<Longrightarrow> balanced (while_alt R n d body)"
proof (induction n)
  case 0
  have "while_alt R 0 d body = switch R d (\<lambda>alt. if alt \<noteq> 2 \<and> alt \<noteq> 0 then (\<lambda>_ _. NoFuel) else skip)"
    by (intro ext) simp
  then show ?case by simp
next
  case (Suc n)
  have "while_alt R (Suc n) d body =
      switch R d (\<lambda>alt. if alt \<noteq> 2 \<and> alt \<noteq> 0 then seq (body alt) (while_alt R n d body) else skip)"
    by (intro ext) simp
  with Suc show ?case by simp
qed

lemma balanced_invoke [simp]: "balanced_calls self \<Longrightarrow> balanced (invoke self label c)"
  unfolding balanced_def balanced_calls_def invoke_def by (auto split: result.splits)

lemma take_token_stacks:
  "take_token label r l ps = Go l' ps' \<Longrightarrow> ps_ctx ps' = ps_ctx ps \<and> ps_precs ps' = ps_precs ps"
  "take_token label r l ps = Threw e l' ps' \<Longrightarrow> ps_ctx ps' = ps_ctx ps \<and> ps_precs ps' = ps_precs ps"
  by (auto simp: take_token_def split: reply.splits)

lemma balanced_runtime [simp]:
  "balanced (synchronize R)" "balanced (match R label ttype)" "balanced (match_set R label test)"
  by (auto simp: balanced_def synchronize_def match_def match_set_def
      split: reply.splits if_splits prod.splits dest: take_token_stacks)

lemma balanced_handle:
  assumes "balanced body" "handle R f (body l ps0) = Built t ps'"
  obtains ps1 where "ps' = f ps1" "ps_ctx ps1 = ps_ctx ps0" "ps_precs ps1 = ps_precs ps0"
  using assms
  by (auto simp: handle_def balanced_def split: outcome.splits option.splits) (metis install_stacks)

section \<open>Rule functions put them back\<close>

text \<open>The rules that are not left-recursive.\<close>

fun plain_call :: "call \<Rightarrow> bool" where
  "plain_call (call_relation p) = False"
| "plain_call (call_calc p) = False"
| "plain_call (call_member p) = False"
| "plain_call c = True"

context antlr_runtime
begin

lemma balanced_rule_function:
  assumes "balanced body" "rule_function R C st r body ps = Built t ps'"
  shows "ps_state ps' = ps_state ps \<and> ps_ctx ps' = ps_ctx ps \<and> ps_precs ps' = ps_precs ps"
proof -
  obtain ps1 where "ps' = exitRule R ps1" "ps_ctx ps1 = ps_ctx (enterRule R st r ps)"
      "ps_precs ps1 = ps_precs (enterRule R st r ps)"
    using assms unfolding rule_function_def by (rule balanced_handle)
  moreover have "ps_ctx (enterRule R st r ps) = ps_state ps # ps_ctx ps"
    "ps_precs (enterRule R st r ps) = ps_precs ps" by (subst enter_keeps; simp)+
  ultimately show ?thesis by (simp add: exit_keeps)
qed

lemma balanced_recursion_function:
  assumes "balanced body" "recursion_function R C st r k body ps = Built t ps'"
  shows "ps_ctx ps' = ps_ctx ps \<and> ps_precs ps' = ps_precs ps"
proof -
  obtain ps1 where "ps' = unrollRecursionContexts R (ps_ctx ps) ps1"
      "ps_precs ps1 = ps_precs (enterRecursionRule R st r k ps)"
    using assms unfolding recursion_function_def by (rule balanced_handle)
  moreover have "ps_precs (enterRecursionRule R st r k ps) = k # ps_precs ps"
    by (subst enter_recursion_keeps; simp)
  ultimately show ?thesis by (simp add: unroll_keeps)
qed

lemma balanced_dispatch:
  assumes "balanced_calls self"
  shows "dispatch R n self c ps = Built t ps' \<Longrightarrow> ps_ctx ps' = ps_ctx ps \<and> ps_precs ps' = ps_precs ps"
    "dispatch R n self c ps = Built t ps' \<Longrightarrow> plain_call c \<Longrightarrow> ps_state ps' = ps_state ps"
proof -
  have *: "P \<and> Q" if "S \<and> P \<and> Q" for S P Q :: bool using that by blast
  show "dispatch R n self c ps = Built t ps' \<Longrightarrow> ps_ctx ps' = ps_ctx ps \<and> ps_precs ps' = ps_precs ps"
    by (cases c; simp only: dispatch.simps rule_defs;
        (rule balanced_recursion_function [rotated], assumption
          | rule *, rule balanced_rule_function [rotated], assumption); simp add: block_simps assms)
  show "dispatch R n self c ps = Built t ps' \<Longrightarrow> plain_call c \<Longrightarrow> ps_state ps' = ps_state ps"
    by (cases c; simp only: dispatch.simps rule_defs plain_call.simps;
        rule balanced_rule_function [rotated, THEN conjunct1], assumption; simp add: block_simps assms)
qed

lemma balanced_run: "balanced_calls (run R fuel)"
proof (induction fuel)
  case (Suc fuel)
  have "run R (Suc fuel) = dispatch R fuel (run R fuel)" by (intro ext) simp
  then show ?case using balanced_dispatch(1) [OF Suc] by (simp add: balanced_calls_def)
qed (simp add: balanced_calls_def)

lemma run_balanced:
  assumes "run R fuel c ps = Built t ps'"
  shows "ps_ctx ps' = ps_ctx ps" "ps_precs ps' = ps_precs ps" "plain_call c \<Longrightarrow> ps_state ps' = ps_state ps"
proof -
  show "ps_ctx ps' = ps_ctx ps" "ps_precs ps' = ps_precs ps"
    using balanced_run assms unfolding balanced_calls_def by blast+
  show "plain_call c \<Longrightarrow> ps_state ps' = ps_state ps"
    using assms balanced_dispatch(2) [OF balanced_run] by (cases fuel) auto
qed

end

end
