(* ===== verification/Cel_Properties.thy ===== *)
theory Cel_Properties
  imports Cel_Reference Cel_Balance
begin

text \<open>
  The properties of the generated parser (CelParser.cpp), for any runtime with the laws of
  \<open>antlr_runtime\<close>, or of \<open>bounded_runtime\<close> where the recovery limit matters, each applied to
  the reference runtime on a few tokens.
\<close>

section \<open>Examples\<close>

definition ex_tokens :: "token list" where
  "ex_tokens = toks [IDENTIFIER, PLUS, IDENTIFIER, STAR, NUM_INT]"

definition ex_bad :: "token list" where
  "ex_bad = toks [IDENTIFIER, PLUS, RBRACE]"

abbreviation ex_R :: runtime where
  "ex_R \<equiv> reference_runtime 3"

fun clean :: "result \<Rightarrow> bool" where
  "clean (Built t ps) = (ps_errors ps = 0)"
| "clean r = False"

fun erroneous :: "result \<Rightarrow> bool" where
  "erroneous (Built t ps) = (ps_errors ps \<noteq> 0)"
| "erroneous r = False"

lemma ex_clean: "clean (parse ex_R 20 ex_tokens)"
  by code_simp

lemma ex_erroneous: "erroneous (parse ex_R 20 ex_bad)"
  by code_simp

lemma clean_result: "clean r \<Longrightarrow> \<exists>t ps. r = Built t ps \<and> ps_errors ps = 0"
  by (cases r) auto

lemma erroneous_result: "erroneous r \<Longrightarrow> \<exists>t ps. r = Built t ps \<and> 0 < ps_errors ps"
  by (cases r) auto

section \<open>Soundness\<close>

text \<open>C25: A parse that ends without an error has built a tree of the grammar, rooted in the
  start rule, whose leaves are the tokens consumed, and nothing but the end of the input is
  left: on a stream without an end-of-file token, the leaves are the whole input.\<close>

theorem parse_sound:
  assumes "antlr_runtime R" "parse R fuel inp = Built t ps'" "ps_errors ps' = 0"
  shows "conforms t \<and> sym_of t = N RuleStart \<and> inp = yield_of t @ ps_input ps' \<and>
    LA1 (ps_input ps') = TOKEN_EOF \<and> (TOKEN_EOF \<notin> tok_type ` set inp \<longrightarrow> yield_of t = inp)"
proof -
  note tree = antlr_runtime.parse_conforms [OF assms] and stop = antlr_runtime.parse_ends [OF assms]
  have "ps_input ps' = []" if "TOKEN_EOF \<notin> tok_type ` set inp"
    using that tree(4) stop by (cases "ps_input ps'") (auto simp: LA1_def current_def)
  then show ?thesis using tree stop by auto
qed

theorem parse_sound_witness:
  "\<exists>t ps'. parse ex_R 20 ex_tokens = Built t ps' \<and> conforms t \<and> yield_of t = ex_tokens"
proof -
  obtain t ps' where p: "parse ex_R 20 ex_tokens = Built t ps'" "ps_errors ps' = 0"
    using clean_result [OF ex_clean] by blast
  have "TOKEN_EOF \<notin> tok_type ` set ex_tokens" by code_simp
  then show ?thesis using parse_sound [OF reference.antlr_runtime_axioms p] p(1) by blast
qed



section \<open>Termination\<close>

text \<open>C27: Parsing terminates on every input, malformed ones included, when the error strategy
  gives up after a limit of recoveries: there is one result, and any fuel above a bound linear
  in the input and the limit gives it.\<close>

theorem parse_terminates:
  assumes "bounded_runtime R limit"
  shows "\<exists>r. r \<noteq> Starved \<and> (\<forall>fuel. 12 * (length inp + limit) + 10 < fuel \<longrightarrow> parse R fuel inp = r)"
proof -
  let ?k = "12 * (length inp + limit) + 11"
  have k: "parse R ?k inp \<noteq> Starved" by (rule bounded_runtime.parse_returns [OF assms]) simp
  have "parse R fuel inp = parse R ?k inp" if "12 * (length inp + limit) + 10 < fuel" for fuel
    by (rule parse_more_fuel [OF k]) (use that in linarith)
  with k show ?thesis by blast
qed

theorem parse_terminates_witness: "\<exists>r. r \<noteq> Starved \<and> parse ex_R 100 ex_bad = r"
proof -
  have "12 * (length ex_bad + 3) + 10 < 100" by (simp add: ex_bad_def toks_def)
  then show ?thesis
    using parse_terminates [OF reference.bounded_runtime_axioms, of ex_bad 3] by blast
qed

section \<open>Errors and stacks\<close>



text \<open>C29: Whatever happens inside a rule function, exceptions and recovery included, it leaves
  the chain of contexts and the precedence stack as it found them, and the state too unless
  the rule is left-recursive.\<close>

theorem stacks_restored:
  assumes "antlr_runtime R" "run R fuel c ps = Built t ps'"
  shows "ps_ctx ps' = ps_ctx ps \<and> ps_precs ps' = ps_precs ps \<and>
    (plain_call c \<longrightarrow> ps_state ps' = ps_state ps)"
  using antlr_runtime.run_balanced [OF assms] by blast

theorem stacks_restored_witness:
  "\<exists>t ps'. parse ex_R 20 ex_bad = Built t ps' \<and> 0 < ps_errors ps' \<and> ps_precs ps' = [0]"
proof -
  obtain t ps' where p: "parse ex_R 20 ex_bad = Built t ps'" "0 < ps_errors ps'"
    using erroneous_result [OF ex_erroneous] by blast
  from stacks_restored [OF reference.antlr_runtime_axioms p(1) [unfolded parse_def]] p
  show ?thesis by (simp add: new_parser_def)
qed

section \<open>The trees and those who read them\<close>

text \<open>C30: Whatever the input and the recovery, the trees are well typed: a rule function returns
  a context of its rule, and every child assigned to a member of a context is assigned to a
  member its class declares, of the declared kind.\<close>

theorem trees_well_typed:
  assumes "typed_runtime R" "run R fuel c ps = Built t ps'"
  shows "sym_of t = N (call_rule c) \<and> well_typed t"
  using typed_runtime.typed_run [OF assms(1), of fuel] assms(2) unfolding typed_calls_def by blast

theorem trees_well_typed_witness:
  "\<exists>t ps'. parse ex_R 20 ex_bad = Built t ps' \<and> 0 < ps_errors ps' \<and> well_typed t"
proof -
  obtain t ps' where p: "parse ex_R 20 ex_bad = Built t ps'" "0 < ps_errors ps'"
    using erroneous_result [OF ex_erroneous] by blast
  from trees_well_typed [OF reference_nodes.typed_runtime_axioms p(1) [unfolded parse_def]] p
  show ?thesis by blast
qed

text \<open>C31: On every node of the tree of an error-free parse the accessors of its class return,
  between them, every child exactly once: an accessor declared for one child never hides a
  second one, and no child is out of reach.\<close>

theorem accessors_complete:
  assumes "tree_access A" "antlr_runtime R" "parse R fuel inp = Built t ps'" "ps_errors ps' = 0"
  shows "every_node (\<lambda>c ts. mset (parts A c (map snd ts)) = mset (map snd ts)) t"
  using parts_all [OF assms(1)] antlr_runtime.parse_conforms(2) [OF assms(2-4)]
  by (rule conforms_every_node)

theorem accessors_complete_witness:
  "\<exists>t ps'. parse ex_R 20 ex_tokens = Built t ps' \<and>
     every_node (\<lambda>c ts. mset (parts reference_access c (map snd ts)) = mset (map snd ts)) t"
proof -
  obtain t ps' where p: "parse ex_R 20 ex_tokens = Built t ps'" "ps_errors ps' = 0"
    using clean_result [OF ex_clean] by blast
  from accessors_complete [OF reference_access.tree_access_axioms reference.antlr_runtime_axioms p] p(1)
  show ?thesis by blast
qed

text \<open>C32: On every node of the tree of an error-free parse the vectors that are walked together
  have the same length: as many operators as right operands, as many keys as colons and
  values, one name more than dots; and where one element at least is expected there is one.\<close>

theorem vectors_in_step:
  assumes "antlr_runtime R" "parse R fuel inp = Built t ps'" "ps_errors ps' = 0"
  shows "every_node in_step t"
  using conforms_in_step antlr_runtime.parse_conforms(2) [OF assms] by (rule conforms_every_node)

theorem vectors_in_step_witness:
  "\<exists>t ps'. parse ex_R 20 ex_tokens = Built t ps' \<and> every_node in_step t"
proof -
  obtain t ps' where p: "parse ex_R 20 ex_tokens = Built t ps'" "ps_errors ps' = 0"
    using clean_result [OF ex_clean] by blast
  from vectors_in_step [OF reference.antlr_runtime_axioms p] p(1) show ?thesis by blast
qed

text \<open>C33: A visitor that inherits the methods of \<open>CelBaseVisitor\<close> and puts the results of the children
  together visits, on the tree of an error-free parse, every token of the input once and in
  order, then the end of the input, and no error node.\<close>

theorem visitor_sees_input:
  assumes "antlr_runtime R" "parse R fuel inp = Built t ps'" "ps_errors ps' = 0"
    and "TOKEN_EOF \<notin> tok_type ` set inp"
    and "collecting_visitor v none agg"
  shows "\<exists>k. tok_type k = TOKEN_EOF \<and>
    accept v t = foldr (\<lambda>x. agg (visitTerminal v x)) (inp @ [k]) none"
proof -
  note tree = antlr_runtime.parse_conforms [OF assms(1-3)] and stop = antlr_runtime.parse_ends [OF assms(1-3)]
  have "yield_of t = inp"
    using assms(4) tree(4) stop by (cases "ps_input ps'") (auto simp: LA1_def current_def)
  with start_leaves [OF tree(2,1)] obtain k where
      k: "tok_type k = TOKEN_EOF" "leaves t = map (Pair False) (inp @ [k])" by auto
  have "in_tree t" using tree(1) by (cases t) simp_all
  then have "accept v t = foldr (\<lambda>x. agg (visitTerminal v x)) (inp @ [k]) none"
    using collecting_visitor.accept_collects [OF assms(5)] k(2)
    by (simp add: collecting_visitor.collected_def [OF assms(5)] collecting_visitor.leaf_def [OF assms(5)] foldr_map comp_def)
  with k(1) show ?thesis by blast
qed

theorem visitor_sees_input_witness:
  "\<exists>t ps' k. parse ex_R 20 ex_tokens = Built t ps' \<and> accept token_visitor t = ex_tokens @ [k]"
proof -
  obtain t ps' where p: "parse ex_R 20 ex_tokens = Built t ps'" "ps_errors ps' = 0"
    using clean_result [OF ex_clean] by blast
  have "TOKEN_EOF \<notin> tok_type ` set ex_tokens" by code_simp
  from visitor_sees_input [OF reference.antlr_runtime_axioms p this tokens.collecting_visitor_axioms]
  obtain k where "accept token_visitor t = foldr (\<lambda>x. (@) (visitTerminal token_visitor x)) (ex_tokens @ [k]) []"
    by blast
  also have "foldr (\<lambda>x. (@) (visitTerminal token_visitor x)) xs [] = xs" for xs
    by (induction xs) (simp_all add: token_visitor_def Let_def)
  finally show ?thesis using p(1) by blast
qed

end
