(* ===== verification/Atn_Format.thy ===== *)
theory Atn_Format
  imports Main
begin

text \<open>
  The automata (\<open>ATN\<close>s) the generated parser and lexer carry in their static data, and the list
  of integers they are written as: version 4 of the serialized form of the ANTLR tool. The
  runtime's \<open>ATNDeserializer\<close> is not in the repository; \<open>atn_deserializer\<close> is what is relied
  on, that it gives back the automaton a list was written for. \<open>read_atn\<close> does so.

  A state is its type, its rule and, for the types that have one, the state it is paired with.
  An edge has a source, a target, a type and three arguments, as it is written.
\<close>

record atn =
  atn_grammar :: int
  atn_max_token :: int
  atn_states :: "(int \<times> int \<times> int list) list"
  atn_non_greedy :: "int list"
  atn_precedence :: "int list"
  atn_rules :: "int list list"
  atn_modes :: "int list"
  atn_sets :: "(int \<times> (int \<times> int) list) list"
  atn_edges :: "(int \<times> int \<times> int \<times> int \<times> int \<times> int) list"
  atn_decisions :: "int list"
  atn_actions :: "(int \<times> int \<times> int) list"

section \<open>Writing\<close>

definition write_list :: "('a \<Rightarrow> int list) \<Rightarrow> 'a list \<Rightarrow> int list" where
  "write_list f xs = int (length xs) # concat (map f xs)"

text \<open>The types of states that are paired: the starts of blocks and the end of a loop.\<close>

definition paired :: "int \<Rightarrow> bool" where
  "paired ty \<longleftrightarrow> ty \<in> {3, 4, 5, 12}"

definition write_int :: "int \<Rightarrow> int list" where
  "write_int n = [n]"

definition write_state :: "int \<times> int \<times> int list \<Rightarrow> int list" where
  "write_state x = (case x of (ty, r, e) \<Rightarrow> if ty = 0 then [0] else ty # r # e)"

definition write_pair :: "int \<times> int \<Rightarrow> int list" where
  "write_pair x = (case x of (a, b) \<Rightarrow> [a, b])"

definition write_set :: "int \<times> (int \<times> int) list \<Rightarrow> int list" where
  "write_set x = (case x of (eof, ivs) \<Rightarrow> int (length ivs) # eof # concat (map write_pair ivs))"

definition write_edge :: "int \<times> int \<times> int \<times> int \<times> int \<times> int \<Rightarrow> int list" where
  "write_edge x = (case x of (s, t, ty, a, b, c) \<Rightarrow> [s, t, ty, a, b, c])"

definition write_action :: "int \<times> int \<times> int \<Rightarrow> int list" where
  "write_action x = (case x of (ty, a, b) \<Rightarrow> [ty, a, b])"

definition write_atn :: "atn \<Rightarrow> int list" where
  "write_atn A = [4, atn_grammar A, atn_max_token A] @ write_list write_state (atn_states A) @
     write_list write_int (atn_non_greedy A) @ write_list write_int (atn_precedence A) @
     write_list id (atn_rules A) @ write_list write_int (atn_modes A) @ write_list write_set (atn_sets A) @
     write_list write_edge (atn_edges A) @ write_list write_int (atn_decisions A) @
     (if atn_grammar A = 0 then write_list write_action (atn_actions A) else [])"

text \<open>Lexer rules have a token type beside their start state; parsers have no actions.\<close>

definition writable :: "atn \<Rightarrow> bool" where
  "writable A \<longleftrightarrow> atn_grammar A \<in> {0, 1} \<and>
     list_all (\<lambda>(ty, r, e). if ty = 0 then r = 0 \<and> e = [] else length e = (if paired ty then 1 else 0)) (atn_states A) \<and>
     list_all (\<lambda>r. length r = (if atn_grammar A = 0 then 2 else 1)) (atn_rules A) \<and>
     (atn_grammar A = 1 \<longrightarrow> atn_actions A = [])"

section \<open>Reading\<close>

type_synonym 'a reader = "int list \<Rightarrow> ('a \<times> int list) option"

fun read_times :: "'a reader \<Rightarrow> nat \<Rightarrow> 'a list reader" where
  "read_times f 0 v = Some ([], v)"
| "read_times f (Suc n) v = (case f v of None \<Rightarrow> None | Some (x, v) \<Rightarrow>
     (case read_times f n v of None \<Rightarrow> None | Some (xs, v) \<Rightarrow> Some (x # xs, v)))"

fun read_int :: "int reader" where
  "read_int [] = None"
| "read_int (n # v) = Some (n, v)"

definition bind_reader :: "'a reader \<Rightarrow> ('a \<Rightarrow> 'b reader) \<Rightarrow> 'b reader" where
  "bind_reader f g v = (case f v of None \<Rightarrow> None | Some (x, v) \<Rightarrow> g x v)"

definition give :: "'a \<Rightarrow> 'a reader" where
  "give x v = Some (x, v)"

definition read_list :: "'a reader \<Rightarrow> 'a list reader" where
  "read_list f = bind_reader read_int (\<lambda>n. if n < 0 then (\<lambda>_. None) else read_times f (nat n))"

definition read_state :: "(int \<times> int \<times> int list) reader" where
  "read_state = bind_reader read_int (\<lambda>ty. if ty = 0 then give (0, 0, []) else
     bind_reader read_int (\<lambda>r. bind_reader (read_times read_int (if paired ty then 1 else 0))
       (\<lambda>e. give (ty, r, e))))"

definition read_pair :: "(int \<times> int) reader" where
  "read_pair = bind_reader read_int (\<lambda>a. bind_reader read_int (\<lambda>b. give (a, b)))"

definition read_set :: "(int \<times> (int \<times> int) list) reader" where
  "read_set = bind_reader read_int (\<lambda>n. bind_reader read_int (\<lambda>eof.
     if n < 0 then (\<lambda>_. None) else bind_reader (read_times read_pair (nat n)) (\<lambda>ivs. give (eof, ivs))))"

definition read_edge :: "(int \<times> int \<times> int \<times> int \<times> int \<times> int) reader" where
  "read_edge = bind_reader read_int (\<lambda>s. bind_reader read_int (\<lambda>t. bind_reader read_int (\<lambda>ty.
     bind_reader read_int (\<lambda>a. bind_reader read_int (\<lambda>b. bind_reader read_int (\<lambda>c.
       give (s, t, ty, a, b, c)))))))"

definition read_action :: "(int \<times> int \<times> int) reader" where
  "read_action = bind_reader read_int (\<lambda>ty. bind_reader read_int (\<lambda>a. bind_reader read_int (\<lambda>b.
     give (ty, a, b))))"

definition read_fields :: "atn reader" where
  "read_fields = bind_reader read_int (\<lambda>version. if version \<noteq> 4 then (\<lambda>_. None) else
     bind_reader read_int (\<lambda>grammar. bind_reader read_int (\<lambda>max_token.
     bind_reader (read_list read_state) (\<lambda>states.
     bind_reader (read_list read_int) (\<lambda>non_greedy. bind_reader (read_list read_int) (\<lambda>precedence.
     bind_reader (read_list (read_times read_int (if grammar = 0 then 2 else 1))) (\<lambda>rules.
     bind_reader (read_list read_int) (\<lambda>modes. bind_reader (read_list read_set) (\<lambda>sets.
     bind_reader (read_list read_edge) (\<lambda>edges. bind_reader (read_list read_int) (\<lambda>decisions.
     bind_reader (if grammar = 0 then read_list read_action else give []) (\<lambda>actions.
     give \<lparr>atn_grammar = grammar, atn_max_token = max_token, atn_states = states,
       atn_non_greedy = non_greedy, atn_precedence = precedence, atn_rules = rules,
       atn_modes = modes, atn_sets = sets, atn_edges = edges, atn_decisions = decisions,
       atn_actions = actions\<rparr>))))))))))))"

definition read_atn :: "int list \<Rightarrow> atn option" where
  "read_atn v = map_option fst (read_fields v)"

section \<open>What is written is read back\<close>

named_theorems reads

definition reads_back :: "'a reader \<Rightarrow> int list \<Rightarrow> 'a \<Rightarrow> bool" where
  "reads_back f u x \<longleftrightarrow> (\<forall>v. f (u @ v) = Some (x, v))"

lemma reads_back_int [reads]: "reads_back read_int [n] n"
  by (simp add: reads_back_def)

lemma reads_back_give [reads]: "reads_back (give x) [] x"
  by (simp add: reads_back_def give_def)

lemma reads_back_bind:
  "reads_back f u x \<Longrightarrow> reads_back (g x) w y \<Longrightarrow> reads_back (bind_reader f g) (u @ w) y"
  by (simp add: reads_back_def bind_reader_def)

lemma reads_back_bind_int:
  "reads_back (g n) w y \<Longrightarrow> reads_back (bind_reader read_int g) (n # w) y"
  by (simp add: reads_back_def bind_reader_def)

lemma reads_back_bind_last:
  "reads_back f u x \<Longrightarrow> g x = give y \<Longrightarrow> reads_back (bind_reader f g) u y"
  by (simp add: reads_back_def bind_reader_def give_def)

lemma reads_back_times:
  assumes "\<And>x. x \<in> set xs \<Longrightarrow> reads_back f (w x) x"
  shows "reads_back (read_times f (length xs)) (concat (map w xs)) xs"
  using assms by (induction xs) (simp_all add: reads_back_def)

lemma reads_back_list:
  assumes "\<And>x. x \<in> set xs \<Longrightarrow> reads_back f (w x) x"
  shows "reads_back (read_list f) (write_list w xs) xs"
  unfolding read_list_def write_list_def
  by (rule reads_back_bind_int) (simp add: reads_back_times assms)

lemma write_ints [simp]: "concat (map write_int xs) = xs"
  by (induction xs) (simp_all add: write_int_def)

lemma reads_back_ints: "n = length xs \<Longrightarrow> reads_back (read_times read_int n) xs xs"
  using reads_back_times [of xs read_int write_int] reads_back_int by (simp only: write_ints) (simp add: write_int_def)

lemma reads_back_int_list: "reads_back (read_list read_int) (write_list write_int xs) xs"
  by (rule reads_back_list) (simp add: write_int_def reads)

lemma reads_back_pair: "reads_back read_pair (write_pair x) x"
  by (cases x) (simp add: read_pair_def write_pair_def reads_back_bind_int reads)

lemma reads_back_set: "reads_back read_set (write_set x) x"
proof (cases x)
  case (Pair eof ivs)
  have "reads_back (read_times read_pair (length ivs)) (concat (map write_pair ivs)) ivs"
    by (rule reads_back_times) (rule reads_back_pair)
  then show ?thesis unfolding read_set_def write_set_def Pair
    by (simp add: reads_back_bind_int reads_back_bind_last)
qed

lemma reads_back_edge: "reads_back read_edge (write_edge x) x"
  by (cases x) (simp add: read_edge_def write_edge_def reads_back_bind_int reads)

lemma reads_back_action: "reads_back read_action (write_action x) x"
  by (cases x) (simp add: read_action_def write_action_def reads_back_bind_int reads)

lemma reads_back_state:
  assumes "if ty = 0 then r = 0 \<and> e = [] else length e = (if paired ty then 1 else 0)"
  shows "reads_back read_state (write_state (ty, r, e)) (ty, r, e)"
proof -
  have "reads_back (bind_reader (read_times read_int (length e)) (\<lambda>e. give (ty, r, e))) e (ty, r, e)"
    by (rule reads_back_bind_last [OF reads_back_ints]) simp_all
  with assms show ?thesis
    by (auto simp: read_state_def write_state_def intro!: reads_back_bind_int reads split: if_splits)
qed

lemma reads_back_fields:
  assumes "writable A"
  shows "reads_back read_fields (write_atn A) A"
proof -
  have s: "reads_back (read_list read_state) (write_list write_state (atn_states A)) (atn_states A)"
    using assms by (intro reads_back_list) (auto simp: writable_def list_all_iff intro!: reads_back_state)
  have r: "reads_back (read_list (read_times read_int (if atn_grammar A = 0 then 2 else 1)))
      (write_list id (atn_rules A)) (atn_rules A)"
    using assms by (intro reads_back_list) (auto simp: writable_def list_all_iff intro!: reads_back_ints)
  have e: "reads_back (if atn_grammar A = 0 then read_list read_action else give [])
      (if atn_grammar A = 0 then write_list write_action (atn_actions A) else []) (atn_actions A)"
    using assms by (auto simp: writable_def intro!: reads_back_list reads_back_action reads)
  show ?thesis
    unfolding read_fields_def write_atn_def append_Cons append_Nil
    by (rule reads_back_bind_int, simp only: simp_thms if_False if_True not_not,
        (rule reads_back_bind_int)+, rule reads_back_bind [OF s],
        (rule reads_back_bind [OF reads_back_int_list])+, rule reads_back_bind [OF r],
        rule reads_back_bind [OF reads_back_int_list], rule reads_back_bind [OF reads_back_list [OF reads_back_set]],
        rule reads_back_bind [OF reads_back_list [OF reads_back_edge]],
        rule reads_back_bind [OF reads_back_int_list], rule reads_back_bind_last [OF e]) (cases A, simp)
qed

lemma read_write_atn: "writable A \<Longrightarrow> read_atn (write_atn A) = Some A"
  using reads_back_fields [of A] unfolding reads_back_def read_atn_def
  by (metis append_Nil2 fst_conv option.simps(9))

section \<open>The deserializer\<close>

locale atn_deserializer =
  fixes deserialize :: "int list \<Rightarrow> atn option"
  assumes gives_back: "writable A \<Longrightarrow> deserialize (write_atn A) = Some A"

interpretation reader: atn_deserializer read_atn
  by unfold_locales (rule read_write_atn)

end
