(* ===== verification/Cel_Parser_Data.thy ===== *)
theory Cel_Parser_Data
  imports Atn_Format Cel_Parser
begin

text \<open>
  The static data of the generated parser (CelParser.cpp, CelParser.h): token types, names, the
  vocabulary, the serialized automaton as it stands in the source, and its initialization on
  first use. The deserializer is a parameter. \<open>celParser_atn\<close> is the automaton the list is
  for, in the form the statements about it use.
\<close>

section \<open>Names\<close>

abbreviation quoted :: "string \<Rightarrow> string" where
  "quoted s \<equiv> CHR 0x27 # s @ [CHR 0x27]"

definition CelParser_tokens :: "(string \<times> int) list" where
  "CelParser_tokens = [
     (''EQUALS'', 1), (''NOT_EQUALS'', 2), (''IN'', 3), (''LESS'', 4), (''LESS_EQUALS'', 5),
     (''GREATER_EQUALS'', 6), (''GREATER'', 7), (''LOGICAL_AND'', 8), (''LOGICAL_OR'', 9),
     (''LBRACKET'', 10), (''RPRACKET'', 11), (''LBRACE'', 12), (''RBRACE'', 13),
     (''LPAREN'', 14), (''RPAREN'', 15), (''DOT'', 16), (''COMMA'', 17), (''MINUS'', 18),
     (''EXCLAM'', 19), (''QUESTIONMARK'', 20), (''COLON'', 21), (''PLUS'', 22), (''STAR'', 23),
     (''SLASH'', 24), (''PERCENT'', 25), (''CEL_TRUE'', 26), (''CEL_FALSE'', 27), (''NUL'', 28),
     (''WHITESPACE'', 29), (''COMMENT'', 30), (''NUM_FLOAT'', 31), (''NUM_INT'', 32),
     (''NUM_UINT'', 33), (''STRING'', 34), (''BYTES'', 35), (''IDENTIFIER'', 36),
     (''ESC_IDENTIFIER'', 37)]"

definition celParser_ruleNames :: "string list" where
  "celParser_ruleNames = [
     ''start'', ''expr'', ''conditionalOr'', ''conditionalAnd'', ''relation'', ''calc'',
     ''unary'', ''member'', ''primary'', ''exprList'', ''listInit'', ''fieldInitializerList'',
     ''optField'', ''mapInitializerList'', ''escapeIdent'', ''optExpr'', ''literal'']"

definition celParser_literalNames :: "string list" where
  "celParser_literalNames = [
     [], quoted ''=='', quoted ''!='', quoted ''in'', quoted ''<'', quoted ''<='',
     quoted ''>='', quoted ''>'', quoted ''&&'', quoted ''||'', quoted ''['', quoted '']'',
     quoted ''{'', quoted ''}'', quoted ''('', quoted '')'', quoted ''.'', quoted '','',
     quoted ''-'', quoted ''!'', quoted (CHR 0x5C # ''u003F''), quoted '':'', quoted ''+'',
     quoted ''*'', quoted ''/'', quoted ''%'', quoted ''true'', quoted ''false'',
     quoted ''null'']"

definition celParser_symbolicNames :: "string list" where
  "celParser_symbolicNames = [
     [], ''EQUALS'', ''NOT_EQUALS'', ''IN'', ''LESS'', ''LESS_EQUALS'', ''GREATER_EQUALS'',
     ''GREATER'', ''LOGICAL_AND'', ''LOGICAL_OR'', ''LBRACKET'', ''RPRACKET'', ''LBRACE'',
     ''RBRACE'', ''LPAREN'', ''RPAREN'', ''DOT'', ''COMMA'', ''MINUS'', ''EXCLAM'',
     ''QUESTIONMARK'', ''COLON'', ''PLUS'', ''STAR'', ''SLASH'', ''PERCENT'', ''CEL_TRUE'',
     ''CEL_FALSE'', ''NUL'', ''WHITESPACE'', ''COMMENT'', ''NUM_FLOAT'', ''NUM_INT'',
     ''NUM_UINT'', ''STRING'', ''BYTES'', ''IDENTIFIER'', ''ESC_IDENTIFIER'']"

section \<open>The automaton\<close>

text \<open>The rows are the lines of the source.\<close>

definition celParser_serializedATN :: "int list" where
  "celParser_serializedATN = concat [
     [4, 1, 37, 259, 2, 0, 7, 0, 2, 1, 7, 1, 2, 2, 7, 2, 2, 3, 7, 3, 2, 4, 7, 4, 2, 5, 7, 5, 2,
      6, 7, 6, 2],
     [7, 7, 7, 2, 8, 7, 8, 2, 9, 7, 9, 2, 10, 7, 10, 2, 11, 7, 11, 2, 12, 7, 12, 2, 13, 7, 13,
      2, 14, 7],
     [14, 2, 15, 7, 15, 2, 16, 7, 16, 1, 0, 1, 0, 1, 0, 1, 1, 1, 1, 1, 1, 1, 1, 1, 1, 1, 1, 3,
      1, 44, 8, 1],
     [1, 2, 1, 2, 1, 2, 5, 2, 49, 8, 2, 10, 2, 12, 2, 52, 9, 2, 1, 3, 1, 3, 1, 3, 5, 3, 57, 8,
      3, 10, 3, 12],
     [3, 60, 9, 3, 1, 4, 1, 4, 1, 4, 1, 4, 1, 4, 1, 4, 5, 4, 68, 8, 4, 10, 4, 12, 4, 71, 9, 4,
      1, 5, 1, 5],
     [1, 5, 1, 5, 1, 5, 1, 5, 1, 5, 1, 5, 1, 5, 5, 5, 82, 8, 5, 10, 5, 12, 5, 85, 9, 5, 1, 6, 1,
      6, 4, 6, 89],
     [8, 6, 11, 6, 12, 6, 90, 1, 6, 1, 6, 4, 6, 95, 8, 6, 11, 6, 12, 6, 96, 1, 6, 3, 6, 100, 8,
      6, 1, 7],
     [1, 7, 1, 7, 1, 7, 1, 7, 1, 7, 3, 7, 108, 8, 7, 1, 7, 1, 7, 1, 7, 1, 7, 1, 7, 1, 7, 3, 7,
      116, 8, 7, 1],
     [7, 1, 7, 1, 7, 1, 7, 3, 7, 122, 8, 7, 1, 7, 1, 7, 1, 7, 5, 7, 127, 8, 7, 10, 7, 12, 7,
      130, 9, 7, 1],
     [8, 3, 8, 133, 8, 8, 1, 8, 1, 8, 3, 8, 137, 8, 8, 1, 8, 1, 8, 1, 8, 3, 8, 142, 8, 8, 1, 8,
      1, 8, 1, 8],
     [1, 8, 1, 8, 1, 8, 1, 8, 3, 8, 151, 8, 8, 1, 8, 3, 8, 154, 8, 8, 1, 8, 1, 8, 1, 8, 3, 8,
      159, 8, 8, 1],
     [8, 3, 8, 162, 8, 8, 1, 8, 1, 8, 3, 8, 166, 8, 8, 1, 8, 1, 8, 1, 8, 5, 8, 171, 8, 8, 10, 8,
      12, 8, 174],
     [9, 8, 1, 8, 1, 8, 3, 8, 178, 8, 8, 1, 8, 3, 8, 181, 8, 8, 1, 8, 1, 8, 3, 8, 185, 8, 8, 1,
      9, 1, 9, 1],
     [9, 5, 9, 190, 8, 9, 10, 9, 12, 9, 193, 9, 9, 1, 10, 1, 10, 1, 10, 5, 10, 198, 8, 10, 10,
      10, 12],
     [10, 201, 9, 10, 1, 11, 1, 11, 1, 11, 1, 11, 1, 11, 1, 11, 1, 11, 1, 11, 5, 11, 211, 8, 11,
      10],
     [11, 12, 11, 214, 9, 11, 1, 12, 3, 12, 217, 8, 12, 1, 12, 1, 12, 1, 13, 1, 13, 1, 13, 1,
      13, 1],
     [13, 1, 13, 1, 13, 1, 13, 5, 13, 229, 8, 13, 10, 13, 12, 13, 232, 9, 13, 1, 14, 1, 14, 3,
      14, 236],
     [8, 14, 1, 15, 3, 15, 239, 8, 15, 1, 15, 1, 15, 1, 16, 3, 16, 244, 8, 16, 1, 16, 1, 16, 1,
      16, 3],
     [16, 249, 8, 16, 1, 16, 1, 16, 1, 16, 1, 16, 1, 16, 1, 16, 3, 16, 257, 8, 16, 1, 16, 0, 3,
      8, 10],
     [14, 17, 0, 2, 4, 6, 8, 10, 12, 14, 16, 18, 20, 22, 24, 26, 28, 30, 32, 0, 3, 1, 0, 1, 7,
      1, 0, 23],
     [25, 2, 0, 18, 18, 22, 22, 290, 0, 34, 1, 0, 0, 0, 2, 37, 1, 0, 0, 0, 4, 45, 1, 0, 0, 0, 6,
      53, 1],
     [0, 0, 0, 8, 61, 1, 0, 0, 0, 10, 72, 1, 0, 0, 0, 12, 99, 1, 0, 0, 0, 14, 101, 1, 0, 0, 0,
      16, 184],
     [1, 0, 0, 0, 18, 186, 1, 0, 0, 0, 20, 194, 1, 0, 0, 0, 22, 202, 1, 0, 0, 0, 24, 216, 1, 0,
      0, 0, 26],
     [220, 1, 0, 0, 0, 28, 235, 1, 0, 0, 0, 30, 238, 1, 0, 0, 0, 32, 256, 1, 0, 0, 0, 34, 35, 3,
      2, 1],
     [0, 35, 36, 5, 0, 0, 1, 36, 1, 1, 0, 0, 0, 37, 43, 3, 4, 2, 0, 38, 39, 5, 20, 0, 0, 39, 40,
      3, 4, 2],
     [0, 40, 41, 5, 21, 0, 0, 41, 42, 3, 2, 1, 0, 42, 44, 1, 0, 0, 0, 43, 38, 1, 0, 0, 0, 43,
      44, 1, 0],
     [0, 0, 44, 3, 1, 0, 0, 0, 45, 50, 3, 6, 3, 0, 46, 47, 5, 9, 0, 0, 47, 49, 3, 6, 3, 0, 48,
      46, 1, 0],
     [0, 0, 49, 52, 1, 0, 0, 0, 50, 48, 1, 0, 0, 0, 50, 51, 1, 0, 0, 0, 51, 5, 1, 0, 0, 0, 52,
      50, 1, 0],
     [0, 0, 53, 58, 3, 8, 4, 0, 54, 55, 5, 8, 0, 0, 55, 57, 3, 8, 4, 0, 56, 54, 1, 0, 0, 0, 57,
      60, 1, 0],
     [0, 0, 58, 56, 1, 0, 0, 0, 58, 59, 1, 0, 0, 0, 59, 7, 1, 0, 0, 0, 60, 58, 1, 0, 0, 0, 61,
      62, 6, 4],
     [-1, 0, 62, 63, 3, 10, 5, 0, 63, 69, 1, 0, 0, 0, 64, 65, 10, 1, 0, 0, 65, 66, 7, 0, 0, 0,
      66, 68],
     [3, 8, 4, 2, 67, 64, 1, 0, 0, 0, 68, 71, 1, 0, 0, 0, 69, 67, 1, 0, 0, 0, 69, 70, 1, 0, 0,
      0, 70, 9],
     [1, 0, 0, 0, 71, 69, 1, 0, 0, 0, 72, 73, 6, 5, -1, 0, 73, 74, 3, 12, 6, 0, 74, 83, 1, 0, 0,
      0, 75],
     [76, 10, 2, 0, 0, 76, 77, 7, 1, 0, 0, 77, 82, 3, 10, 5, 3, 78, 79, 10, 1, 0, 0, 79, 80, 7,
      2, 0, 0],
     [80, 82, 3, 10, 5, 2, 81, 75, 1, 0, 0, 0, 81, 78, 1, 0, 0, 0, 82, 85, 1, 0, 0, 0, 83, 81,
      1, 0, 0],
     [0, 83, 84, 1, 0, 0, 0, 84, 11, 1, 0, 0, 0, 85, 83, 1, 0, 0, 0, 86, 100, 3, 14, 7, 0, 87,
      89, 5, 19],
     [0, 0, 88, 87, 1, 0, 0, 0, 89, 90, 1, 0, 0, 0, 90, 88, 1, 0, 0, 0, 90, 91, 1, 0, 0, 0, 91,
      92, 1, 0],
     [0, 0, 92, 100, 3, 14, 7, 0, 93, 95, 5, 18, 0, 0, 94, 93, 1, 0, 0, 0, 95, 96, 1, 0, 0, 0,
      96, 94],
     [1, 0, 0, 0, 96, 97, 1, 0, 0, 0, 97, 98, 1, 0, 0, 0, 98, 100, 3, 14, 7, 0, 99, 86, 1, 0, 0,
      0, 99],
     [88, 1, 0, 0, 0, 99, 94, 1, 0, 0, 0, 100, 13, 1, 0, 0, 0, 101, 102, 6, 7, -1, 0, 102, 103,
      3, 16],
     [8, 0, 103, 128, 1, 0, 0, 0, 104, 105, 10, 3, 0, 0, 105, 107, 5, 16, 0, 0, 106, 108, 5, 20,
      0],
     [0, 107, 106, 1, 0, 0, 0, 107, 108, 1, 0, 0, 0, 108, 109, 1, 0, 0, 0, 109, 127, 3, 28, 14,
      0, 110],
     [111, 10, 2, 0, 0, 111, 112, 5, 16, 0, 0, 112, 113, 5, 36, 0, 0, 113, 115, 5, 14, 0, 0,
      114, 116],
     [3, 18, 9, 0, 115, 114, 1, 0, 0, 0, 115, 116, 1, 0, 0, 0, 116, 117, 1, 0, 0, 0, 117, 127,
      5, 15],
     [0, 0, 118, 119, 10, 1, 0, 0, 119, 121, 5, 10, 0, 0, 120, 122, 5, 20, 0, 0, 121, 120, 1, 0,
      0],
     [0, 121, 122, 1, 0, 0, 0, 122, 123, 1, 0, 0, 0, 123, 124, 3, 2, 1, 0, 124, 125, 5, 11, 0,
      0, 125],
     [127, 1, 0, 0, 0, 126, 104, 1, 0, 0, 0, 126, 110, 1, 0, 0, 0, 126, 118, 1, 0, 0, 0, 127,
      130, 1],
     [0, 0, 0, 128, 126, 1, 0, 0, 0, 128, 129, 1, 0, 0, 0, 129, 15, 1, 0, 0, 0, 130, 128, 1, 0,
      0, 0],
     [131, 133, 5, 16, 0, 0, 132, 131, 1, 0, 0, 0, 132, 133, 1, 0, 0, 0, 133, 134, 1, 0, 0, 0,
      134],
     [185, 5, 36, 0, 0, 135, 137, 5, 16, 0, 0, 136, 135, 1, 0, 0, 0, 136, 137, 1, 0, 0, 0, 137,
      138],
     [1, 0, 0, 0, 138, 139, 5, 36, 0, 0, 139, 141, 5, 14, 0, 0, 140, 142, 3, 18, 9, 0, 141, 140,
      1],
     [0, 0, 0, 141, 142, 1, 0, 0, 0, 142, 143, 1, 0, 0, 0, 143, 185, 5, 15, 0, 0, 144, 145, 5,
      14, 0],
     [0, 145, 146, 3, 2, 1, 0, 146, 147, 5, 15, 0, 0, 147, 185, 1, 0, 0, 0, 148, 150, 5, 10, 0,
      0, 149],
     [151, 3, 20, 10, 0, 150, 149, 1, 0, 0, 0, 150, 151, 1, 0, 0, 0, 151, 153, 1, 0, 0, 0, 152,
      154],
     [5, 17, 0, 0, 153, 152, 1, 0, 0, 0, 153, 154, 1, 0, 0, 0, 154, 155, 1, 0, 0, 0, 155, 185,
      5, 11],
     [0, 0, 156, 158, 5, 12, 0, 0, 157, 159, 3, 26, 13, 0, 158, 157, 1, 0, 0, 0, 158, 159, 1, 0,
      0],
     [0, 159, 161, 1, 0, 0, 0, 160, 162, 5, 17, 0, 0, 161, 160, 1, 0, 0, 0, 161, 162, 1, 0, 0,
      0, 162],
     [163, 1, 0, 0, 0, 163, 185, 5, 13, 0, 0, 164, 166, 5, 16, 0, 0, 165, 164, 1, 0, 0, 0, 165,
      166],
     [1, 0, 0, 0, 166, 167, 1, 0, 0, 0, 167, 172, 5, 36, 0, 0, 168, 169, 5, 16, 0, 0, 169, 171,
      5, 36],
     [0, 0, 170, 168, 1, 0, 0, 0, 171, 174, 1, 0, 0, 0, 172, 170, 1, 0, 0, 0, 172, 173, 1, 0, 0,
      0, 173],
     [175, 1, 0, 0, 0, 174, 172, 1, 0, 0, 0, 175, 177, 5, 12, 0, 0, 176, 178, 3, 22, 11, 0, 177,
      176],
     [1, 0, 0, 0, 177, 178, 1, 0, 0, 0, 178, 180, 1, 0, 0, 0, 179, 181, 5, 17, 0, 0, 180, 179,
      1, 0],
     [0, 0, 180, 181, 1, 0, 0, 0, 181, 182, 1, 0, 0, 0, 182, 185, 5, 13, 0, 0, 183, 185, 3, 32,
      16],
     [0, 184, 132, 1, 0, 0, 0, 184, 136, 1, 0, 0, 0, 184, 144, 1, 0, 0, 0, 184, 148, 1, 0, 0, 0,
      184],
     [156, 1, 0, 0, 0, 184, 165, 1, 0, 0, 0, 184, 183, 1, 0, 0, 0, 185, 17, 1, 0, 0, 0, 186,
      191, 3],
     [2, 1, 0, 187, 188, 5, 17, 0, 0, 188, 190, 3, 2, 1, 0, 189, 187, 1, 0, 0, 0, 190, 193, 1,
      0, 0],
     [0, 191, 189, 1, 0, 0, 0, 191, 192, 1, 0, 0, 0, 192, 19, 1, 0, 0, 0, 193, 191, 1, 0, 0, 0,
      194],
     [199, 3, 30, 15, 0, 195, 196, 5, 17, 0, 0, 196, 198, 3, 30, 15, 0, 197, 195, 1, 0, 0, 0,
      198],
     [201, 1, 0, 0, 0, 199, 197, 1, 0, 0, 0, 199, 200, 1, 0, 0, 0, 200, 21, 1, 0, 0, 0, 201,
      199, 1],
     [0, 0, 0, 202, 203, 3, 24, 12, 0, 203, 204, 5, 21, 0, 0, 204, 212, 3, 2, 1, 0, 205, 206, 5,
      17],
     [0, 0, 206, 207, 3, 24, 12, 0, 207, 208, 5, 21, 0, 0, 208, 209, 3, 2, 1, 0, 209, 211, 1, 0,
      0],
     [0, 210, 205, 1, 0, 0, 0, 211, 214, 1, 0, 0, 0, 212, 210, 1, 0, 0, 0, 212, 213, 1, 0, 0, 0,
      213],
     [23, 1, 0, 0, 0, 214, 212, 1, 0, 0, 0, 215, 217, 5, 20, 0, 0, 216, 215, 1, 0, 0, 0, 216,
      217, 1],
     [0, 0, 0, 217, 218, 1, 0, 0, 0, 218, 219, 3, 28, 14, 0, 219, 25, 1, 0, 0, 0, 220, 221, 3,
      30, 15],
     [0, 221, 222, 5, 21, 0, 0, 222, 230, 3, 2, 1, 0, 223, 224, 5, 17, 0, 0, 224, 225, 3, 30,
      15, 0],
     [225, 226, 5, 21, 0, 0, 226, 227, 3, 2, 1, 0, 227, 229, 1, 0, 0, 0, 228, 223, 1, 0, 0, 0,
      229],
     [232, 1, 0, 0, 0, 230, 228, 1, 0, 0, 0, 230, 231, 1, 0, 0, 0, 231, 27, 1, 0, 0, 0, 232,
      230, 1],
     [0, 0, 0, 233, 236, 5, 36, 0, 0, 234, 236, 5, 37, 0, 0, 235, 233, 1, 0, 0, 0, 235, 234, 1,
      0, 0],
     [0, 236, 29, 1, 0, 0, 0, 237, 239, 5, 20, 0, 0, 238, 237, 1, 0, 0, 0, 238, 239, 1, 0, 0, 0,
      239],
     [240, 1, 0, 0, 0, 240, 241, 3, 2, 1, 0, 241, 31, 1, 0, 0, 0, 242, 244, 5, 18, 0, 0, 243,
      242, 1],
     [0, 0, 0, 243, 244, 1, 0, 0, 0, 244, 245, 1, 0, 0, 0, 245, 257, 5, 32, 0, 0, 246, 257, 5,
      33, 0],
     [0, 247, 249, 5, 18, 0, 0, 248, 247, 1, 0, 0, 0, 248, 249, 1, 0, 0, 0, 249, 250, 1, 0, 0,
      0, 250],
     [257, 5, 31, 0, 0, 251, 257, 5, 34, 0, 0, 252, 257, 5, 35, 0, 0, 253, 257, 5, 26, 0, 0,
      254, 257],
     [5, 27, 0, 0, 255, 257, 5, 28, 0, 0, 256, 243, 1, 0, 0, 0, 256, 246, 1, 0, 0, 0, 256, 248,
      1, 0],
     [0, 0, 256, 251, 1, 0, 0, 0, 256, 252, 1, 0, 0, 0, 256, 253, 1, 0, 0, 0, 256, 254, 1, 0, 0,
      0, 256],
     [255, 1, 0, 0, 0, 257, 33, 1, 0, 0, 0, 36, 43, 50, 58, 69, 81, 83, 90, 96, 99, 107, 115,
      121],
     [126, 128, 132, 136, 141, 150, 153, 158, 161, 165, 172, 177, 180, 184, 191, 199, 212, 216],
     [230, 235, 238, 243, 248, 256]]"

text \<open>The same automaton, taken apart.\<close>

definition celParser_states :: "(int \<times> int \<times> int list) list" where
  "celParser_states = concat [
     [(2, 0, []), (7, 0, []), (2, 1, []), (7, 1, []), (2, 2, []), (7, 2, []), (2, 3, [])],
     [(7, 3, []), (2, 4, []), (7, 4, []), (2, 5, []), (7, 5, []), (2, 6, []), (7, 6, [])],
     [(2, 7, []), (7, 7, []), (2, 8, []), (7, 8, []), (2, 9, []), (7, 9, []), (2, 10, [])],
     [(7, 10, []), (2, 11, []), (7, 11, []), (2, 12, []), (7, 12, []), (2, 13, []), (7, 13, [])],
     [(2, 14, []), (7, 14, []), (2, 15, []), (7, 15, []), (2, 16, []), (7, 16, []), (1, 0, [])],
     [(1, 0, []), (1, 0, []), (1, 1, []), (1, 1, []), (1, 1, []), (1, 1, []), (1, 1, [])],
     [(1, 1, []), (3, 1, [44]), (8, 1, []), (1, 2, []), (1, 2, []), (1, 2, []), (5, 2, [49])],
     [(8, 2, []), (10, 2, []), (12, 2, [52]), (9, 2, []), (1, 3, []), (1, 3, []), (1, 3, [])],
     [(5, 3, [57]), (8, 3, []), (10, 3, []), (12, 3, [60]), (9, 3, []), (1, 4, []), (1, 4, [])],
     [(1, 4, []), (1, 4, []), (1, 4, []), (1, 4, []), (5, 4, [68]), (8, 4, []), (10, 4, [])],
     [(12, 4, [71]), (9, 4, []), (1, 5, []), (1, 5, []), (1, 5, []), (1, 5, []), (1, 5, [])],
     [(1, 5, []), (1, 5, []), (1, 5, []), (1, 5, []), (5, 5, [82]), (8, 5, []), (10, 5, [])],
     [(12, 5, [85]), (9, 5, []), (1, 6, []), (1, 6, []), (4, 6, [89]), (8, 6, []), (11, 6, [])],
     [(12, 6, [90]), (1, 6, []), (1, 6, []), (4, 6, [95]), (8, 6, []), (11, 6, []), (12, 6, [96])],
     [(1, 6, []), (3, 6, [100]), (8, 6, []), (1, 7, []), (1, 7, []), (1, 7, []), (1, 7, [])],
     [(1, 7, []), (1, 7, []), (3, 7, [108]), (8, 7, []), (1, 7, []), (1, 7, []), (1, 7, [])],
     [(1, 7, []), (1, 7, []), (1, 7, []), (3, 7, [116]), (8, 7, []), (1, 7, []), (1, 7, [])],
     [(1, 7, []), (1, 7, []), (3, 7, [122]), (8, 7, []), (1, 7, []), (1, 7, []), (1, 7, [])],
     [(5, 7, [127]), (8, 7, []), (10, 7, []), (12, 7, [130]), (9, 7, []), (1, 8, [])],
     [(3, 8, [133]), (8, 8, []), (1, 8, []), (1, 8, []), (3, 8, [137]), (8, 8, []), (1, 8, [])],
     [(1, 8, []), (1, 8, []), (3, 8, [142]), (8, 8, []), (1, 8, []), (1, 8, []), (1, 8, [])],
     [(1, 8, []), (1, 8, []), (1, 8, []), (1, 8, []), (3, 8, [151]), (8, 8, []), (1, 8, [])],
     [(3, 8, [154]), (8, 8, []), (1, 8, []), (1, 8, []), (1, 8, []), (3, 8, [159]), (8, 8, [])],
     [(1, 8, []), (3, 8, [162]), (8, 8, []), (1, 8, []), (1, 8, []), (3, 8, [166]), (8, 8, [])],
     [(1, 8, []), (1, 8, []), (1, 8, []), (5, 8, [171]), (8, 8, []), (10, 8, []), (12, 8, [174])],
     [(9, 8, []), (1, 8, []), (1, 8, []), (3, 8, [178]), (8, 8, []), (1, 8, []), (3, 8, [181])],
     [(8, 8, []), (1, 8, []), (1, 8, []), (3, 8, [185]), (8, 8, []), (1, 9, []), (1, 9, [])],
     [(1, 9, []), (5, 9, [190]), (8, 9, []), (10, 9, []), (12, 9, [193]), (9, 9, []), (1, 10, [])],
     [(1, 10, []), (1, 10, []), (5, 10, [198]), (8, 10, []), (10, 10, []), (12, 10, [201])],
     [(9, 10, []), (1, 11, []), (1, 11, []), (1, 11, []), (1, 11, []), (1, 11, []), (1, 11, [])],
     [(1, 11, []), (1, 11, []), (5, 11, [211]), (8, 11, []), (10, 11, []), (12, 11, [214])],
     [(9, 11, []), (1, 12, []), (3, 12, [217]), (8, 12, []), (1, 12, []), (1, 12, []), (1, 13, [])],
     [(1, 13, []), (1, 13, []), (1, 13, []), (1, 13, []), (1, 13, []), (1, 13, []), (1, 13, [])],
     [(5, 13, [229]), (8, 13, []), (10, 13, []), (12, 13, [232]), (9, 13, []), (1, 14, [])],
     [(1, 14, []), (3, 14, [236]), (8, 14, []), (1, 15, []), (3, 15, [239]), (8, 15, [])],
     [(1, 15, []), (1, 15, []), (1, 16, []), (3, 16, [244]), (8, 16, []), (1, 16, []), (1, 16, [])],
     [(1, 16, []), (3, 16, [249]), (8, 16, []), (1, 16, []), (1, 16, []), (1, 16, []), (1, 16, [])],
     [(1, 16, []), (1, 16, []), (3, 16, [257]), (8, 16, []), (1, 16, [])]]"

definition celParser_edges :: "(int \<times> int \<times> int \<times> int \<times> int \<times> int) list" where
  "celParser_edges = concat [
     [(0, 34, 1, 0, 0, 0), (2, 37, 1, 0, 0, 0), (4, 45, 1, 0, 0, 0), (6, 53, 1, 0, 0, 0)],
     [(8, 61, 1, 0, 0, 0), (10, 72, 1, 0, 0, 0), (12, 99, 1, 0, 0, 0), (14, 101, 1, 0, 0, 0)],
     [(16, 184, 1, 0, 0, 0), (18, 186, 1, 0, 0, 0), (20, 194, 1, 0, 0, 0), (22, 202, 1, 0, 0, 0)],
     [(24, 216, 1, 0, 0, 0), (26, 220, 1, 0, 0, 0), (28, 235, 1, 0, 0, 0), (30, 238, 1, 0, 0, 0)],
     [(32, 256, 1, 0, 0, 0), (34, 35, 3, 2, 1, 0), (35, 36, 5, 0, 0, 1), (36, 1, 1, 0, 0, 0)],
     [(37, 43, 3, 4, 2, 0), (38, 39, 5, 20, 0, 0), (39, 40, 3, 4, 2, 0), (40, 41, 5, 21, 0, 0)],
     [(41, 42, 3, 2, 1, 0), (42, 44, 1, 0, 0, 0), (43, 38, 1, 0, 0, 0), (43, 44, 1, 0, 0, 0)],
     [(44, 3, 1, 0, 0, 0), (45, 50, 3, 6, 3, 0), (46, 47, 5, 9, 0, 0), (47, 49, 3, 6, 3, 0)],
     [(48, 46, 1, 0, 0, 0), (49, 52, 1, 0, 0, 0), (50, 48, 1, 0, 0, 0), (50, 51, 1, 0, 0, 0)],
     [(51, 5, 1, 0, 0, 0), (52, 50, 1, 0, 0, 0), (53, 58, 3, 8, 4, 0), (54, 55, 5, 8, 0, 0)],
     [(55, 57, 3, 8, 4, 0), (56, 54, 1, 0, 0, 0), (57, 60, 1, 0, 0, 0), (58, 56, 1, 0, 0, 0)],
     [(58, 59, 1, 0, 0, 0), (59, 7, 1, 0, 0, 0), (60, 58, 1, 0, 0, 0), (61, 62, 6, 4, -1, 0)],
     [(62, 63, 3, 10, 5, 0), (63, 69, 1, 0, 0, 0), (64, 65, 10, 1, 0, 0), (65, 66, 7, 0, 0, 0)],
     [(66, 68, 3, 8, 4, 2), (67, 64, 1, 0, 0, 0), (68, 71, 1, 0, 0, 0), (69, 67, 1, 0, 0, 0)],
     [(69, 70, 1, 0, 0, 0), (70, 9, 1, 0, 0, 0), (71, 69, 1, 0, 0, 0), (72, 73, 6, 5, -1, 0)],
     [(73, 74, 3, 12, 6, 0), (74, 83, 1, 0, 0, 0), (75, 76, 10, 2, 0, 0), (76, 77, 7, 1, 0, 0)],
     [(77, 82, 3, 10, 5, 3), (78, 79, 10, 1, 0, 0), (79, 80, 7, 2, 0, 0), (80, 82, 3, 10, 5, 2)],
     [(81, 75, 1, 0, 0, 0), (81, 78, 1, 0, 0, 0), (82, 85, 1, 0, 0, 0), (83, 81, 1, 0, 0, 0)],
     [(83, 84, 1, 0, 0, 0), (84, 11, 1, 0, 0, 0), (85, 83, 1, 0, 0, 0), (86, 100, 3, 14, 7, 0)],
     [(87, 89, 5, 19, 0, 0), (88, 87, 1, 0, 0, 0), (89, 90, 1, 0, 0, 0), (90, 88, 1, 0, 0, 0)],
     [(90, 91, 1, 0, 0, 0), (91, 92, 1, 0, 0, 0), (92, 100, 3, 14, 7, 0), (93, 95, 5, 18, 0, 0)],
     [(94, 93, 1, 0, 0, 0), (95, 96, 1, 0, 0, 0), (96, 94, 1, 0, 0, 0), (96, 97, 1, 0, 0, 0)],
     [(97, 98, 1, 0, 0, 0), (98, 100, 3, 14, 7, 0), (99, 86, 1, 0, 0, 0), (99, 88, 1, 0, 0, 0)],
     [(99, 94, 1, 0, 0, 0), (100, 13, 1, 0, 0, 0), (101, 102, 6, 7, -1, 0)],
     [(102, 103, 3, 16, 8, 0), (103, 128, 1, 0, 0, 0), (104, 105, 10, 3, 0, 0)],
     [(105, 107, 5, 16, 0, 0), (106, 108, 5, 20, 0, 0), (107, 106, 1, 0, 0, 0)],
     [(107, 108, 1, 0, 0, 0), (108, 109, 1, 0, 0, 0), (109, 127, 3, 28, 14, 0)],
     [(110, 111, 10, 2, 0, 0), (111, 112, 5, 16, 0, 0), (112, 113, 5, 36, 0, 0)],
     [(113, 115, 5, 14, 0, 0), (114, 116, 3, 18, 9, 0), (115, 114, 1, 0, 0, 0)],
     [(115, 116, 1, 0, 0, 0), (116, 117, 1, 0, 0, 0), (117, 127, 5, 15, 0, 0)],
     [(118, 119, 10, 1, 0, 0), (119, 121, 5, 10, 0, 0), (120, 122, 5, 20, 0, 0)],
     [(121, 120, 1, 0, 0, 0), (121, 122, 1, 0, 0, 0), (122, 123, 1, 0, 0, 0)],
     [(123, 124, 3, 2, 1, 0), (124, 125, 5, 11, 0, 0), (125, 127, 1, 0, 0, 0)],
     [(126, 104, 1, 0, 0, 0), (126, 110, 1, 0, 0, 0), (126, 118, 1, 0, 0, 0)],
     [(127, 130, 1, 0, 0, 0), (128, 126, 1, 0, 0, 0), (128, 129, 1, 0, 0, 0)],
     [(129, 15, 1, 0, 0, 0), (130, 128, 1, 0, 0, 0), (131, 133, 5, 16, 0, 0)],
     [(132, 131, 1, 0, 0, 0), (132, 133, 1, 0, 0, 0), (133, 134, 1, 0, 0, 0)],
     [(134, 185, 5, 36, 0, 0), (135, 137, 5, 16, 0, 0), (136, 135, 1, 0, 0, 0)],
     [(136, 137, 1, 0, 0, 0), (137, 138, 1, 0, 0, 0), (138, 139, 5, 36, 0, 0)],
     [(139, 141, 5, 14, 0, 0), (140, 142, 3, 18, 9, 0), (141, 140, 1, 0, 0, 0)],
     [(141, 142, 1, 0, 0, 0), (142, 143, 1, 0, 0, 0), (143, 185, 5, 15, 0, 0)],
     [(144, 145, 5, 14, 0, 0), (145, 146, 3, 2, 1, 0), (146, 147, 5, 15, 0, 0)],
     [(147, 185, 1, 0, 0, 0), (148, 150, 5, 10, 0, 0), (149, 151, 3, 20, 10, 0)],
     [(150, 149, 1, 0, 0, 0), (150, 151, 1, 0, 0, 0), (151, 153, 1, 0, 0, 0)],
     [(152, 154, 5, 17, 0, 0), (153, 152, 1, 0, 0, 0), (153, 154, 1, 0, 0, 0)],
     [(154, 155, 1, 0, 0, 0), (155, 185, 5, 11, 0, 0), (156, 158, 5, 12, 0, 0)],
     [(157, 159, 3, 26, 13, 0), (158, 157, 1, 0, 0, 0), (158, 159, 1, 0, 0, 0)],
     [(159, 161, 1, 0, 0, 0), (160, 162, 5, 17, 0, 0), (161, 160, 1, 0, 0, 0)],
     [(161, 162, 1, 0, 0, 0), (162, 163, 1, 0, 0, 0), (163, 185, 5, 13, 0, 0)],
     [(164, 166, 5, 16, 0, 0), (165, 164, 1, 0, 0, 0), (165, 166, 1, 0, 0, 0)],
     [(166, 167, 1, 0, 0, 0), (167, 172, 5, 36, 0, 0), (168, 169, 5, 16, 0, 0)],
     [(169, 171, 5, 36, 0, 0), (170, 168, 1, 0, 0, 0), (171, 174, 1, 0, 0, 0)],
     [(172, 170, 1, 0, 0, 0), (172, 173, 1, 0, 0, 0), (173, 175, 1, 0, 0, 0)],
     [(174, 172, 1, 0, 0, 0), (175, 177, 5, 12, 0, 0), (176, 178, 3, 22, 11, 0)],
     [(177, 176, 1, 0, 0, 0), (177, 178, 1, 0, 0, 0), (178, 180, 1, 0, 0, 0)],
     [(179, 181, 5, 17, 0, 0), (180, 179, 1, 0, 0, 0), (180, 181, 1, 0, 0, 0)],
     [(181, 182, 1, 0, 0, 0), (182, 185, 5, 13, 0, 0), (183, 185, 3, 32, 16, 0)],
     [(184, 132, 1, 0, 0, 0), (184, 136, 1, 0, 0, 0), (184, 144, 1, 0, 0, 0)],
     [(184, 148, 1, 0, 0, 0), (184, 156, 1, 0, 0, 0), (184, 165, 1, 0, 0, 0)],
     [(184, 183, 1, 0, 0, 0), (185, 17, 1, 0, 0, 0), (186, 191, 3, 2, 1, 0)],
     [(187, 188, 5, 17, 0, 0), (188, 190, 3, 2, 1, 0), (189, 187, 1, 0, 0, 0)],
     [(190, 193, 1, 0, 0, 0), (191, 189, 1, 0, 0, 0), (191, 192, 1, 0, 0, 0)],
     [(192, 19, 1, 0, 0, 0), (193, 191, 1, 0, 0, 0), (194, 199, 3, 30, 15, 0)],
     [(195, 196, 5, 17, 0, 0), (196, 198, 3, 30, 15, 0), (197, 195, 1, 0, 0, 0)],
     [(198, 201, 1, 0, 0, 0), (199, 197, 1, 0, 0, 0), (199, 200, 1, 0, 0, 0)],
     [(200, 21, 1, 0, 0, 0), (201, 199, 1, 0, 0, 0), (202, 203, 3, 24, 12, 0)],
     [(203, 204, 5, 21, 0, 0), (204, 212, 3, 2, 1, 0), (205, 206, 5, 17, 0, 0)],
     [(206, 207, 3, 24, 12, 0), (207, 208, 5, 21, 0, 0), (208, 209, 3, 2, 1, 0)],
     [(209, 211, 1, 0, 0, 0), (210, 205, 1, 0, 0, 0), (211, 214, 1, 0, 0, 0)],
     [(212, 210, 1, 0, 0, 0), (212, 213, 1, 0, 0, 0), (213, 23, 1, 0, 0, 0)],
     [(214, 212, 1, 0, 0, 0), (215, 217, 5, 20, 0, 0), (216, 215, 1, 0, 0, 0)],
     [(216, 217, 1, 0, 0, 0), (217, 218, 1, 0, 0, 0), (218, 219, 3, 28, 14, 0)],
     [(219, 25, 1, 0, 0, 0), (220, 221, 3, 30, 15, 0), (221, 222, 5, 21, 0, 0)],
     [(222, 230, 3, 2, 1, 0), (223, 224, 5, 17, 0, 0), (224, 225, 3, 30, 15, 0)],
     [(225, 226, 5, 21, 0, 0), (226, 227, 3, 2, 1, 0), (227, 229, 1, 0, 0, 0)],
     [(228, 223, 1, 0, 0, 0), (229, 232, 1, 0, 0, 0), (230, 228, 1, 0, 0, 0)],
     [(230, 231, 1, 0, 0, 0), (231, 27, 1, 0, 0, 0), (232, 230, 1, 0, 0, 0)],
     [(233, 236, 5, 36, 0, 0), (234, 236, 5, 37, 0, 0), (235, 233, 1, 0, 0, 0)],
     [(235, 234, 1, 0, 0, 0), (236, 29, 1, 0, 0, 0), (237, 239, 5, 20, 0, 0)],
     [(238, 237, 1, 0, 0, 0), (238, 239, 1, 0, 0, 0), (239, 240, 1, 0, 0, 0)],
     [(240, 241, 3, 2, 1, 0), (241, 31, 1, 0, 0, 0), (242, 244, 5, 18, 0, 0)],
     [(243, 242, 1, 0, 0, 0), (243, 244, 1, 0, 0, 0), (244, 245, 1, 0, 0, 0)],
     [(245, 257, 5, 32, 0, 0), (246, 257, 5, 33, 0, 0), (247, 249, 5, 18, 0, 0)],
     [(248, 247, 1, 0, 0, 0), (248, 249, 1, 0, 0, 0), (249, 250, 1, 0, 0, 0)],
     [(250, 257, 5, 31, 0, 0), (251, 257, 5, 34, 0, 0), (252, 257, 5, 35, 0, 0)],
     [(253, 257, 5, 26, 0, 0), (254, 257, 5, 27, 0, 0), (255, 257, 5, 28, 0, 0)],
     [(256, 243, 1, 0, 0, 0), (256, 246, 1, 0, 0, 0), (256, 248, 1, 0, 0, 0)],
     [(256, 251, 1, 0, 0, 0), (256, 252, 1, 0, 0, 0), (256, 253, 1, 0, 0, 0)],
     [(256, 254, 1, 0, 0, 0), (256, 255, 1, 0, 0, 0), (257, 33, 1, 0, 0, 0)]]"

definition celParser_atn :: atn where
  "celParser_atn = \<lparr>atn_grammar = 1, atn_max_token = 37, atn_states = celParser_states,
     atn_non_greedy = [], atn_precedence = [8, 10, 14],
     atn_rules = [
       [0], [2], [4], [6], [8], [10], [12], [14], [16], [18], [20], [22], [24], [26], [28], [30],
       [32]],
     atn_modes = [],
     atn_sets = [
       (0, [(1, 7)]), (0, [(23, 25)]), (0, [(18, 18), (22, 22)])],
     atn_edges = celParser_edges,
     atn_decisions = [
       43, 50, 58, 69, 81, 83, 90, 96, 99, 107, 115, 121, 126, 128, 132, 136, 141, 150, 153, 158,
       161, 165, 172, 177, 180, 184, 191, 199, 212, 216, 230, 235, 238, 243, 248, 256],
     atn_actions = []\<rparr>"

lemma celParser_written: "write_atn celParser_atn = celParser_serializedATN"
  by code_simp

lemma celParser_writable: "writable celParser_atn"
  by code_simp

section \<open>Initialization\<close>

text \<open>
  A \<open>DFA\<close> is made of the state of its decision and its number; the vocabulary is the two lists
  of names.
\<close>

record static_data =
  sd_decisionToDFA :: "(int \<times> nat) list"
  sd_ruleNames :: "string list"
  sd_literalNames :: "string list"
  sd_symbolicNames :: "string list"
  sd_serializedATN :: "int list"
  sd_atn :: atn

definition getNumberOfDecisions :: "atn \<Rightarrow> nat" where
  "getNumberOfDecisions A = length (atn_decisions A)"

definition getDecisionState :: "atn \<Rightarrow> nat \<Rightarrow> int" where
  "getDecisionState A i = atn_decisions A ! i"

text \<open>
  \<open>None\<close> is an exception of the deserializer, or the failed assertion when data is already
  there and is not thread local.
\<close>

definition celParserInitialize :: "bool \<Rightarrow> (int list \<Rightarrow> atn option) \<Rightarrow> static_data option \<Rightarrow> static_data option option" where
  "celParserInitialize thread_local_cache deserialize static =
     (if static \<noteq> None then if thread_local_cache then Some static else None
      else case deserialize celParser_serializedATN of
        None \<Rightarrow> None
      | Some A \<Rightarrow> Some (Some \<lparr>
          sd_decisionToDFA = map (\<lambda>i. (getDecisionState A i, i)) [0..<getNumberOfDecisions A],
          sd_ruleNames = celParser_ruleNames, sd_literalNames = celParser_literalNames,
          sd_symbolicNames = celParser_symbolicNames, sd_serializedATN = celParser_serializedATN,
          sd_atn = A\<rparr>))"

text \<open>\<open>call_once\<close> runs the function the first time only.\<close>

definition CelParser_initialize :: "bool \<Rightarrow> (int list \<Rightarrow> atn option) \<Rightarrow> static_data option \<Rightarrow> static_data option option" where
  "CelParser_initialize thread_local_cache deserialize static =
     (if \<not> thread_local_cache \<and> static \<noteq> None then Some static
      else celParserInitialize thread_local_cache deserialize static)"

text \<open>
  The constructors: the interpreter is made of the automaton, the table of DFAs and the options.
  The options of the shorter one, and what the interpreter does, are the runtime's.
\<close>

type_synonym 'o parser_interpreter = "atn \<times> (int \<times> nat) list \<times> 'o"

definition CelParser_with_options :: "bool \<Rightarrow> (int list \<Rightarrow> atn option) \<Rightarrow> 'o \<Rightarrow> static_data option \<Rightarrow>
    ('o parser_interpreter \<times> static_data option) option" where
  "CelParser_with_options thread_local_cache deserialize options static =
     (case CelParser_initialize thread_local_cache deserialize static of
        None \<Rightarrow> None
      | Some static \<Rightarrow> (case static of
          None \<Rightarrow> None
        | Some data \<Rightarrow> Some ((sd_atn data, sd_decisionToDFA data, options), static)))"

definition CelParser_new :: "bool \<Rightarrow> (int list \<Rightarrow> atn option) \<Rightarrow> 'o \<Rightarrow> static_data option \<Rightarrow>
    ('o parser_interpreter \<times> static_data option) option" where
  "CelParser_new thread_local_cache deserialize ParserATNSimulatorOptions static =
     CelParser_with_options thread_local_cache deserialize ParserATNSimulatorOptions static"

definition CelParser_getATN :: "static_data \<Rightarrow> atn" where
  "CelParser_getATN data = sd_atn data"

definition CelParser_getGrammarFileName :: string where
  "CelParser_getGrammarFileName = ''Cel.g4''"

definition CelParser_getRuleNames :: "static_data \<Rightarrow> string list" where
  "CelParser_getRuleNames data = sd_ruleNames data"

definition CelParser_getVocabulary :: "static_data \<Rightarrow> string list \<times> string list" where
  "CelParser_getVocabulary data = (sd_literalNames data, sd_symbolicNames data)"

definition CelParser_getSerializedATN :: "static_data \<Rightarrow> int list" where
  "CelParser_getSerializedATN data = sd_serializedATN data"

definition celParser_static :: static_data where
  "celParser_static = \<lparr>
     sd_decisionToDFA = map (\<lambda>i. (getDecisionState celParser_atn i, i)) [0..<36],
     sd_ruleNames = celParser_ruleNames, sd_literalNames = celParser_literalNames,
     sd_symbolicNames = celParser_symbolicNames, sd_serializedATN = celParser_serializedATN,
     sd_atn = celParser_atn\<rparr>"

lemma celParser_decisions: "getNumberOfDecisions celParser_atn = 36"
  by code_simp

context atn_deserializer
begin

lemma celParserInitialize_first: "celParserInitialize tlc deserialize None = Some (Some celParser_static)"
  using gives_back [OF celParser_writable]
  by (simp add: celParserInitialize_def celParser_written celParser_static_def celParser_decisions)

lemma CelParser_initialize_any:
  "static \<in> {None, Some celParser_static} \<Longrightarrow>
    CelParser_initialize tlc deserialize static = Some (Some celParser_static)"
  by (auto simp: CelParser_initialize_def celParserInitialize_first) (simp add: celParserInitialize_def)

lemma CelParser_new_any:
  "static \<in> {None, Some celParser_static} \<Longrightarrow>
    CelParser_new tlc deserialize options static =
      Some ((celParser_atn, sd_decisionToDFA celParser_static, options), Some celParser_static)"
  by (simp add: CelParser_new_def CelParser_with_options_def CelParser_initialize_any) (simp add: celParser_static_def)

end

end
