(* ===== verification/Atn_Paths.thy ===== *)
theory Atn_Paths
  imports Main
begin

text \<open>
  Automata with silent edges and regular expressions over the same labels, and an executable
  check that the words of an automaton between two states are those of an expression. A label
  stands for a set of symbols, given by \<open>hit\<close>; the check compares labels only. It is
  used for the automata in the static data of the generated parser and lexer.

  One half of the check follows the expression through the automaton (\<open>ends\<close>); the other goes
  through the edges with a table that says for every state what is still to be read, as a
  stack of expressions (\<open>explains\<close>).
\<close>

section \<open>Expressions\<close>

datatype 'l re = Zero | One | Sym 'l | Cat "'l re" "'l re" | Or "'l re" "'l re" | Rep "'l re"

inductive spelt :: "('l \<Rightarrow> 'a \<Rightarrow> bool) \<Rightarrow> 'l re \<Rightarrow> 'a list \<Rightarrow> bool" for hit where
  one: "spelt hit One []"
| sym: "hit l a \<Longrightarrow> spelt hit (Sym l) [a]"
| cat: "spelt hit r u \<Longrightarrow> spelt hit s v \<Longrightarrow> spelt hit (Cat r s) (u @ v)"
| or1: "spelt hit r u \<Longrightarrow> spelt hit (Or r s) u"
| or2: "spelt hit s u \<Longrightarrow> spelt hit (Or r s) u"
| stop: "spelt hit (Rep r) []"
| again: "spelt hit r u \<Longrightarrow> spelt hit (Rep r) v \<Longrightarrow> spelt hit (Rep r) (u @ v)"

inductive_cases spelt_RepE: "spelt hit (Rep r) w"

inductive_simps spelt_simps [simp]:
  "spelt hit Zero w" "spelt hit One w" "spelt hit (Sym l) w" "spelt hit (Or r s) w"

inductive_simps spelt_Cat: "spelt hit (Cat r s) w"

fun nulls :: "'l re \<Rightarrow> bool" where
  "nulls Zero = False"
| "nulls One = True"
| "nulls (Sym l) = False"
| "nulls (Cat r s) = (nulls r \<and> nulls s)"
| "nulls (Or r s) = (nulls r \<or> nulls s)"
| "nulls (Rep r) = True"

fun after :: "('l \<Rightarrow> 'a \<Rightarrow> bool) \<Rightarrow> 'a \<Rightarrow> 'l re \<Rightarrow> 'l re" where
  "after hit a Zero = Zero"
| "after hit a One = Zero"
| "after hit a (Sym l) = (if hit l a then One else Zero)"
| "after hit a (Cat r s) =
     (if nulls r then Or (Cat (after hit a r) s) (after hit a s) else Cat (after hit a r) s)"
| "after hit a (Or r s) = Or (after hit a r) (after hit a s)"
| "after hit a (Rep r) = Cat (after hit a r) (Rep r)"

text \<open>\<open>spells\<close> decides \<open>spelt\<close>.\<close>

fun spells :: "('l \<Rightarrow> 'a \<Rightarrow> bool) \<Rightarrow> 'l re \<Rightarrow> 'a list \<Rightarrow> bool" where
  "spells hit r [] = nulls r"
| "spells hit r (a # w) = spells hit (after hit a r) w"

lemma nulls_spelt: "nulls r \<longleftrightarrow> spelt hit r []"
  by (induction r) (auto simp: spelt_Cat intro: spelt.stop)

lemma spelt_Rep_Cons:
  "spelt hit (Rep r) (a # w) \<longleftrightarrow> (\<exists>u v. w = u @ v \<and> spelt hit r (a # u) \<and> spelt hit (Rep r) v)"
proof
  assume "spelt hit (Rep r) (a # w)"
  then show "\<exists>u v. w = u @ v \<and> spelt hit r (a # u) \<and> spelt hit (Rep r) v"
  proof (induction "Rep r" "a # w" arbitrary: w rule: spelt.induct)
    case (again u v)
    then show ?case by (cases u) auto
  qed
qed (metis append_Cons spelt.again)

lemma after_spelt: "spelt hit (after hit a r) w \<longleftrightarrow> spelt hit r (a # w)"
proof (induction r arbitrary: w)
  case (Cat r s)
  have "spelt hit (Cat r s) (a # w) \<longleftrightarrow>
      (spelt hit r [] \<and> spelt hit s (a # w)) \<or> (\<exists>u v. w = u @ v \<and> spelt hit r (a # u) \<and> spelt hit s v)"
    unfolding spelt_Cat Cons_eq_append_conv by blast
  with Cat show ?case by (auto simp: spelt_Cat nulls_spelt [of r hit])
next
  case (Rep r)
  then show ?case by (simp add: spelt_Rep_Cons spelt_Cat)
qed auto

lemma spells_spelt: "spells hit r w \<longleftrightarrow> spelt hit r w"
  by (induction w arbitrary: r) (simp_all add: after_spelt nulls_spelt [of _ hit])

fun any_of :: "'l re list \<Rightarrow> 'l re" where
  "any_of [] = Zero"
| "any_of [r] = r"
| "any_of (r # s # rs) = Or r (any_of (s # rs))"

lemma spelt_any_of [simp]: "spelt hit (any_of rs) w \<longleftrightarrow> (\<exists>r \<in> set rs. spelt hit r w)"
  by (induction rs rule: any_of.induct) auto

fun in_turn :: "'l re list \<Rightarrow> 'l re" where
  "in_turn [] = One"
| "in_turn (r # rs) = Cat r (in_turn rs)"

lemma in_turn_simps [simp]:
  "\<not> spelt hit (in_turn (Zero # k)) w"
  "spelt hit (in_turn (One # k)) w \<longleftrightarrow> spelt hit (in_turn k) w"
  "spelt hit (in_turn (Cat a b # k)) w \<longleftrightarrow> spelt hit (in_turn (a # b # k)) w"
  "spelt hit (in_turn (Or a b # k)) w \<longleftrightarrow> spelt hit (in_turn (a # k)) w \<or> spelt hit (in_turn (b # k)) w"
  by (auto simp: spelt_Cat) (metis append_assoc)+

lemma in_turn_Sym: "spelt hit (in_turn (Sym l # k)) w \<longleftrightarrow> (\<exists>a v. w = a # v \<and> hit l a \<and> spelt hit (in_turn k) v)"
  unfolding in_turn.simps spelt_Cat spelt_simps by (metis append_Cons append_Nil)

lemma in_turn_Rep:
  "spelt hit (in_turn (Rep a # k)) w \<longleftrightarrow> spelt hit (in_turn k) w \<or> spelt hit (in_turn (a # Rep a # k)) w"
proof
  assume "spelt hit (in_turn (Rep a # k)) w"
  then obtain u v where "w = u @ v" "spelt hit (Rep a) u" "spelt hit (in_turn k) v"
    by (auto simp: spelt_Cat)
  from this(2) consider "u = []"
    | x y where "u = x @ y" "spelt hit a x" "spelt hit (Rep a) y"
    by (auto elim: spelt_RepE)
  then show "spelt hit (in_turn k) w \<or> spelt hit (in_turn (a # Rep a # k)) w"
  proof cases
    case 2
    then have "spelt hit (in_turn (Rep a # k)) (y @ v)"
      using \<open>spelt hit (in_turn k) v\<close> by (auto simp: spelt_Cat)
    with 2 \<open>w = u @ v\<close> show ?thesis by (auto simp: spelt_Cat)
  qed (use \<open>w = u @ v\<close> \<open>spelt hit (in_turn k) v\<close> in simp)
next
  assume "spelt hit (in_turn k) w \<or> spelt hit (in_turn (a # Rep a # k)) w"
  then show "spelt hit (in_turn (Rep a # k)) w"
    by (auto simp: spelt_Cat) (metis append_Nil spelt.stop, metis append_assoc spelt.again)
qed

lemma in_turn_single [simp]: "spelt hit (in_turn [r]) w \<longleftrightarrow> spelt hit r w"
  by (simp add: spelt_Cat)

declare in_turn.simps(2) [simp del]

section \<open>Automata\<close>

type_synonym 'l edge = "int \<times> 'l option \<times> int"

inductive path :: "('l \<Rightarrow> 'a \<Rightarrow> bool) \<Rightarrow> 'l edge list \<Rightarrow> int \<Rightarrow> 'a list \<Rightarrow> int \<Rightarrow> bool" for hit E where
  here: "path hit E p [] p"
| silent: "(p, None, q) \<in> set E \<Longrightarrow> path hit E q w s \<Longrightarrow> path hit E p w s"
| reads: "(p, Some l, q) \<in> set E \<Longrightarrow> hit l a \<Longrightarrow> path hit E q w s \<Longrightarrow> path hit E p (a # w) s"

lemma path_trans: "path hit E p u q \<Longrightarrow> path hit E q v s \<Longrightarrow> path hit E p (u @ v) s"
  by (induction rule: path.induct) (auto intro: path.intros)

section \<open>The check\<close>

text \<open>
  The first half looks edges up by their source, in \<open>out\<close>; \<open>edges_of\<close> lists them.
\<close>

definition edges_of :: "(int \<Rightarrow> ('l option \<times> int) list) \<Rightarrow> int list \<Rightarrow> 'l edge list" where
  "edges_of out ps = concat (map (\<lambda>p. map (\<lambda>(l, q). (p, l, q)) (out p)) ps)"

fun by_label :: "'l option \<Rightarrow> ('l option \<times> int) list \<Rightarrow> int list" where
  "by_label l [] = []"
| "by_label l ((m, q) # es) = (if m = l then q # by_label l es else by_label l es)"

fun closure :: "(int \<Rightarrow> ('l option \<times> int) list) \<Rightarrow> nat \<Rightarrow> int list \<Rightarrow> int list \<Rightarrow> int list" where
  "closure out 0 seen work = seen"
| "closure out (Suc n) seen [] = seen"
| "closure out (Suc n) seen (p # work) =
     (if p \<in> set seen then closure out n seen work
      else closure out n (p # seen) (by_label None (out p) @ work))"

fun targets :: "(int \<Rightarrow> ('l option \<times> int) list) \<Rightarrow> 'l \<Rightarrow> int list \<Rightarrow> int list" where
  "targets out l [] = []"
| "targets out l (p # ps) = by_label (Some l) (out p) @ targets out l ps"

fun common :: "int list \<Rightarrow> int list \<Rightarrow> int list" where
  "common [] ys = []"
| "common (x # xs) ys = (if x \<in> set ys then x # common xs ys else common xs ys)"

text \<open>
  \<open>ends out m k ps\<close> are states that every word of the stack leads to, each word from one of \<open>ps\<close>. Where
  two alternatives share no state, what comes after them is followed from each by itself.
\<close>

function ends :: "(int \<Rightarrow> ('l option \<times> int) list) \<Rightarrow> nat \<Rightarrow> 'l re list \<Rightarrow> int list \<Rightarrow> int list"
  and loops :: "(int \<Rightarrow> ('l option \<times> int) list) \<Rightarrow> nat \<Rightarrow> 'l re \<Rightarrow> int list \<Rightarrow> int list" where
  "ends out m [] ps = closure out m [] ps"
| "ends out m (Zero # k) ps = []"
| "ends out m (One # k) ps = ends out m k ps"
| "ends out m (Sym l # k) ps = ends out m k (targets out l (closure out m [] ps))"
| "ends out m (Cat a b # k) ps = ends out m (a # b # k) ps"
| "ends out m (Or a b # k) ps = (case ends out m k (common (ends out m [a] ps) (ends out m [b] ps)) of
     [] \<Rightarrow> common (ends out m (a # k) ps) (ends out m (b # k) ps)
   | q # qs \<Rightarrow> q # qs)"
| "ends out m (Rep a # k) ps = ends out m k (loops out m a (closure out m [] ps))"
| "loops out m a [] = []"
| "loops out m a (p # ps) = (if p \<in> set (ends out m [a] [p]) then p # loops out m a ps else loops out m a ps)"
  by pat_completeness auto
termination by (relation "measures
    [\<lambda>x. case x of Inl (out, m, k, ps) \<Rightarrow> 2 * sum_list (map size k) + length k | Inr (out, m, a, ps) \<Rightarrow> 2 * size a + 1,
     \<lambda>x. case x of Inl (out, m, k, ps) \<Rightarrow> 0 | Inr (out, m, a, ps) \<Rightarrow> Suc (length ps)]") auto

fun covers :: "nat \<Rightarrow> 'l re list \<Rightarrow> 'l re list \<Rightarrow> bool" where
  "covers 0 k k' = (k = k')"
| "covers (Suc n) k k' = (k = k' \<or> (case k of
     One # r \<Rightarrow> covers n r k'
   | Cat a b # r \<Rightarrow> covers n (a # b # r) k'
   | Or a b # r \<Rightarrow> covers n (a # r) k' \<or> covers n (b # r) k'
   | Rep a # r \<Rightarrow> covers n r k' \<or> covers n (a # Rep a # r) k'
   | _ \<Rightarrow> False))"

fun takes :: "nat \<Rightarrow> 'l re list \<Rightarrow> 'l \<Rightarrow> 'l re list \<Rightarrow> bool" where
  "takes 0 k l k' = False"
| "takes (Suc n) k l k' = (case k of
     One # r \<Rightarrow> takes n r l k'
   | Cat a b # r \<Rightarrow> takes n (a # b # r) l k'
   | Or a b # r \<Rightarrow> takes n (a # r) l k' \<or> takes n (b # r) l k'
   | Rep a # r \<Rightarrow> takes n r l k' \<or> takes n (a # Rep a # r) l k'
   | Sym m # r \<Rightarrow> m = l \<and> covers n r k'
   | _ \<Rightarrow> False)"

fun lookup :: "(int \<times> 'l re list) list \<Rightarrow> int \<Rightarrow> 'l re list" where
  "lookup [] p = [Zero]"
| "lookup ((q, k) # tab) p = (if p = q then k else lookup tab p)"

fun explains :: "nat \<Rightarrow> (int \<times> 'l re list) list \<Rightarrow> 'l edge list \<Rightarrow> bool" where
  "explains n tab [] = True"
| "explains n tab ((p, None, q) # E) = (covers n (lookup tab p) (lookup tab q) \<and> explains n tab E)"
| "explains n tab ((p, Some l, q) # E) = (takes n (lookup tab p) l (lookup tab q) \<and> explains n tab E)"

text \<open>
  The table is grown from the start state. A clue \<open>(p, q, i, j)\<close> says which of the stacks the one of
  \<open>p\<close> can turn into when the edge from \<open>p\<close> to \<open>q\<close> is taken, and which of those that one can
  turn into, is the one of \<open>q\<close>. Whether the clues are right is for \<open>explains\<close> to find out.
\<close>

fun unfoldings :: "nat \<Rightarrow> 'l re list \<Rightarrow> 'l re list list" where
  "unfoldings 0 k = [k]"
| "unfoldings (Suc n) k = k # (case k of
     One # r \<Rightarrow> unfoldings n r
   | Cat a b # r \<Rightarrow> unfoldings n (a # b # r)
   | Or a b # r \<Rightarrow> unfoldings n (a # r) @ unfoldings n (b # r)
   | Rep a # r \<Rightarrow> unfoldings n r @ unfoldings n (a # Rep a # r)
   | _ \<Rightarrow> [])"

fun headed :: "'l \<Rightarrow> 'l re list \<Rightarrow> bool" where
  "headed l (Sym m # r) = (m = l)"
| "headed l k = False"

definition choices :: "nat \<Rightarrow> 'l option \<Rightarrow> 'l re list \<Rightarrow> 'l re list list" where
  "choices n l k = (case l of None \<Rightarrow> unfoldings n k | Some l \<Rightarrow> map tl (filter (headed l) (unfoldings n k)))"

fun label_of :: "'l edge list \<Rightarrow> int \<Rightarrow> int \<Rightarrow> 'l option" where
  "label_of [] p q = None"
| "label_of ((s, l, t) # E) p q = (if s = p \<and> t = q then l else label_of E p q)"

type_synonym clue = "int \<times> int \<times> nat \<times> nat"

definition unfolding_at :: "nat \<Rightarrow> nat \<Rightarrow> 'l re list \<Rightarrow> 'l re list" where
  "unfolding_at n j k = (if j = 0 then k else unfoldings n k ! j)"

fun grow :: "nat \<Rightarrow> 'l edge list \<Rightarrow> (int \<times> 'l re list) list \<Rightarrow> clue list \<Rightarrow> (int \<times> 'l re list) list" where
  "grow n E tab [] = tab"
| "grow n E tab ((p, q, i, j) # clues) =
     grow n E ((q, unfolding_at n j (choices n (label_of E p q) (lookup tab p) ! i)) # tab) clues"

definition recognizes :: "(int \<Rightarrow> ('l option \<times> int) list) \<Rightarrow> int list \<Rightarrow> nat \<Rightarrow> nat \<Rightarrow> clue list \<Rightarrow>
    int \<Rightarrow> int \<Rightarrow> 'l re \<Rightarrow> bool" where
  "recognizes out ps m n clues p q r \<longleftrightarrow> q \<in> set (ends out m [r] [p]) \<and>
     (let tab = grow n (edges_of out ps) [(p, [r])] clues in
       explains n tab (edges_of out ps) \<and> covers n [r] (lookup tab p) \<and> lookup tab q = [])"

section \<open>The check is sound\<close>

definition out_in :: "(int \<Rightarrow> ('l option \<times> int) list) \<Rightarrow> 'l edge list \<Rightarrow> bool" where
  "out_in out E \<longleftrightarrow> (\<forall>p l q. (l, q) \<in> set (out p) \<longrightarrow> (p, l, q) \<in> set E)"

lemma set_by_label: "set (by_label l es) = {q. (l, q) \<in> set es}"
  by (induction l es rule: by_label.induct) auto

lemma set_targets: "set (targets out l ps) = {t. \<exists>s \<in> set ps. (Some l, t) \<in> set (out s)}"
  by (induction ps) (auto simp: set_by_label)

lemma set_common [simp]: "set (common xs ys) = set xs \<inter> set ys"
  by (induction xs ys rule: common.induct) auto

lemma out_in_edges_of:
  assumes "\<And>p. out p \<noteq> [] \<Longrightarrow> p \<in> set ps"
  shows "out_in out (edges_of out ps)"
proof -
  have "p \<in> set ps" if "x \<in> set (out p)" for x p
    using that assms [of p] by (cases "out p") auto
  then show ?thesis unfolding out_in_def edges_of_def by fastforce
qed

lemma closure_path:
  assumes "out_in out E" "\<And>q. q \<in> set seen \<union> set work \<Longrightarrow> \<exists>p \<in> set ps. path hit E p [] q"
    and "q \<in> set (closure out n seen work)"
  shows "\<exists>p \<in> set ps. path hit E p [] q"
  using assms
proof (induction out n seen work rule: closure.induct)
  case (3 out n seen s work)
  have "\<exists>p \<in> set ps. path hit E p [] t" if "t \<in> set (by_label None (out s))" for t
  proof -
    have "path hit E s [] t"
      using that 3(3) unfolding set_by_label out_in_def
      by (intro path.silent [OF _ path.here]) simp
    with 3(4) [of s] path_trans [of hit E _ "[]" s "[]" t] show ?thesis by auto
  qed
  with 3 show ?case by (fastforce split: if_splits)
qed auto

lemma closure_start:
  "out_in out E \<Longrightarrow> q \<in> set (closure out n [] ps) \<Longrightarrow> \<exists>p \<in> set ps. path hit E p [] q"
  by (rule closure_path [of out E "[]" ps ps]) (auto intro: path.here)

lemma spelt_Rep_path:
  assumes "\<And>u. spelt hit a u \<Longrightarrow> path hit E q u q" and "spelt hit (Rep a) w"
  shows "path hit E q w q"
  using assms(2)
proof (induction "Rep a" w rule: spelt.induct)
  case stop
  show ?case by (rule path.here)
next
  case (again u v)
  then show ?case using assms(1) by (blast intro: path_trans)
qed

lemma loops_subset: "q \<in> set (loops out m a ps) \<Longrightarrow> q \<in> set ps"
  by (induction ps) (auto split: if_splits)

lemma ends_path:
  "q \<in> set (ends out m k ps) \<Longrightarrow> out_in out E \<Longrightarrow> spelt hit (in_turn k) w \<Longrightarrow> \<exists>p \<in> set ps. path hit E p w q"
  "q \<in> set (loops out m a ps) \<Longrightarrow> out_in out E \<Longrightarrow> spelt hit a w \<Longrightarrow> path hit E q w q"
proof (induction out m k ps and out m a ps arbitrary: q w and q w rule: ends_loops.induct)
  case (1 out m ps)
  then show ?case by (simp add: closure_start)
next
  case (4 out m l k ps)
  then obtain a v where w: "w = a # v" "hit l a" "spelt hit (in_turn k) v"
    by (auto simp: in_turn_Sym)
  have "q \<in> set (ends out m k (targets out l (closure out m [] ps)))" using 4(2) by simp
  from 4(1) [OF this 4(3) w(3)] obtain s t where
    s: "s \<in> set (closure out m [] ps)" "(Some l, t) \<in> set (out s)" "path hit E t v q"
    by (auto simp: set_targets)
  then have "path hit E s w q" using w(1,2) 4(3) by (auto simp: out_in_def intro: path.reads)
  with closure_start [OF 4(3) s(1)] path_trans show ?case by fastforce
next
  case (6 out m a b k ps)
  show ?case
  proof (cases "ends out m k (common (ends out m [a] ps) (ends out m [b] ps))")
    case Nil
    then show ?thesis using 6 by auto
  next
    case (Cons x xs)
    from 6(8) obtain u v where w: "w = u @ v" "spelt hit (Or a b) u" "spelt hit (in_turn k) v"
      by (auto simp: in_turn.simps spelt_Cat)
    have "q \<in> set (ends out m k (common (ends out m [a] ps) (ends out m [b] ps)))" using 6(6) Cons by simp
    from 6(3) [OF this 6(7) w(3)] obtain s where
      s: "s \<in> set (ends out m [a] ps)" "s \<in> set (ends out m [b] ps)" "path hit E s v q" by auto
    then obtain p where "p \<in> set ps" "path hit E p u s"
      using 6(1) [OF s(1) 6(7), of u] 6(2) [OF s(2) 6(7), of u] w(2) by auto
    then show ?thesis using path_trans [OF _ s(3)] w(1) by blast
  qed
next
  case (7 out m a k ps)
  then obtain u v where w: "w = u @ v" "spelt hit (Rep a) u" "spelt hit (in_turn k) v"
    by (auto simp: in_turn.simps spelt_Cat)
  from 7(2) [OF _ 7(4) w(3)] 7(3) obtain s where
    s: "s \<in> set (loops out m a (closure out m [] ps))" "path hit E s v q"
    by auto
  have "path hit E s u s" using 7(1) [OF s(1) 7(4)] w(2) by (blast intro: spelt_Rep_path)
  with s(2) have "path hit E s w q" unfolding w(1) by (blast intro: path_trans)
  with closure_start [OF 7(4) loops_subset [OF s(1)]] path_trans show ?case by fastforce
qed (auto split: if_splits)

lemma covers_spelt: "covers n k k' \<Longrightarrow> spelt hit (in_turn k') w \<Longrightarrow> spelt hit (in_turn k) w"
proof (induction n arbitrary: k)
  case (Suc n)
  show ?case
  proof (cases "k = k'")
    case False
    with Suc.prems obtain r k1 where k: "k = r # k1" by (cases k) auto
    with False Suc show ?thesis by (cases r) (auto simp: in_turn_Rep split: if_splits)
  qed (use Suc.prems in simp)
qed simp

lemma takes_spelt:
  assumes "takes n k l k'" "hit l a" "spelt hit (in_turn k') w"
  shows "spelt hit (in_turn k) (a # w)"
  using assms(1)
proof (induction n arbitrary: k)
  case (Suc n)
  then show ?case using assms(2,3) covers_spelt [of n _ k' hit w]
    by (auto simp: in_turn_Rep in_turn_Sym split: list.splits re.splits if_splits)
qed simp

lemma explains_edge:
  assumes "explains n tab E" "(p, l, q) \<in> set E"
  shows "case l of None \<Rightarrow> covers n (lookup tab p) (lookup tab q) | Some l \<Rightarrow> takes n (lookup tab p) l (lookup tab q)"
  using assms by (induction n tab E rule: explains.induct) auto

lemma explains_path:
  assumes "explains n tab E" "path hit E p w q" "lookup tab q = []"
  shows "spelt hit (in_turn (lookup tab p)) w"
  using assms(2,3)
proof (induction rule: path.induct)
  case (silent p s w q)
  then have "covers n (lookup tab p) (lookup tab s)"
    using explains_edge [OF assms(1)] by fastforce
  with silent show ?case by (blast intro: covers_spelt)
next
  case (reads p l s a w q)
  then have "takes n (lookup tab p) l (lookup tab s)"
    using explains_edge [OF assms(1)] by fastforce
  then show ?case using reads by (blast intro: takes_spelt)
qed simp

theorem recognizes_paths:
  assumes "recognizes out ps m n clues p q r" and states: "\<And>p. out p \<noteq> [] \<Longrightarrow> p \<in> set ps"
  shows "path hit (edges_of out ps) p w q \<longleftrightarrow> spelt hit r w"
proof
  obtain tab where check: "explains n tab (edges_of out ps)" "covers n [r] (lookup tab p)" "lookup tab q = []"
    using assms(1) by (auto simp: recognizes_def Let_def)
  assume "path hit (edges_of out ps) p w q"
  from explains_path [OF check(1) this check(3)] have "spelt hit (in_turn (lookup tab p)) w" .
  with covers_spelt [OF check(2)] show "spelt hit r w" by simp
next
  assume "spelt hit r w"
  then show "path hit (edges_of out ps) p w q"
    using assms(1) ends_path(1) [of q out m "[r]" "[p]" "edges_of out ps" hit w, OF _ out_in_edges_of [OF states]]
    by (simp add: recognizes_def)
qed

section \<open>Parts of an automaton\<close>

text \<open>
  Where no edge leaves a part, a path stays in the part it starts in; \<open>f\<close> says to which part a
  state belongs. The edges of \<open>X\<close> start outside of all parts.
\<close>

fun within :: "(int \<Rightarrow> int) \<Rightarrow> int \<Rightarrow> 'l edge list \<Rightarrow> bool" where
  "within f i [] = True"
| "within f i ((s, l, t) # E) = (f s = i \<and> f t = i \<and> within f i E)"

fun apart :: "(int \<Rightarrow> int) \<Rightarrow> int \<Rightarrow> 'l edge list list \<Rightarrow> bool" where
  "apart f i [] = True"
| "apart f i (E # Es) = (within f i E \<and> apart f (i + 1) Es)"

lemma within_edge: "within f i E \<Longrightarrow> (s, l, t) \<in> set E \<Longrightarrow> f s = i \<and> f t = i"
  by (induction f i E rule: within.induct) auto

lemma apart_nth: "apart f i Es \<Longrightarrow> j < length Es \<Longrightarrow> within f (i + int j) (Es ! j)"
  by (induction f i Es arbitrary: j rule: apart.induct) (force simp: nth_Cons algebra_simps split: nat.splits)+

lemma path_part:
  assumes "apart f 0 Es" "set E = set X \<union> set (concat Es)" "f p = int i" "i < length Es"
    and others: "\<And>s l t. (s, l, t) \<in> set X \<Longrightarrow> f s < 0"
  shows "path hit E p w q \<longleftrightarrow> path hit (Es ! i) p w q"
proof
  have edge: "(s, l, t) \<in> set (Es ! i) \<and> f t = int i"
    if "(s, l, t) \<in> set E" "f s = int i" for s l t
  proof -
    have "\<exists>x \<in> set Es. (s, l, t) \<in> set x" using that others [of s l t] assms(2) by auto
    then obtain j where "j < length Es" "(s, l, t) \<in> set (Es ! j)"
      by (metis in_set_conv_nth)
    then show ?thesis using within_edge [OF apart_nth [OF assms(1)]] that(2) by fastforce
  qed
  assume "path hit E p w q"
  then show "path hit (Es ! i) p w q" using assms(3)
  proof (induction rule: path.induct)
    case (silent p q w s)
    then show ?case using edge [OF silent(1,4)] by (auto intro: path.silent)
  next
    case (reads p l q a w s)
    then show ?case using edge [OF reads(1,5)] by (auto intro: path.reads)
  qed (rule path.here)
next
  have part: "(s, l, t) \<in> set E" if "(s, l, t) \<in> set (Es ! i)" for s l t
    using that assms(2,4) by auto
  assume "path hit (Es ! i) p w q"
  then show "path hit E p w q"
    by (induction rule: path.induct) (use part in \<open>blast intro: path.intros\<close>)+
qed

section \<open>Branches of an automaton\<close>

text \<open>
  An automaton that forks in \<open>c\<close> into branches that share only the state \<open>z\<close> where they end;
  \<open>f\<close> says to which branch a state belongs.
\<close>

fun branch_within :: "(int \<Rightarrow> int) \<Rightarrow> int \<Rightarrow> int \<Rightarrow> 'l edge list \<Rightarrow> bool" where
  "branch_within f z i [] = True"
| "branch_within f z i ((s, l, t) # E) = (f s = i \<and> (f t = i \<or> t = z) \<and> branch_within f z i E)"

fun branches :: "(int \<Rightarrow> int) \<Rightarrow> int \<Rightarrow> int \<Rightarrow> (int \<times> 'l edge list) list \<Rightarrow> bool" where
  "branches f z i [] = True"
| "branches f z i ((a, E) # bs) = (f a = i \<and> branch_within f z i E \<and> branches f z (i + 1) bs)"

lemma branch_edge: "branch_within f z i E \<Longrightarrow> (s, l, t) \<in> set E \<Longrightarrow> f s = i \<and> (f t = i \<or> t = z)"
  by (induction f z i E rule: branch_within.induct) auto

lemma branches_edge:
  "branches f z i bs \<Longrightarrow> (a, E) \<in> set bs \<Longrightarrow> i \<le> f a \<and> branch_within f z (f a) E"
  by (induction f z i bs rule: branches.induct) fastforce+

lemma branches_unique:
  "branches f z i bs \<Longrightarrow> (a, E) \<in> set bs \<Longrightarrow> (b, F) \<in> set bs \<Longrightarrow> f a = f b \<Longrightarrow> a = b \<and> E = F"
  by (induction f z i bs rule: branches.induct) (use branches_edge in \<open>fastforce+\<close>)

lemma path_subset: "path hit E p w q \<Longrightarrow> set E \<subseteq> set F \<Longrightarrow> path hit F p w q"
  by (induction rule: path.induct) (blast intro: path.intros)+

lemma path_branches:
  assumes bs: "branches f z 0 bs" and others: "f p < 0" "f c < 0" "f z < 0" "f q < 0" "distinct [p, c, z, q]"
    and E: "set E = {(p, None, c), (z, None, q)} \<union> set (map (\<lambda>(a, F). (c, None, a)) bs) \<union> set (concat (map snd bs))"
  shows "path hit E p w q \<longleftrightarrow> (\<exists>(a, F) \<in> set bs. path hit F a w z)"
proof
  define some where "some w \<longleftrightarrow> (\<exists>(a, F) \<in> set bs. path hit F a w z)" for w
  define ok where "ok s w \<longleftrightarrow> (s \<in> {z, q} \<longrightarrow> w = []) \<and> (s \<in> {p, c} \<longrightarrow> some w) \<and>
      (\<forall>a F. (a, F) \<in> set bs \<longrightarrow> f s = f a \<longrightarrow> path hit F s w z)" for s w
  have apart: "0 \<le> f a" if "(a, F) \<in> set bs" for a F using branches_edge [OF bs that] by simp
  have special: "f s \<noteq> f a" if "(a, F) \<in> set bs" "s \<in> {p, c, z, q}" for s a F
    using apart [OF that(1)] that(2) others(1-4) by auto
  have enter: "path hit F t w z" if "(a, F) \<in> set bs" "f t = f a \<or> t = z" "ok t w" for a F t w
    using that unfolding ok_def by (auto intro: path.here)
  have inside: "ok s w" if "(a, F) \<in> set bs" "f s = f a" "path hit F s w z" for a F s w
  proof -
    have "s \<notin> {p, c, z, q}" using special [OF that(1), of s] that(2) by blast
    moreover have "path hit G s w z" if "(b, G) \<in> set bs" "f s = f b" for b G
      using branches_unique [OF bs \<open>(a, F) \<in> set bs\<close> that(1)] that(2) \<open>f s = f a\<close> \<open>path hit F s w z\<close> by simp
    ultimately show ?thesis unfolding ok_def by blast
  qed
  have edge: "(s, l, t) = (p, None, c) \<or> (s, l, t) = (z, None, q) \<or>
      (s = c \<and> l = None \<and> (\<exists>F. (t, F) \<in> set bs)) \<or> (\<exists>a F. (a, F) \<in> set bs \<and> (s, l, t) \<in> set F \<and> f s = f a \<and> (f t = f a \<or> t = z))"
    if "(s, l, t) \<in> set E" for s l t
  proof (cases "(s, l, t) \<in> set (concat (map snd bs))")
    case True
    then obtain a F where a: "(a, F) \<in> set bs" "(s, l, t) \<in> set F" by auto
    with branch_edge [OF conjunct2 [OF branches_edge [OF bs a(1)]] a(2)] show ?thesis by blast
  next
    case False
    with that show ?thesis unfolding E by auto
  qed
  have "ok s w" if "path hit E s w r" "r = q" for s w r
    using that
  proof (induction rule: path.induct)
    case (here s)
    then show ?case using others special unfolding ok_def by auto
  next
    case (silent s t w r)
    then have t: "ok t w" by simp
    from edge [OF silent(1)] consider "s = p" "t = c" | "s = z" "t = q" | F where "s = c" "(t, F) \<in> set bs"
      | a F where "(a, F) \<in> set bs" "(s, None, t) \<in> set F" "f s = f a" "f t = f a \<or> t = z" by blast
    then show ?case
    proof cases
      case 3
      then have "some w" using enter [OF 3(2) _ t] unfolding some_def by blast
      then show ?thesis using 3 others special unfolding ok_def by auto
    next
      case 4
      show ?thesis using enter [OF 4(1,4) t] 4(2) by (intro inside [OF 4(1,3)]) (rule path.silent)
    qed (use t others special in \<open>auto simp: ok_def\<close>)
  next
    case (reads s l t x w r)
    then have t: "ok t w" by simp
    from edge [OF reads(1)] obtain a F where
      a: "(a, F) \<in> set bs" "(s, Some l, t) \<in> set F" "f s = f a" "f t = f a \<or> t = z" by blast
    show ?case using enter [OF a(1,4) t] a(2) reads(2) by (intro inside [OF a(1,3)]) (rule path.reads)
  qed
  moreover assume "path hit E p w q"
  ultimately show "\<exists>(a, F) \<in> set bs. path hit F a w z" unfolding ok_def some_def by blast
next
  assume "\<exists>(a, F) \<in> set bs. path hit F a w z"
  then obtain a F where a: "(a, F) \<in> set bs" "path hit F a w z" by blast
  have "set F \<subseteq> set E" "(p, None, c) \<in> set E" "(c, None, a) \<in> set E" "(z, None, q) \<in> set E"
    using a(1) unfolding E by force+
  then have "path hit E a w z" "path hit E p [] a" "path hit E z [] q"
    using path_subset [OF a(2)] path.silent [OF _ path.silent [OF _ path.here]] path.silent [OF _ path.here]
    by blast+
  then show "path hit E p w q" using path_trans [of hit E p "[]" a w z] path_trans [of hit E p w z "[]" q] by simp
qed

lemma set_heads_first:
  "list_all (\<lambda>E. E \<noteq> []) Es \<Longrightarrow> set (map hd Es @ concat (map tl Es)) = set (concat Es)"
proof (induction Es)
  case (Cons E Es)
  then show ?case by (cases E) auto
qed simp

section \<open>Rule by rule\<close>

text \<open>
  The rules of an automaton are numbered; the start states are \<open>k\<close>, \<open>k + 2\<close> and so on, each with
  the stop state after it.
\<close>

fun recognized :: "int \<Rightarrow> int \<Rightarrow> 'l edge list list \<Rightarrow> 'l re list \<Rightarrow> ('l \<Rightarrow> 'a \<Rightarrow> bool) \<Rightarrow> bool" where
  "recognized k i (E # Es) (r # rs) hit \<longleftrightarrow>
     (\<forall>w. path hit E (2 * i + k) w (2 * i + k + 1) \<longleftrightarrow> spelt hit r w) \<and> recognized k (i + 1) Es rs hit"
| "recognized k i Es rs hit \<longleftrightarrow> Es = [] \<and> rs = []"

lemma recognized_nth:
  "recognized k i Es rs hit \<Longrightarrow> m < length Es \<Longrightarrow>
    path hit (Es ! m) (2 * (i + int m) + k) w (2 * (i + int m) + k + 1) \<longleftrightarrow> spelt hit (rs ! m) w"
proof (induction k i Es rs hit arbitrary: m rule: recognized.induct)
  case (1 k i E Es r rs hit)
  show ?case
  proof (cases m)
    case (Suc j)
    then show ?thesis using 1 by (fastforce simp: algebra_simps)
  qed (use 1 in auto)
qed auto

end
