(* ===== verification/Cel_Parser_Atn.thy ===== *)
theory Cel_Parser_Atn
  imports Cel_Parser_Data Atn_Paths Cel_Productions
begin

text \<open>
  The automaton in the static data of the generated parser is that of the grammar: between the
  start and the stop state of a rule, its paths spell what the productions of the rule say.
  A path reads tokens and rules; predicates and actions are silent.
\<close>

section \<open>What a rule reads\<close>

text \<open>Tokens by number, as the automaton has them; \<open>EOF\<close> is -1.\<close>

datatype psym = Tk int | Nt cel_rule

fun psym_of :: "sym \<Rightarrow> psym option" where
  "psym_of (T t) = Some (Tk (sint t))"
| "psym_of (N r) = Some (Nt r)"
| "psym_of Err = None"

definition context_classes :: "context_class list" where
  "context_classes = [
     StartContext, ExprContext, ConditionalOrContext, ConditionalAndContext, RelationContext,
     CalcContext, UnaryContext, LogicalNotContext, MemberExprContext, NegateContext,
     MemberContext, MemberCallContext, SelectContext, PrimaryExprContext, IndexContext,
     PrimaryContext, CreateListContext, IdentContext, ConstantLiteralContext, NestedContext,
     CreateMessageContext, GlobalCallContext, CreateMapContext, ExprListContext, ListInitContext,
     FieldInitializerListContext, OptFieldContext, MapInitializerListContext, EscapeIdentContext,
     EscapedIdentifierContext, SimpleIdentifierContext, OptExprContext, LiteralContext,
     BytesContext, UintContext, NullContext, BoolFalseContext, StringContext, DoubleContext,
     BoolTrueContext, IntContext]"

definition cel_rules :: "cel_rule list" where
  "cel_rules = [
     RuleStart, RuleExpr, RuleConditionalOr, RuleConditionalAnd, RuleRelation, RuleCalc,
     RuleUnary, RuleMember, RulePrimary, RuleExprList, RuleListInit, RuleFieldInitializerList,
     RuleOptField, RuleMapInitializerList, RuleEscapeIdent, RuleOptExpr, RuleLiteral]"

fun bare :: "rx \<Rightarrow> psym re" where
  "bare Empty = Zero"
| "bare Eps = One"
| "bare (Tok l ts) = any_of (map (\<lambda>t. Sym (Tk (sint t))) ts)"
| "bare (Rule l r) = Sym (Nt r)"
| "bare (Seq a b) = Cat (bare a) (bare b)"
| "bare (Alt a b) = Or (bare a) (bare b)"
| "bare (Star a) = Rep (bare a)"

text \<open>
  The alternatives of a rule are those of the productions of its context classes. Those that
  begin with the rule itself are what the loop of a left-recursive rule repeats.
\<close>

fun alts :: "rx \<Rightarrow> rx list" where
  "alts (Alt a b) = alts a @ alts b"
| "alts Empty = []"
| "alts r = [r]"

definition rule_alts :: "cel_rule \<Rightarrow> rx list" where
  "rule_alts r = concat (map (alts \<circ> production) (filter (\<lambda>c. getRuleIndex c = r) context_classes))"

fun tail_of :: "cel_rule \<Rightarrow> rx \<Rightarrow> rx list" where
  "tail_of r (Seq (Rule l r') x) = (if r' = r then [x] else [])"
| "tail_of r x = []"

definition rule_re :: "cel_rule \<Rightarrow> psym re" where
  "rule_re r =
     (let first = any_of (map bare (filter (\<lambda>x. tail_of r x = []) (rule_alts r)));
          more = map bare (concat (map (tail_of r) (rule_alts r))) in
      if more = [] then first else Cat first (Rep (any_of more)))"

lemma sint_tokens: "sint EQUALS = 1" "sint NOT_EQUALS = 2" "sint IN = 3" "sint LESS = 4" "sint LESS_EQUALS = 5"
  "sint GREATER_EQUALS = 6" "sint GREATER = 7" "sint LOGICAL_AND = 8" "sint LOGICAL_OR = 9" "sint LBRACKET = 10"
  "sint RPRACKET = 11" "sint LBRACE = 12" "sint RBRACE = 13" "sint LPAREN = 14" "sint RPAREN = 15" "sint DOT = 16"
  "sint COMMA = 17" "sint MINUS = 18" "sint EXCLAM = 19" "sint QUESTIONMARK = 20" "sint COLON = 21" "sint PLUS = 22"
  "sint STAR = 23" "sint SLASH = 24" "sint PERCENT = 25" "sint CEL_TRUE = 26" "sint CEL_FALSE = 27" "sint NUL = 28"
  "sint NUM_FLOAT = 31" "sint NUM_INT = 32" "sint NUM_UINT = 33" "sint STRING = 34" "sint BYTES = 35"
  "sint IDENTIFIER = 36" "sint ESC_IDENTIFIER = 37" "sint TOKEN_EOF = -1"
  by (simp_all add: token_types)

lemmas rule_re_simps = rule_re_def rule_alts_def context_classes_def Let_def sint_tokens
  relation_ops_def factor_ops_def term_ops_def

lemma start_re: "rule_re RuleStart =
     Cat (Sym (Nt RuleExpr)) (Sym (Tk (-1)))"
  by (simp add: rule_re_simps)

lemma expr_re: "rule_re RuleExpr =
     Cat (Sym (Nt RuleConditionalOr)) (Or One (Cat (Sym (Tk 20)) (Cat (Sym (Nt
     RuleConditionalOr)) (Cat (Sym (Tk 21)) (Sym (Nt RuleExpr))))))"
  by (simp add: rule_re_simps)

lemma conditional_or_re: "rule_re RuleConditionalOr =
     Cat (Sym (Nt RuleConditionalAnd)) (Rep (Cat (Sym (Tk 9)) (Sym (Nt RuleConditionalAnd))))"
  by (simp add: rule_re_simps)

lemma conditional_and_re: "rule_re RuleConditionalAnd =
     Cat (Sym (Nt RuleRelation)) (Rep (Cat (Sym (Tk 8)) (Sym (Nt RuleRelation))))"
  by (simp add: rule_re_simps)

lemma relation_re: "rule_re RuleRelation =
     Cat (Sym (Nt RuleCalc)) (Rep (Cat (Or (Sym (Tk 1)) (Or (Sym (Tk 2)) (Or (Sym (Tk 3)) (Or
     (Sym (Tk 4)) (Or (Sym (Tk 5)) (Or (Sym (Tk 6)) (Sym (Tk 7)))))))) (Sym (Nt
     RuleRelation))))"
  by (simp add: rule_re_simps)

lemma calc_re: "rule_re RuleCalc =
     Cat (Sym (Nt RuleUnary)) (Rep (Cat (Or (Sym (Tk 23)) (Or (Sym (Tk 24)) (Or (Sym (Tk 25))
     (Or (Sym (Tk 18)) (Sym (Tk 22)))))) (Sym (Nt RuleCalc))))"
  by (simp add: rule_re_simps)

lemma unary_re: "rule_re RuleUnary =
     Or (Cat (Cat (Sym (Tk 19)) (Rep (Sym (Tk 19)))) (Sym (Nt RuleMember))) (Or (Sym (Nt
     RuleMember)) (Cat (Cat (Sym (Tk 18)) (Rep (Sym (Tk 18)))) (Sym (Nt RuleMember))))"
  by (simp add: rule_re_simps)

lemma member_re: "rule_re RuleMember =
     Cat (Sym (Nt RulePrimary)) (Rep (Or (Cat (Sym (Tk 16)) (Cat (Sym (Tk 36)) (Cat (Sym (Tk
     14)) (Cat (Or One (Sym (Nt RuleExprList))) (Sym (Tk 15)))))) (Or (Cat (Sym (Tk 16)) (Cat
     (Or One (Sym (Tk 20))) (Sym (Nt RuleEscapeIdent)))) (Cat (Sym (Tk 10)) (Cat (Or One (Sym
     (Tk 20))) (Cat (Sym (Nt RuleExpr)) (Sym (Tk 11))))))))"
  by (simp add: rule_re_simps)

lemma primary_re: "rule_re RulePrimary =
     Or (Cat (Sym (Tk 10)) (Cat (Or One (Sym (Nt RuleListInit))) (Cat (Or One (Sym (Tk 17)))
     (Sym (Tk 11))))) (Or (Cat (Or One (Sym (Tk 16))) (Sym (Tk 36))) (Or (Sym (Nt
     RuleLiteral)) (Or (Cat (Sym (Tk 14)) (Cat (Sym (Nt RuleExpr)) (Sym (Tk 15)))) (Or (Cat
     (Cat (Cat (Or One (Sym (Tk 16))) (Sym (Tk 36))) (Rep (Cat (Sym (Tk 16)) (Sym (Tk 36)))))
     (Cat (Sym (Tk 12)) (Cat (Or One (Sym (Nt RuleFieldInitializerList))) (Cat (Or One (Sym
     (Tk 17))) (Sym (Tk 13)))))) (Or (Cat (Or One (Sym (Tk 16))) (Cat (Sym (Tk 36)) (Cat (Sym
     (Tk 14)) (Cat (Or One (Sym (Nt RuleExprList))) (Sym (Tk 15)))))) (Cat (Sym (Tk 12)) (Cat
     (Or One (Sym (Nt RuleMapInitializerList))) (Cat (Or One (Sym (Tk 17))) (Sym (Tk
     13))))))))))"
  by (simp add: rule_re_simps)

lemma expr_list_re: "rule_re RuleExprList =
     Cat (Sym (Nt RuleExpr)) (Rep (Cat (Sym (Tk 17)) (Sym (Nt RuleExpr))))"
  by (simp add: rule_re_simps)

lemma list_init_re: "rule_re RuleListInit =
     Cat (Sym (Nt RuleOptExpr)) (Rep (Cat (Sym (Tk 17)) (Sym (Nt RuleOptExpr))))"
  by (simp add: rule_re_simps)

lemma field_initializer_list_re: "rule_re RuleFieldInitializerList =
     Cat (Cat (Sym (Nt RuleOptField)) (Cat (Sym (Tk 21)) (Sym (Nt RuleExpr)))) (Rep (Cat (Sym
     (Tk 17)) (Cat (Sym (Nt RuleOptField)) (Cat (Sym (Tk 21)) (Sym (Nt RuleExpr))))))"
  by (simp add: rule_re_simps)

lemma opt_field_re: "rule_re RuleOptField =
     Cat (Or One (Sym (Tk 20))) (Sym (Nt RuleEscapeIdent))"
  by (simp add: rule_re_simps)

lemma map_initializer_list_re: "rule_re RuleMapInitializerList =
     Cat (Cat (Sym (Nt RuleOptExpr)) (Cat (Sym (Tk 21)) (Sym (Nt RuleExpr)))) (Rep (Cat (Sym
     (Tk 17)) (Cat (Sym (Nt RuleOptExpr)) (Cat (Sym (Tk 21)) (Sym (Nt RuleExpr))))))"
  by (simp add: rule_re_simps)

lemma escape_ident_re: "rule_re RuleEscapeIdent =
     Or (Sym (Tk 37)) (Sym (Tk 36))"
  by (simp add: rule_re_simps)

lemma opt_expr_re: "rule_re RuleOptExpr =
     Cat (Or One (Sym (Tk 20))) (Sym (Nt RuleExpr))"
  by (simp add: rule_re_simps)

lemma literal_re: "rule_re RuleLiteral =
     Or (Sym (Tk 35)) (Or (Sym (Tk 33)) (Or (Sym (Tk 28)) (Or (Sym (Tk 27)) (Or (Sym (Tk 34))
     (Or (Cat (Or One (Sym (Tk 18))) (Sym (Tk 31))) (Or (Sym (Tk 26)) (Cat (Or One (Sym (Tk
     18))) (Sym (Tk 32)))))))))"
  by (simp add: rule_re_simps)

section \<open>The edges\<close>

definition sym_labels :: "atn \<Rightarrow> int \<Rightarrow> int \<Rightarrow> int \<Rightarrow> int \<Rightarrow> psym option list" where
  "sym_labels A ty a b c =
     (if ty = 3 then [Some (Nt (cel_rules ! nat b))]
      else if ty = 5 then [Some (Tk (if c = 1 then -1 else a))]
      else if ty = 7 then
        concat (map (\<lambda>(lo, hi). map (\<lambda>t. Some (Tk t)) [lo..hi]) (snd (atn_sets A ! nat a)))
      else [None])"

definition sym_edges :: "atn \<Rightarrow> psym edge list" where
  "sym_edges A = concat (map (\<lambda>(s, t, ty, a, b, c).
     map (\<lambda>l. (s, l, t)) (sym_labels A ty a b c)) (atn_edges A))"

definition rule_path :: "atn \<Rightarrow> nat \<Rightarrow> psym list \<Rightarrow> bool" where
  "rule_path A i w \<longleftrightarrow> path (=) (sym_edges A) (hd (atn_rules A ! i)) w (2 * int i + 1)"

text \<open>The edges of each rule.\<close>

definition start_out :: "int \<Rightarrow> (psym option \<times> int) list" where
  "start_out p = (if p = 0 then [(None, 34)]
          else if p = 34 then [(Some (Nt RuleExpr), 35)]
          else if p = 35 then [(Some (Tk (-1)), 36)]
          else if p = 36 then [(None, 1)]
     else [])"

definition start_states :: "int list" where
  "start_states = [
     0, 34, 35, 36]"

definition expr_out :: "int \<Rightarrow> (psym option \<times> int) list" where
  "expr_out p = (if p = 2 then [(None, 37)]
          else if p = 37 then [(Some (Nt RuleConditionalOr), 43)]
          else if p = 38 then [(Some (Tk 20), 39)]
          else if p = 39 then [(Some (Nt RuleConditionalOr), 40)]
          else if p = 40 then [(Some (Tk 21), 41)]
          else if p = 41 then [(Some (Nt RuleExpr), 42)]
          else if p = 42 then [(None, 44)]
          else if p = 43 then [(None, 38), (None, 44)]
          else if p = 44 then [(None, 3)]
     else [])"

definition expr_states :: "int list" where
  "expr_states = [
     2, 37, 38, 39, 40, 41, 42, 43, 44]"

definition conditional_or_out :: "int \<Rightarrow> (psym option \<times> int) list" where
  "conditional_or_out p = (if p = 4 then [(None, 45)]
          else if p = 45 then [(Some (Nt RuleConditionalAnd), 50)]
          else if p = 46 then [(Some (Tk 9), 47)]
          else if p = 47 then [(Some (Nt RuleConditionalAnd), 49)]
          else if p = 48 then [(None, 46)]
          else if p = 49 then [(None, 52)]
          else if p = 50 then [(None, 48), (None, 51)]
          else if p = 51 then [(None, 5)]
          else if p = 52 then [(None, 50)]
     else [])"

definition conditional_or_states :: "int list" where
  "conditional_or_states = [
     4, 45, 46, 47, 48, 49, 50, 51, 52]"

definition conditional_and_out :: "int \<Rightarrow> (psym option \<times> int) list" where
  "conditional_and_out p = (if p = 6 then [(None, 53)]
          else if p = 53 then [(Some (Nt RuleRelation), 58)]
          else if p = 54 then [(Some (Tk 8), 55)]
          else if p = 55 then [(Some (Nt RuleRelation), 57)]
          else if p = 56 then [(None, 54)]
          else if p = 57 then [(None, 60)]
          else if p = 58 then [(None, 56), (None, 59)]
          else if p = 59 then [(None, 7)]
          else if p = 60 then [(None, 58)]
     else [])"

definition conditional_and_states :: "int list" where
  "conditional_and_states = [
     6, 53, 54, 55, 56, 57, 58, 59, 60]"

definition relation_out :: "int \<Rightarrow> (psym option \<times> int) list" where
  "relation_out p = (if p = 8 then [(None, 61)]
          else if p = 61 then [(None, 62)]
          else if p = 62 then [(Some (Nt RuleCalc), 63)]
          else if p = 63 then [(None, 69)]
          else if p = 64 then [(None, 65)]
          else if p = 65 then [(Some (Tk 1), 66), (Some (Tk 2), 66), (Some (Tk 3), 66), (Some (Tk
         4), 66), (Some (Tk 5), 66), (Some (Tk 6), 66), (Some (Tk 7), 66)]
          else if p = 66 then [(Some (Nt RuleRelation), 68)]
          else if p = 67 then [(None, 64)]
          else if p = 68 then [(None, 71)]
          else if p = 69 then [(None, 67), (None, 70)]
          else if p = 70 then [(None, 9)]
          else if p = 71 then [(None, 69)]
     else [])"

definition relation_states :: "int list" where
  "relation_states = [
     8, 61, 62, 63, 64, 65, 66, 67, 68, 69, 70, 71]"

definition calc_out :: "int \<Rightarrow> (psym option \<times> int) list" where
  "calc_out p = (if p = 10 then [(None, 72)]
          else if p = 72 then [(None, 73)]
          else if p = 73 then [(Some (Nt RuleUnary), 74)]
          else if p = 74 then [(None, 83)]
          else if p = 75 then [(None, 76)]
          else if p = 76 then [(Some (Tk 23), 77), (Some (Tk 24), 77), (Some (Tk 25), 77)]
          else if p = 77 then [(Some (Nt RuleCalc), 82)]
          else if p = 78 then [(None, 79)]
          else if p = 79 then [(Some (Tk 18), 80), (Some (Tk 22), 80)]
          else if p = 80 then [(Some (Nt RuleCalc), 82)]
          else if p = 81 then [(None, 75), (None, 78)]
          else if p = 82 then [(None, 85)]
          else if p = 83 then [(None, 81), (None, 84)]
          else if p = 84 then [(None, 11)]
          else if p = 85 then [(None, 83)]
     else [])"

definition calc_states :: "int list" where
  "calc_states = [
     10, 72, 73, 74, 75, 76, 77, 78, 79, 80, 81, 82, 83, 84, 85]"

definition unary_out :: "int \<Rightarrow> (psym option \<times> int) list" where
  "unary_out p = (if p = 12 then [(None, 99)]
          else if p = 86 then [(Some (Nt RuleMember), 100)]
          else if p = 87 then [(Some (Tk 19), 89)]
          else if p = 88 then [(None, 87)]
          else if p = 89 then [(None, 90)]
          else if p = 90 then [(None, 88), (None, 91)]
          else if p = 91 then [(None, 92)]
          else if p = 92 then [(Some (Nt RuleMember), 100)]
          else if p = 93 then [(Some (Tk 18), 95)]
          else if p = 94 then [(None, 93)]
          else if p = 95 then [(None, 96)]
          else if p = 96 then [(None, 94), (None, 97)]
          else if p = 97 then [(None, 98)]
          else if p = 98 then [(Some (Nt RuleMember), 100)]
          else if p = 99 then [(None, 86), (None, 88), (None, 94)]
          else if p = 100 then [(None, 13)]
     else [])"

definition unary_states :: "int list" where
  "unary_states = [
     12, 86, 87, 88, 89, 90, 91, 92, 93, 94, 95, 96, 97, 98, 99, 100]"

definition member_out :: "int \<Rightarrow> (psym option \<times> int) list" where
  "member_out p = (if p = 14 then [(None, 101)]
          else if p = 101 then [(None, 102)]
          else if p = 102 then [(Some (Nt RulePrimary), 103)]
          else if p = 103 then [(None, 128)]
          else if p = 104 then [(None, 105)]
          else if p = 105 then [(Some (Tk 16), 107)]
          else if p = 106 then [(Some (Tk 20), 108)]
          else if p = 107 then [(None, 106), (None, 108)]
          else if p = 108 then [(None, 109)]
          else if p = 109 then [(Some (Nt RuleEscapeIdent), 127)]
          else if p = 110 then [(None, 111)]
          else if p = 111 then [(Some (Tk 16), 112)]
          else if p = 112 then [(Some (Tk 36), 113)]
          else if p = 113 then [(Some (Tk 14), 115)]
          else if p = 114 then [(Some (Nt RuleExprList), 116)]
          else if p = 115 then [(None, 114), (None, 116)]
          else if p = 116 then [(None, 117)]
          else if p = 117 then [(Some (Tk 15), 127)]
          else if p = 118 then [(None, 119)]
          else if p = 119 then [(Some (Tk 10), 121)]
          else if p = 120 then [(Some (Tk 20), 122)]
          else if p = 121 then [(None, 120), (None, 122)]
          else if p = 122 then [(None, 123)]
          else if p = 123 then [(Some (Nt RuleExpr), 124)]
          else if p = 124 then [(Some (Tk 11), 125)]
          else if p = 125 then [(None, 127)]
          else if p = 126 then [(None, 104), (None, 110), (None, 118)]
          else if p = 127 then [(None, 130)]
          else if p = 128 then [(None, 126), (None, 129)]
          else if p = 129 then [(None, 15)]
          else if p = 130 then [(None, 128)]
     else [])"

definition member_states :: "int list" where
  "member_states = [
     14, 101, 102, 103, 104, 105, 106, 107, 108, 109, 110, 111, 112, 113, 114, 115, 116, 117, 118,
     119, 120, 121, 122, 123, 124, 125, 126, 127, 128, 129, 130]"

definition primary_out :: "int \<Rightarrow> (psym option \<times> int) list" where
  "primary_out p = (if p = 16 then [(None, 184)]
          else if p = 131 then [(Some (Tk 16), 133)]
          else if p = 132 then [(None, 131), (None, 133)]
          else if p = 133 then [(None, 134)]
          else if p = 134 then [(Some (Tk 36), 185)]
          else if p = 135 then [(Some (Tk 16), 137)]
          else if p = 136 then [(None, 135), (None, 137)]
          else if p = 137 then [(None, 138)]
          else if p = 138 then [(Some (Tk 36), 139)]
          else if p = 139 then [(Some (Tk 14), 141)]
          else if p = 140 then [(Some (Nt RuleExprList), 142)]
          else if p = 141 then [(None, 140), (None, 142)]
          else if p = 142 then [(None, 143)]
          else if p = 143 then [(Some (Tk 15), 185)]
          else if p = 144 then [(Some (Tk 14), 145)]
          else if p = 145 then [(Some (Nt RuleExpr), 146)]
          else if p = 146 then [(Some (Tk 15), 147)]
          else if p = 147 then [(None, 185)]
          else if p = 148 then [(Some (Tk 10), 150)]
          else if p = 149 then [(Some (Nt RuleListInit), 151)]
          else if p = 150 then [(None, 149), (None, 151)]
          else if p = 151 then [(None, 153)]
          else if p = 152 then [(Some (Tk 17), 154)]
          else if p = 153 then [(None, 152), (None, 154)]
          else if p = 154 then [(None, 155)]
          else if p = 155 then [(Some (Tk 11), 185)]
          else if p = 156 then [(Some (Tk 12), 158)]
          else if p = 157 then [(Some (Nt RuleMapInitializerList), 159)]
          else if p = 158 then [(None, 157), (None, 159)]
          else if p = 159 then [(None, 161)]
          else if p = 160 then [(Some (Tk 17), 162)]
          else if p = 161 then [(None, 160), (None, 162)]
          else if p = 162 then [(None, 163)]
          else if p = 163 then [(Some (Tk 13), 185)]
          else if p = 164 then [(Some (Tk 16), 166)]
          else if p = 165 then [(None, 164), (None, 166)]
          else if p = 166 then [(None, 167)]
          else if p = 167 then [(Some (Tk 36), 172)]
          else if p = 168 then [(Some (Tk 16), 169)]
          else if p = 169 then [(Some (Tk 36), 171)]
          else if p = 170 then [(None, 168)]
          else if p = 171 then [(None, 174)]
          else if p = 172 then [(None, 170), (None, 173)]
          else if p = 173 then [(None, 175)]
          else if p = 174 then [(None, 172)]
          else if p = 175 then [(Some (Tk 12), 177)]
          else if p = 176 then [(Some (Nt RuleFieldInitializerList), 178)]
          else if p = 177 then [(None, 176), (None, 178)]
          else if p = 178 then [(None, 180)]
          else if p = 179 then [(Some (Tk 17), 181)]
          else if p = 180 then [(None, 179), (None, 181)]
          else if p = 181 then [(None, 182)]
          else if p = 182 then [(Some (Tk 13), 185)]
          else if p = 183 then [(Some (Nt RuleLiteral), 185)]
          else if p = 184 then [(None, 132), (None, 136), (None, 144), (None, 148), (None, 156),
         (None, 165), (None, 183)]
          else if p = 185 then [(None, 17)]
     else [])"

definition primary_states :: "int list" where
  "primary_states = [
     16, 131, 132, 133, 134, 135, 136, 137, 138, 139, 140, 141, 142, 143, 144, 145, 146, 147, 148,
     149, 150, 151, 152, 153, 154, 155, 156, 157, 158, 159, 160, 161, 162, 163, 164, 165, 166,
     167, 168, 169, 170, 171, 172, 173, 174, 175, 176, 177, 178, 179, 180, 181, 182, 183, 184, 185]"

definition expr_list_out :: "int \<Rightarrow> (psym option \<times> int) list" where
  "expr_list_out p = (if p = 18 then [(None, 186)]
          else if p = 186 then [(Some (Nt RuleExpr), 191)]
          else if p = 187 then [(Some (Tk 17), 188)]
          else if p = 188 then [(Some (Nt RuleExpr), 190)]
          else if p = 189 then [(None, 187)]
          else if p = 190 then [(None, 193)]
          else if p = 191 then [(None, 189), (None, 192)]
          else if p = 192 then [(None, 19)]
          else if p = 193 then [(None, 191)]
     else [])"

definition expr_list_states :: "int list" where
  "expr_list_states = [
     18, 186, 187, 188, 189, 190, 191, 192, 193]"

definition list_init_out :: "int \<Rightarrow> (psym option \<times> int) list" where
  "list_init_out p = (if p = 20 then [(None, 194)]
          else if p = 194 then [(Some (Nt RuleOptExpr), 199)]
          else if p = 195 then [(Some (Tk 17), 196)]
          else if p = 196 then [(Some (Nt RuleOptExpr), 198)]
          else if p = 197 then [(None, 195)]
          else if p = 198 then [(None, 201)]
          else if p = 199 then [(None, 197), (None, 200)]
          else if p = 200 then [(None, 21)]
          else if p = 201 then [(None, 199)]
     else [])"

definition list_init_states :: "int list" where
  "list_init_states = [
     20, 194, 195, 196, 197, 198, 199, 200, 201]"

definition field_initializer_list_out :: "int \<Rightarrow> (psym option \<times> int) list" where
  "field_initializer_list_out p = (if p = 22 then [(None, 202)]
          else if p = 202 then [(Some (Nt RuleOptField), 203)]
          else if p = 203 then [(Some (Tk 21), 204)]
          else if p = 204 then [(Some (Nt RuleExpr), 212)]
          else if p = 205 then [(Some (Tk 17), 206)]
          else if p = 206 then [(Some (Nt RuleOptField), 207)]
          else if p = 207 then [(Some (Tk 21), 208)]
          else if p = 208 then [(Some (Nt RuleExpr), 209)]
          else if p = 209 then [(None, 211)]
          else if p = 210 then [(None, 205)]
          else if p = 211 then [(None, 214)]
          else if p = 212 then [(None, 210), (None, 213)]
          else if p = 213 then [(None, 23)]
          else if p = 214 then [(None, 212)]
     else [])"

definition field_initializer_list_states :: "int list" where
  "field_initializer_list_states = [
     22, 202, 203, 204, 205, 206, 207, 208, 209, 210, 211, 212, 213, 214]"

definition opt_field_out :: "int \<Rightarrow> (psym option \<times> int) list" where
  "opt_field_out p = (if p = 24 then [(None, 216)]
          else if p = 215 then [(Some (Tk 20), 217)]
          else if p = 216 then [(None, 215), (None, 217)]
          else if p = 217 then [(None, 218)]
          else if p = 218 then [(Some (Nt RuleEscapeIdent), 219)]
          else if p = 219 then [(None, 25)]
     else [])"

definition opt_field_states :: "int list" where
  "opt_field_states = [
     24, 215, 216, 217, 218, 219]"

definition map_initializer_list_out :: "int \<Rightarrow> (psym option \<times> int) list" where
  "map_initializer_list_out p = (if p = 26 then [(None, 220)]
          else if p = 220 then [(Some (Nt RuleOptExpr), 221)]
          else if p = 221 then [(Some (Tk 21), 222)]
          else if p = 222 then [(Some (Nt RuleExpr), 230)]
          else if p = 223 then [(Some (Tk 17), 224)]
          else if p = 224 then [(Some (Nt RuleOptExpr), 225)]
          else if p = 225 then [(Some (Tk 21), 226)]
          else if p = 226 then [(Some (Nt RuleExpr), 227)]
          else if p = 227 then [(None, 229)]
          else if p = 228 then [(None, 223)]
          else if p = 229 then [(None, 232)]
          else if p = 230 then [(None, 228), (None, 231)]
          else if p = 231 then [(None, 27)]
          else if p = 232 then [(None, 230)]
     else [])"

definition map_initializer_list_states :: "int list" where
  "map_initializer_list_states = [
     26, 220, 221, 222, 223, 224, 225, 226, 227, 228, 229, 230, 231, 232]"

definition escape_ident_out :: "int \<Rightarrow> (psym option \<times> int) list" where
  "escape_ident_out p = (if p = 28 then [(None, 235)]
          else if p = 233 then [(Some (Tk 36), 236)]
          else if p = 234 then [(Some (Tk 37), 236)]
          else if p = 235 then [(None, 233), (None, 234)]
          else if p = 236 then [(None, 29)]
     else [])"

definition escape_ident_states :: "int list" where
  "escape_ident_states = [
     28, 233, 234, 235, 236]"

definition opt_expr_out :: "int \<Rightarrow> (psym option \<times> int) list" where
  "opt_expr_out p = (if p = 30 then [(None, 238)]
          else if p = 237 then [(Some (Tk 20), 239)]
          else if p = 238 then [(None, 237), (None, 239)]
          else if p = 239 then [(None, 240)]
          else if p = 240 then [(Some (Nt RuleExpr), 241)]
          else if p = 241 then [(None, 31)]
     else [])"

definition opt_expr_states :: "int list" where
  "opt_expr_states = [
     30, 237, 238, 239, 240, 241]"

definition literal_out :: "int \<Rightarrow> (psym option \<times> int) list" where
  "literal_out p = (if p = 32 then [(None, 256)]
          else if p = 242 then [(Some (Tk 18), 244)]
          else if p = 243 then [(None, 242), (None, 244)]
          else if p = 244 then [(None, 245)]
          else if p = 245 then [(Some (Tk 32), 257)]
          else if p = 246 then [(Some (Tk 33), 257)]
          else if p = 247 then [(Some (Tk 18), 249)]
          else if p = 248 then [(None, 247), (None, 249)]
          else if p = 249 then [(None, 250)]
          else if p = 250 then [(Some (Tk 31), 257)]
          else if p = 251 then [(Some (Tk 34), 257)]
          else if p = 252 then [(Some (Tk 35), 257)]
          else if p = 253 then [(Some (Tk 26), 257)]
          else if p = 254 then [(Some (Tk 27), 257)]
          else if p = 255 then [(Some (Tk 28), 257)]
          else if p = 256 then [(None, 243), (None, 246), (None, 248), (None, 251), (None, 252),
         (None, 253), (None, 254), (None, 255)]
          else if p = 257 then [(None, 33)]
     else [])"

definition literal_states :: "int list" where
  "literal_states = [
     32, 242, 243, 244, 245, 246, 247, 248, 249, 250, 251, 252, 253, 254, 255, 256, 257]"

definition celParser_parts :: "psym edge list list" where
  "celParser_parts = [
     edges_of start_out start_states, edges_of expr_out expr_states,
     edges_of conditional_or_out conditional_or_states,
     edges_of conditional_and_out conditional_and_states, edges_of relation_out relation_states,
     edges_of calc_out calc_states, edges_of unary_out unary_states,
     edges_of member_out member_states, edges_of primary_out primary_states,
     edges_of expr_list_out expr_list_states, edges_of list_init_out list_init_states,
     edges_of field_initializer_list_out field_initializer_list_states,
     edges_of opt_field_out opt_field_states,
     edges_of map_initializer_list_out map_initializer_list_states,
     edges_of escape_ident_out escape_ident_states, edges_of opt_expr_out opt_expr_states,
     edges_of literal_out literal_states]"

text \<open>The edges out of the start states come first, then the rest of each rule.\<close>

lemma celParser_edges_parts:
  "sym_edges celParser_atn = map hd celParser_parts @ concat (map tl celParser_parts)"
  by code_simp

text \<open>The states of a rule are its start, its stop and a range of the others.\<close>

definition rule_of_state :: "int \<Rightarrow> int" where
  "rule_of_state s = (if s < 34 then s div 2 else int (length (filter (\<lambda>b. b \<le> s)
     [37, 45, 53, 61, 72, 86, 101, 131, 186, 194, 202, 215, 220, 233, 237, 242])))"

lemma celParser_parts_apart: "apart rule_of_state 0 celParser_parts"
  by code_simp

section \<open>Every rule is recognized\<close>

lemma start_rule: "path hit (edges_of start_out start_states) 0 w 1 \<longleftrightarrow> spelt hit (rule_re RuleStart) w"
proof (rule recognizes_paths)
  show "recognizes start_out start_states 60 12 [
     (0, 34, 0, 0), (34, 35, 0, 0), (35, 36, 0, 0), (36, 1, 0, 0)] 0 1 (rule_re RuleStart)"
    unfolding start_re by code_simp
qed (simp add: start_out_def start_states_def split: if_splits)

lemma expr_rule: "path hit (edges_of expr_out expr_states) 2 w 3 \<longleftrightarrow> spelt hit (rule_re RuleExpr) w"
proof (rule recognizes_paths)
  show "recognizes expr_out expr_states 60 12 [
     (2, 37, 0, 0), (37, 43, 0, 0), (43, 38, 0, 0), (38, 39, 0, 0), (39, 40, 0, 0),
     (40, 41, 0, 0), (41, 42, 0, 0), (42, 44, 0, 0), (44, 3, 0, 0)] 2 3 (rule_re RuleExpr)"
    unfolding expr_re by code_simp
qed (simp add: expr_out_def expr_states_def split: if_splits)

lemma conditional_or_rule: "path hit (edges_of conditional_or_out conditional_or_states) 4 w 5 \<longleftrightarrow> spelt hit (rule_re RuleConditionalOr) w"
proof (rule recognizes_paths)
  show "recognizes conditional_or_out conditional_or_states 60 12 [
     (4, 45, 0, 0), (45, 50, 0, 0), (50, 51, 0, 0), (51, 5, 1, 0), (50, 48, 0, 0), (48, 46, 0, 0),
     (46, 47, 0, 0), (47, 49, 0, 0), (49, 52, 0, 0)] 4 5 (rule_re RuleConditionalOr)"
    unfolding conditional_or_re by code_simp
qed (simp add: conditional_or_out_def conditional_or_states_def split: if_splits)

lemma conditional_and_rule: "path hit (edges_of conditional_and_out conditional_and_states) 6 w 7 \<longleftrightarrow> spelt hit (rule_re RuleConditionalAnd) w"
proof (rule recognizes_paths)
  show "recognizes conditional_and_out conditional_and_states 60 12 [
     (6, 53, 0, 0), (53, 58, 0, 0), (58, 59, 0, 0), (59, 7, 1, 0), (58, 56, 0, 0), (56, 54, 0, 0),
     (54, 55, 0, 0), (55, 57, 0, 0), (57, 60, 0, 0)] 6 7 (rule_re RuleConditionalAnd)"
    unfolding conditional_and_re by code_simp
qed (simp add: conditional_and_out_def conditional_and_states_def split: if_splits)

lemma relation_rule: "path hit (edges_of relation_out relation_states) 8 w 9 \<longleftrightarrow> spelt hit (rule_re RuleRelation) w"
proof (rule recognizes_paths)
  show "recognizes relation_out relation_states 60 12 [
     (8, 61, 0, 0), (61, 62, 0, 0), (62, 63, 0, 0), (63, 69, 0, 0), (69, 70, 0, 0), (70, 9, 1, 0),
     (69, 67, 0, 0), (67, 64, 0, 0), (64, 65, 0, 0), (65, 66, 0, 0), (66, 68, 0, 0),
     (68, 71, 0, 0)] 8 9 (rule_re RuleRelation)"
    unfolding relation_re by code_simp
qed (simp add: relation_out_def relation_states_def split: if_splits)

lemma calc_rule: "path hit (edges_of calc_out calc_states) 10 w 11 \<longleftrightarrow> spelt hit (rule_re RuleCalc) w"
proof (rule recognizes_paths)
  show "recognizes calc_out calc_states 60 12 [
     (10, 72, 0, 0), (72, 73, 0, 0), (73, 74, 0, 0), (74, 83, 0, 0), (83, 84, 0, 0),
     (84, 11, 1, 0), (83, 81, 0, 0), (81, 75, 0, 0), (75, 76, 0, 0), (76, 77, 0, 0),
     (81, 78, 0, 0), (78, 79, 0, 0), (79, 80, 0, 0), (77, 82, 0, 0), (82, 85, 0, 0)] 10 11 (rule_re RuleCalc)"
    unfolding calc_re by code_simp
qed (simp add: calc_out_def calc_states_def split: if_splits)

lemma unary_rule: "path hit (edges_of unary_out unary_states) 12 w 13 \<longleftrightarrow> spelt hit (rule_re RuleUnary) w"
proof (rule recognizes_paths)
  show "recognizes unary_out unary_states 60 12 [
     (12, 99, 0, 0), (99, 86, 0, 0), (99, 88, 3, 0), (99, 94, 8, 0), (86, 100, 0, 0),
     (100, 13, 0, 0), (88, 87, 0, 0), (87, 89, 0, 0), (89, 90, 0, 0), (90, 91, 0, 0),
     (91, 92, 0, 0), (94, 93, 0, 0), (93, 95, 0, 0), (95, 96, 0, 0), (96, 97, 0, 0),
     (97, 98, 0, 0)] 12 13 (rule_re RuleUnary)"
    unfolding unary_re by code_simp
qed (simp add: unary_out_def unary_states_def split: if_splits)

lemma member_rule: "path hit (edges_of member_out member_states) 14 w 15 \<longleftrightarrow> spelt hit (rule_re RuleMember) w"
proof (rule recognizes_paths)
  show "recognizes member_out member_states 60 12 [
     (14, 101, 0, 0), (101, 102, 0, 0), (102, 103, 0, 0), (103, 128, 0, 0), (128, 129, 0, 0),
     (129, 15, 1, 0), (128, 126, 0, 0), (126, 104, 0, 0), (104, 105, 0, 0), (105, 107, 1, 0),
     (126, 110, 0, 0), (110, 111, 0, 0), (111, 112, 0, 0), (112, 113, 0, 0), (113, 115, 0, 0),
     (126, 118, 0, 0), (118, 119, 0, 0), (119, 121, 0, 0), (107, 106, 0, 0), (106, 108, 0, 0),
     (108, 109, 0, 0), (115, 114, 0, 0), (114, 116, 0, 0), (116, 117, 0, 0), (121, 120, 0, 0),
     (120, 122, 0, 0), (122, 123, 0, 0), (123, 124, 0, 0), (124, 125, 0, 0), (109, 127, 0, 0),
     (127, 130, 0, 0)] 14 15 (rule_re RuleMember)"
    unfolding member_re by code_simp
qed (simp add: member_out_def member_states_def split: if_splits)

lemma primary_rule: "path hit (edges_of primary_out primary_states) 16 w 17 \<longleftrightarrow> spelt hit (rule_re RulePrimary) w"
proof (rule recognizes_paths)
  show "recognizes primary_out primary_states 60 12 [
     (16, 184, 0, 0), (184, 132, 0, 0), (184, 136, 0, 0), (184, 144, 0, 0), (144, 145, 0, 0),
     (145, 146, 0, 0), (146, 147, 0, 0), (184, 148, 0, 0), (148, 150, 0, 0), (184, 156, 0, 0),
     (156, 158, 0, 0), (184, 165, 0, 0), (184, 183, 0, 0), (132, 131, 0, 0), (131, 133, 0, 0),
     (133, 134, 0, 0), (136, 135, 0, 0), (135, 137, 2, 0), (137, 138, 0, 0), (138, 139, 0, 0),
     (139, 141, 0, 0), (150, 149, 0, 0), (149, 151, 0, 0), (151, 153, 0, 0), (158, 157, 0, 0),
     (157, 159, 0, 0), (159, 161, 0, 0), (165, 164, 0, 0), (164, 166, 1, 0), (166, 167, 0, 0),
     (167, 172, 0, 0), (172, 173, 0, 0), (173, 175, 0, 0), (175, 177, 0, 0), (134, 185, 0, 0),
     (185, 17, 0, 0), (141, 140, 0, 0), (140, 142, 0, 0), (142, 143, 0, 0), (153, 152, 0, 0),
     (152, 154, 0, 0), (154, 155, 0, 0), (161, 160, 0, 0), (160, 162, 0, 0), (162, 163, 0, 0),
     (172, 170, 0, 0), (177, 176, 0, 0), (176, 178, 0, 0), (178, 180, 0, 0), (170, 168, 0, 0),
     (168, 169, 0, 0), (169, 171, 0, 0), (171, 174, 0, 0), (180, 179, 0, 0), (179, 181, 0, 0),
     (181, 182, 0, 0)] 16 17 (rule_re RulePrimary)"
    unfolding primary_re by code_simp
qed (simp add: primary_out_def primary_states_def split: if_splits)

lemma expr_list_rule: "path hit (edges_of expr_list_out expr_list_states) 18 w 19 \<longleftrightarrow> spelt hit (rule_re RuleExprList) w"
proof (rule recognizes_paths)
  show "recognizes expr_list_out expr_list_states 60 12 [
     (18, 186, 0, 0), (186, 191, 0, 0), (191, 192, 0, 0), (192, 19, 1, 0), (191, 189, 0, 0),
     (189, 187, 0, 0), (187, 188, 0, 0), (188, 190, 0, 0), (190, 193, 0, 0)] 18 19 (rule_re RuleExprList)"
    unfolding expr_list_re by code_simp
qed (simp add: expr_list_out_def expr_list_states_def split: if_splits)

lemma list_init_rule: "path hit (edges_of list_init_out list_init_states) 20 w 21 \<longleftrightarrow> spelt hit (rule_re RuleListInit) w"
proof (rule recognizes_paths)
  show "recognizes list_init_out list_init_states 60 12 [
     (20, 194, 0, 0), (194, 199, 0, 0), (199, 200, 0, 0), (200, 21, 1, 0), (199, 197, 0, 0),
     (197, 195, 0, 0), (195, 196, 0, 0), (196, 198, 0, 0), (198, 201, 0, 0)] 20 21 (rule_re RuleListInit)"
    unfolding list_init_re by code_simp
qed (simp add: list_init_out_def list_init_states_def split: if_splits)

lemma field_initializer_list_rule: "path hit (edges_of field_initializer_list_out field_initializer_list_states) 22 w 23 \<longleftrightarrow> spelt hit (rule_re RuleFieldInitializerList) w"
proof (rule recognizes_paths)
  show "recognizes field_initializer_list_out field_initializer_list_states 60 12 [
     (22, 202, 0, 0), (202, 203, 0, 0), (203, 204, 0, 0), (204, 212, 0, 0), (212, 213, 0, 0),
     (213, 23, 1, 0), (212, 210, 0, 0), (210, 205, 0, 0), (205, 206, 0, 0), (206, 207, 0, 0),
     (207, 208, 0, 0), (208, 209, 0, 0), (209, 211, 0, 0), (211, 214, 0, 0)] 22 23 (rule_re RuleFieldInitializerList)"
    unfolding field_initializer_list_re by code_simp
qed (simp add: field_initializer_list_out_def field_initializer_list_states_def split: if_splits)

lemma opt_field_rule: "path hit (edges_of opt_field_out opt_field_states) 24 w 25 \<longleftrightarrow> spelt hit (rule_re RuleOptField) w"
proof (rule recognizes_paths)
  show "recognizes opt_field_out opt_field_states 60 12 [
     (24, 216, 0, 0), (216, 215, 0, 0), (215, 217, 0, 0), (217, 218, 0, 0), (218, 219, 0, 0),
     (219, 25, 0, 0)] 24 25 (rule_re RuleOptField)"
    unfolding opt_field_re by code_simp
qed (simp add: opt_field_out_def opt_field_states_def split: if_splits)

lemma map_initializer_list_rule: "path hit (edges_of map_initializer_list_out map_initializer_list_states) 26 w 27 \<longleftrightarrow> spelt hit (rule_re RuleMapInitializerList) w"
proof (rule recognizes_paths)
  show "recognizes map_initializer_list_out map_initializer_list_states 60 12 [
     (26, 220, 0, 0), (220, 221, 0, 0), (221, 222, 0, 0), (222, 230, 0, 0), (230, 231, 0, 0),
     (231, 27, 1, 0), (230, 228, 0, 0), (228, 223, 0, 0), (223, 224, 0, 0), (224, 225, 0, 0),
     (225, 226, 0, 0), (226, 227, 0, 0), (227, 229, 0, 0), (229, 232, 0, 0)] 26 27 (rule_re RuleMapInitializerList)"
    unfolding map_initializer_list_re by code_simp
qed (simp add: map_initializer_list_out_def map_initializer_list_states_def split: if_splits)

lemma escape_ident_rule: "path hit (edges_of escape_ident_out escape_ident_states) 28 w 29 \<longleftrightarrow> spelt hit (rule_re RuleEscapeIdent) w"
proof (rule recognizes_paths)
  show "recognizes escape_ident_out escape_ident_states 60 12 [
     (28, 235, 0, 0), (235, 233, 0, 0), (235, 234, 0, 0), (233, 236, 0, 0), (236, 29, 0, 0)] 28 29 (rule_re RuleEscapeIdent)"
    unfolding escape_ident_re by code_simp
qed (simp add: escape_ident_out_def escape_ident_states_def split: if_splits)

lemma opt_expr_rule: "path hit (edges_of opt_expr_out opt_expr_states) 30 w 31 \<longleftrightarrow> spelt hit (rule_re RuleOptExpr) w"
proof (rule recognizes_paths)
  show "recognizes opt_expr_out opt_expr_states 60 12 [
     (30, 238, 0, 0), (238, 237, 0, 0), (237, 239, 0, 0), (239, 240, 0, 0), (240, 241, 0, 0),
     (241, 31, 0, 0)] 30 31 (rule_re RuleOptExpr)"
    unfolding opt_expr_re by code_simp
qed (simp add: opt_expr_out_def opt_expr_states_def split: if_splits)

lemma literal_rule: "path hit (edges_of literal_out literal_states) 32 w 33 \<longleftrightarrow> spelt hit (rule_re RuleLiteral) w"
proof (rule recognizes_paths)
  show "recognizes literal_out literal_states 60 12 [
     (32, 256, 0, 0), (256, 243, 0, 0), (256, 246, 0, 0), (256, 248, 0, 0), (256, 251, 0, 0),
     (256, 252, 0, 0), (256, 253, 0, 0), (256, 254, 0, 0), (256, 255, 0, 0), (243, 242, 0, 0),
     (242, 244, 1, 0), (244, 245, 0, 0), (248, 247, 0, 0), (247, 249, 0, 0), (249, 250, 0, 0),
     (245, 257, 0, 0), (257, 33, 0, 0)] 32 33 (rule_re RuleLiteral)"
    unfolding literal_re by code_simp
qed (simp add: literal_out_def literal_states_def split: if_splits)

section \<open>In the whole automaton\<close>

lemma celParser_starts: "map hd (atn_rules celParser_atn) = map (\<lambda>i. 2 * int i) [0..<17]"
  by code_simp

lemma celParser_parts_nonempty: "list_all (\<lambda>E. E \<noteq> []) celParser_parts"
  by code_simp

lemma celParser_length: "length celParser_parts = 17"
  by (simp add: celParser_parts_def)

lemma set_celParser_edges: "set (sym_edges celParser_atn) = set (concat celParser_parts)"
  unfolding celParser_edges_parts by (rule set_heads_first) (rule celParser_parts_nonempty)

lemmas parser_rules = start_rule expr_rule conditional_or_rule conditional_and_rule relation_rule calc_rule
  unary_rule member_rule primary_rule expr_list_rule list_init_rule
  field_initializer_list_rule opt_field_rule map_initializer_list_rule escape_ident_rule
  opt_expr_rule literal_rule

lemma celParser_recognized: "recognized 0 0 celParser_parts (map rule_re cel_rules) hit"
  by (simp add: celParser_parts_def cel_rules_def parser_rules)

lemma length_cel_rules: "length cel_rules = 17"
  by (simp add: cel_rules_def)

text \<open>The stop states are where \<open>rule_path\<close> says: states of type 7.\<close>

lemma celParser_stops:
  "list_all (\<lambda>i. atn_states celParser_atn ! nat (2 * i + 1) = (7, i, [])) [0..16]"
  by code_simp

lemma celParser_rule_path:
  assumes "i < 17"
  shows "rule_path celParser_atn i w \<longleftrightarrow> spelt (=) (rule_re (cel_rules ! i)) w"
proof -
  have "rule_of_state (2 * int i) = int i" using assms by (simp add: rule_of_state_def)
  then have part: "path (=) (sym_edges celParser_atn) (2 * int i) w (2 * int i + 1) \<longleftrightarrow>
      path (=) (celParser_parts ! i) (2 * int i) w (2 * int i + 1)"
    using assms celParser_length
    by (intro path_part [OF celParser_parts_apart, of _ "[]"]) (simp_all add: set_celParser_edges)
  have len: "length (atn_rules celParser_atn) = 17" using arg_cong [OF celParser_starts, of length] by simp
  have "hd (atn_rules celParser_atn ! i) = 2 * int i"
    using arg_cong [OF celParser_starts, of "\<lambda>xs. xs ! i"] assms len by simp
  then show ?thesis
    using part recognized_nth [OF celParser_recognized, of i "(=)" w] assms celParser_length length_cel_rules
    by (simp add: rule_path_def)
qed

end
