(* ===== verification/Cel_Atn_Trees.thy ===== *)
theory Cel_Atn_Trees
  imports Cel_Parser_Atn Cel_Access
begin

text \<open>
  The nodes of a tree of the grammar are paths of the automaton. The node of a left-recursive
  rule has the node of its left operand as first child, where the automaton goes round a loop;
  \<open>spine\<close> is what is read from the start of the leftmost operand on.
\<close>

fun letter :: "sym \<Rightarrow> psym" where
  "letter (T t) = Tk (sint t)"
| "letter (N r) = Nt r"
| "letter Err = Tk (- 2)"

fun spine :: "ptree \<Rightarrow> psym list" where
  "spine (Context c ((l, Context c' ts' e') # ts) e) =
     (if getRuleIndex c' = getRuleIndex c
      then spine (Context c' ts' e') @ map (\<lambda>x. letter (sym_of (snd x))) ts
      else Nt (getRuleIndex c') # map (\<lambda>x. letter (sym_of (snd x))) ts)"
| "spine (Context c ts e) = map (\<lambda>x. letter (sym_of (snd x))) ts"
| "spine t = []"

lemma matches_Star_Cons:
  "matches (Star a) (s # w) \<longleftrightarrow> (\<exists>u v. w = u @ v \<and> matches a (s # u) \<and> matches (Star a) v)"
  by (auto simp: matches_Seq)

lemma matches_bare: "matches x w \<Longrightarrow> spelt (=) (bare x) (map (\<lambda>s. letter (snd s)) w)"
proof (induction x arbitrary: w)
  case (Tok l ts)
  then obtain s where w: "w = [s]" "deriv s (Tok l ts) = Eps"
    by (cases w) (auto split: sym.splits if_splits)
  then show ?case by (cases "snd s") (auto split: if_splits)
next
  case (Rule l r)
  then show ?case by (cases w) (auto split: if_splits)
next
  case (Seq a b)
  then show ?case by (auto simp: matches_Seq intro!: spelt.cat)
next
  case (Star a)
  show ?case using Star.prems
  proof (induction w rule: length_induct)
    case (1 w)
    show ?case
    proof (cases w)
      case (Cons s v)
      then obtain x y where v: "v = x @ y" "matches a (s # x)" "matches (Star a) y"
        using 1(2) by (auto simp: matches_Star_Cons simp del: matches.simps)
      have "spelt (=) (bare a) (map (\<lambda>s. letter (snd s)) (s # x))" by (rule Star.IH [OF v(2)])
      moreover have "spelt (=) (Rep (bare a)) (map (\<lambda>s. letter (snd s)) y)" using 1(1) v Cons by simp
      ultimately have "spelt (=) (bare a) (map (\<lambda>s. letter (snd s)) (s # x))" "spelt (=) (Rep (bare a)) (map (\<lambda>s. letter (snd s)) y)"
        by simp_all
      from spelt.again [OF this] show ?thesis using Cons v(1) by simp
    qed (simp add: spelt.stop)
  qed
qed auto

lemma matches_alts: "matches x w \<longleftrightarrow> (\<exists>y \<in> set (alts x). matches y w)"
  by (induction x rule: alts.induct) auto

text \<open>Only an alternative that starts with the rule itself has a node of the rule as first child.\<close>

fun first_rules :: "rx \<Rightarrow> cel_rule list" where
  "first_rules (Rule l r) = [r]"
| "first_rules (Seq a b) = first_rules a @ (if nullable a then first_rules b else [])"
| "first_rules (Alt a b) = first_rules a @ first_rules b"
| "first_rules (Star a) = first_rules a"
| "first_rules x = []"

lemma matches_first: "matches x ((l, N r) # w) \<Longrightarrow> r \<in> set (first_rules x)"
proof (induction x arbitrary: w)
  case (Tok k ts)
  then show ?case by (auto split: if_splits)
next
  case (Rule l r)
  then show ?case by (auto split: if_splits)
next
  case (Seq a b)
  from Seq.prems obtain u v where w: "(l, N r) # w = u @ v" "matches a u" "matches b v"
    unfolding matches_Seq by blast
  show ?case
  proof (cases u)
    case Nil
    with w(2) have "nullable a" by simp
    with Nil w Seq.IH(2) [of w] show ?thesis by simp
  next
    case (Cons s u')
    with w Seq.IH(1) show ?thesis by auto
  qed
next
  case (Star a)
  then show ?case by (auto simp: matches_Star_Cons simp del: matches.simps)
qed auto

lemma first_rules_left:
  "x \<in> set (rule_alts r) \<Longrightarrow> tail_of r x = [] \<Longrightarrow> r \<notin> set (first_rules x)"
  by (cases r) (auto simp: rule_alts_def context_classes_def)

lemma tail_of_Some: "tail_of r x = y # ys \<Longrightarrow> \<exists>l. x = Seq (Rule l r) y \<and> ys = []"
  by (induction r x rule: tail_of.induct) (auto split: if_splits)

lemma in_context_classes: "c \<in> set context_classes"
  by (cases c) (simp_all add: context_classes_def)

lemma spelt_rule_re:
  assumes "x \<in> set (rule_alts r)" "tail_of r x = []" "spelt (=) (bare x) w"
  shows "spelt (=) (rule_re r) w"
proof -
  have first: "spelt (=) (any_of (map bare (filter (\<lambda>x. tail_of r x = []) (rule_alts r)))) w"
    using assms by auto
  then have "spelt (=) (Cat (any_of (map bare (filter (\<lambda>x. tail_of r x = []) (rule_alts r)))) (Rep y)) w" for y
    using spelt.cat [OF first spelt.stop] by simp
  with first show ?thesis unfolding rule_re_def Let_def by (simp only: split: if_split) blast
qed

lemma spelt_Rep_snoc: "spelt hit (Rep a) u \<Longrightarrow> spelt hit a v \<Longrightarrow> spelt hit (Rep a) (u @ v)"
proof (induction "Rep a" u rule: spelt.induct)
  case stop
  then show ?case using spelt.again [OF _ spelt.stop] by fastforce
next
  case (again x y)
  then show ?case using spelt.again by fastforce
qed

lemma spelt_rule_re_more:
  assumes "Seq (Rule l r) y \<in> set (rule_alts r)" "spelt (=) (rule_re r) u" "spelt (=) (bare y) v"
  shows "spelt (=) (rule_re r) (u @ v)"
proof -
  let ?more = "map bare (concat (map (tail_of r) (rule_alts r)))"
  have y: "bare y \<in> set ?more" using assms(1) by force
  then have "?more \<noteq> []" by (metis empty_iff list.set(1))
  then have re: "rule_re r = Cat (any_of (map bare (filter (\<lambda>x. tail_of r x = []) (rule_alts r)))) (Rep (any_of ?more))"
    by (simp add: rule_re_def Let_def)
  from assms(2) obtain a b where u: "u = a @ b"
      "spelt (=) (any_of (map bare (filter (\<lambda>x. tail_of r x = []) (rule_alts r)))) a" "spelt (=) (Rep (any_of ?more)) b"
    unfolding re spelt_Cat by blast
  have "spelt (=) (any_of ?more) v" using y assms(3) unfolding spelt_any_of by blast
  from spelt.cat [OF u(2) spelt_Rep_snoc [OF u(3) this]] show ?thesis unfolding re u(1) by simp
qed

lemma production_alt:
  assumes "matches (production c) w"
  obtains x where "x \<in> set (rule_alts (getRuleIndex c))" "matches x w"
proof -
  from assms obtain x where "x \<in> set (alts (production c))" "matches x w"
    using matches_alts by blast
  then show ?thesis using that in_context_classes [of c] by (auto simp: rule_alts_def)
qed

abbreviation word :: "(string \<times> ptree) list \<Rightarrow> psym list" where
  "word ts \<equiv> map (\<lambda>x. letter (sym_of (snd x))) ts"

lemma matches_word: "matches x (map child_sym ts) \<Longrightarrow> spelt (=) (bare x) (word ts)"
  using matches_bare [of x "map child_sym ts"] by (simp add: child_sym_def comp_def)

lemma node_word:
  assumes "matches (production c) (map child_sym ts)"
  obtains (base) "spelt (=) (rule_re (getRuleIndex c)) (word ts)"
      "\<And>l t ts'. ts = (l, t) # ts' \<Longrightarrow> sym_of t \<noteq> N (getRuleIndex c)"
    | (left) l t ts' y where "ts = (l, t) # ts'" "sym_of t = N (getRuleIndex c)"
      "Seq (Rule l (getRuleIndex c)) y \<in> set (rule_alts (getRuleIndex c))" "spelt (=) (bare y) (word ts')"
proof -
  obtain x where x: "x \<in> set (rule_alts (getRuleIndex c))" "matches x (map child_sym ts)"
    using assms by (rule production_alt)
  show thesis
  proof (cases "tail_of (getRuleIndex c) x")
    case Nil
    have "sym_of t \<noteq> N (getRuleIndex c)" if "ts = (l, t) # ts'" for l t ts'
    proof
      assume "sym_of t = N (getRuleIndex c)"
      then have "matches x ((l, N (getRuleIndex c)) # map child_sym ts')"
        using x(2) that by (simp add: child_sym_def)
      with first_rules_left [OF x(1) Nil] matches_first show False by blast
    qed
    then show thesis using spelt_rule_re [OF x(1) Nil matches_word [OF x(2)]] by (intro base) auto
  next
    case (Cons y ys)
    then obtain l where seq: "x = Seq (Rule l (getRuleIndex c)) y" using tail_of_Some by blast
    from x(2) [unfolded seq matches_Seq] obtain u v where
      uv: "map child_sym ts = u @ v" "matches (Rule l (getRuleIndex c)) u" "matches y v"
      by blast
    have "u = [(l, N (getRuleIndex c))]" using uv(2) by (simp only: matches_Rule)
    with uv(1) obtain t ts' where ts: "ts = (l, t) # ts'" "sym_of t = N (getRuleIndex c)" "v = map child_sym ts'"
      by (cases ts) (auto simp: child_sym_def)
    have "spelt (=) (bare y) (word ts')" using uv(3) unfolding ts(3) by (rule matches_word)
    with x(1) seq show thesis using left [OF ts(1,2)] by simp
  qed
qed

lemma spine_word:
  "(\<And>l c' ts' e' us. ts = (l, Context c' ts' e') # us \<Longrightarrow> getRuleIndex c' \<noteq> getRuleIndex c) \<Longrightarrow>
    spine (Context c ts e) = word ts"
  by (cases "Context c ts e" rule: spine.cases) auto

lemma spine_spelt: "conforms (Context c ts e) \<Longrightarrow> spelt (=) (rule_re (getRuleIndex c)) (spine (Context c ts e))"
proof (induction "Context c ts e" arbitrary: c ts e)
  case (Context c ts e)
  then have m: "matches (production c) (map child_sym ts)" by simp
  then show ?case
  proof (cases rule: node_word)
    case base
    have "spine (Context c ts e) = word ts" by (rule spine_word) (use base(2) in auto)
    with base(1) show ?thesis by simp
  next
    case (left l t us y)
    then obtain c' ts' e' where t: "t = Context c' ts' e'" "getRuleIndex c' = getRuleIndex c"
      by (cases t) auto
    have "conforms t" using Context.prems left(1) by simp
    then have "spelt (=) (rule_re (getRuleIndex c)) (spine t)"
      using Context.hyps [of "(l, t)" c' ts' e'] left(1) t by simp
    from spelt_rule_re_more [OF left(3) this left(4)] show ?thesis
      using t left(1) by simp
  qed
qed

end
