(* ===== verification/Cel_Atn_Calls.thy ===== *)
theory Cel_Atn_Calls
  imports Cel_Parser_Atn Cel_Soundness
begin

text \<open>
  The rule functions (CelParser.cpp) ask the runtime for something only where the automaton has
  it: \<open>match\<close> in a state with an edge for the token, a rule function in a state with an edge for
  the rule and its precedence, a precedence predicate in a state with that predicate, a
  prediction in the state of its decision or on the way back to it, \<open>sync\<close> in a state where
  blocks or loops begin or repeat. So the result of a parse is the same for two runtimes that
  agree there. The error strategy looks the state numbers up in the automaton and relies on it.
\<close>

section \<open>Where the automaton has what\<close>

definition token_edges :: "atn \<Rightarrow> (int \<times> int) list" where
  "token_edges A = concat (map (\<lambda>(s, t, ty, a, b, c).
     if ty = 5 then [(s, if c = 1 then -1 else a)]
     else if ty = 7 then map (Pair s) (concat (map (\<lambda>(lo, hi). [lo..hi]) (snd (atn_sets A ! nat a))))
     else []) (atn_edges A))"

definition call_edges :: "atn \<Rightarrow> (int \<times> int \<times> cel_rule \<times> int) list" where
  "call_edges A = concat (map (\<lambda>(s, t, ty, a, b, c).
     if ty = 3 then [(s, a, cel_rules ! nat b, c)] else []) (atn_edges A))"

definition prec_edges :: "atn \<Rightarrow> (int \<times> int) list" where
  "prec_edges A = concat (map (\<lambda>(s, t, ty, a, b, c). if ty = 10 then [(s, a)] else []) (atn_edges A))"

fun numbered :: "int \<Rightarrow> 'a list \<Rightarrow> (int \<times> 'a) list" where
  "numbered i [] = []"
| "numbered i (x # xs) = (i, x) # numbered (i + 1) xs"

definition states_of_type :: "int list \<Rightarrow> atn \<Rightarrow> int list" where
  "states_of_type tys A = map fst (filter (\<lambda>(i, ty, r, e). ty \<in> set tys) (numbered 0 (atn_states A)))"

text \<open>Block starts, loop entries and loop backs.\<close>

definition sync_states :: "atn \<Rightarrow> int list" where
  "sync_states A = states_of_type [3, 4, 5, 9, 10, 11] A"

text \<open>The edges by which a loop goes back to its entry.\<close>

definition back_edges :: "atn \<Rightarrow> (int \<times> int) list" where
  "back_edges A = (let back = states_of_type [9] A in
     concat (map (\<lambda>(s, t, ty, a, b, c). if ty = 1 \<and> s \<in> set back then [(s, t)] else []) (atn_edges A)))"

lemma celParser_tokens: "token_edges celParser_atn = [
     (35, -1), (38, 20), (40, 21), (46, 9), (54, 8), (65, 1), (65, 2), (65, 3), (65, 4), (65, 5),
     (65, 6), (65, 7), (76, 23), (76, 24), (76, 25), (79, 18), (79, 22), (87, 19), (93, 18),
     (105, 16), (106, 20), (111, 16), (112, 36), (113, 14), (117, 15), (119, 10), (120, 20),
     (124, 11), (131, 16), (134, 36), (135, 16), (138, 36), (139, 14), (143, 15), (144, 14),
     (146, 15), (148, 10), (152, 17), (155, 11), (156, 12), (160, 17), (163, 13), (164, 16),
     (167, 36), (168, 16), (169, 36), (175, 12), (179, 17), (182, 13), (187, 17), (195, 17),
     (203, 21), (205, 17), (207, 21), (215, 20), (221, 21), (223, 17), (225, 21), (233, 36),
     (234, 37), (237, 20), (242, 18), (245, 32), (246, 33), (247, 18), (250, 31), (251, 34),
     (252, 35), (253, 26), (254, 27), (255, 28)]"
  by code_simp

lemma celParser_calls: "call_edges celParser_atn = [
     (34, 2, RuleExpr, 0), (37, 4, RuleConditionalOr, 0), (39, 4, RuleConditionalOr, 0),
     (41, 2, RuleExpr, 0), (45, 6, RuleConditionalAnd, 0), (47, 6, RuleConditionalAnd, 0),
     (53, 8, RuleRelation, 0), (55, 8, RuleRelation, 0), (62, 10, RuleCalc, 0),
     (66, 8, RuleRelation, 2), (73, 12, RuleUnary, 0), (77, 10, RuleCalc, 3),
     (80, 10, RuleCalc, 2), (86, 14, RuleMember, 0), (92, 14, RuleMember, 0),
     (98, 14, RuleMember, 0), (102, 16, RulePrimary, 0), (109, 28, RuleEscapeIdent, 0),
     (114, 18, RuleExprList, 0), (123, 2, RuleExpr, 0), (140, 18, RuleExprList, 0),
     (145, 2, RuleExpr, 0), (149, 20, RuleListInit, 0), (157, 26, RuleMapInitializerList, 0),
     (176, 22, RuleFieldInitializerList, 0), (183, 32, RuleLiteral, 0), (186, 2, RuleExpr, 0),
     (188, 2, RuleExpr, 0), (194, 30, RuleOptExpr, 0), (196, 30, RuleOptExpr, 0),
     (202, 24, RuleOptField, 0), (204, 2, RuleExpr, 0), (206, 24, RuleOptField, 0),
     (208, 2, RuleExpr, 0), (218, 28, RuleEscapeIdent, 0), (220, 30, RuleOptExpr, 0),
     (222, 2, RuleExpr, 0), (224, 30, RuleOptExpr, 0), (226, 2, RuleExpr, 0),
     (240, 2, RuleExpr, 0)]"
  by code_simp

lemma celParser_precs: "prec_edges celParser_atn = [(64, 1), (75, 2), (78, 1), (104, 3), (110, 2), (118, 1)]"
  by code_simp

lemma celParser_syncs: "sync_states celParser_atn = [
     43, 48, 50, 52, 56, 58, 60, 67, 69, 71, 81, 83, 85, 88, 90, 94, 96, 99, 107, 115, 121, 126,
     128, 130, 132, 136, 141, 150, 153, 158, 161, 165, 170, 172, 174, 177, 180, 184, 189, 191,
     193, 197, 199, 201, 210, 212, 214, 216, 228, 230, 232, 235, 238, 243, 248, 256]"
  by code_simp

lemma celParser_backs: "back_edges celParser_atn = [
     (52, 50), (60, 58), (71, 69), (85, 83), (130, 128), (174, 172), (193, 191), (201, 199),
     (214, 212), (232, 230)]"
  by code_simp

lemma celParser_decision_states: "atn_decisions celParser_atn = [
     43, 50, 58, 69, 81, 83, 90, 96, 99, 107, 115, 121, 126, 128, 132, 136, 141, 150, 153, 158,
     161, 165, 172, 177, 180, 184, 191, 199, 212, 216, 230, 235, 238, 243, 248, 256]"
  by (simp add: celParser_atn_def)

definition token_at :: "u64 \<Rightarrow> u64 \<Rightarrow> bool" where
  "token_at s t \<longleftrightarrow> (uint s, sint t) \<in> set (token_edges celParser_atn)"

definition expects :: "u64 \<Rightarrow> bool" where
  "expects s \<longleftrightarrow> uint s \<in> fst ` set (token_edges celParser_atn)"

definition call_at :: "u64 \<Rightarrow> u64 \<Rightarrow> cel_rule \<Rightarrow> nat \<Rightarrow> bool" where
  "call_at s s0 r k \<longleftrightarrow> (uint s, uint s0, r, int k) \<in> set (call_edges celParser_atn)"

definition prec_at :: "u64 \<Rightarrow> nat \<Rightarrow> bool" where
  "prec_at s k \<longleftrightarrow> (uint s, int k) \<in> set (prec_edges celParser_atn)"

definition sync_at :: "u64 \<Rightarrow> bool" where
  "sync_at s \<longleftrightarrow> uint s \<in> set (sync_states celParser_atn)"

definition predict_at :: "u64 \<Rightarrow> nat \<Rightarrow> bool" where
  "predict_at s d \<longleftrightarrow> (let p = atn_decisions celParser_atn ! d in
     uint s = p \<or> (uint s, p) \<in> set (back_edges celParser_atn))"

lemma expects_token: "token_at n t \<Longrightarrow> expects n"
  unfolding token_at_def expects_def by force

lemmas at_defs = token_at_def call_at_def prec_at_def sync_at_def predict_at_def celParser_tokens
  celParser_calls celParser_precs celParser_syncs celParser_backs celParser_decision_states
  sint_tokens Let_def

text \<open>The first rule is called from outside.\<close>

definition entered_at :: "pstate \<Rightarrow> u64 \<Rightarrow> cel_rule \<Rightarrow> bool" where
  "entered_at ps s0 r \<longleftrightarrow> call_at (ps_state ps) s0 r 0 \<or> (ps_ctx ps = [] \<and> s0 = 0 \<and> r = RuleStart)"

definition agree_on_atn :: "runtime \<Rightarrow> runtime \<Rightarrow> bool" where
  "agree_on_atn R R' \<longleftrightarrow>
     (\<forall>d ps. predict_at (ps_state ps) d \<longrightarrow> adaptivePredict R d ps = adaptivePredict R' d ps) \<and>
     (\<forall>ps. sync_at (ps_state ps) \<longrightarrow> sync R ps = sync R' ps) \<and>
     (\<forall>t ps. token_at (ps_state ps) t \<longrightarrow> match_token R t ps = match_token R' t ps) \<and>
     (\<forall>ps. expects (ps_state ps) \<longrightarrow> \<not> token_at (ps_state ps) (LA1 (ps_input ps)) \<longrightarrow>
        recoverInline R ps = recoverInline R' ps) \<and>
     (\<forall>ps. token_at (ps_state ps) (LA1 (ps_input ps)) \<longrightarrow> consume R ps = consume R' ps) \<and>
     (\<forall>k ps. prec_at (ps_state ps) k \<longrightarrow> precpred R ps k = precpred R' ps k) \<and>
     (\<forall>s r ps. entered_at ps s r \<longrightarrow> enterRule R s r ps = enterRule R' s r ps) \<and>
     (\<forall>s r k ps. call_at (ps_state ps) s r k \<longrightarrow> enterRecursionRule R s r k ps = enterRecursionRule R' s r k ps) \<and>
     reportAndRecover R = reportAndRecover R' \<and> exitRule R = exitRule R' \<and>
     unrollRecursionContexts R = unrollRecursionContexts R' \<and> copyFrom R = copyFrom R'"

section \<open>Statement by statement\<close>

definition from_state :: "u64 \<Rightarrow> action \<Rightarrow> action \<Rightarrow> bool" where
  "from_state n a a' \<longleftrightarrow> (\<forall>l ps. ps_state ps = n \<longrightarrow> a l ps = a' l ps)"

definition ends_in :: "u64 \<Rightarrow> action \<Rightarrow> bool" where
  "ends_in n a \<longleftrightarrow> (\<forall>l ps l' ps'. a l ps = Go l' ps' \<longrightarrow> ps_state ps' = n)"

fun call_start_state :: "call \<Rightarrow> u64" where
"call_start_state call_start = 0"
| "call_start_state call_expr = 2"
| "call_start_state call_conditionalOr = 4"
| "call_start_state call_conditionalAnd = 6"
| "call_start_state (call_relation p) = 8"
| "call_start_state (call_calc p) = 10"
| "call_start_state call_unary = 12"
| "call_start_state (call_member p) = 14"
| "call_start_state call_primary = 16"
| "call_start_state call_exprList = 18"
| "call_start_state call_listInit = 20"
| "call_start_state call_fieldInitializerList = 22"
| "call_start_state call_optField = 24"
| "call_start_state call_mapInitializerList = 26"
| "call_start_state call_escapeIdent = 28"
| "call_start_state call_optExpr = 30"
| "call_start_state call_literal = 32"

fun called_with :: "call \<Rightarrow> nat" where
  "called_with (call_relation p) = p"
| "called_with (call_calc p) = p"
| "called_with (call_member p) = p"
| "called_with c = 0"

definition called_at :: "pstate \<Rightarrow> call \<Rightarrow> bool" where
  "called_at ps c \<longleftrightarrow> call_at (ps_state ps) (call_start_state c) (call_rule c) (called_with c) \<or>
     (ps_ctx ps = [] \<and> c = call_start)"

definition same_calls :: "calls \<Rightarrow> calls \<Rightarrow> bool" where
  "same_calls self self' \<longleftrightarrow> (\<forall>c ps. called_at ps c \<longrightarrow> self c ps = self' c ps)"

lemma ends_in_seq: "ends_in n b \<Longrightarrow> ends_in n (seq a b)"
  by (auto simp: ends_in_def seq_def split: outcome.splits)

lemma ends_in_sync: "ends_in n (block [set_state n, synchronize R])"
  by (auto simp: ends_in_def block_simps seq_def skip_def set_state_def synchronize_def install_def split: reply.splits)

lemma ends_in_block: "ends_in n (block (b # c # as)) \<Longrightarrow> ends_in n (block (a # b # c # as))"
  by (simp add: block_simps(2) [of a] ends_in_seq)

lemma ends_in_throw: "ends_in n (throw e)"
  by (simp add: ends_in_def throw_def)

lemma ends_in_if: "ends_in n a \<Longrightarrow> ends_in n b \<Longrightarrow> ends_in n (if c then a else b)"
  by simp

lemma set_state_cong:
  "from_state n (block as) (block as') \<Longrightarrow> block (set_state n # as) = block (set_state n # as')"
  by (intro ext) (simp add: block_simps seq_def set_state_def from_state_def)

lemma from_state_seq:
  "(\<And>l ps. ps_state ps = n \<Longrightarrow> a l ps = a' l ps) \<Longrightarrow> block as = block as' \<Longrightarrow>
    from_state n (block (a # as)) (block (a' # as'))"
  by (simp add: from_state_def block_simps seq_def)

lemma block_cong: "a = a' \<Longrightarrow> block as = block as' \<Longrightarrow> block (a # as) = block (a' # as')"
  by (simp add: block_simps)

lemma if_LA_same: "a = a' \<Longrightarrow> b = b' \<Longrightarrow> if_LA test a b = if_LA test a' b'"
  by simp

lemma if_same: "a = a' \<Longrightarrow> b = b' \<Longrightarrow> (if c then a else b) = (if c then a' else b' :: action)"
  by simp

lemma while_LA_same: "body = body' \<Longrightarrow> while_LA n test body = while_LA n test body'"
  by simp

locale same_on_atn =
  fixes R R' :: runtime
  assumes agree: "agree_on_atn R R'"
begin

lemma others_same: "reportAndRecover R = reportAndRecover R'" "exitRule R = exitRule R'"
  "unrollRecursionContexts R = unrollRecursionContexts R'" "copyFrom R = copyFrom R'"
  using agree by (simp_all add: agree_on_atn_def)

lemma match_same:
  "token_at n t \<Longrightarrow> block as = block as' \<Longrightarrow>
    block (set_state n # match R l t # as) = block (set_state n # match R' l t # as')"
  using agree by (intro set_state_cong from_state_seq) (simp_all add: agree_on_atn_def match_def)

lemma invoke_same:
  "same_calls self self' \<Longrightarrow> call_at n (call_start_state c) (call_rule c) (called_with c) \<Longrightarrow> block as = block as' \<Longrightarrow>
    block (set_state n # invoke self l c # as) = block (set_state n # invoke self' l c # as')"
  by (intro set_state_cong from_state_seq) (simp_all add: same_calls_def called_at_def invoke_def)

lemma prec_same:
  "prec_at n k \<Longrightarrow> block as = block as' \<Longrightarrow>
    block (set_state n # require_prec R k # as) = block (set_state n # require_prec R' k # as')"
  using agree by (intro set_state_cong from_state_seq) (simp_all add: agree_on_atn_def require_prec_def)

lemma match_set_same:
  "token_at n t \<Longrightarrow> (\<And>la. test la = token_at n la) \<Longrightarrow> block as = block as' \<Longrightarrow>
    block (set_state n # match_set R l test # as) = block (set_state n # match_set R' l test # as')"
  using agree by (intro set_state_cong from_state_seq) (auto simp: agree_on_atn_def match_set_def expects_token)

lemma become_same: "block as = block as' \<Longrightarrow> block (become R C # as) = block (become R' C # as')"
proof -
  have "become R C = become R' C" using agree by (intro ext) (simp add: agree_on_atn_def become_def)
  then show "block as = block as' \<Longrightarrow> ?thesis" by (simp add: block_simps)
qed

lemma sync_keeps: "synchronize R l ps = Go l' ps' \<Longrightarrow> ps_state ps' = ps_state ps"
  by (auto simp: synchronize_def install_def split: reply.splits)

lemma sync_same:
  assumes "sync_at n" "from_state n (block as) (block as')"
  shows "block (set_state n # synchronize R # as) = block (set_state n # synchronize R' # as')"
proof (rule set_state_cong)
  have "synchronize R l ps = synchronize R' l ps" if "ps_state ps = n" for l ps
    using agree assms(1) that by (simp add: agree_on_atn_def synchronize_def)
  moreover have "block as l' ps' = block as' l' ps'" if "ps_state ps = n" "synchronize R' l ps = Go l' ps'" for l ps l' ps'
    using assms(2) sync_keeps [of l ps l' ps'] calculation [OF that(1)] that by (simp add: from_state_def)
  ultimately show "from_state n (block (synchronize R # as)) (block (synchronize R' # as'))"
    unfolding from_state_def block_simps seq_def by (auto split: outcome.split)
qed

lemma from_any: "a = a' \<Longrightarrow> from_state n a a'"
  by (simp add: from_state_def)

lemma predict_same: "predict_at (ps_state ps) d \<Longrightarrow> adaptivePredict R d ps = adaptivePredict R' d ps"
  using agree by (simp add: agree_on_atn_def)

lemma switch_same:
  "predict_at n d \<Longrightarrow> (\<And>alt. f alt = f' alt) \<Longrightarrow> block as = block as' \<Longrightarrow>
    from_state n (block (switch R d f # as)) (block (switch R' d f' # as'))"
  by (intro from_state_seq) (simp_all add: switch_def predict_same split: option.split)

lemma while_alt_from:
  assumes "predict_at m d" "\<And>alt. body alt = body' alt" "\<And>alt. ends_in m (body alt)"
  shows "predict_at (ps_state ps) d \<Longrightarrow> while_alt R k d body l ps = while_alt R' k d body' l ps"
proof (induction k arbitrary: l ps)
  case 0
  then show ?case by (simp add: switch_def predict_same split: option.split)
next
  case (Suc k)
  have body: "body = body'" using assms(2) by (rule ext)
  have "seq (body' alt) (while_alt R k d body') l ps = seq (body' alt) (while_alt R' k d body') l ps" for alt
  proof (cases "body' alt l ps")
    case (Go l' ps')
    then have "predict_at (ps_state ps') d" using assms(1,3) unfolding body ends_in_def by blast
    with Go Suc.IH show ?thesis by (simp add: seq_def body)
  qed (simp_all add: seq_def)
  with Suc.prems show ?case by (simp add: body switch_def predict_same split: option.split)
qed

lemma while_alt_same:
  "predict_at n d \<Longrightarrow> (\<And>alt. body alt = body' alt) \<Longrightarrow> (\<And>alt. ends_in m (body alt)) \<Longrightarrow> predict_at m d \<Longrightarrow>
    block as = block as' \<Longrightarrow>
    from_state n (block (while_alt R k d body # as)) (block (while_alt R' k d body' # as'))"
  by (intro from_state_seq while_alt_from [of m]) simp_all

lemma handle_same: "handle R f = handle R' f"
  by (intro ext) (simp add: handle_def others_same split: outcome.split)

lemma rule_same:
  "body = body' \<Longrightarrow> entered_at ps s r \<Longrightarrow> rule_function R C s r body ps = rule_function R' C s r body' ps"
  using agree unfolding rule_function_def handle_same others_same by (simp add: agree_on_atn_def)

lemma recursion_same:
  "body = body' \<Longrightarrow> call_at (ps_state ps) s r k \<Longrightarrow>
    recursion_function R C s r k body ps = recursion_function R' C s r k body' ps"
  using agree unfolding recursion_function_def handle_same others_same by (simp add: agree_on_atn_def)

lemma sint_is: "sint (la :: u64) = i \<longleftrightarrow> la = word_of_int i" if "- 9223372036854775808 \<le> i" "i < 9223372036854775808"
proof -
  have "sint (word_of_int i :: u64) = i" using that by (simp add: sint_sbintrunc' signed_take_bit_int_eq_self)
  then show ?thesis by (metis word_eq_iff_signed)
qed

lemma relation_op_same: "block as = block as' \<Longrightarrow>
    block (set_state 65 # match_set R l (\<lambda>la. in_bitset la 254) # as) =
    block (set_state 65 # match_set R' l (\<lambda>la. in_bitset la 254) # as')"
  by (rule match_set_same [of _ 1])
    (simp_all add: at_defs in_bitset_relation relation_ops_def token_types sint_is)

lemma factor_op_same: "block as = block as' \<Longrightarrow>
    block (set_state 76 # match_set R l (\<lambda>la. in_bitset la 58720256) # as) =
    block (set_state 76 # match_set R' l (\<lambda>la. in_bitset la 58720256) # as')"
  by (rule match_set_same [of _ STAR])
    (simp_all add: at_defs in_bitset_factor factor_ops_def token_types sint_is)

lemma term_op_same: "block as = block as' \<Longrightarrow>
    block (set_state 79 # match_set R l (\<lambda>la. la = MINUS \<or> la = PLUS) # as) =
    block (set_state 79 # match_set R' l (\<lambda>la. la = MINUS \<or> la = PLUS) # as')"
  by (rule match_set_same [of _ PLUS]) (simp_all add: at_defs sint_is token_types)

section \<open>Rule by rule\<close>

lemmas follows = match_same invoke_same prec_same relation_op_same factor_op_same term_op_same become_same sync_same switch_same block_cong if_LA_same while_LA_same if_same
  ends_in_sync ends_in_block ends_in_seq ends_in_throw ends_in_if

lemma dispatch_same:
  assumes "same_calls self self'" "called_at ps c"
  shows "dispatch R n self c ps = dispatch R' n self' c ps"
proof (cases c)
  case call_start
  then show ?thesis using assms(2)
    by (simp only: dispatch.simps rule_defs, intro rule_same follows from_any refl assms(1))
       (simp_all add: at_defs called_at_def entered_at_def)
next
  case call_expr
  then show ?thesis using assms(2)
    by (simp only: dispatch.simps rule_defs, intro rule_same follows from_any refl assms(1))
       (simp_all add: at_defs called_at_def entered_at_def)
next
  case call_conditionalOr
  then show ?thesis using assms(2)
    by (simp only: dispatch.simps rule_defs, intro rule_same follows from_any refl assms(1))
       (simp_all add: at_defs called_at_def entered_at_def)
next
  case call_conditionalAnd
  then show ?thesis using assms(2)
    by (simp only: dispatch.simps rule_defs, intro rule_same follows from_any refl assms(1))
       (simp_all add: at_defs called_at_def entered_at_def)
next
  case call_relation
  then show ?thesis using assms(2)
    by (simp only: dispatch.simps rule_defs, intro recursion_same while_alt_same [where m = 71] follows from_any refl assms(1))
       (simp_all add: at_defs called_at_def entered_at_def)
next
  case call_calc
  then show ?thesis using assms(2)
    by (simp only: dispatch.simps rule_defs, intro recursion_same while_alt_same [where m = 85] follows from_any refl assms(1))
       (simp_all add: at_defs called_at_def entered_at_def)
next
  case call_unary
  then show ?thesis using assms(2)
    by (simp only: dispatch.simps rule_defs, intro rule_same while_alt_same [where m = 96] follows from_any refl assms(1))
       (simp_all add: at_defs called_at_def entered_at_def)
next
  case call_member
  then show ?thesis using assms(2)
    by (simp only: dispatch.simps rule_defs, intro recursion_same while_alt_same [where m = 130] follows from_any refl assms(1))
       (simp_all add: at_defs called_at_def entered_at_def)
next
  case call_primary
  then show ?thesis using assms(2)
    by (simp only: dispatch.simps rule_defs, intro rule_same follows from_any refl assms(1))
       (simp_all add: at_defs called_at_def entered_at_def)
next
  case call_exprList
  then show ?thesis using assms(2)
    by (simp only: dispatch.simps rule_defs, intro rule_same follows from_any refl assms(1))
       (simp_all add: at_defs called_at_def entered_at_def)
next
  case call_listInit
  then show ?thesis using assms(2)
    by (simp only: dispatch.simps rule_defs, intro rule_same while_alt_same [where m = 201] follows from_any refl assms(1))
       (simp_all add: at_defs called_at_def entered_at_def)
next
  case call_fieldInitializerList
  then show ?thesis using assms(2)
    by (simp only: dispatch.simps rule_defs, intro rule_same while_alt_same [where m = 214] follows from_any refl assms(1))
       (simp_all add: at_defs called_at_def entered_at_def)
next
  case call_optField
  then show ?thesis using assms(2)
    by (simp only: dispatch.simps rule_defs, intro rule_same follows from_any refl assms(1))
       (simp_all add: at_defs called_at_def entered_at_def)
next
  case call_mapInitializerList
  then show ?thesis using assms(2)
    by (simp only: dispatch.simps rule_defs, intro rule_same while_alt_same [where m = 232] follows from_any refl assms(1))
       (simp_all add: at_defs called_at_def entered_at_def)
next
  case call_escapeIdent
  then show ?thesis using assms(2)
    by (simp only: dispatch.simps rule_defs, intro rule_same follows from_any refl assms(1))
       (simp_all add: at_defs called_at_def entered_at_def)
next
  case call_optExpr
  then show ?thesis using assms(2)
    by (simp only: dispatch.simps rule_defs, intro rule_same follows from_any refl assms(1))
       (simp_all add: at_defs called_at_def entered_at_def)
next
  case call_literal
  then show ?thesis using assms(2)
    by (simp only: dispatch.simps rule_defs, intro rule_same follows from_any refl assms(1))
       (simp_all add: at_defs called_at_def entered_at_def)
qed

lemma run_same: "called_at ps c \<Longrightarrow> run R fuel c ps = run R' fuel c ps"
proof (induction fuel arbitrary: c ps)
  case (Suc fuel)
  then have "same_calls (run R fuel) (run R' fuel)" by (simp add: same_calls_def)
  then show ?case using Suc.prems by (simp add: dispatch_same)
qed simp

theorem parse_same: "parse R fuel inp = parse R' fuel inp"
  unfolding parse_def by (rule run_same) (simp add: called_at_def new_parser_def)

end

section \<open>A runtime that answers only on the automaton\<close>

definition guarded :: "runtime \<Rightarrow> runtime" where
  "guarded R = R\<lparr>
     adaptivePredict := (\<lambda>d ps. if predict_at (ps_state ps) d then adaptivePredict R d ps else None),
     sync := (\<lambda>ps. if sync_at (ps_state ps) then sync R ps else Cancels),
     match_token := (\<lambda>t ps. if token_at (ps_state ps) t then match_token R t ps else Cancels),
     recoverInline := (\<lambda>ps. if expects (ps_state ps) \<and> \<not> token_at (ps_state ps) (LA1 (ps_input ps))
       then recoverInline R ps else Cancels),
     consume := (\<lambda>ps. if token_at (ps_state ps) (LA1 (ps_input ps)) then consume R ps
       else (ErrorNode (current (ps_input ps)), ps_input ps)),
     precpred := (\<lambda>ps k. prec_at (ps_state ps) k \<and> precpred R ps k),
     enterRule := (\<lambda>s r ps. if entered_at ps s r then enterRule R s r ps else ps),
     enterRecursionRule := (\<lambda>s r k ps.
       if call_at (ps_state ps) s r k then enterRecursionRule R s r k ps else ps)\<rparr>"

lemma guarded_agrees: "agree_on_atn R (guarded R)"
  by (auto simp: agree_on_atn_def guarded_def expects_def)

interpretation guarded: same_on_atn R "guarded R" for R
  by unfold_locales (rule guarded_agrees)

end
