(* ===== verification/Cel_Atn_Properties.thy ===== *)
theory Cel_Atn_Properties
  imports Cel_Reference Cel_Atn_Trees Cel_Atn_Calls
begin

text \<open>
  The static data of the generated parser (CelParser.cpp) and how the rule functions, the trees
  they build and the grammar agree with it.
\<close>

section \<open>Examples\<close>

definition sum_tokens :: "token list" where
  "sum_tokens = toks [IDENTIFIER, PLUS, IDENTIFIER, STAR, NUM_INT]"

fun without_error :: "result \<Rightarrow> bool" where
  "without_error (Built t ps) = (ps_errors ps = 0)"
| "without_error r = False"

lemma sum_parses: "\<exists>t ps. parse (reference_runtime 3) 20 sum_tokens = Built t ps \<and> ps_errors ps = 0"
proof -
  have "without_error (parse (reference_runtime 3) 20 sum_tokens)" by code_simp
  then show ?thesis by (cases "parse (reference_runtime 3) 20 sum_tokens") auto
qed

section \<open>The static data\<close>










lemma parser_new: "atn_deserializer deserialize \<Longrightarrow> CelParser_new tlc deserialize options None =
    Some ((celParser_atn, sd_decisionToDFA celParser_static, options), Some celParser_static)"
  by (rule atn_deserializer.CelParser_new_any) simp_all



section \<open>The automaton is the grammar\<close>

text \<open>C34: In the automaton that a new parser gets, what can be read between the start and the
  stop state of a rule is exactly what the productions of the context classes of that rule say.\<close>

theorem parser_atn_is_grammar:
  assumes "atn_deserializer deserialize"
    and "CelParser_new tlc deserialize options None = Some ((A, dfas, options), static)" "i < 17"
  shows "rule_path A i w \<longleftrightarrow> spelt (=) (rule_re (cel_rules ! i)) w"
  using celParser_rule_path [OF assms(3)] parser_new [OF assms(1), of tlc options] assms(2) by simp

theorem parser_atn_is_grammar_witness:
  "rule_path celParser_atn 4 [Nt RuleCalc, Tk (sint IN), Nt RuleRelation] \<and>
   \<not> rule_path celParser_atn 4 [Nt RuleCalc, Nt RuleRelation]"
proof -
  note grammar = parser_atn_is_grammar [OF reader.atn_deserializer_axioms
    parser_new [OF reader.atn_deserializer_axioms, of True "()"], of 4]
  have r: "cel_rules ! 4 = RuleRelation" by (simp add: cel_rules_def)
  have "spells (=) (rule_re RuleRelation) [Nt RuleCalc, Tk (sint IN), Nt RuleRelation]"
    "\<not> spells (=) (rule_re RuleRelation) [Nt RuleCalc, Nt RuleRelation]"
    unfolding relation_re sint_tokens by code_simp+
  then show ?thesis using grammar unfolding r spells_spelt by simp
qed

definition rule_number :: "cel_rule \<Rightarrow> nat" where
  "rule_number r = length (takeWhile (\<lambda>x. x \<noteq> r) cel_rules)"

lemma rule_number: "rule_number r < 17" "cel_rules ! rule_number r = r"
  by (cases r; simp add: rule_number_def cel_rules_def)+

lemma node_is_path:
  assumes "conforms (Context c ts e)"
  shows "rule_path celParser_atn (rule_number (getRuleIndex c)) (spine (Context c ts None))"
proof -
  have "e = None" using assms by (cases e) auto
  with spine_spelt [OF assms] show ?thesis
    unfolding celParser_rule_path [OF rule_number(1)] rule_number(2) by simp
qed

text \<open>C36: In the tree of a parse without errors, the children of every node, with those of the
  left operands before them where the rule is left recursive, are a path of its rule.\<close>

theorem trees_are_paths:
  assumes "antlr_runtime R" "parse R fuel inp = Built t ps'" "ps_errors ps' = 0"
  shows "every_node (\<lambda>c ts. rule_path celParser_atn (rule_number (getRuleIndex c)) (spine (Context c ts None))) t"
  using node_is_path antlr_runtime.parse_conforms(2) [OF assms] by (rule conforms_every_node)

theorem trees_are_paths_witness:
  "\<exists>t ps'. parse (reference_runtime 3) 20 sum_tokens = Built t ps' \<and>
     every_node (\<lambda>c ts. rule_path celParser_atn (rule_number (getRuleIndex c)) (spine (Context c ts None))) t"
  using sum_parses trees_are_paths [OF reference.antlr_runtime_axioms] by blast

section \<open>The rule functions follow the automaton\<close>

text \<open>C35: The rule functions never ask the runtime for something the automaton does not have in
  the state they have set: a runtime that answers only where there is such an edge, predicate,
  decision or block gives the same result on every input, errors included.\<close>

theorem calls_follow_atn: "parse (guarded R) fuel inp = parse R fuel inp"
  by (rule guarded.parse_same [symmetric])

end
