(* ===== verification/Cel_Lexer_Rules.thy ===== *)
theory Cel_Lexer_Rules
  imports Cel_Lexer_Data Atn_Paths
begin

text \<open>
  What the rules of the generated lexer (CelLexer.cpp) read, as regular expressions over sets of
  characters and the other rules they call, and the check that the edges of each rule in the
  serialized automaton read the same.
\<close>

section \<open>Characters\<close>

text \<open>Characters are code points; a part is a call of another rule, by number.\<close>

datatype chars = Among "(int \<times> int) list" | Except "(int \<times> int) list" | Any

datatype lsym = Text chars | Part int

definition code_point :: "char \<Rightarrow> int" where
  "code_point c = of_char c"

definition one_char :: "char \<Rightarrow> lsym re" where
  "one_char c = Sym (Text (Among [(code_point c, code_point c)]))"

fun spelled :: "string \<Rightarrow> lsym re" where
  "spelled [] = One"
| "spelled [c] = one_char c"
| "spelled (c # d # s) = Cat (one_char c) (spelled (d # s))"

text \<open>Intervals, written by their bounds: \<open>''09AF''\<close> is 0 to 9 and A to F.\<close>

fun intervals :: "string \<Rightarrow> (int \<times> int) list" where
  "intervals (a # b # s) = (code_point a, code_point b) # intervals s"
| "intervals s = []"

definition among :: "string \<Rightarrow> lsym re" where
  "among s = Sym (Text (Among (intervals s)))"

definition except :: "string \<Rightarrow> lsym re" where
  "except s = Sym (Text (Except (intervals s)))"

definition anything :: "lsym re" where
  "anything = Sym (Text Any)"

definition optional :: "lsym re \<Rightarrow> lsym re" where
  "optional r = Or One r"

definition some :: "lsym re \<Rightarrow> lsym re" where
  "some r = Cat r (Rep r)"

fun in_order :: "lsym re list \<Rightarrow> lsym re" where
  "in_order [] = One"
| "in_order [r] = r"
| "in_order (r # s # rs) = Cat r (in_order (s # rs))"

fun position :: "int \<Rightarrow> string \<Rightarrow> string list \<Rightarrow> int" where
  "position k n [] = k"
| "position k n (m # ms) = (if m = n then k else position (k + 1) n ms)"

definition fragment :: "string \<Rightarrow> lsym re" where
  "fragment n = Sym (Part (position 0 n celLexer_ruleNames))"

lemma fragments:
  "fragment ''BACKSLASH'' = Sym (Part 28)"
  "fragment ''LETTER'' = Sym (Part 29)"
  "fragment ''DIGIT'' = Sym (Part 30)"
  "fragment ''EXPONENT'' = Sym (Part 31)"
  "fragment ''HEXDIGIT'' = Sym (Part 32)"
  "fragment ''RAW'' = Sym (Part 33)"
  "fragment ''ESC_SEQ'' = Sym (Part 34)"
  "fragment ''ESC_CHAR_SEQ'' = Sym (Part 35)"
  "fragment ''ESC_OCT_SEQ'' = Sym (Part 36)"
  "fragment ''ESC_BYTE_SEQ'' = Sym (Part 37)"
  "fragment ''ESC_UNI_SEQ'' = Sym (Part 38)"
  "fragment ''STRING'' = Sym (Part 44)"
  by code_simp+

section \<open>The rules\<close>

abbreviation (input) quote :: char where "quote \<equiv> CHR 0x27"
abbreviation (input) newline :: char where "newline \<equiv> CHR 0x0A"
abbreviation (input) return :: char where "return \<equiv> CHR 0x0D"
abbreviation (input) backslash :: char where "backslash \<equiv> CHR 0x5C"
abbreviation (input) double_quote :: char where "double_quote \<equiv> CHR 0x22"
abbreviation (input) backquote :: char where "backquote \<equiv> CHR 0x60"

abbreviation (input) a_letter :: "lsym re" where "a_letter \<equiv> fragment ''LETTER''"
abbreviation (input) a_digit :: "lsym re" where "a_digit \<equiv> fragment ''DIGIT''"
abbreviation (input) a_hexdigit :: "lsym re" where "a_hexdigit \<equiv> fragment ''HEXDIGIT''"

definition BACKSLASH_re :: "lsym re" where
  "BACKSLASH_re = one_char backslash"

definition LETTER_re :: "lsym re" where
  "LETTER_re = among ''AZaz''"

definition DIGIT_re :: "lsym re" where
  "DIGIT_re = among ''09''"

definition EXPONENT_re :: "lsym re" where
  "EXPONENT_re = in_order [among ''EEee'', optional (among ''++--''), some a_digit]"

definition HEXDIGIT_re :: "lsym re" where
  "HEXDIGIT_re = among ''09AFaf''"

definition RAW_re :: "lsym re" where
  "RAW_re = among ''RRrr''"

definition ESC_SEQ_re :: "lsym re" where
  "ESC_SEQ_re = any_of [fragment ''ESC_CHAR_SEQ'', fragment ''ESC_BYTE_SEQ'',
     fragment ''ESC_UNI_SEQ'', fragment ''ESC_OCT_SEQ'']"

definition ESC_CHAR_SEQ_re :: "lsym re" where
  "ESC_CHAR_SEQ_re = in_order [fragment ''BACKSLASH'',
     among ([double_quote, double_quote, quote, quote] @ ''??'' @ [backslash, backslash, backquote] @
       ''bffnnrrttvv'')]"

definition ESC_OCT_SEQ_re :: "lsym re" where
  "ESC_OCT_SEQ_re = in_order [fragment ''BACKSLASH'', among ''03'', among ''07'', among ''07'']"

definition ESC_BYTE_SEQ_re :: "lsym re" where
  "ESC_BYTE_SEQ_re = in_order [fragment ''BACKSLASH'', among ''XXxx'', a_hexdigit, a_hexdigit]"

definition ESC_UNI_SEQ_re :: "lsym re" where
  "ESC_UNI_SEQ_re = any_of [
     in_order [fragment ''BACKSLASH'', one_char (CHR ''u''),
       a_hexdigit, a_hexdigit, a_hexdigit, a_hexdigit],
     in_order [fragment ''BACKSLASH'', one_char (CHR ''U''),
       a_hexdigit, a_hexdigit, a_hexdigit, a_hexdigit, a_hexdigit, a_hexdigit, a_hexdigit, a_hexdigit]]"

definition WHITESPACE_re :: "lsym re" where
  "WHITESPACE_re = some (among ([CHR 0x09, newline, CHR 0x0C, return] @ ''  ''))"

definition COMMENT_re :: "lsym re" where
  "COMMENT_re = in_order [one_char (CHR ''/''), one_char (CHR ''/''), Rep (except [newline, newline])]"

definition NUM_FLOAT_re :: "lsym re" where
  "NUM_FLOAT_re = any_of [
     in_order [some a_digit, one_char (CHR ''.''), some a_digit, optional (fragment ''EXPONENT'')],
     in_order [some a_digit, fragment ''EXPONENT''],
     in_order [one_char (CHR ''.''), some a_digit, optional (fragment ''EXPONENT'')]]"

definition NUM_INT_re :: "lsym re" where
  "NUM_INT_re = any_of [some a_digit, in_order [one_char (CHR ''0''), one_char (CHR ''x''), some a_hexdigit]]"

definition NUM_UINT_re :: "lsym re" where
  "NUM_UINT_re = any_of [
     in_order [some a_digit, among ''UUuu''],
     in_order [one_char (CHR ''0''), one_char (CHR ''x''), some a_hexdigit, among ''UUuu'']]"

text \<open>Strings on one line and between three quotes, with escapes or raw.\<close>

definition short_string :: "char \<Rightarrow> lsym re" where
  "short_string q = in_order [one_char q,
     Rep (Or (fragment ''ESC_SEQ'') (except [newline, newline, return, return, q, q, backslash, backslash])),
     one_char q]"

definition long_string :: "char \<Rightarrow> lsym re" where
  "long_string q = in_order [one_char q, one_char q, one_char q,
     Rep (Or (fragment ''ESC_SEQ'') (except [backslash, backslash])),
     one_char q, one_char q, one_char q]"

definition short_raw_string :: "char \<Rightarrow> lsym re" where
  "short_raw_string q = in_order [fragment ''RAW'', one_char q,
     Rep (except [newline, newline, return, return, q, q]), one_char q]"

definition long_raw_string :: "char \<Rightarrow> lsym re" where
  "long_raw_string q = in_order [fragment ''RAW'', one_char q, one_char q, one_char q,
     Rep anything, one_char q, one_char q, one_char q]"

definition STRING_re :: "lsym re" where
  "STRING_re = any_of [
     short_string double_quote, short_string quote, long_string double_quote, long_string quote,
     short_raw_string double_quote, short_raw_string quote,
     long_raw_string double_quote, long_raw_string quote]"

definition BYTES_re :: "lsym re" where
  "BYTES_re = in_order [among ''BBbb'', fragment ''STRING'']"

definition IDENTIFIER_re :: "lsym re" where
  "IDENTIFIER_re = in_order [Or a_letter (one_char (CHR ''_'')),
     Rep (any_of [a_letter, a_digit, one_char (CHR ''_'')])]"

definition ESC_IDENTIFIER_re :: "lsym re" where
  "ESC_IDENTIFIER_re = in_order [one_char backquote,
     some (any_of [a_letter, a_digit, among ''  -/__'']), one_char backquote]"

text \<open>In the order of the lexer, which prefers the first of the rules that read the most.\<close>

definition lexical_rules :: "(string \<times> lsym re) list" where
  "lexical_rules = [
     (''EQUALS'', spelled ''==''), (''NOT_EQUALS'', spelled ''!=''), (''IN'', spelled ''in''),
     (''LESS'', spelled ''<''), (''LESS_EQUALS'', spelled ''<=''),
     (''GREATER_EQUALS'', spelled ''>=''), (''GREATER'', spelled ''>''),
     (''LOGICAL_AND'', spelled ''&&''), (''LOGICAL_OR'', spelled ''||''),
     (''LBRACKET'', spelled ''[''), (''RPRACKET'', spelled '']''), (''LBRACE'', spelled ''{''),
     (''RBRACE'', spelled ''}''), (''LPAREN'', spelled ''(''), (''RPAREN'', spelled '')''),
     (''DOT'', spelled ''.''), (''COMMA'', spelled '',''), (''MINUS'', spelled ''-''),
     (''EXCLAM'', spelled ''!''), (''QUESTIONMARK'', spelled ''?''), (''COLON'', spelled '':''),
     (''PLUS'', spelled ''+''), (''STAR'', spelled ''*''), (''SLASH'', spelled ''/''),
     (''PERCENT'', spelled ''%''), (''CEL_TRUE'', spelled ''true''),
     (''CEL_FALSE'', spelled ''false''), (''NUL'', spelled ''null''),
     (''BACKSLASH'', BACKSLASH_re), (''LETTER'', LETTER_re), (''DIGIT'', DIGIT_re),
     (''EXPONENT'', EXPONENT_re), (''HEXDIGIT'', HEXDIGIT_re), (''RAW'', RAW_re),
     (''ESC_SEQ'', ESC_SEQ_re), (''ESC_CHAR_SEQ'', ESC_CHAR_SEQ_re),
     (''ESC_OCT_SEQ'', ESC_OCT_SEQ_re), (''ESC_BYTE_SEQ'', ESC_BYTE_SEQ_re),
     (''ESC_UNI_SEQ'', ESC_UNI_SEQ_re), (''WHITESPACE'', WHITESPACE_re),
     (''COMMENT'', COMMENT_re), (''NUM_FLOAT'', NUM_FLOAT_re), (''NUM_INT'', NUM_INT_re),
     (''NUM_UINT'', NUM_UINT_re), (''STRING'', STRING_re), (''BYTES'', BYTES_re),
     (''IDENTIFIER'', IDENTIFIER_re), (''ESC_IDENTIFIER'', ESC_IDENTIFIER_re)]"

definition lexer_re :: "nat \<Rightarrow> lsym re" where
  "lexer_re i = snd (lexical_rules ! i)"

lemma lexical_names: "map fst lexical_rules = celLexer_ruleNames"
  by (simp add: lexical_rules_def celLexer_ruleNames_def)

section \<open>The edges of each rule\<close>

definition EQUALS_out :: "int \<Rightarrow> (lsym option \<times> int) list" where
  "EQUALS_out p = (
     if p = 1 then [(None, 97)]
     else if p = 97 then [(Some (Text (Among [(61, 61)])), 98)]
     else if p = 98 then [(Some (Text (Among [(61, 61)])), 99)]
     else if p = 99 then [(None, 2)]
     else [])"

definition EQUALS_states :: "int list" where
  "EQUALS_states = [
     1, 97, 98, 99]"

definition NOT_EQUALS_out :: "int \<Rightarrow> (lsym option \<times> int) list" where
  "NOT_EQUALS_out p = (
     if p = 3 then [(None, 100)]
     else if p = 100 then [(Some (Text (Among [(33, 33)])), 101)]
     else if p = 101 then [(Some (Text (Among [(61, 61)])), 102)]
     else if p = 102 then [(None, 4)]
     else [])"

definition NOT_EQUALS_states :: "int list" where
  "NOT_EQUALS_states = [
     3, 100, 101, 102]"

definition IN_out :: "int \<Rightarrow> (lsym option \<times> int) list" where
  "IN_out p = (
     if p = 5 then [(None, 103)]
     else if p = 103 then [(Some (Text (Among [(105, 105)])), 104)]
     else if p = 104 then [(Some (Text (Among [(110, 110)])), 105)]
     else if p = 105 then [(None, 6)]
     else [])"

definition IN_states :: "int list" where
  "IN_states = [
     5, 103, 104, 105]"

definition LESS_out :: "int \<Rightarrow> (lsym option \<times> int) list" where
  "LESS_out p = (
     if p = 7 then [(None, 106)]
     else if p = 106 then [(Some (Text (Among [(60, 60)])), 107)]
     else if p = 107 then [(None, 8)]
     else [])"

definition LESS_states :: "int list" where
  "LESS_states = [
     7, 106, 107]"

definition LESS_EQUALS_out :: "int \<Rightarrow> (lsym option \<times> int) list" where
  "LESS_EQUALS_out p = (
     if p = 9 then [(None, 108)]
     else if p = 108 then [(Some (Text (Among [(60, 60)])), 109)]
     else if p = 109 then [(Some (Text (Among [(61, 61)])), 110)]
     else if p = 110 then [(None, 10)]
     else [])"

definition LESS_EQUALS_states :: "int list" where
  "LESS_EQUALS_states = [
     9, 108, 109, 110]"

definition GREATER_EQUALS_out :: "int \<Rightarrow> (lsym option \<times> int) list" where
  "GREATER_EQUALS_out p = (
     if p = 11 then [(None, 111)]
     else if p = 111 then [(Some (Text (Among [(62, 62)])), 112)]
     else if p = 112 then [(Some (Text (Among [(61, 61)])), 113)]
     else if p = 113 then [(None, 12)]
     else [])"

definition GREATER_EQUALS_states :: "int list" where
  "GREATER_EQUALS_states = [
     11, 111, 112, 113]"

definition GREATER_out :: "int \<Rightarrow> (lsym option \<times> int) list" where
  "GREATER_out p = (
     if p = 13 then [(None, 114)]
     else if p = 114 then [(Some (Text (Among [(62, 62)])), 115)]
     else if p = 115 then [(None, 14)]
     else [])"

definition GREATER_states :: "int list" where
  "GREATER_states = [
     13, 114, 115]"

definition LOGICAL_AND_out :: "int \<Rightarrow> (lsym option \<times> int) list" where
  "LOGICAL_AND_out p = (
     if p = 15 then [(None, 116)]
     else if p = 116 then [(Some (Text (Among [(38, 38)])), 117)]
     else if p = 117 then [(Some (Text (Among [(38, 38)])), 118)]
     else if p = 118 then [(None, 16)]
     else [])"

definition LOGICAL_AND_states :: "int list" where
  "LOGICAL_AND_states = [
     15, 116, 117, 118]"

definition LOGICAL_OR_out :: "int \<Rightarrow> (lsym option \<times> int) list" where
  "LOGICAL_OR_out p = (
     if p = 17 then [(None, 119)]
     else if p = 119 then [(Some (Text (Among [(124, 124)])), 120)]
     else if p = 120 then [(Some (Text (Among [(124, 124)])), 121)]
     else if p = 121 then [(None, 18)]
     else [])"

definition LOGICAL_OR_states :: "int list" where
  "LOGICAL_OR_states = [
     17, 119, 120, 121]"

definition LBRACKET_out :: "int \<Rightarrow> (lsym option \<times> int) list" where
  "LBRACKET_out p = (
     if p = 19 then [(None, 122)]
     else if p = 122 then [(Some (Text (Among [(91, 91)])), 123)]
     else if p = 123 then [(None, 20)]
     else [])"

definition LBRACKET_states :: "int list" where
  "LBRACKET_states = [
     19, 122, 123]"

definition RPRACKET_out :: "int \<Rightarrow> (lsym option \<times> int) list" where
  "RPRACKET_out p = (
     if p = 21 then [(None, 124)]
     else if p = 124 then [(Some (Text (Among [(93, 93)])), 125)]
     else if p = 125 then [(None, 22)]
     else [])"

definition RPRACKET_states :: "int list" where
  "RPRACKET_states = [
     21, 124, 125]"

definition LBRACE_out :: "int \<Rightarrow> (lsym option \<times> int) list" where
  "LBRACE_out p = (
     if p = 23 then [(None, 126)]
     else if p = 126 then [(Some (Text (Among [(123, 123)])), 127)]
     else if p = 127 then [(None, 24)]
     else [])"

definition LBRACE_states :: "int list" where
  "LBRACE_states = [
     23, 126, 127]"

definition RBRACE_out :: "int \<Rightarrow> (lsym option \<times> int) list" where
  "RBRACE_out p = (
     if p = 25 then [(None, 128)]
     else if p = 128 then [(Some (Text (Among [(125, 125)])), 129)]
     else if p = 129 then [(None, 26)]
     else [])"

definition RBRACE_states :: "int list" where
  "RBRACE_states = [
     25, 128, 129]"

definition LPAREN_out :: "int \<Rightarrow> (lsym option \<times> int) list" where
  "LPAREN_out p = (
     if p = 27 then [(None, 130)]
     else if p = 130 then [(Some (Text (Among [(40, 40)])), 131)]
     else if p = 131 then [(None, 28)]
     else [])"

definition LPAREN_states :: "int list" where
  "LPAREN_states = [
     27, 130, 131]"

definition RPAREN_out :: "int \<Rightarrow> (lsym option \<times> int) list" where
  "RPAREN_out p = (
     if p = 29 then [(None, 132)]
     else if p = 132 then [(Some (Text (Among [(41, 41)])), 133)]
     else if p = 133 then [(None, 30)]
     else [])"

definition RPAREN_states :: "int list" where
  "RPAREN_states = [
     29, 132, 133]"

definition DOT_out :: "int \<Rightarrow> (lsym option \<times> int) list" where
  "DOT_out p = (
     if p = 31 then [(None, 134)]
     else if p = 134 then [(Some (Text (Among [(46, 46)])), 135)]
     else if p = 135 then [(None, 32)]
     else [])"

definition DOT_states :: "int list" where
  "DOT_states = [
     31, 134, 135]"

definition COMMA_out :: "int \<Rightarrow> (lsym option \<times> int) list" where
  "COMMA_out p = (
     if p = 33 then [(None, 136)]
     else if p = 136 then [(Some (Text (Among [(44, 44)])), 137)]
     else if p = 137 then [(None, 34)]
     else [])"

definition COMMA_states :: "int list" where
  "COMMA_states = [
     33, 136, 137]"

definition MINUS_out :: "int \<Rightarrow> (lsym option \<times> int) list" where
  "MINUS_out p = (
     if p = 35 then [(None, 138)]
     else if p = 138 then [(Some (Text (Among [(45, 45)])), 139)]
     else if p = 139 then [(None, 36)]
     else [])"

definition MINUS_states :: "int list" where
  "MINUS_states = [
     35, 138, 139]"

definition EXCLAM_out :: "int \<Rightarrow> (lsym option \<times> int) list" where
  "EXCLAM_out p = (
     if p = 37 then [(None, 140)]
     else if p = 140 then [(Some (Text (Among [(33, 33)])), 141)]
     else if p = 141 then [(None, 38)]
     else [])"

definition EXCLAM_states :: "int list" where
  "EXCLAM_states = [
     37, 140, 141]"

definition QUESTIONMARK_out :: "int \<Rightarrow> (lsym option \<times> int) list" where
  "QUESTIONMARK_out p = (
     if p = 39 then [(None, 142)]
     else if p = 142 then [(Some (Text (Among [(63, 63)])), 143)]
     else if p = 143 then [(None, 40)]
     else [])"

definition QUESTIONMARK_states :: "int list" where
  "QUESTIONMARK_states = [
     39, 142, 143]"

definition COLON_out :: "int \<Rightarrow> (lsym option \<times> int) list" where
  "COLON_out p = (
     if p = 41 then [(None, 144)]
     else if p = 144 then [(Some (Text (Among [(58, 58)])), 145)]
     else if p = 145 then [(None, 42)]
     else [])"

definition COLON_states :: "int list" where
  "COLON_states = [
     41, 144, 145]"

definition PLUS_out :: "int \<Rightarrow> (lsym option \<times> int) list" where
  "PLUS_out p = (
     if p = 43 then [(None, 146)]
     else if p = 146 then [(Some (Text (Among [(43, 43)])), 147)]
     else if p = 147 then [(None, 44)]
     else [])"

definition PLUS_states :: "int list" where
  "PLUS_states = [
     43, 146, 147]"

definition STAR_out :: "int \<Rightarrow> (lsym option \<times> int) list" where
  "STAR_out p = (
     if p = 45 then [(None, 148)]
     else if p = 148 then [(Some (Text (Among [(42, 42)])), 149)]
     else if p = 149 then [(None, 46)]
     else [])"

definition STAR_states :: "int list" where
  "STAR_states = [
     45, 148, 149]"

definition SLASH_out :: "int \<Rightarrow> (lsym option \<times> int) list" where
  "SLASH_out p = (
     if p = 47 then [(None, 150)]
     else if p = 150 then [(Some (Text (Among [(47, 47)])), 151)]
     else if p = 151 then [(None, 48)]
     else [])"

definition SLASH_states :: "int list" where
  "SLASH_states = [
     47, 150, 151]"

definition PERCENT_out :: "int \<Rightarrow> (lsym option \<times> int) list" where
  "PERCENT_out p = (
     if p = 49 then [(None, 152)]
     else if p = 152 then [(Some (Text (Among [(37, 37)])), 153)]
     else if p = 153 then [(None, 50)]
     else [])"

definition PERCENT_states :: "int list" where
  "PERCENT_states = [
     49, 152, 153]"

definition CEL_TRUE_out :: "int \<Rightarrow> (lsym option \<times> int) list" where
  "CEL_TRUE_out p = (
     if p = 51 then [(None, 154)]
     else if p = 154 then [(Some (Text (Among [(116, 116)])), 155)]
     else if p = 155 then [(Some (Text (Among [(114, 114)])), 156)]
     else if p = 156 then [(Some (Text (Among [(117, 117)])), 157)]
     else if p = 157 then [(Some (Text (Among [(101, 101)])), 158)]
     else if p = 158 then [(None, 52)]
     else [])"

definition CEL_TRUE_states :: "int list" where
  "CEL_TRUE_states = [
     51, 154, 155, 156, 157, 158]"

definition CEL_FALSE_out :: "int \<Rightarrow> (lsym option \<times> int) list" where
  "CEL_FALSE_out p = (
     if p = 53 then [(None, 159)]
     else if p = 159 then [(Some (Text (Among [(102, 102)])), 160)]
     else if p = 160 then [(Some (Text (Among [(97, 97)])), 161)]
     else if p = 161 then [(Some (Text (Among [(108, 108)])), 162)]
     else if p = 162 then [(Some (Text (Among [(115, 115)])), 163)]
     else if p = 163 then [(Some (Text (Among [(101, 101)])), 164)]
     else if p = 164 then [(None, 54)]
     else [])"

definition CEL_FALSE_states :: "int list" where
  "CEL_FALSE_states = [
     53, 159, 160, 161, 162, 163, 164]"

definition NUL_out :: "int \<Rightarrow> (lsym option \<times> int) list" where
  "NUL_out p = (
     if p = 55 then [(None, 165)]
     else if p = 165 then [(Some (Text (Among [(110, 110)])), 166)]
     else if p = 166 then [(Some (Text (Among [(117, 117)])), 167)]
     else if p = 167 then [(Some (Text (Among [(108, 108)])), 168)]
     else if p = 168 then [(Some (Text (Among [(108, 108)])), 169)]
     else if p = 169 then [(None, 56)]
     else [])"

definition NUL_states :: "int list" where
  "NUL_states = [
     55, 165, 166, 167, 168, 169]"

definition BACKSLASH_out :: "int \<Rightarrow> (lsym option \<times> int) list" where
  "BACKSLASH_out p = (
     if p = 57 then [(None, 170)]
     else if p = 170 then [(Some (Text (Among [(92, 92)])), 171)]
     else if p = 171 then [(None, 58)]
     else [])"

definition BACKSLASH_states :: "int list" where
  "BACKSLASH_states = [
     57, 170, 171]"

definition LETTER_out :: "int \<Rightarrow> (lsym option \<times> int) list" where
  "LETTER_out p = (
     if p = 59 then [(None, 172)]
     else if p = 172 then [(Some (Text (Among [(65, 90), (97, 122)])), 173)]
     else if p = 173 then [(None, 60)]
     else [])"

definition LETTER_states :: "int list" where
  "LETTER_states = [
     59, 172, 173]"

definition DIGIT_out :: "int \<Rightarrow> (lsym option \<times> int) list" where
  "DIGIT_out p = (
     if p = 61 then [(None, 174)]
     else if p = 174 then [(Some (Text (Among [(48, 57)])), 175)]
     else if p = 175 then [(None, 62)]
     else [])"

definition DIGIT_states :: "int list" where
  "DIGIT_states = [
     61, 174, 175]"

definition EXPONENT_out :: "int \<Rightarrow> (lsym option \<times> int) list" where
  "EXPONENT_out p = (
     if p = 63 then [(None, 176)]
     else if p = 176 then [(Some (Text (Among [(69, 69), (101, 101)])), 178)]
     else if p = 177 then [(Some (Text (Among [(43, 43), (45, 45)])), 179)]
     else if p = 178 then [(None, 177), (None, 179)]
     else if p = 179 then [(None, 181)]
     else if p = 180 then [(Some (Part 30), 182)]
     else if p = 181 then [(None, 180)]
     else if p = 182 then [(None, 183)]
     else if p = 183 then [(None, 181), (None, 184)]
     else if p = 184 then [(None, 64)]
     else [])"

definition EXPONENT_states :: "int list" where
  "EXPONENT_states = [
     63, 176, 177, 178, 179, 180, 181, 182, 183, 184]"

definition HEXDIGIT_out :: "int \<Rightarrow> (lsym option \<times> int) list" where
  "HEXDIGIT_out p = (
     if p = 65 then [(None, 185)]
     else if p = 185 then [(Some (Text (Among [(48, 57), (65, 70), (97, 102)])), 186)]
     else if p = 186 then [(None, 66)]
     else [])"

definition HEXDIGIT_states :: "int list" where
  "HEXDIGIT_states = [
     65, 185, 186]"

definition RAW_out :: "int \<Rightarrow> (lsym option \<times> int) list" where
  "RAW_out p = (
     if p = 67 then [(None, 187)]
     else if p = 187 then [(Some (Text (Among [(82, 82), (114, 114)])), 188)]
     else if p = 188 then [(None, 68)]
     else [])"

definition RAW_states :: "int list" where
  "RAW_states = [
     67, 187, 188]"

definition ESC_SEQ_out :: "int \<Rightarrow> (lsym option \<times> int) list" where
  "ESC_SEQ_out p = (
     if p = 69 then [(None, 193)]
     else if p = 189 then [(Some (Part 35), 194)]
     else if p = 190 then [(Some (Part 37), 194)]
     else if p = 191 then [(Some (Part 38), 194)]
     else if p = 192 then [(Some (Part 36), 194)]
     else if p = 193 then [(None, 189), (None, 190), (None, 191), (None, 192)]
     else if p = 194 then [(None, 70)]
     else [])"

definition ESC_SEQ_states :: "int list" where
  "ESC_SEQ_states = [
     69, 189, 190, 191, 192, 193, 194]"

definition ESC_CHAR_SEQ_out :: "int \<Rightarrow> (lsym option \<times> int) list" where
  "ESC_CHAR_SEQ_out p = (
     if p = 71 then [(None, 195)]
     else if p = 195 then [(Some (Part 28), 196)]
     else if p = 196 then [(Some (Text (Among [(34, 34), (39, 39), (63, 63), (92, 92), (96, 98),
         (102, 102), (110, 110), (114, 114), (116, 116), (118, 118)])), 197)]
     else if p = 197 then [(None, 72)]
     else [])"

definition ESC_CHAR_SEQ_states :: "int list" where
  "ESC_CHAR_SEQ_states = [
     71, 195, 196, 197]"

definition ESC_OCT_SEQ_out :: "int \<Rightarrow> (lsym option \<times> int) list" where
  "ESC_OCT_SEQ_out p = (
     if p = 73 then [(None, 198)]
     else if p = 198 then [(Some (Part 28), 199)]
     else if p = 199 then [(Some (Text (Among [(48, 51)])), 200)]
     else if p = 200 then [(Some (Text (Among [(48, 55)])), 201)]
     else if p = 201 then [(Some (Text (Among [(48, 55)])), 202)]
     else if p = 202 then [(None, 74)]
     else [])"

definition ESC_OCT_SEQ_states :: "int list" where
  "ESC_OCT_SEQ_states = [
     73, 198, 199, 200, 201, 202]"

definition ESC_BYTE_SEQ_out :: "int \<Rightarrow> (lsym option \<times> int) list" where
  "ESC_BYTE_SEQ_out p = (
     if p = 75 then [(None, 203)]
     else if p = 203 then [(Some (Part 28), 204)]
     else if p = 204 then [(Some (Text (Among [(88, 88), (120, 120)])), 205)]
     else if p = 205 then [(Some (Part 32), 206)]
     else if p = 206 then [(Some (Part 32), 207)]
     else if p = 207 then [(None, 76)]
     else [])"

definition ESC_BYTE_SEQ_states :: "int list" where
  "ESC_BYTE_SEQ_states = [
     75, 203, 204, 205, 206, 207]"

definition ESC_UNI_SEQ_out :: "int \<Rightarrow> (lsym option \<times> int) list" where
  "ESC_UNI_SEQ_out p = (
     if p = 77 then [(None, 226)]
     else if p = 208 then [(Some (Part 28), 209)]
     else if p = 209 then [(Some (Text (Among [(117, 117)])), 210)]
     else if p = 210 then [(Some (Part 32), 211)]
     else if p = 211 then [(Some (Part 32), 212)]
     else if p = 212 then [(Some (Part 32), 213)]
     else if p = 213 then [(Some (Part 32), 214)]
     else if p = 214 then [(None, 227)]
     else if p = 215 then [(Some (Part 28), 216)]
     else if p = 216 then [(Some (Text (Among [(85, 85)])), 217)]
     else if p = 217 then [(Some (Part 32), 218)]
     else if p = 218 then [(Some (Part 32), 219)]
     else if p = 219 then [(Some (Part 32), 220)]
     else if p = 220 then [(Some (Part 32), 221)]
     else if p = 221 then [(Some (Part 32), 222)]
     else if p = 222 then [(Some (Part 32), 223)]
     else if p = 223 then [(Some (Part 32), 224)]
     else if p = 224 then [(Some (Part 32), 225)]
     else if p = 225 then [(None, 227)]
     else if p = 226 then [(None, 208), (None, 215)]
     else if p = 227 then [(None, 78)]
     else [])"

definition ESC_UNI_SEQ_states :: "int list" where
  "ESC_UNI_SEQ_states = [
     77, 208, 209, 210, 211, 212, 213, 214, 215, 216, 217, 218, 219, 220, 221, 222, 223, 224, 225,
     226, 227]"

definition WHITESPACE_out :: "int \<Rightarrow> (lsym option \<times> int) list" where
  "WHITESPACE_out p = (
     if p = 79 then [(None, 229)]
     else if p = 228 then [(Some (Text (Among [(9, 10), (12, 13), (32, 32)])), 230)]
     else if p = 229 then [(None, 228)]
     else if p = 230 then [(None, 231)]
     else if p = 231 then [(None, 229), (None, 232)]
     else if p = 232 then [(None, 233)]
     else if p = 233 then [(None, 234)]
     else if p = 234 then [(None, 80)]
     else [])"

definition WHITESPACE_states :: "int list" where
  "WHITESPACE_states = [
     79, 228, 229, 230, 231, 232, 233, 234]"

definition COMMENT_out :: "int \<Rightarrow> (lsym option \<times> int) list" where
  "COMMENT_out p = (
     if p = 81 then [(None, 235)]
     else if p = 235 then [(Some (Text (Among [(47, 47)])), 236)]
     else if p = 236 then [(Some (Text (Among [(47, 47)])), 237)]
     else if p = 237 then [(None, 241)]
     else if p = 238 then [(Some (Text (Except [(10, 10)])), 240)]
     else if p = 239 then [(None, 238)]
     else if p = 240 then [(None, 243)]
     else if p = 241 then [(None, 239), (None, 242)]
     else if p = 242 then [(None, 244)]
     else if p = 243 then [(None, 241)]
     else if p = 244 then [(None, 245)]
     else if p = 245 then [(None, 82)]
     else [])"

definition COMMENT_states :: "int list" where
  "COMMENT_states = [
     81, 235, 236, 237, 238, 239, 240, 241, 242, 243, 244, 245]"

definition NUM_FLOAT_out :: "int \<Rightarrow> (lsym option \<times> int) list" where
  "NUM_FLOAT_out p = (
     if p = 83 then [(None, 276)]
     else if p = 246 then [(Some (Part 30), 248)]
     else if p = 247 then [(None, 246)]
     else if p = 248 then [(None, 249)]
     else if p = 249 then [(None, 247), (None, 250)]
     else if p = 250 then [(None, 251)]
     else if p = 251 then [(Some (Text (Among [(46, 46)])), 253)]
     else if p = 252 then [(Some (Part 30), 254)]
     else if p = 253 then [(None, 252)]
     else if p = 254 then [(None, 255)]
     else if p = 255 then [(None, 253), (None, 256)]
     else if p = 256 then [(None, 258)]
     else if p = 257 then [(Some (Part 31), 259)]
     else if p = 258 then [(None, 257), (None, 259)]
     else if p = 259 then [(None, 277)]
     else if p = 260 then [(Some (Part 30), 262)]
     else if p = 261 then [(None, 260)]
     else if p = 262 then [(None, 263)]
     else if p = 263 then [(None, 261), (None, 264)]
     else if p = 264 then [(None, 265)]
     else if p = 265 then [(Some (Part 31), 266)]
     else if p = 266 then [(None, 277)]
     else if p = 267 then [(Some (Text (Among [(46, 46)])), 269)]
     else if p = 268 then [(Some (Part 30), 270)]
     else if p = 269 then [(None, 268)]
     else if p = 270 then [(None, 271)]
     else if p = 271 then [(None, 269), (None, 272)]
     else if p = 272 then [(None, 274)]
     else if p = 273 then [(Some (Part 31), 275)]
     else if p = 274 then [(None, 273), (None, 275)]
     else if p = 275 then [(None, 277)]
     else if p = 276 then [(None, 247), (None, 261), (None, 267)]
     else if p = 277 then [(None, 84)]
     else [])"

definition NUM_FLOAT_states :: "int list" where
  "NUM_FLOAT_states = [
     83, 246, 247, 248, 249, 250, 251, 252, 253, 254, 255, 256, 257, 258, 259, 260, 261, 262, 263,
     264, 265, 266, 267, 268, 269, 270, 271, 272, 273, 274, 275, 276, 277]"

definition NUM_INT_out :: "int \<Rightarrow> (lsym option \<times> int) list" where
  "NUM_INT_out p = (
     if p = 85 then [(None, 291)]
     else if p = 278 then [(Some (Part 30), 280)]
     else if p = 279 then [(None, 278)]
     else if p = 280 then [(None, 281)]
     else if p = 281 then [(None, 279), (None, 282)]
     else if p = 282 then [(None, 292)]
     else if p = 283 then [(Some (Text (Among [(48, 48)])), 284)]
     else if p = 284 then [(Some (Text (Among [(120, 120)])), 285)]
     else if p = 285 then [(None, 287)]
     else if p = 286 then [(Some (Part 32), 288)]
     else if p = 287 then [(None, 286)]
     else if p = 288 then [(None, 289)]
     else if p = 289 then [(None, 287), (None, 290)]
     else if p = 290 then [(None, 292)]
     else if p = 291 then [(None, 279), (None, 283)]
     else if p = 292 then [(None, 86)]
     else [])"

definition NUM_INT_states :: "int list" where
  "NUM_INT_states = [
     85, 278, 279, 280, 281, 282, 283, 284, 285, 286, 287, 288, 289, 290, 291, 292]"

definition NUM_UINT_out :: "int \<Rightarrow> (lsym option \<times> int) list" where
  "NUM_UINT_out p = (
     if p = 87 then [(None, 310)]
     else if p = 293 then [(Some (Part 30), 295)]
     else if p = 294 then [(None, 293)]
     else if p = 295 then [(None, 296)]
     else if p = 296 then [(None, 294), (None, 297)]
     else if p = 297 then [(None, 298)]
     else if p = 298 then [(Some (Text (Among [(85, 85), (117, 117)])), 299)]
     else if p = 299 then [(None, 311)]
     else if p = 300 then [(Some (Text (Among [(48, 48)])), 301)]
     else if p = 301 then [(Some (Text (Among [(120, 120)])), 302)]
     else if p = 302 then [(None, 304)]
     else if p = 303 then [(Some (Part 32), 305)]
     else if p = 304 then [(None, 303)]
     else if p = 305 then [(None, 306)]
     else if p = 306 then [(None, 304), (None, 307)]
     else if p = 307 then [(None, 308)]
     else if p = 308 then [(Some (Text (Among [(85, 85), (117, 117)])), 309)]
     else if p = 309 then [(None, 311)]
     else if p = 310 then [(None, 294), (None, 300)]
     else if p = 311 then [(None, 88)]
     else [])"

definition NUM_UINT_states :: "int list" where
  "NUM_UINT_states = [
     87, 293, 294, 295, 296, 297, 298, 299, 300, 301, 302, 303, 304, 305, 306, 307, 308, 309, 310,
     311]"

definition STRING_0_out :: "int \<Rightarrow> (lsym option \<times> int) list" where
  "STRING_0_out p = (
     if p = 312 then [(Some (Text (Among [(34, 34)])), 317)]
     else if p = 313 then [(Some (Part 34), 316)]
     else if p = 314 then [(Some (Text (Except [(10, 10), (13, 13), (34, 34), (92, 92)])), 316)]
     else if p = 315 then [(None, 313), (None, 314)]
     else if p = 316 then [(None, 319)]
     else if p = 317 then [(None, 315), (None, 318)]
     else if p = 318 then [(None, 320)]
     else if p = 319 then [(None, 317)]
     else if p = 320 then [(Some (Text (Among [(34, 34)])), 409)]
     else [])"

definition STRING_0_states :: "int list" where
  "STRING_0_states = [
     312, 313, 314, 315, 316, 317, 318, 319, 320]"

definition STRING_1_out :: "int \<Rightarrow> (lsym option \<times> int) list" where
  "STRING_1_out p = (
     if p = 321 then [(Some (Text (Among [(39, 39)])), 326)]
     else if p = 322 then [(Some (Part 34), 325)]
     else if p = 323 then [(Some (Text (Except [(10, 10), (13, 13), (39, 39), (92, 92)])), 325)]
     else if p = 324 then [(None, 322), (None, 323)]
     else if p = 325 then [(None, 328)]
     else if p = 326 then [(None, 324), (None, 327)]
     else if p = 327 then [(None, 329)]
     else if p = 328 then [(None, 326)]
     else if p = 329 then [(Some (Text (Among [(39, 39)])), 409)]
     else [])"

definition STRING_1_states :: "int list" where
  "STRING_1_states = [
     321, 322, 323, 324, 325, 326, 327, 328, 329]"

definition STRING_2_out :: "int \<Rightarrow> (lsym option \<times> int) list" where
  "STRING_2_out p = (
     if p = 330 then [(Some (Text (Among [(34, 34)])), 331)]
     else if p = 331 then [(Some (Text (Among [(34, 34)])), 332)]
     else if p = 332 then [(Some (Text (Among [(34, 34)])), 333)]
     else if p = 333 then [(None, 338)]
     else if p = 334 then [(Some (Part 34), 337)]
     else if p = 335 then [(Some (Text (Except [(92, 92)])), 337)]
     else if p = 336 then [(None, 334), (None, 335)]
     else if p = 337 then [(None, 340)]
     else if p = 338 then [(None, 339), (None, 336)]
     else if p = 339 then [(None, 341)]
     else if p = 340 then [(None, 338)]
     else if p = 341 then [(Some (Text (Among [(34, 34)])), 342)]
     else if p = 342 then [(Some (Text (Among [(34, 34)])), 343)]
     else if p = 343 then [(Some (Text (Among [(34, 34)])), 409)]
     else [])"

definition STRING_2_states :: "int list" where
  "STRING_2_states = [
     330, 331, 332, 333, 334, 335, 336, 337, 338, 339, 340, 341, 342, 343]"

definition STRING_3_out :: "int \<Rightarrow> (lsym option \<times> int) list" where
  "STRING_3_out p = (
     if p = 344 then [(Some (Text (Among [(39, 39)])), 345)]
     else if p = 345 then [(Some (Text (Among [(39, 39)])), 346)]
     else if p = 346 then [(Some (Text (Among [(39, 39)])), 347)]
     else if p = 347 then [(None, 352)]
     else if p = 348 then [(Some (Part 34), 351)]
     else if p = 349 then [(Some (Text (Except [(92, 92)])), 351)]
     else if p = 350 then [(None, 348), (None, 349)]
     else if p = 351 then [(None, 354)]
     else if p = 352 then [(None, 353), (None, 350)]
     else if p = 353 then [(None, 355)]
     else if p = 354 then [(None, 352)]
     else if p = 355 then [(Some (Text (Among [(39, 39)])), 356)]
     else if p = 356 then [(Some (Text (Among [(39, 39)])), 357)]
     else if p = 357 then [(Some (Text (Among [(39, 39)])), 409)]
     else [])"

definition STRING_3_states :: "int list" where
  "STRING_3_states = [
     344, 345, 346, 347, 348, 349, 350, 351, 352, 353, 354, 355, 356, 357]"

definition STRING_4_out :: "int \<Rightarrow> (lsym option \<times> int) list" where
  "STRING_4_out p = (
     if p = 358 then [(Some (Part 33), 359)]
     else if p = 359 then [(Some (Text (Among [(34, 34)])), 363)]
     else if p = 360 then [(Some (Text (Except [(10, 10), (13, 13), (34, 34)])), 362)]
     else if p = 361 then [(None, 360)]
     else if p = 362 then [(None, 365)]
     else if p = 363 then [(None, 361), (None, 364)]
     else if p = 364 then [(None, 366)]
     else if p = 365 then [(None, 363)]
     else if p = 366 then [(Some (Text (Among [(34, 34)])), 367)]
     else if p = 367 then [(None, 409)]
     else [])"

definition STRING_4_states :: "int list" where
  "STRING_4_states = [
     358, 359, 360, 361, 362, 363, 364, 365, 366, 367]"

definition STRING_5_out :: "int \<Rightarrow> (lsym option \<times> int) list" where
  "STRING_5_out p = (
     if p = 368 then [(Some (Part 33), 369)]
     else if p = 369 then [(Some (Text (Among [(39, 39)])), 373)]
     else if p = 370 then [(Some (Text (Except [(10, 10), (13, 13), (39, 39)])), 372)]
     else if p = 371 then [(None, 370)]
     else if p = 372 then [(None, 375)]
     else if p = 373 then [(None, 371), (None, 374)]
     else if p = 374 then [(None, 376)]
     else if p = 375 then [(None, 373)]
     else if p = 376 then [(Some (Text (Among [(39, 39)])), 377)]
     else if p = 377 then [(None, 409)]
     else [])"

definition STRING_5_states :: "int list" where
  "STRING_5_states = [
     368, 369, 370, 371, 372, 373, 374, 375, 376, 377]"

definition STRING_6_out :: "int \<Rightarrow> (lsym option \<times> int) list" where
  "STRING_6_out p = (
     if p = 378 then [(Some (Part 33), 379)]
     else if p = 379 then [(Some (Text (Among [(34, 34)])), 380)]
     else if p = 380 then [(Some (Text (Among [(34, 34)])), 381)]
     else if p = 381 then [(Some (Text (Among [(34, 34)])), 382)]
     else if p = 382 then [(None, 386)]
     else if p = 383 then [(Some (Text Any), 385)]
     else if p = 384 then [(None, 383)]
     else if p = 385 then [(None, 388)]
     else if p = 386 then [(None, 387), (None, 384)]
     else if p = 387 then [(None, 389)]
     else if p = 388 then [(None, 386)]
     else if p = 389 then [(Some (Text (Among [(34, 34)])), 390)]
     else if p = 390 then [(Some (Text (Among [(34, 34)])), 391)]
     else if p = 391 then [(Some (Text (Among [(34, 34)])), 392)]
     else if p = 392 then [(None, 409)]
     else [])"

definition STRING_6_states :: "int list" where
  "STRING_6_states = [
     378, 379, 380, 381, 382, 383, 384, 385, 386, 387, 388, 389, 390, 391, 392]"

definition STRING_7_out :: "int \<Rightarrow> (lsym option \<times> int) list" where
  "STRING_7_out p = (
     if p = 393 then [(Some (Part 33), 394)]
     else if p = 394 then [(Some (Text (Among [(39, 39)])), 395)]
     else if p = 395 then [(Some (Text (Among [(39, 39)])), 396)]
     else if p = 396 then [(Some (Text (Among [(39, 39)])), 397)]
     else if p = 397 then [(None, 401)]
     else if p = 398 then [(Some (Text Any), 400)]
     else if p = 399 then [(None, 398)]
     else if p = 400 then [(None, 403)]
     else if p = 401 then [(None, 402), (None, 399)]
     else if p = 402 then [(None, 404)]
     else if p = 403 then [(None, 401)]
     else if p = 404 then [(Some (Text (Among [(39, 39)])), 405)]
     else if p = 405 then [(Some (Text (Among [(39, 39)])), 406)]
     else if p = 406 then [(Some (Text (Among [(39, 39)])), 407)]
     else if p = 407 then [(None, 409)]
     else [])"

definition STRING_7_states :: "int list" where
  "STRING_7_states = [
     393, 394, 395, 396, 397, 398, 399, 400, 401, 402, 403, 404, 405, 406, 407]"

definition STRING_edges :: "lsym edge list" where
  "STRING_edges = (89, None, 408) #
     edges_of STRING_0_out STRING_0_states @
     edges_of STRING_1_out STRING_1_states @
     edges_of STRING_2_out STRING_2_states @
     edges_of STRING_3_out STRING_3_states @
     edges_of STRING_4_out STRING_4_states @
     edges_of STRING_5_out STRING_5_states @
     edges_of STRING_6_out STRING_6_states @
     edges_of STRING_7_out STRING_7_states @
     [(408, None, 312), (408, None, 321), (408, None, 330), (408, None, 344), (408, None, 358),
         (408, None, 368), (408, None, 378), (408, None, 393), (409, None, 90)]"

definition BYTES_out :: "int \<Rightarrow> (lsym option \<times> int) list" where
  "BYTES_out p = (
     if p = 91 then [(None, 410)]
     else if p = 410 then [(Some (Text (Among [(66, 66), (98, 98)])), 411)]
     else if p = 411 then [(Some (Part 44), 412)]
     else if p = 412 then [(None, 92)]
     else [])"

definition BYTES_states :: "int list" where
  "BYTES_states = [
     91, 410, 411, 412]"

definition IDENTIFIER_out :: "int \<Rightarrow> (lsym option \<times> int) list" where
  "IDENTIFIER_out p = (
     if p = 93 then [(None, 415)]
     else if p = 413 then [(Some (Part 29), 416)]
     else if p = 414 then [(Some (Text (Among [(95, 95)])), 416)]
     else if p = 415 then [(None, 413), (None, 414)]
     else if p = 416 then [(None, 422)]
     else if p = 417 then [(Some (Part 29), 421)]
     else if p = 418 then [(Some (Part 30), 421)]
     else if p = 419 then [(Some (Text (Among [(95, 95)])), 421)]
     else if p = 420 then [(None, 417), (None, 418), (None, 419)]
     else if p = 421 then [(None, 424)]
     else if p = 422 then [(None, 420), (None, 423)]
     else if p = 423 then [(None, 94)]
     else if p = 424 then [(None, 422)]
     else [])"

definition IDENTIFIER_states :: "int list" where
  "IDENTIFIER_states = [
     93, 413, 414, 415, 416, 417, 418, 419, 420, 421, 422, 423, 424]"

definition ESC_IDENTIFIER_out :: "int \<Rightarrow> (lsym option \<times> int) list" where
  "ESC_IDENTIFIER_out p = (
     if p = 95 then [(None, 425)]
     else if p = 425 then [(Some (Text (Among [(96, 96)])), 429)]
     else if p = 426 then [(Some (Part 29), 430)]
     else if p = 427 then [(Some (Part 30), 430)]
     else if p = 428 then [(Some (Text (Among [(32, 32), (45, 47), (95, 95)])), 430)]
     else if p = 429 then [(None, 426), (None, 427), (None, 428)]
     else if p = 430 then [(None, 431)]
     else if p = 431 then [(None, 429), (None, 432)]
     else if p = 432 then [(None, 433)]
     else if p = 433 then [(Some (Text (Among [(96, 96)])), 434)]
     else if p = 434 then [(None, 96)]
     else [])"

definition ESC_IDENTIFIER_states :: "int list" where
  "ESC_IDENTIFIER_states = [
     95, 425, 426, 427, 428, 429, 430, 431, 432, 433, 434]"

section \<open>Every rule is recognized\<close>

lemma EQUALS_rule: "path hit (edges_of EQUALS_out EQUALS_states) 1 w 2 \<longleftrightarrow> spelt hit (spelled ''=='') w"
proof (rule recognizes_paths)
  show "recognizes EQUALS_out EQUALS_states 60 12 [
     (1, 97, 0, 0), (97, 98, 0, 0), (98, 99, 0, 0), (99, 2, 0, 0)] 1 2 (spelled ''=='')"
    by code_simp
qed (simp add: EQUALS_out_def EQUALS_states_def split: if_splits)

lemma NOT_EQUALS_rule: "path hit (edges_of NOT_EQUALS_out NOT_EQUALS_states) 3 w 4 \<longleftrightarrow> spelt hit (spelled ''!='') w"
proof (rule recognizes_paths)
  show "recognizes NOT_EQUALS_out NOT_EQUALS_states 60 12 [
     (3, 100, 0, 0), (100, 101, 0, 0), (101, 102, 0, 0), (102, 4, 0, 0)] 3 4 (spelled ''!='')"
    by code_simp
qed (simp add: NOT_EQUALS_out_def NOT_EQUALS_states_def split: if_splits)

lemma IN_rule: "path hit (edges_of IN_out IN_states) 5 w 6 \<longleftrightarrow> spelt hit (spelled ''in'') w"
proof (rule recognizes_paths)
  show "recognizes IN_out IN_states 60 12 [
     (5, 103, 0, 0), (103, 104, 0, 0), (104, 105, 0, 0), (105, 6, 0, 0)] 5 6 (spelled ''in'')"
    by code_simp
qed (simp add: IN_out_def IN_states_def split: if_splits)

lemma LESS_rule: "path hit (edges_of LESS_out LESS_states) 7 w 8 \<longleftrightarrow> spelt hit (spelled ''<'') w"
proof (rule recognizes_paths)
  show "recognizes LESS_out LESS_states 60 12 [
     (7, 106, 0, 0), (106, 107, 0, 0), (107, 8, 0, 0)] 7 8 (spelled ''<'')"
    by code_simp
qed (simp add: LESS_out_def LESS_states_def split: if_splits)

lemma LESS_EQUALS_rule: "path hit (edges_of LESS_EQUALS_out LESS_EQUALS_states) 9 w 10 \<longleftrightarrow> spelt hit (spelled ''<='') w"
proof (rule recognizes_paths)
  show "recognizes LESS_EQUALS_out LESS_EQUALS_states 60 12 [
     (9, 108, 0, 0), (108, 109, 0, 0), (109, 110, 0, 0), (110, 10, 0, 0)] 9 10 (spelled ''<='')"
    by code_simp
qed (simp add: LESS_EQUALS_out_def LESS_EQUALS_states_def split: if_splits)

lemma GREATER_EQUALS_rule: "path hit (edges_of GREATER_EQUALS_out GREATER_EQUALS_states) 11 w 12 \<longleftrightarrow> spelt hit (spelled ''>='') w"
proof (rule recognizes_paths)
  show "recognizes GREATER_EQUALS_out GREATER_EQUALS_states 60 12 [
     (11, 111, 0, 0), (111, 112, 0, 0), (112, 113, 0, 0), (113, 12, 0, 0)] 11 12 (spelled ''>='')"
    by code_simp
qed (simp add: GREATER_EQUALS_out_def GREATER_EQUALS_states_def split: if_splits)

lemma GREATER_rule: "path hit (edges_of GREATER_out GREATER_states) 13 w 14 \<longleftrightarrow> spelt hit (spelled ''>'') w"
proof (rule recognizes_paths)
  show "recognizes GREATER_out GREATER_states 60 12 [
     (13, 114, 0, 0), (114, 115, 0, 0), (115, 14, 0, 0)] 13 14 (spelled ''>'')"
    by code_simp
qed (simp add: GREATER_out_def GREATER_states_def split: if_splits)

lemma LOGICAL_AND_rule: "path hit (edges_of LOGICAL_AND_out LOGICAL_AND_states) 15 w 16 \<longleftrightarrow> spelt hit (spelled ''&&'') w"
proof (rule recognizes_paths)
  show "recognizes LOGICAL_AND_out LOGICAL_AND_states 60 12 [
     (15, 116, 0, 0), (116, 117, 0, 0), (117, 118, 0, 0), (118, 16, 0, 0)] 15 16 (spelled ''&&'')"
    by code_simp
qed (simp add: LOGICAL_AND_out_def LOGICAL_AND_states_def split: if_splits)

lemma LOGICAL_OR_rule: "path hit (edges_of LOGICAL_OR_out LOGICAL_OR_states) 17 w 18 \<longleftrightarrow> spelt hit (spelled ''||'') w"
proof (rule recognizes_paths)
  show "recognizes LOGICAL_OR_out LOGICAL_OR_states 60 12 [
     (17, 119, 0, 0), (119, 120, 0, 0), (120, 121, 0, 0), (121, 18, 0, 0)] 17 18 (spelled ''||'')"
    by code_simp
qed (simp add: LOGICAL_OR_out_def LOGICAL_OR_states_def split: if_splits)

lemma LBRACKET_rule: "path hit (edges_of LBRACKET_out LBRACKET_states) 19 w 20 \<longleftrightarrow> spelt hit (spelled ''['') w"
proof (rule recognizes_paths)
  show "recognizes LBRACKET_out LBRACKET_states 60 12 [
     (19, 122, 0, 0), (122, 123, 0, 0), (123, 20, 0, 0)] 19 20 (spelled ''['')"
    by code_simp
qed (simp add: LBRACKET_out_def LBRACKET_states_def split: if_splits)

lemma RPRACKET_rule: "path hit (edges_of RPRACKET_out RPRACKET_states) 21 w 22 \<longleftrightarrow> spelt hit (spelled '']'') w"
proof (rule recognizes_paths)
  show "recognizes RPRACKET_out RPRACKET_states 60 12 [
     (21, 124, 0, 0), (124, 125, 0, 0), (125, 22, 0, 0)] 21 22 (spelled '']'')"
    by code_simp
qed (simp add: RPRACKET_out_def RPRACKET_states_def split: if_splits)

lemma LBRACE_rule: "path hit (edges_of LBRACE_out LBRACE_states) 23 w 24 \<longleftrightarrow> spelt hit (spelled ''{'') w"
proof (rule recognizes_paths)
  show "recognizes LBRACE_out LBRACE_states 60 12 [
     (23, 126, 0, 0), (126, 127, 0, 0), (127, 24, 0, 0)] 23 24 (spelled ''{'')"
    by code_simp
qed (simp add: LBRACE_out_def LBRACE_states_def split: if_splits)

lemma RBRACE_rule: "path hit (edges_of RBRACE_out RBRACE_states) 25 w 26 \<longleftrightarrow> spelt hit (spelled ''}'') w"
proof (rule recognizes_paths)
  show "recognizes RBRACE_out RBRACE_states 60 12 [
     (25, 128, 0, 0), (128, 129, 0, 0), (129, 26, 0, 0)] 25 26 (spelled ''}'')"
    by code_simp
qed (simp add: RBRACE_out_def RBRACE_states_def split: if_splits)

lemma LPAREN_rule: "path hit (edges_of LPAREN_out LPAREN_states) 27 w 28 \<longleftrightarrow> spelt hit (spelled ''('') w"
proof (rule recognizes_paths)
  show "recognizes LPAREN_out LPAREN_states 60 12 [
     (27, 130, 0, 0), (130, 131, 0, 0), (131, 28, 0, 0)] 27 28 (spelled ''('')"
    by code_simp
qed (simp add: LPAREN_out_def LPAREN_states_def split: if_splits)

lemma RPAREN_rule: "path hit (edges_of RPAREN_out RPAREN_states) 29 w 30 \<longleftrightarrow> spelt hit (spelled '')'') w"
proof (rule recognizes_paths)
  show "recognizes RPAREN_out RPAREN_states 60 12 [
     (29, 132, 0, 0), (132, 133, 0, 0), (133, 30, 0, 0)] 29 30 (spelled '')'')"
    by code_simp
qed (simp add: RPAREN_out_def RPAREN_states_def split: if_splits)

lemma DOT_rule: "path hit (edges_of DOT_out DOT_states) 31 w 32 \<longleftrightarrow> spelt hit (spelled ''.'') w"
proof (rule recognizes_paths)
  show "recognizes DOT_out DOT_states 60 12 [
     (31, 134, 0, 0), (134, 135, 0, 0), (135, 32, 0, 0)] 31 32 (spelled ''.'')"
    by code_simp
qed (simp add: DOT_out_def DOT_states_def split: if_splits)

lemma COMMA_rule: "path hit (edges_of COMMA_out COMMA_states) 33 w 34 \<longleftrightarrow> spelt hit (spelled '','') w"
proof (rule recognizes_paths)
  show "recognizes COMMA_out COMMA_states 60 12 [
     (33, 136, 0, 0), (136, 137, 0, 0), (137, 34, 0, 0)] 33 34 (spelled '','')"
    by code_simp
qed (simp add: COMMA_out_def COMMA_states_def split: if_splits)

lemma MINUS_rule: "path hit (edges_of MINUS_out MINUS_states) 35 w 36 \<longleftrightarrow> spelt hit (spelled ''-'') w"
proof (rule recognizes_paths)
  show "recognizes MINUS_out MINUS_states 60 12 [
     (35, 138, 0, 0), (138, 139, 0, 0), (139, 36, 0, 0)] 35 36 (spelled ''-'')"
    by code_simp
qed (simp add: MINUS_out_def MINUS_states_def split: if_splits)

lemma EXCLAM_rule: "path hit (edges_of EXCLAM_out EXCLAM_states) 37 w 38 \<longleftrightarrow> spelt hit (spelled ''!'') w"
proof (rule recognizes_paths)
  show "recognizes EXCLAM_out EXCLAM_states 60 12 [
     (37, 140, 0, 0), (140, 141, 0, 0), (141, 38, 0, 0)] 37 38 (spelled ''!'')"
    by code_simp
qed (simp add: EXCLAM_out_def EXCLAM_states_def split: if_splits)

lemma QUESTIONMARK_rule: "path hit (edges_of QUESTIONMARK_out QUESTIONMARK_states) 39 w 40 \<longleftrightarrow> spelt hit (spelled ''?'') w"
proof (rule recognizes_paths)
  show "recognizes QUESTIONMARK_out QUESTIONMARK_states 60 12 [
     (39, 142, 0, 0), (142, 143, 0, 0), (143, 40, 0, 0)] 39 40 (spelled ''?'')"
    by code_simp
qed (simp add: QUESTIONMARK_out_def QUESTIONMARK_states_def split: if_splits)

lemma COLON_rule: "path hit (edges_of COLON_out COLON_states) 41 w 42 \<longleftrightarrow> spelt hit (spelled '':'') w"
proof (rule recognizes_paths)
  show "recognizes COLON_out COLON_states 60 12 [
     (41, 144, 0, 0), (144, 145, 0, 0), (145, 42, 0, 0)] 41 42 (spelled '':'')"
    by code_simp
qed (simp add: COLON_out_def COLON_states_def split: if_splits)

lemma PLUS_rule: "path hit (edges_of PLUS_out PLUS_states) 43 w 44 \<longleftrightarrow> spelt hit (spelled ''+'') w"
proof (rule recognizes_paths)
  show "recognizes PLUS_out PLUS_states 60 12 [
     (43, 146, 0, 0), (146, 147, 0, 0), (147, 44, 0, 0)] 43 44 (spelled ''+'')"
    by code_simp
qed (simp add: PLUS_out_def PLUS_states_def split: if_splits)

lemma STAR_rule: "path hit (edges_of STAR_out STAR_states) 45 w 46 \<longleftrightarrow> spelt hit (spelled ''*'') w"
proof (rule recognizes_paths)
  show "recognizes STAR_out STAR_states 60 12 [
     (45, 148, 0, 0), (148, 149, 0, 0), (149, 46, 0, 0)] 45 46 (spelled ''*'')"
    by code_simp
qed (simp add: STAR_out_def STAR_states_def split: if_splits)

lemma SLASH_rule: "path hit (edges_of SLASH_out SLASH_states) 47 w 48 \<longleftrightarrow> spelt hit (spelled ''/'') w"
proof (rule recognizes_paths)
  show "recognizes SLASH_out SLASH_states 60 12 [
     (47, 150, 0, 0), (150, 151, 0, 0), (151, 48, 0, 0)] 47 48 (spelled ''/'')"
    by code_simp
qed (simp add: SLASH_out_def SLASH_states_def split: if_splits)

lemma PERCENT_rule: "path hit (edges_of PERCENT_out PERCENT_states) 49 w 50 \<longleftrightarrow> spelt hit (spelled ''%'') w"
proof (rule recognizes_paths)
  show "recognizes PERCENT_out PERCENT_states 60 12 [
     (49, 152, 0, 0), (152, 153, 0, 0), (153, 50, 0, 0)] 49 50 (spelled ''%'')"
    by code_simp
qed (simp add: PERCENT_out_def PERCENT_states_def split: if_splits)

lemma CEL_TRUE_rule: "path hit (edges_of CEL_TRUE_out CEL_TRUE_states) 51 w 52 \<longleftrightarrow> spelt hit (spelled ''true'') w"
proof (rule recognizes_paths)
  show "recognizes CEL_TRUE_out CEL_TRUE_states 60 12 [
     (51, 154, 0, 0), (154, 155, 0, 0), (155, 156, 0, 0), (156, 157, 0, 0), (157, 158, 0, 0),
     (158, 52, 0, 0)] 51 52 (spelled ''true'')"
    by code_simp
qed (simp add: CEL_TRUE_out_def CEL_TRUE_states_def split: if_splits)

lemma CEL_FALSE_rule: "path hit (edges_of CEL_FALSE_out CEL_FALSE_states) 53 w 54 \<longleftrightarrow> spelt hit (spelled ''false'') w"
proof (rule recognizes_paths)
  show "recognizes CEL_FALSE_out CEL_FALSE_states 60 12 [
     (53, 159, 0, 0), (159, 160, 0, 0), (160, 161, 0, 0), (161, 162, 0, 0), (162, 163, 0, 0),
     (163, 164, 0, 0), (164, 54, 0, 0)] 53 54 (spelled ''false'')"
    by code_simp
qed (simp add: CEL_FALSE_out_def CEL_FALSE_states_def split: if_splits)

lemma NUL_rule: "path hit (edges_of NUL_out NUL_states) 55 w 56 \<longleftrightarrow> spelt hit (spelled ''null'') w"
proof (rule recognizes_paths)
  show "recognizes NUL_out NUL_states 60 12 [
     (55, 165, 0, 0), (165, 166, 0, 0), (166, 167, 0, 0), (167, 168, 0, 0), (168, 169, 0, 0),
     (169, 56, 0, 0)] 55 56 (spelled ''null'')"
    by code_simp
qed (simp add: NUL_out_def NUL_states_def split: if_splits)

lemma BACKSLASH_rule: "path hit (edges_of BACKSLASH_out BACKSLASH_states) 57 w 58 \<longleftrightarrow> spelt hit (BACKSLASH_re) w"
proof (rule recognizes_paths)
  show "recognizes BACKSLASH_out BACKSLASH_states 60 12 [
     (57, 170, 0, 0), (170, 171, 0, 0), (171, 58, 0, 0)] 57 58 (BACKSLASH_re)"
    unfolding BACKSLASH_re_def fragments by code_simp
qed (simp add: BACKSLASH_out_def BACKSLASH_states_def split: if_splits)

lemma LETTER_rule: "path hit (edges_of LETTER_out LETTER_states) 59 w 60 \<longleftrightarrow> spelt hit (LETTER_re) w"
proof (rule recognizes_paths)
  show "recognizes LETTER_out LETTER_states 60 12 [
     (59, 172, 0, 0), (172, 173, 0, 0), (173, 60, 0, 0)] 59 60 (LETTER_re)"
    unfolding LETTER_re_def fragments by code_simp
qed (simp add: LETTER_out_def LETTER_states_def split: if_splits)

lemma DIGIT_rule: "path hit (edges_of DIGIT_out DIGIT_states) 61 w 62 \<longleftrightarrow> spelt hit (DIGIT_re) w"
proof (rule recognizes_paths)
  show "recognizes DIGIT_out DIGIT_states 60 12 [
     (61, 174, 0, 0), (174, 175, 0, 0), (175, 62, 0, 0)] 61 62 (DIGIT_re)"
    unfolding DIGIT_re_def fragments by code_simp
qed (simp add: DIGIT_out_def DIGIT_states_def split: if_splits)

lemma EXPONENT_rule: "path hit (edges_of EXPONENT_out EXPONENT_states) 63 w 64 \<longleftrightarrow> spelt hit (EXPONENT_re) w"
proof (rule recognizes_paths)
  show "recognizes EXPONENT_out EXPONENT_states 60 12 [
     (63, 176, 0, 0), (176, 178, 0, 0), (178, 177, 0, 0), (177, 179, 0, 0), (179, 181, 1, 0),
     (181, 180, 0, 0), (180, 182, 0, 0), (182, 183, 0, 0), (183, 184, 0, 0), (184, 64, 1, 0)] 63 64 (EXPONENT_re)"
    unfolding EXPONENT_re_def fragments by code_simp
qed (simp add: EXPONENT_out_def EXPONENT_states_def split: if_splits)

lemma HEXDIGIT_rule: "path hit (edges_of HEXDIGIT_out HEXDIGIT_states) 65 w 66 \<longleftrightarrow> spelt hit (HEXDIGIT_re) w"
proof (rule recognizes_paths)
  show "recognizes HEXDIGIT_out HEXDIGIT_states 60 12 [
     (65, 185, 0, 0), (185, 186, 0, 0), (186, 66, 0, 0)] 65 66 (HEXDIGIT_re)"
    unfolding HEXDIGIT_re_def fragments by code_simp
qed (simp add: HEXDIGIT_out_def HEXDIGIT_states_def split: if_splits)

lemma RAW_rule: "path hit (edges_of RAW_out RAW_states) 67 w 68 \<longleftrightarrow> spelt hit (RAW_re) w"
proof (rule recognizes_paths)
  show "recognizes RAW_out RAW_states 60 12 [
     (67, 187, 0, 0), (187, 188, 0, 0), (188, 68, 0, 0)] 67 68 (RAW_re)"
    unfolding RAW_re_def fragments by code_simp
qed (simp add: RAW_out_def RAW_states_def split: if_splits)

lemma ESC_SEQ_rule: "path hit (edges_of ESC_SEQ_out ESC_SEQ_states) 69 w 70 \<longleftrightarrow> spelt hit (ESC_SEQ_re) w"
proof (rule recognizes_paths)
  show "recognizes ESC_SEQ_out ESC_SEQ_states 60 12 [
     (69, 193, 0, 0), (193, 189, 0, 0), (193, 190, 0, 0), (193, 191, 0, 0), (193, 192, 0, 0),
     (189, 194, 0, 0), (194, 70, 0, 0)] 69 70 (ESC_SEQ_re)"
    unfolding ESC_SEQ_re_def fragments by code_simp
qed (simp add: ESC_SEQ_out_def ESC_SEQ_states_def split: if_splits)

lemma ESC_CHAR_SEQ_rule: "path hit (edges_of ESC_CHAR_SEQ_out ESC_CHAR_SEQ_states) 71 w 72 \<longleftrightarrow> spelt hit (ESC_CHAR_SEQ_re) w"
proof (rule recognizes_paths)
  show "recognizes ESC_CHAR_SEQ_out ESC_CHAR_SEQ_states 60 12 [
     (71, 195, 0, 0), (195, 196, 0, 0), (196, 197, 0, 0), (197, 72, 0, 0)] 71 72 (ESC_CHAR_SEQ_re)"
    unfolding ESC_CHAR_SEQ_re_def fragments by code_simp
qed (simp add: ESC_CHAR_SEQ_out_def ESC_CHAR_SEQ_states_def split: if_splits)

lemma ESC_OCT_SEQ_rule: "path hit (edges_of ESC_OCT_SEQ_out ESC_OCT_SEQ_states) 73 w 74 \<longleftrightarrow> spelt hit (ESC_OCT_SEQ_re) w"
proof (rule recognizes_paths)
  show "recognizes ESC_OCT_SEQ_out ESC_OCT_SEQ_states 60 12 [
     (73, 198, 0, 0), (198, 199, 0, 0), (199, 200, 0, 0), (200, 201, 0, 0), (201, 202, 0, 0),
     (202, 74, 0, 0)] 73 74 (ESC_OCT_SEQ_re)"
    unfolding ESC_OCT_SEQ_re_def fragments by code_simp
qed (simp add: ESC_OCT_SEQ_out_def ESC_OCT_SEQ_states_def split: if_splits)

lemma ESC_BYTE_SEQ_rule: "path hit (edges_of ESC_BYTE_SEQ_out ESC_BYTE_SEQ_states) 75 w 76 \<longleftrightarrow> spelt hit (ESC_BYTE_SEQ_re) w"
proof (rule recognizes_paths)
  show "recognizes ESC_BYTE_SEQ_out ESC_BYTE_SEQ_states 60 12 [
     (75, 203, 0, 0), (203, 204, 0, 0), (204, 205, 0, 0), (205, 206, 0, 0), (206, 207, 0, 0),
     (207, 76, 0, 0)] 75 76 (ESC_BYTE_SEQ_re)"
    unfolding ESC_BYTE_SEQ_re_def fragments by code_simp
qed (simp add: ESC_BYTE_SEQ_out_def ESC_BYTE_SEQ_states_def split: if_splits)

lemma ESC_UNI_SEQ_rule: "path hit (edges_of ESC_UNI_SEQ_out ESC_UNI_SEQ_states) 77 w 78 \<longleftrightarrow> spelt hit (ESC_UNI_SEQ_re) w"
proof (rule recognizes_paths)
  show "recognizes ESC_UNI_SEQ_out ESC_UNI_SEQ_states 60 12 [
     (77, 226, 0, 0), (226, 208, 0, 0), (208, 209, 0, 0), (209, 210, 0, 0), (210, 211, 0, 0),
     (211, 212, 0, 0), (212, 213, 0, 0), (213, 214, 0, 0), (226, 215, 0, 0), (215, 216, 1, 0),
     (216, 217, 0, 0), (217, 218, 0, 0), (218, 219, 0, 0), (219, 220, 0, 0), (220, 221, 0, 0),
     (221, 222, 0, 0), (222, 223, 0, 0), (223, 224, 0, 0), (224, 225, 0, 0), (214, 227, 0, 0),
     (227, 78, 0, 0)] 77 78 (ESC_UNI_SEQ_re)"
    unfolding ESC_UNI_SEQ_re_def fragments by code_simp
qed (simp add: ESC_UNI_SEQ_out_def ESC_UNI_SEQ_states_def split: if_splits)

lemma WHITESPACE_rule: "path hit (edges_of WHITESPACE_out WHITESPACE_states) 79 w 80 \<longleftrightarrow> spelt hit (WHITESPACE_re) w"
proof (rule recognizes_paths)
  show "recognizes WHITESPACE_out WHITESPACE_states 60 12 [
     (79, 229, 1, 0), (229, 228, 0, 0), (228, 230, 0, 0), (230, 231, 0, 0), (231, 232, 0, 0),
     (232, 233, 0, 0), (233, 234, 0, 0), (234, 80, 1, 0)] 79 80 (WHITESPACE_re)"
    unfolding WHITESPACE_re_def fragments by code_simp
qed (simp add: WHITESPACE_out_def WHITESPACE_states_def split: if_splits)

lemma COMMENT_rule: "path hit (edges_of COMMENT_out COMMENT_states) 81 w 82 \<longleftrightarrow> spelt hit (COMMENT_re) w"
proof (rule recognizes_paths)
  show "recognizes COMMENT_out COMMENT_states 60 12 [
     (81, 235, 0, 0), (235, 236, 0, 0), (236, 237, 0, 0), (237, 241, 0, 0), (241, 242, 0, 0),
     (242, 244, 0, 0), (244, 245, 0, 0), (245, 82, 1, 0), (241, 239, 0, 0), (239, 238, 0, 0),
     (238, 240, 0, 0), (240, 243, 0, 0)] 81 82 (COMMENT_re)"
    unfolding COMMENT_re_def fragments by code_simp
qed (simp add: COMMENT_out_def COMMENT_states_def split: if_splits)

lemma NUM_FLOAT_rule: "path hit (edges_of NUM_FLOAT_out NUM_FLOAT_states) 83 w 84 \<longleftrightarrow> spelt hit (NUM_FLOAT_re) w"
proof (rule recognizes_paths)
  show "recognizes NUM_FLOAT_out NUM_FLOAT_states 60 12 [
     (83, 276, 0, 0), (276, 247, 3, 0), (276, 261, 7, 0), (276, 267, 0, 0), (267, 269, 0, 2),
     (247, 246, 0, 0), (246, 248, 0, 0), (248, 249, 0, 0), (249, 250, 0, 0), (250, 251, 0, 0),
     (251, 253, 0, 2), (261, 260, 0, 0), (260, 262, 0, 0), (262, 263, 0, 0), (263, 264, 0, 0),
     (264, 265, 0, 0), (265, 266, 0, 0), (269, 268, 0, 0), (268, 270, 0, 0), (270, 271, 0, 0),
     (271, 272, 0, 0), (272, 274, 0, 0), (253, 252, 0, 0), (252, 254, 0, 0), (254, 255, 0, 0),
     (255, 256, 0, 0), (256, 258, 0, 0), (274, 273, 0, 0), (273, 275, 0, 0), (258, 257, 0, 0),
     (257, 259, 0, 0), (259, 277, 0, 0), (277, 84, 0, 0)] 83 84 (NUM_FLOAT_re)"
    unfolding NUM_FLOAT_re_def fragments by code_simp
qed (simp add: NUM_FLOAT_out_def NUM_FLOAT_states_def split: if_splits)

lemma NUM_INT_rule: "path hit (edges_of NUM_INT_out NUM_INT_states) 85 w 86 \<longleftrightarrow> spelt hit (NUM_INT_re) w"
proof (rule recognizes_paths)
  show "recognizes NUM_INT_out NUM_INT_states 60 12 [
     (85, 291, 0, 0), (291, 279, 2, 0), (291, 283, 0, 0), (283, 284, 0, 0), (284, 285, 0, 0),
     (285, 287, 1, 0), (279, 278, 0, 0), (278, 280, 0, 0), (280, 281, 0, 0), (281, 282, 0, 0),
     (287, 286, 0, 0), (286, 288, 0, 0), (288, 289, 0, 0), (289, 290, 0, 0), (282, 292, 1, 0),
     (292, 86, 0, 0)] 85 86 (NUM_INT_re)"
    unfolding NUM_INT_re_def fragments by code_simp
qed (simp add: NUM_INT_out_def NUM_INT_states_def split: if_splits)

lemma NUM_UINT_rule: "path hit (edges_of NUM_UINT_out NUM_UINT_states) 87 w 88 \<longleftrightarrow> spelt hit (NUM_UINT_re) w"
proof (rule recognizes_paths)
  show "recognizes NUM_UINT_out NUM_UINT_states 60 12 [
     (87, 310, 0, 0), (310, 294, 3, 0), (310, 300, 0, 0), (300, 301, 0, 0), (301, 302, 0, 0),
     (302, 304, 2, 0), (294, 293, 0, 0), (293, 295, 0, 0), (295, 296, 0, 0), (296, 297, 0, 0),
     (297, 298, 0, 0), (298, 299, 0, 0), (304, 303, 0, 0), (303, 305, 0, 0), (305, 306, 0, 0),
     (306, 307, 0, 0), (307, 308, 0, 0), (308, 309, 0, 0), (299, 311, 0, 0), (311, 88, 0, 0)] 87 88 (NUM_UINT_re)"
    unfolding NUM_UINT_re_def fragments by code_simp
qed (simp add: NUM_UINT_out_def NUM_UINT_states_def split: if_splits)

lemma STRING_0_rule: "path hit (edges_of STRING_0_out STRING_0_states) 312 w 409 \<longleftrightarrow> spelt hit (short_string double_quote) w"
proof (rule recognizes_paths)
  show "recognizes STRING_0_out STRING_0_states 60 12 [
     (312, 317, 0, 1), (317, 318, 0, 0), (318, 320, 0, 0), (320, 409, 0, 0), (317, 315, 0, 0),
     (315, 313, 0, 0), (315, 314, 0, 0), (313, 316, 0, 0), (316, 319, 0, 0)] 312 409 (short_string double_quote)"
    unfolding short_string_def fragments by code_simp
qed (simp add: STRING_0_out_def STRING_0_states_def split: if_splits)

lemma STRING_1_rule: "path hit (edges_of STRING_1_out STRING_1_states) 321 w 409 \<longleftrightarrow> spelt hit (short_string quote) w"
proof (rule recognizes_paths)
  show "recognizes STRING_1_out STRING_1_states 60 12 [
     (321, 326, 0, 1), (326, 327, 0, 0), (327, 329, 0, 0), (329, 409, 0, 0), (326, 324, 0, 0),
     (324, 322, 0, 0), (324, 323, 0, 0), (322, 325, 0, 0), (325, 328, 0, 0)] 321 409 (short_string quote)"
    unfolding short_string_def fragments by code_simp
qed (simp add: STRING_1_out_def STRING_1_states_def split: if_splits)

lemma STRING_2_rule: "path hit (edges_of STRING_2_out STRING_2_states) 330 w 409 \<longleftrightarrow> spelt hit (long_string double_quote) w"
proof (rule recognizes_paths)
  show "recognizes STRING_2_out STRING_2_states 60 12 [
     (330, 331, 0, 0), (331, 332, 0, 0), (332, 333, 0, 0), (333, 338, 1, 0), (338, 339, 0, 0),
     (339, 341, 0, 0), (341, 342, 0, 0), (342, 343, 0, 0), (343, 409, 0, 0), (338, 336, 0, 0),
     (336, 334, 0, 0), (336, 335, 0, 0), (334, 337, 0, 0), (337, 340, 0, 0)] 330 409 (long_string double_quote)"
    unfolding long_string_def fragments by code_simp
qed (simp add: STRING_2_out_def STRING_2_states_def split: if_splits)

lemma STRING_3_rule: "path hit (edges_of STRING_3_out STRING_3_states) 344 w 409 \<longleftrightarrow> spelt hit (long_string quote) w"
proof (rule recognizes_paths)
  show "recognizes STRING_3_out STRING_3_states 60 12 [
     (344, 345, 0, 0), (345, 346, 0, 0), (346, 347, 0, 0), (347, 352, 1, 0), (352, 353, 0, 0),
     (353, 355, 0, 0), (355, 356, 0, 0), (356, 357, 0, 0), (357, 409, 0, 0), (352, 350, 0, 0),
     (350, 348, 0, 0), (350, 349, 0, 0), (348, 351, 0, 0), (351, 354, 0, 0)] 344 409 (long_string quote)"
    unfolding long_string_def fragments by code_simp
qed (simp add: STRING_3_out_def STRING_3_states_def split: if_splits)

lemma STRING_4_rule: "path hit (edges_of STRING_4_out STRING_4_states) 358 w 409 \<longleftrightarrow> spelt hit (short_raw_string double_quote) w"
proof (rule recognizes_paths)
  show "recognizes STRING_4_out STRING_4_states 60 12 [
     (358, 359, 0, 0), (359, 363, 0, 1), (363, 364, 0, 0), (364, 366, 0, 0), (366, 367, 0, 0),
     (367, 409, 0, 0), (363, 361, 0, 0), (361, 360, 0, 0), (360, 362, 0, 0), (362, 365, 0, 0)] 358 409 (short_raw_string double_quote)"
    unfolding short_raw_string_def fragments by code_simp
qed (simp add: STRING_4_out_def STRING_4_states_def split: if_splits)

lemma STRING_5_rule: "path hit (edges_of STRING_5_out STRING_5_states) 368 w 409 \<longleftrightarrow> spelt hit (short_raw_string quote) w"
proof (rule recognizes_paths)
  show "recognizes STRING_5_out STRING_5_states 60 12 [
     (368, 369, 0, 0), (369, 373, 0, 1), (373, 374, 0, 0), (374, 376, 0, 0), (376, 377, 0, 0),
     (377, 409, 0, 0), (373, 371, 0, 0), (371, 370, 0, 0), (370, 372, 0, 0), (372, 375, 0, 0)] 368 409 (short_raw_string quote)"
    unfolding short_raw_string_def fragments by code_simp
qed (simp add: STRING_5_out_def STRING_5_states_def split: if_splits)

lemma STRING_6_rule: "path hit (edges_of STRING_6_out STRING_6_states) 378 w 409 \<longleftrightarrow> spelt hit (long_raw_string double_quote) w"
proof (rule recognizes_paths)
  show "recognizes STRING_6_out STRING_6_states 60 12 [
     (378, 379, 0, 0), (379, 380, 0, 0), (380, 381, 0, 0), (381, 382, 0, 0), (382, 386, 1, 0),
     (386, 387, 0, 0), (387, 389, 0, 0), (389, 390, 0, 0), (390, 391, 0, 0), (391, 392, 0, 0),
     (392, 409, 0, 0), (386, 384, 0, 0), (384, 383, 0, 0), (383, 385, 0, 0), (385, 388, 0, 0)] 378 409 (long_raw_string double_quote)"
    unfolding long_raw_string_def fragments by code_simp
qed (simp add: STRING_6_out_def STRING_6_states_def split: if_splits)

lemma STRING_7_rule: "path hit (edges_of STRING_7_out STRING_7_states) 393 w 409 \<longleftrightarrow> spelt hit (long_raw_string quote) w"
proof (rule recognizes_paths)
  show "recognizes STRING_7_out STRING_7_states 60 12 [
     (393, 394, 0, 0), (394, 395, 0, 0), (395, 396, 0, 0), (396, 397, 0, 0), (397, 401, 1, 0),
     (401, 402, 0, 0), (402, 404, 0, 0), (404, 405, 0, 0), (405, 406, 0, 0), (406, 407, 0, 0),
     (407, 409, 0, 0), (401, 399, 0, 0), (399, 398, 0, 0), (398, 400, 0, 0), (400, 403, 0, 0)] 393 409 (long_raw_string quote)"
    unfolding long_raw_string_def fragments by code_simp
qed (simp add: STRING_7_out_def STRING_7_states_def split: if_splits)

text \<open>The strings are recognized one kind at a time.\<close>

definition STRING_branches :: "(int \<times> lsym edge list) list" where
  "STRING_branches = [
     (312, edges_of STRING_0_out STRING_0_states),
     (321, edges_of STRING_1_out STRING_1_states),
     (330, edges_of STRING_2_out STRING_2_states),
     (344, edges_of STRING_3_out STRING_3_states),
     (358, edges_of STRING_4_out STRING_4_states),
     (368, edges_of STRING_5_out STRING_5_states),
     (378, edges_of STRING_6_out STRING_6_states),
     (393, edges_of STRING_7_out STRING_7_states)]"

definition STRING_branch :: "int \<Rightarrow> int" where
  "STRING_branch s = (if s < 312 \<or> 408 \<le> s then -1
     else if s < 321 then 0
     else if s < 330 then 1
     else if s < 344 then 2
     else if s < 358 then 3
     else if s < 368 then 4
     else if s < 378 then 5
     else if s < 393 then 6 else 7)"

lemma STRING_rule: "path hit STRING_edges 89 w 90 \<longleftrightarrow> spelt hit STRING_re w"
proof -
  have "branches STRING_branch 409 0 STRING_branches" by code_simp
  then have "path hit STRING_edges 89 w 90 \<longleftrightarrow> (\<exists>(a, F) \<in> set STRING_branches. path hit F a w 409)"
  proof (rule path_branches [where p = 89 and c = 408])
    show "set STRING_edges = {(89, None, 408), (409, None, 90)} \<union> set (map (\<lambda>(a, F). (408, None, a)) STRING_branches) \<union>
        set (concat (map snd STRING_branches))"
      by (simp add: STRING_edges_def STRING_branches_def) blast
  qed (simp_all add: STRING_branch_def)
  then show ?thesis
    by (simp add: STRING_branches_def STRING_re_def STRING_0_rule STRING_1_rule STRING_2_rule STRING_3_rule
        STRING_4_rule STRING_5_rule STRING_6_rule STRING_7_rule)
qed

lemma BYTES_rule: "path hit (edges_of BYTES_out BYTES_states) 91 w 92 \<longleftrightarrow> spelt hit (BYTES_re) w"
proof (rule recognizes_paths)
  show "recognizes BYTES_out BYTES_states 60 12 [
     (91, 410, 0, 0), (410, 411, 0, 0), (411, 412, 0, 0), (412, 92, 0, 0)] 91 92 (BYTES_re)"
    unfolding BYTES_re_def fragments by code_simp
qed (simp add: BYTES_out_def BYTES_states_def split: if_splits)

lemma IDENTIFIER_rule: "path hit (edges_of IDENTIFIER_out IDENTIFIER_states) 93 w 94 \<longleftrightarrow> spelt hit (IDENTIFIER_re) w"
proof (rule recognizes_paths)
  show "recognizes IDENTIFIER_out IDENTIFIER_states 60 12 [
     (93, 415, 0, 0), (415, 413, 0, 0), (415, 414, 0, 0), (413, 416, 0, 0), (416, 422, 0, 0),
     (422, 423, 0, 0), (423, 94, 1, 0), (422, 420, 0, 0), (420, 417, 0, 0), (420, 418, 0, 0),
     (420, 419, 0, 0), (417, 421, 0, 0), (421, 424, 0, 0)] 93 94 (IDENTIFIER_re)"
    unfolding IDENTIFIER_re_def fragments by code_simp
qed (simp add: IDENTIFIER_out_def IDENTIFIER_states_def split: if_splits)

lemma ESC_IDENTIFIER_rule: "path hit (edges_of ESC_IDENTIFIER_out ESC_IDENTIFIER_states) 95 w 96 \<longleftrightarrow> spelt hit (ESC_IDENTIFIER_re) w"
proof (rule recognizes_paths)
  show "recognizes ESC_IDENTIFIER_out ESC_IDENTIFIER_states 60 12 [
     (95, 425, 0, 0), (425, 429, 0, 2), (429, 426, 0, 0), (429, 427, 0, 0), (429, 428, 0, 0),
     (426, 430, 0, 0), (430, 431, 0, 0), (431, 432, 0, 0), (432, 433, 0, 0), (433, 434, 0, 0),
     (434, 96, 0, 0)] 95 96 (ESC_IDENTIFIER_re)"
    unfolding ESC_IDENTIFIER_re_def fragments by code_simp
qed (simp add: ESC_IDENTIFIER_out_def ESC_IDENTIFIER_states_def split: if_splits)

definition celLexer_parts :: "lsym edge list list" where
  "celLexer_parts = [
     edges_of EQUALS_out EQUALS_states, edges_of NOT_EQUALS_out NOT_EQUALS_states,
     edges_of IN_out IN_states, edges_of LESS_out LESS_states,
     edges_of LESS_EQUALS_out LESS_EQUALS_states,
     edges_of GREATER_EQUALS_out GREATER_EQUALS_states, edges_of GREATER_out GREATER_states,
     edges_of LOGICAL_AND_out LOGICAL_AND_states, edges_of LOGICAL_OR_out LOGICAL_OR_states,
     edges_of LBRACKET_out LBRACKET_states, edges_of RPRACKET_out RPRACKET_states,
     edges_of LBRACE_out LBRACE_states, edges_of RBRACE_out RBRACE_states,
     edges_of LPAREN_out LPAREN_states, edges_of RPAREN_out RPAREN_states,
     edges_of DOT_out DOT_states, edges_of COMMA_out COMMA_states,
     edges_of MINUS_out MINUS_states, edges_of EXCLAM_out EXCLAM_states,
     edges_of QUESTIONMARK_out QUESTIONMARK_states, edges_of COLON_out COLON_states,
     edges_of PLUS_out PLUS_states, edges_of STAR_out STAR_states,
     edges_of SLASH_out SLASH_states, edges_of PERCENT_out PERCENT_states,
     edges_of CEL_TRUE_out CEL_TRUE_states, edges_of CEL_FALSE_out CEL_FALSE_states,
     edges_of NUL_out NUL_states, edges_of BACKSLASH_out BACKSLASH_states,
     edges_of LETTER_out LETTER_states, edges_of DIGIT_out DIGIT_states,
     edges_of EXPONENT_out EXPONENT_states, edges_of HEXDIGIT_out HEXDIGIT_states,
     edges_of RAW_out RAW_states, edges_of ESC_SEQ_out ESC_SEQ_states,
     edges_of ESC_CHAR_SEQ_out ESC_CHAR_SEQ_states, edges_of ESC_OCT_SEQ_out ESC_OCT_SEQ_states,
     edges_of ESC_BYTE_SEQ_out ESC_BYTE_SEQ_states, edges_of ESC_UNI_SEQ_out ESC_UNI_SEQ_states,
     edges_of WHITESPACE_out WHITESPACE_states, edges_of COMMENT_out COMMENT_states,
     edges_of NUM_FLOAT_out NUM_FLOAT_states, edges_of NUM_INT_out NUM_INT_states,
     edges_of NUM_UINT_out NUM_UINT_states, STRING_edges, edges_of BYTES_out BYTES_states,
     edges_of IDENTIFIER_out IDENTIFIER_states, edges_of ESC_IDENTIFIER_out ESC_IDENTIFIER_states]"

lemmas lexer_rules = EQUALS_rule NOT_EQUALS_rule IN_rule LESS_rule LESS_EQUALS_rule GREATER_EQUALS_rule
  GREATER_rule LOGICAL_AND_rule LOGICAL_OR_rule LBRACKET_rule RPRACKET_rule LBRACE_rule
  RBRACE_rule LPAREN_rule RPAREN_rule DOT_rule COMMA_rule MINUS_rule EXCLAM_rule
  QUESTIONMARK_rule COLON_rule PLUS_rule STAR_rule SLASH_rule PERCENT_rule CEL_TRUE_rule
  CEL_FALSE_rule NUL_rule BACKSLASH_rule LETTER_rule DIGIT_rule EXPONENT_rule HEXDIGIT_rule
  RAW_rule ESC_SEQ_rule ESC_CHAR_SEQ_rule ESC_OCT_SEQ_rule ESC_BYTE_SEQ_rule ESC_UNI_SEQ_rule
  WHITESPACE_rule COMMENT_rule NUM_FLOAT_rule NUM_INT_rule NUM_UINT_rule STRING_rule
  BYTES_rule IDENTIFIER_rule ESC_IDENTIFIER_rule

lemma celLexer_recognized: "recognized 1 0 celLexer_parts (map snd lexical_rules) hit"
  by (simp add: celLexer_parts_def lexical_rules_def lexer_rules del: spelled.simps any_of.simps)

end
