(* ===== verification/Cel_Lexer_Atn.thy ===== *)
theory Cel_Lexer_Atn
  imports Cel_Lexer_Rules
begin

text \<open>
  The automaton in the static data of the generated lexer (CelLexer.cpp) as a whole: the texts
  that a rule accepts, with the rules it calls, are those of its regular expression.
\<close>

section \<open>What the automaton reads\<close>

text \<open>
  An edge reads nothing, a character or the text of another rule. Actions read nothing. A
  character is a code point up to 10FFFF; the end of the input is -1.
\<close>

definition lexer_label :: "atn \<Rightarrow> int \<Rightarrow> int \<Rightarrow> int \<Rightarrow> int \<Rightarrow> lsym option" where
  "lexer_label A ty a b c =
     (if ty = 2 then Some (Text (Among [(a, b)]))
      else if ty = 3 then Some (Part b)
      else if ty = 5 then Some (Text (Among (if c = 1 then [(-1, -1)] else [(a, a)])))
      else if ty = 7 then Some (Text (Among (snd (atn_sets A ! nat a))))
      else if ty = 8 then Some (Text (Except (snd (atn_sets A ! nat a))))
      else if ty = 9 then Some (Text Any)
      else None)"

definition lexer_edges :: "atn \<Rightarrow> lsym edge list" where
  "lexer_edges A = map (\<lambda>(s, t, ty, a, b, c). (s, lexer_label A ty a b c, t)) (atn_edges A)"

fun in_intervals :: "(int \<times> int) list \<Rightarrow> int \<Rightarrow> bool" where
  "in_intervals [] x = False"
| "in_intervals ((a, b) # ivs) x = ((a \<le> x \<and> x \<le> b) \<or> in_intervals ivs x)"

definition a_code_point :: "int \<Rightarrow> bool" where
  "a_code_point x \<longleftrightarrow> 0 \<le> x \<and> x \<le> 0x10FFFF"

fun in_chars :: "chars \<Rightarrow> int \<Rightarrow> bool" where
  "in_chars (Among ivs) x = in_intervals ivs x"
| "in_chars (Except ivs) x = (a_code_point x \<and> \<not> in_intervals ivs x)"
| "in_chars Any x = a_code_point x"

datatype segment = Ch int | Pt int

fun seg_hit :: "lsym \<Rightarrow> segment \<Rightarrow> bool" where
  "seg_hit (Text C) (Ch x) = in_chars C x"
| "seg_hit (Part j) (Pt k) = (j = k)"
| "seg_hit l s = False"

fun filled :: "(int \<Rightarrow> int list \<Rightarrow> bool) \<Rightarrow> segment list \<Rightarrow> int list \<Rightarrow> bool" where
  "filled L [] w \<longleftrightarrow> w = []"
| "filled L (Ch x # ss) w \<longleftrightarrow> (\<exists>v. w = x # v \<and> filled L ss v)"
| "filled L (Pt j # ss) w \<longleftrightarrow> (\<exists>u v. w = u @ v \<and> L j u \<and> filled L ss v)"

lemma filled_mono [mono]: "(\<And>j u. L j u \<longrightarrow> M j u) \<Longrightarrow> filled L ss w \<longrightarrow> filled M ss w"
proof (induction L ss w rule: filled.induct)
  case (3 L j ss w)
  then have "filled L ss v \<longrightarrow> filled M ss v" for v by blast
  with 3(2) show ?case by (simp only: filled.simps) blast
qed auto

text \<open>The rule with number \<open>i\<close> has its stop state after its start state.\<close>

definition lexer_path :: "atn \<Rightarrow> nat \<Rightarrow> segment list \<Rightarrow> bool" where
  "lexer_path A i ss \<longleftrightarrow> i < length (atn_rules A) \<and>
     path seg_hit (lexer_edges A) (hd (atn_rules A ! i)) ss (hd (atn_rules A ! i) + 1)"

inductive token_text :: "atn \<Rightarrow> int \<Rightarrow> int list \<Rightarrow> bool" for A where
  "lexer_path A i ss \<Longrightarrow> filled (token_text A) ss w \<Longrightarrow> token_text A (int i) w"

section \<open>The rules in the whole automaton\<close>

definition lexer_rule_of_state :: "int \<Rightarrow> int" where
  "lexer_rule_of_state s = (if s < 1 then -1 else if s < 97 then (s - 1) div 2 else
     if s < 152 then
       (if s < 128 then
         (if s < 114 then
           (if s < 106 then
             (if s < 100 then 0 else if s < 103 then 1 else 2)
           else
             (if s < 108 then 3 else if s < 111 then 4 else 5))
         else
           (if s < 122 then
             (if s < 116 then 6 else if s < 119 then 7 else 8)
           else
             (if s < 124 then 9 else if s < 126 then 10 else 11)))
       else
         (if s < 140 then
           (if s < 134 then
             (if s < 130 then 12 else if s < 132 then 13 else 14)
           else
             (if s < 136 then 15 else if s < 138 then 16 else 17))
         else
           (if s < 146 then
             (if s < 142 then 18 else if s < 144 then 19 else 20)
           else
             (if s < 148 then 21 else if s < 150 then 22 else 23))))
     else
       (if s < 198 then
         (if s < 174 then
           (if s < 165 then
             (if s < 154 then 24 else if s < 159 then 25 else 26)
           else
             (if s < 170 then 27 else if s < 172 then 28 else 29))
         else
           (if s < 187 then
             (if s < 176 then 30 else if s < 185 then 31 else 32)
           else
             (if s < 189 then 33 else if s < 195 then 34 else 35)))
       else
         (if s < 278 then
           (if s < 228 then
             (if s < 203 then 36 else if s < 208 then 37 else 38)
           else
             (if s < 235 then 39 else if s < 246 then 40 else 41))
         else
           (if s < 410 then
             (if s < 293 then 42 else if s < 312 then 43 else 44)
           else
             (if s < 413 then 45 else if s < 425 then 46 else 47)))))"

definition celLexer_entry :: "lsym edge list" where
  "celLexer_entry = map (\<lambda>t. (0, None, t)) [
     1, 3, 5, 7, 9, 11, 13, 15, 17, 19, 21, 23, 25, 27, 29, 31, 33, 35, 37, 39, 41, 43, 45, 47, 49, 51, 53, 55, 79, 81, 83, 85, 87, 89, 91, 93, 95]"

lemma celLexer_parts_apart: "apart lexer_rule_of_state 0 celLexer_parts"
  by code_simp

text \<open>The edges into the token rules come first, then those out of the start states.\<close>

lemma celLexer_edges_parts:
  "lexer_edges celLexer_atn = celLexer_entry @ map hd celLexer_parts @ concat (map tl celLexer_parts)"
  by code_simp

lemma celLexer_parts_nonempty: "list_all (\<lambda>E. E \<noteq> []) celLexer_parts"
  by code_simp

lemma celLexer_length: "length celLexer_parts = 48"
  by (simp add: celLexer_parts_def)

text \<open>The stop states are where \<open>lexer_path\<close> says: states of type 7.\<close>

lemma celLexer_stops:
  "list_all (\<lambda>i. atn_states celLexer_atn ! nat (2 * i + 2) = (7, i, [])) [0..47]"
  by code_simp

lemma celLexer_starts: "map hd (atn_rules celLexer_atn) = map (\<lambda>i. 2 * int i + 1) [0..<48]"
  by code_simp

lemma celLexer_rules: "length (atn_rules celLexer_atn) = 48"
  using arg_cong [OF celLexer_starts, of length] by simp

lemma set_lexer_edges: "set (lexer_edges celLexer_atn) = set celLexer_entry \<union> set (concat celLexer_parts)"
  unfolding celLexer_edges_parts set_append [of celLexer_entry] set_heads_first [OF celLexer_parts_nonempty] ..

lemma lexer_path_iff: "lexer_path celLexer_atn i ss \<longleftrightarrow> i < 48 \<and> spelt seg_hit (lexer_re i) ss"
proof (cases "i < 48")
  case True
  have start: "hd (atn_rules celLexer_atn ! i) = 2 * int i + 1"
    using arg_cong [OF celLexer_starts, of "\<lambda>xs. xs ! i"] True celLexer_rules by simp
  have f: "lexer_rule_of_state (2 * int i + 1) = int i" using True by (simp add: lexer_rule_of_state_def)
  have "path seg_hit (lexer_edges celLexer_atn) (2 * int i + 1) ss (2 * int i + 2) \<longleftrightarrow>
      path seg_hit (celLexer_parts ! i) (2 * int i + 1) ss (2 * int i + 2)"
    using True celLexer_length
    by (intro path_part [OF celLexer_parts_apart set_lexer_edges f])
      (auto simp: celLexer_entry_def lexer_rule_of_state_def)
  also have "\<dots> \<longleftrightarrow> spelt seg_hit (map snd lexical_rules ! i) ss"
    using recognized_nth [OF celLexer_recognized, of i seg_hit ss] True celLexer_length by (simp add: add.commute)
  also have "map snd lexical_rules ! i = lexer_re i"
    using True arg_cong [OF lexical_names, of length] by (simp add: lexer_re_def celLexer_ruleNames_def)
  finally show ?thesis using True start celLexer_rules by (simp add: lexer_path_def add.commute)
qed (simp add: lexer_path_def celLexer_rules)

section \<open>Rules that call rules\<close>

fun text_hit :: "lsym \<Rightarrow> int \<Rightarrow> bool" where
  "text_hit (Text C) x = in_chars C x"
| "text_hit (Part j) x = False"

fun inline :: "(int \<Rightarrow> lsym re) \<Rightarrow> lsym re \<Rightarrow> lsym re" where
  "inline f Zero = Zero"
| "inline f One = One"
| "inline f (Sym (Text C)) = Sym (Text C)"
| "inline f (Sym (Part j)) = f j"
| "inline f (Cat r s) = Cat (inline f r) (inline f s)"
| "inline f (Or r s) = Or (inline f r) (inline f s)"
| "inline f (Rep r) = Rep (inline f r)"

text \<open>The calls are nested at most five deep, in bytes with escapes.\<close>

fun token_re :: "nat \<Rightarrow> int \<Rightarrow> lsym re" where
  "token_re 0 i = Zero"
| "token_re (Suc n) i =
     (if 0 \<le> i \<and> i < 48 then inline (token_re n) (lexer_re (nat i)) else Zero)"

lemma filled_append:
  "filled L (ss @ ts) w \<longleftrightarrow> (\<exists>u v. w = u @ v \<and> filled L ss u \<and> filled L ts v)"
proof (induction L ss w rule: filled.induct)
  case (2 L x ss w)
  then show ?case by (auto simp: Cons_eq_append_conv) blast+
next
  case (3 L j ss w)
  then show ?case by (auto) (metis append_assoc)+
qed simp

lemma seg_hit_simps:
  "seg_hit (Text C) s \<longleftrightarrow> (\<exists>x. s = Ch x \<and> in_chars C x)"
  "seg_hit (Part j) s \<longleftrightarrow> s = Pt j"
  by (cases s; auto)+

lemma spelt_segment:
  "spelt seg_hit (Sym (Text C)) ss \<longleftrightarrow> (\<exists>x. ss = [Ch x] \<and> in_chars C x)"
  "spelt seg_hit (Sym (Part j)) ss \<longleftrightarrow> ss = [Pt j]"
  by (auto simp: seg_hit_simps)

lemma inline_Rep:
  assumes "\<And>w. spelt text_hit (inline f r) w \<longleftrightarrow> (\<exists>ss. spelt seg_hit r ss \<and> filled (\<lambda>j. spelt text_hit (f j)) ss w)"
  shows "spelt text_hit (Rep (inline f r)) w \<longleftrightarrow>
    (\<exists>ss. spelt seg_hit (Rep r) ss \<and> filled (\<lambda>j. spelt text_hit (f j)) ss w)"
proof
  assume "spelt text_hit (Rep (inline f r)) w"
  then show "\<exists>ss. spelt seg_hit (Rep r) ss \<and> filled (\<lambda>j. spelt text_hit (f j)) ss w"
  proof (induction "Rep (inline f r)" w rule: spelt.induct)
    case stop
    show ?case by (rule exI [of _ "[]"]) (simp add: spelt.stop)
  next
    case (again u v)
    then obtain ss ts where "spelt seg_hit r ss" "filled (\<lambda>j. spelt text_hit (f j)) ss u"
        "spelt seg_hit (Rep r) ts" "filled (\<lambda>j. spelt text_hit (f j)) ts v"
      using assms [of u] by blast
    then show ?case by (intro exI [of _ "ss @ ts"]) (auto simp: filled_append intro: spelt.again)
  qed
next
  assume "\<exists>ss. spelt seg_hit (Rep r) ss \<and> filled (\<lambda>j. spelt text_hit (f j)) ss w"
  then obtain ss where "spelt seg_hit (Rep r) ss" "filled (\<lambda>j. spelt text_hit (f j)) ss w" by blast
  then show "spelt text_hit (Rep (inline f r)) w"
  proof (induction "Rep r" ss arbitrary: w rule: spelt.induct)
    case (again ss ts)
    then obtain u v where "w = u @ v" "filled (\<lambda>j. spelt text_hit (f j)) ss u"
        "filled (\<lambda>j. spelt text_hit (f j)) ts v" by (auto simp: filled_append)
    with again assms [of u] show ?case by (auto intro: spelt.again)
  qed (simp add: spelt.stop)
qed

lemma inline_spelt:
  "spelt text_hit (inline f r) w \<longleftrightarrow>
    (\<exists>ss. spelt seg_hit r ss \<and> filled (\<lambda>j. spelt text_hit (f j)) ss w)"
proof (induction f r arbitrary: w rule: inline.induct)
  case (3 f C)
  have "spelt text_hit (inline f (Sym (Text C))) w \<longleftrightarrow> (\<exists>x. w = [x] \<and> in_chars C x)" by simp
  also have "\<dots> \<longleftrightarrow> (\<exists>ss. spelt seg_hit (Sym (Text C)) ss \<and> filled (\<lambda>j. spelt text_hit (f j)) ss w)"
    unfolding spelt_segment by fastforce
  finally show ?case .
next
  case (4 f j)
  then show ?case unfolding spelt_segment by simp
next
  case (5 f r s)
  then show ?case unfolding inline.simps spelt_Cat
    by (auto simp: filled_append) (metis append_assoc filled_append)+
next
  case (7 f r)
  then show ?case by (simp add: inline_Rep)
qed auto

fun parts_of :: "lsym re \<Rightarrow> int list" where
  "parts_of (Sym (Part j)) = [j]"
| "parts_of (Cat r s) = parts_of r @ parts_of s"
| "parts_of (Or r s) = parts_of r @ parts_of s"
| "parts_of (Rep r) = parts_of r"
| "parts_of r = []"

lemma spelt_parts: "spelt seg_hit r ss \<Longrightarrow> Pt j \<in> set ss \<Longrightarrow> j \<in> set (parts_of r)"
proof (induction rule: spelt.induct)
  case (sym l s)
  then show ?case by (cases l; cases s) auto
qed auto

lemma filled_cong:
  "(\<And>j u. Pt j \<in> set ss \<Longrightarrow> L j u \<longleftrightarrow> M j u) \<Longrightarrow> filled L ss w \<longleftrightarrow> filled M ss w"
  by (induction L ss w rule: filled.induct) auto

definition level :: "int \<Rightarrow> nat" where
  "level i = (if i = 45 then 5 else if i = 44 then 4 else if i = 34 \<or> i = 41 then 3
     else if i = 31 \<or> (35 \<le> i \<and> i \<le> 38) \<or> i = 42 \<or> i = 43 \<or> 46 \<le> i then 2 else 1)"

fun levels_fit :: "int \<Rightarrow> lsym re list \<Rightarrow> bool" where
  "levels_fit i [] = True"
| "levels_fit i (r # rs) =
     (list_all (\<lambda>j. 0 \<le> j \<and> j < 48 \<and> level j < level i) (parts_of r) \<and> levels_fit (i + 1) rs)"

lemma celLexer_levels: "levels_fit 0 (map snd lexical_rules)"
  unfolding lexical_rules_def by code_simp

lemma levels_fit_nth: "levels_fit i rs \<Longrightarrow> k < length rs \<Longrightarrow>
    j \<in> set (parts_of (rs ! k)) \<Longrightarrow> 0 \<le> j \<and> j < 48 \<and> level j < level (i + int k)"
proof (induction i rs arbitrary: k rule: levels_fit.induct)
  case (2 i r rs)
  then show ?case by (cases k) (auto simp: list_all_iff algebra_simps)
qed simp

lemma lexer_re_levels:
  assumes "k < 48" "j \<in> set (parts_of (lexer_re k))"
  shows "0 \<le> j \<and> j < 48 \<and> level j < level (int k)"
proof -
  have "k < length (map snd lexical_rules)"
    using assms(1) arg_cong [OF lexical_names, of length] by (simp add: celLexer_ruleNames_def)
  with levels_fit_nth [OF celLexer_levels, of k j] assms(2) show ?thesis
    by (simp add: lexer_re_def)
qed

lemma token_text_level:
  "0 \<le> i \<Longrightarrow> i < 48 \<Longrightarrow> level i \<le> n \<Longrightarrow>
    token_text celLexer_atn i w \<longleftrightarrow> spelt text_hit (token_re n i) w"
proof (induction n arbitrary: i w)
  case 0
  then show ?case by (simp add: level_def split: if_splits)
next
  case (Suc n)
  obtain k where k: "i = int k" "k < 48" using Suc.prems by (metis nonneg_int_cases of_nat_less_iff of_nat_numeral)
  have calls: "filled (token_text celLexer_atn) ss w \<longleftrightarrow> filled (\<lambda>j. spelt text_hit (token_re n j)) ss w"
    if "spelt seg_hit (lexer_re k) ss" for ss
  proof (rule filled_cong)
    fix j u
    assume "Pt j \<in> set ss"
    with that have "0 \<le> j \<and> j < 48 \<and> level j < level i"
      unfolding k(1) by (intro lexer_re_levels k(2) spelt_parts)
    then show "token_text celLexer_atn j u \<longleftrightarrow> spelt text_hit (token_re n j) u"
      using Suc.prems(3) by (intro Suc.IH) simp_all
  qed
  have "token_text celLexer_atn i w \<longleftrightarrow>
      (\<exists>ss. spelt seg_hit (lexer_re k) ss \<and> filled (token_text celLexer_atn) ss w)"
    unfolding k(1) token_text.simps [of celLexer_atn "int k" w] lexer_path_iff using k(2) by auto
  also have "\<dots> \<longleftrightarrow> (\<exists>ss. spelt seg_hit (lexer_re k) ss \<and> filled (\<lambda>j. spelt text_hit (token_re n j)) ss w)"
    using calls by blast
  finally show ?case using k by (simp add: inline_spelt)
qed

lemma celLexer_token_text: "token_text celLexer_atn i w \<longleftrightarrow> spelt text_hit (token_re 5 i) w"
proof (cases "0 \<le> i \<and> i < 48")
  case True
  then show ?thesis by (intro token_text_level) (simp_all add: level_def)
next
  case False
  then have "\<not> token_text celLexer_atn i w"
    unfolding token_text.simps [of _ i] lexer_path_iff by auto
  moreover have "token_re 5 i = Zero" using False by (simp only: numeral_nat token_re.simps if_False)
  ultimately show ?thesis by simp
qed

section \<open>Words, and what is not empty\<close>

lemma one_char_spelt: "spelt text_hit (one_char c) w \<longleftrightarrow> w = [code_point c]"
proof -
  have "text_hit (Text (Among [(code_point c, code_point c)])) x \<longleftrightarrow> x = code_point c" for x by auto
  then show ?thesis unfolding one_char_def spelt_simps by auto
qed

lemma spelled_spelt: "spelt text_hit (spelled s) w \<longleftrightarrow> w = map code_point s"
proof (induction s arbitrary: w rule: spelled.induct)
  case (3 c d s)
  then show ?case by (simp add: spelt_Cat one_char_spelt)
qed (simp_all add: one_char_spelt)

lemma inline_spelled: "inline f (spelled s) = spelled s"
  by (induction s rule: spelled.induct) (simp_all add: one_char_def)

lemma nulls_inline: "(\<And>j. \<not> nulls (f j)) \<Longrightarrow> nulls (inline f r) = nulls r"
  by (induction f r rule: inline.induct) auto

lemma lexer_re_nulls: "list_all (\<lambda>r. \<not> nulls r) (map snd lexical_rules)"
  unfolding lexical_rules_def by code_simp

lemma token_re_nulls: "\<not> nulls (token_re n i)"
proof (induction n arbitrary: i)
  case (Suc n)
  have "\<not> nulls (lexer_re (nat i))" if "i < 48"
  proof -
    have "nat i < length lexical_rules"
      using that arg_cong [OF lexical_names, of length] by (simp add: celLexer_ruleNames_def)
    then show ?thesis using lexer_re_nulls by (simp add: lexer_re_def list_all_iff)
  qed
  then show ?case using nulls_inline [of "token_re n" "lexer_re (nat i)", OF Suc.IH] by simp
qed simp

end
