(* ===== verification/Cel_Lexer_Words.thy ===== *)
theory Cel_Lexer_Words
  imports Cel_Lexer_Atn
begin

text \<open>
  The literal tokens of the generated lexer (CelLexer.cpp): what its vocabulary calls them, the
  one text each of their rules accepts, and which other rules accept that text.
\<close>

section \<open>How a text of a rule can begin\<close>

fun firsts :: "lsym re \<Rightarrow> lsym list" where
  "firsts (Sym l) = [l]"
| "firsts (Cat r s) = firsts r @ (if nulls r then firsts s else [])"
| "firsts (Or r s) = firsts r @ firsts s"
| "firsts (Rep r) = firsts r"
| "firsts r = []"

text \<open>The rules after the literal ones, by number.\<close>

definition first_chars :: "int \<Rightarrow> (int \<times> int) list" where
  "first_chars j =
     (if j = 29 then [(65, 90), (97, 122)]
      else if j = 30 \<or> j = 42 \<or> j = 43 then [(48, 57)]
      else if j = 31 then [(69, 69), (101, 101)]
      else if j = 32 then [(48, 57), (65, 70), (97, 102)]
      else if j = 33 then [(82, 82), (114, 114)]
      else if j = 39 then [(9, 10), (12, 13), (32, 32)]
      else if j = 40 then [(47, 47)]
      else if j = 41 then [(48, 57), (46, 46)]
      else if j = 44 then [(34, 34), (39, 39), (82, 82), (114, 114)]
      else if j = 45 then [(66, 66), (98, 98)]
      else if j = 46 then [(65, 90), (97, 122), (95, 95)]
      else if j = 47 then [(96, 96)]
      else [(92, 92)])"

fun inside :: "(int \<times> int) list \<Rightarrow> int \<times> int \<Rightarrow> bool" where
  "inside [] iv = False"
| "inside ((a, b) # ivs) (c, d) = ((a \<le> c \<and> d \<le> b) \<or> inside ivs (c, d))"

fun begins :: "(int \<times> int) list \<Rightarrow> lsym \<Rightarrow> bool" where
  "begins ivs (Text (Among ivs')) = list_all (inside ivs) ivs'"
| "begins ivs (Part j) = (28 \<le> j \<and> j < 48 \<and> list_all (inside ivs) (first_chars j))"
| "begins ivs l = False"

fun begin_fits :: "int \<Rightarrow> lsym re list \<Rightarrow> bool" where
  "begin_fits i [] = True"
| "begin_fits i (r # rs) = (list_all (begins (first_chars i)) (firsts r) \<and> begin_fits (i + 1) rs)"

lemma celLexer_begins: "begin_fits 28 (drop 28 (map snd lexical_rules))"
  unfolding lexical_rules_def by code_simp

lemma begin_fits_nth:
  "begin_fits i rs \<Longrightarrow> k < length rs \<Longrightarrow> l \<in> set (firsts (rs ! k)) \<Longrightarrow> begins (first_chars (i + int k)) l"
proof (induction i rs arbitrary: k rule: begin_fits.induct)
  case (2 i r rs)
  then show ?case by (cases k) (auto simp: list_all_iff algebra_simps)
qed simp

lemma length_lexical_rules: "length lexical_rules = 48"
  using arg_cong [OF lexical_names, of length] by (simp add: celLexer_ruleNames_def)

lemma lexer_re_begins:
  assumes "28 \<le> i" "i < 48" "l \<in> set (firsts (lexer_re (nat i)))"
  shows "begins (first_chars i) l"
proof -
  have k: "i = 28 + int (nat i - 28)" "nat i - 28 < length (drop 28 (map snd lexical_rules))"
    using assms(1,2) by (simp_all add: length_lexical_rules)
  have "drop 28 (map snd lexical_rules) ! (nat i - 28) = lexer_re (nat i)"
    using assms(1,2) by (simp add: lexer_re_def length_lexical_rules)
  with begin_fits_nth [OF celLexer_begins k(2), of l] assms(3) k(1) show ?thesis by simp
qed

lemma inside_intervals: "inside ivs (c, d) \<Longrightarrow> c \<le> x \<Longrightarrow> x \<le> d \<Longrightarrow> in_intervals ivs x"
  by (induction ivs "(c, d)" rule: inside.induct) auto

lemma all_inside: "list_all (inside ivs) ivs' \<Longrightarrow> in_intervals ivs' x \<Longrightarrow> in_intervals ivs x"
  by (induction ivs' x rule: in_intervals.induct) (auto dest: inside_intervals)

lemma first_of_inline:
  assumes "\<And>j. \<not> nulls (f j)"
  shows "spelt text_hit (inline f r) (x # w) \<Longrightarrow>
    \<exists>l \<in> set (firsts r). case l of Text C \<Rightarrow> in_chars C x | Part j \<Rightarrow> \<exists>v. spelt text_hit (f j) (x # v)"
proof (induction r arbitrary: w)
  case (Sym l)
  then show ?case by (cases l) auto
next
  case (Cat r s)
  then obtain u v where w: "x # w = u @ v" "spelt text_hit (inline f r) u" "spelt text_hit (inline f s) v"
    by (auto simp: spelt_Cat)
  show ?case
  proof (cases u)
    case Nil
    then have "nulls r"
      using w(2) nulls_spelt [of "inline f r" text_hit] nulls_inline [of f r, OF assms] by simp
    then show ?thesis using Cat.IH(2) [of w] Nil w by auto
  next
    case (Cons y ys)
    then show ?thesis using Cat.IH(1) [of ys] w by auto
  qed
next
  case (Rep r)
  then show ?case by (auto simp: spelt_Rep_Cons)
qed auto

lemma first_char:
  "28 \<le> i \<Longrightarrow> i < 48 \<Longrightarrow> spelt text_hit (token_re n i) (x # w) \<Longrightarrow> in_intervals (first_chars i) x"
proof (induction n arbitrary: i w)
  case (Suc n)
  then have "spelt text_hit (inline (token_re n) (lexer_re (nat i))) (x # w)" by simp
  from first_of_inline [OF token_re_nulls this] obtain l where
    l: "l \<in> set (firsts (lexer_re (nat i)))"
      "case l of Text C \<Rightarrow> in_chars C x | Part j \<Rightarrow> \<exists>v. spelt text_hit (token_re n j) (x # v)"
    by blast
  have b: "begins (first_chars i) l" using Suc.prems(1,2) l(1) by (rule lexer_re_begins)
  show ?case
  proof (cases l)
    case (Text C)
    with b l(2) show ?thesis by (cases C) (auto intro: all_inside)
  next
    case (Part j)
    with b l(2) obtain v where "28 \<le> j" "j < 48" "list_all (inside (first_chars i)) (first_chars j)"
        "spelt text_hit (token_re n j) (x # v)" by auto
    with Suc.IH show ?thesis by (blast intro: all_inside)
  qed
qed simp

section \<open>Literals\<close>

definition literals :: "string list" where
  "literals = [
     ''=='', ''!='', ''in'', ''<'', ''<='', ''>='', ''>'', ''&&'', ''||'', ''['', '']'', ''{'', ''}'',
     ''('', '')'', ''.'', '','', ''-'', ''!'', ''?'', '':'', ''+'', ''*'', ''/'', ''%'', ''true'', ''false'',
     ''null'']"

text \<open>The vocabulary has the question mark as an escape.\<close>

fun escaped :: "string \<Rightarrow> string" where
  "escaped [] = []"
| "escaped (c # s) = (if c = CHR ''?'' then CHR 0x5C # ''u003F'' @ escaped s else c # escaped s)"

lemma celLexer_literal_names: "celLexer_literalNames = [] # map (\<lambda>s. quoted (escaped s)) literals"
  by code_simp

lemma literal_rules: "take 28 (map snd lexical_rules) = map spelled literals"
  by (simp add: lexical_rules_def literals_def del: spelled.simps)

lemma length_literals: "length literals = 28"
  by (simp add: literals_def)

lemma distinct_literals: "distinct literals"
  by code_simp

definition codes :: "string \<Rightarrow> int list" where
  "codes s = map code_point s"

lemma codes_inject [simp]: "codes s = codes t \<longleftrightarrow> s = t"
proof -
  have "inj code_point" unfolding code_point_def by (rule inj_onI) simp
  then show ?thesis unfolding codes_def by simp
qed

lemma literal_text:
  assumes "i < 28"
  shows "spelt text_hit (token_re 5 (int i)) w \<longleftrightarrow> w = codes (literals ! i)"
proof -
  have "lexer_re i = spelled (literals ! i)"
    using arg_cong [OF literal_rules, of "\<lambda>xs. xs ! i"] assms
    by (simp add: lexer_re_def length_lexical_rules length_literals)
  then have "token_re 5 (int i) = spelled (literals ! i)"
    using assms by (simp add: numeral_nat inline_spelled)
  then show ?thesis by (simp add: spelled_spelt codes_def)
qed

text \<open>The rules that could read a literal from its first character on.\<close>

definition candidates :: "(nat \<times> int) list" where
  "candidates = [(2, 29), (25, 29), (26, 29), (27, 29), (26, 32), (23, 40), (15, 41),
     (2, 46), (25, 46), (26, 46), (27, 46)]"

definition later_rules :: "int list" where
  "later_rules = [28..47]"

fun candidates_fit :: "nat \<Rightarrow> string list \<Rightarrow> bool" where
  "candidates_fit i [] = True"
| "candidates_fit i (s # ss) =
     (s \<noteq> [] \<and> list_all (\<lambda>j. in_intervals (first_chars j) (code_point (hd s)) \<longrightarrow> (i, j) \<in> set candidates) later_rules \<and>
      candidates_fit (Suc i) ss)"

lemma literals_fit: "candidates_fit 0 literals"
  by code_simp

lemma candidates_fit_nth:
  "candidates_fit i ss \<Longrightarrow> k < length ss \<Longrightarrow> ss ! k \<noteq> [] \<and>
    (28 \<le> j \<and> j < 48 \<and> in_intervals (first_chars j) (code_point (hd (ss ! k))) \<longrightarrow> (i + k, j) \<in> set candidates)"
proof (induction i ss arbitrary: k rule: candidates_fit.induct)
  case (2 i s ss)
  have "set later_rules = {28..47}" by (simp only: later_rules_def set_upto)
  then have later: "j \<in> set later_rules \<longleftrightarrow> 28 \<le> j \<and> j < 48" by auto
  show ?case
  proof (cases k)
    case 0
    then show ?thesis using 2(2,3) later by (simp add: list_all_iff)
  next
    case (Suc m)
    then show ?thesis using 2(1) [of m] 2(2,3) by simp
  qed
qed simp

lemma token_re_5: "token_re 5 i = (if 0 \<le> i \<and> i < 48 then inline (token_re 4) (lexer_re (nat i)) else Zero)"
  "token_re 4 i = (if 0 \<le> i \<and> i < 48 then inline (token_re 3) (lexer_re (nat i)) else Zero)"
  "token_re 3 i = (if 0 \<le> i \<and> i < 48 then inline (token_re 2) (lexer_re (nat i)) else Zero)"
  using token_re.simps(2) [of 4 i] token_re.simps(2) [of 3 i] token_re.simps(2) [of 2 i] by simp_all

lemma lexer_re_at:
  "lexer_re 29 = LETTER_re" "lexer_re 30 = DIGIT_re" "lexer_re 31 = EXPONENT_re" "lexer_re 32 = HEXDIGIT_re"
  "lexer_re 40 = COMMENT_re" "lexer_re 41 = NUM_FLOAT_re" "lexer_re 46 = IDENTIFIER_re"
  by (simp_all add: lexer_re_def lexical_rules_def)

lemmas some_rules = LETTER_re_def DIGIT_re_def EXPONENT_re_def HEXDIGIT_re_def COMMENT_re_def
  NUM_FLOAT_re_def IDENTIFIER_re_def fragments among_def except_def optional_def some_def one_char_def

lemma token_re_at:
  "token_re 5 29 = among ''AZaz''"
  "token_re 5 32 = among ''09AFaf''"
  "token_re 5 40 = in_order [one_char (CHR ''/''), one_char (CHR ''/''), Rep (except [newline, newline])]"
  "token_re 5 41 = any_of [
     in_order [some (among ''09''), one_char (CHR ''.''), some (among ''09''), optional (token_re 4 31)],
     in_order [some (among ''09''), token_re 4 31],
     in_order [one_char (CHR ''.''), some (among ''09''), optional (token_re 4 31)]]"
  "token_re 4 31 = in_order [among ''EEee'', optional (among ''++--''), some (among ''09'')]"
  "token_re 5 46 = in_order [Or (among ''AZaz'') (one_char (CHR ''_'')),
     Rep (any_of [among ''AZaz'', among ''09'', one_char (CHR ''_'')])]"
  by (simp_all add: token_re_5 lexer_re_at some_rules)

lemma candidates_read:
  "list_all (\<lambda>(i, j). spells text_hit (token_re 5 j) (codes (literals ! i)) = (j = 46)) candidates"
proof -
  have "\<not> spells text_hit (token_re 5 29) (codes ''in'')" "\<not> spells text_hit (token_re 5 29) (codes ''true'')"
    "\<not> spells text_hit (token_re 5 29) (codes ''false'')" "\<not> spells text_hit (token_re 5 29) (codes ''null'')"
    "\<not> spells text_hit (token_re 5 32) (codes ''false'')" "\<not> spells text_hit (token_re 5 40) (codes ''/'')"
    "\<not> spells text_hit (token_re 5 41) (codes ''.'')" "spells text_hit (token_re 5 46) (codes ''in'')"
    "spells text_hit (token_re 5 46) (codes ''true'')" "spells text_hit (token_re 5 46) (codes ''false'')"
    "spells text_hit (token_re 5 46) (codes ''null'')"
    unfolding token_re_at by code_simp+
  then show ?thesis by (simp add: candidates_def literals_def)
qed

lemma literal_only:
  assumes "i < 28" "28 \<le> j" "j < 48"
  shows "spelt text_hit (token_re 5 j) (codes (literals ! i)) \<longleftrightarrow> j = 46 \<and> i \<in> {2, 25, 26, 27}"
proof (cases "(i, j) \<in> set candidates")
  case True
  with candidates_read have "spells text_hit (token_re 5 j) (codes (literals ! i)) = (j = 46)"
    unfolding list_all_iff by blast
  then show ?thesis using True unfolding spells_spelt by (auto simp: candidates_def)
next
  case False
  note fit = candidates_fit_nth [OF literals_fit, of i j]
  obtain c s where lit: "literals ! i = c # s" using fit assms(1) length_literals by (cases "literals ! i") auto
  have "\<not> in_intervals (first_chars j) (code_point c)"
    using fit assms length_literals False lit by auto
  then have "\<not> spelt text_hit (token_re 5 j) (codes (literals ! i))"
    using first_char [OF assms(2,3), of 5 "code_point c" "codes s"] lit by (auto simp: codes_def)
  moreover have "\<not> (j = 46 \<and> i \<in> {2, 25, 26, 27})" using False by (auto simp: candidates_def)
  ultimately show ?thesis by blast
qed

lemma literal_index: "i < 28 \<Longrightarrow> literals ! i \<in> {''in'', ''true'', ''false'', ''null''} \<longleftrightarrow> i \<in> {2, 25, 26, 27}"
proof -
  assume "i < 28"
  have "{''in'', ''true'', ''false'', ''null''} = (!) literals ` {2, 25, 26, 27}"
    by (auto simp: literals_def)
  then show ?thesis
    using \<open>i < 28\<close> nth_eq_iff_index_eq [OF distinct_literals, of i] length_literals by auto
qed

lemma literal_readers:
  assumes "i < 28"
  shows "spelt text_hit (token_re 5 j) (codes (literals ! i)) \<longleftrightarrow>
    j = int i \<or> (j = 46 \<and> literals ! i \<in> {''in'', ''true'', ''false'', ''null''})"
proof -
  consider "28 \<le> j" "j < 48" | k where "j = int k" "k < 28" | "j < 0 \<or> 48 \<le> j"
    by (metis not_le nonneg_int_cases of_nat_less_iff of_nat_numeral)
  then show ?thesis
  proof cases
    case 1
    then show ?thesis using literal_only [OF assms 1] literal_index [OF assms] assms by simp
  next
    case (2 k)
    then show ?thesis
      using literal_text [OF 2(2)] nth_eq_iff_index_eq [OF distinct_literals, of i k] assms length_literals
      by auto
  next
    case 3
    then show ?thesis using assms by (auto simp: token_re_5)
  qed
qed

lemma escaped_plain: "escaped s = t \<Longrightarrow> CHR 0x5C \<notin> set t \<Longrightarrow> s = t"
  by (induction s arbitrary: t rule: escaped.induct) (auto split: if_splits)

end
