(* ===== verification/Cel_Lexer_Properties.thy ===== *)
theory Cel_Lexer_Properties
  imports Cel_Lexer_Words
begin

text \<open>
  The properties of the generated lexer's static data (CelLexer.cpp, CelLexer.h): what a lexer is
  made of and that it agrees with the parser, the texts its rules accept, and its literal tokens.
\<close>

lemma lexer_new: "atn_deserializer deserialize \<Longrightarrow> CelLexer_new tlc deserialize None =
    Some ((celLexer_atn, sd_decisionToDFA celLexer_static), Some celLexer_static)"
  by (rule atn_deserializer.CelLexer_new_any) simp_all

section \<open>Lexer and parser agree\<close>

lemma token_numbers:
  "map (\<lambda>(n, k). celLexer_symbolicNames ! nat k) CelLexer_tokens = map fst CelLexer_tokens"
  by code_simp

lemma token_rules:
  "filter (\<lambda>(n, k). k \<noteq> 0) (zip celLexer_ruleNames (map (\<lambda>r. r ! 1) (atn_rules celLexer_atn))) = CelLexer_tokens"
  by code_simp

lemma same_names: "celLexer_literalNames = celParser_literalNames" "celLexer_symbolicNames = celParser_symbolicNames"
  "CelLexer_tokens = CelParser_tokens"
  by (simp_all add: celLexer_literalNames_def celParser_literalNames_def celLexer_symbolicNames_def
      celParser_symbolicNames_def CelLexer_tokens_def CelParser_tokens_def)

text \<open>C40: A lexer that is made before or after its static data is set up gets the same
  automaton, whose serialization is the list in the source, and a DFA for each of its 38
  decisions in order. It numbers and names the tokens as the parser does, each token has the
  name at its number, and the rules of the automaton that have a token type are these tokens.\<close>

theorem lexer_static_data:
  assumes "atn_deserializer deserialize" "static \<in> {None, Some celLexer_static}"
  shows "CelLexer_new tlc deserialize static =
      Some ((celLexer_atn, map (\<lambda>d. (getDecisionState celLexer_atn d, d)) [0..<38]), Some celLexer_static) \<and>
    write_atn celLexer_atn = CelLexer_getSerializedATN celLexer_static \<and>
    CelLexer_tokens = CelParser_tokens \<and>
    CelLexer_getVocabulary celLexer_static = CelParser_getVocabulary celParser_static \<and>
    map (\<lambda>(n, k). snd (CelLexer_getVocabulary celLexer_static) ! nat k) CelLexer_tokens = map fst CelLexer_tokens \<and>
    filter (\<lambda>(n, k). k \<noteq> 0) (zip (CelLexer_getRuleNames celLexer_static)
      (map (\<lambda>r. r ! 1) (atn_rules celLexer_atn))) = CelLexer_tokens"
proof -
  have "CelLexer_new tlc deserialize static =
      Some ((celLexer_atn, map (\<lambda>d. (getDecisionState celLexer_atn d, d)) [0..<38]), Some celLexer_static)"
    using atn_deserializer.CelLexer_new_any [OF assms] by (simp add: celLexer_static_def)
  then show ?thesis
    using token_numbers token_rules same_names
    by (simp add: celLexer_static_def celParser_static_def CelLexer_getSerializedATN_def celLexer_written
        CelLexer_getVocabulary_def CelParser_getVocabulary_def CelLexer_getRuleNames_def)
qed

theorem lexer_static_data_witness:
  "\<exists>dfas. CelLexer_new False read_atn None = Some ((celLexer_atn, dfas), Some celLexer_static) \<and> length dfas = 38"
  using lexer_static_data [OF reader.atn_deserializer_axioms, of None False] by simp

section \<open>What the rules accept\<close>

text \<open>C38: In the automaton that a new lexer gets, the texts that a rule accepts, with those of
  the rules it calls, are exactly the ones its regular expression spells, and never the empty text.\<close>

theorem lexer_atn_language:
  assumes "atn_deserializer deserialize" "CelLexer_new tlc deserialize None = Some ((A, dfas), static)"
  shows "(token_text A i w \<longleftrightarrow> spelt text_hit (token_re 5 i) w) \<and> \<not> token_text A i []"
proof -
  have "A = celLexer_atn" using lexer_new [OF assms(1), of tlc] assms(2) by simp
  then show ?thesis
    using celLexer_token_text token_re_nulls [of 5 i] nulls_spelt [of "token_re 5 i" text_hit] by simp
qed

theorem lexer_atn_language_witness:
  "token_text celLexer_atn 41 (codes ''1.5e3'') \<and> \<not> token_text celLexer_atn 41 (codes ''1.'') \<and>
   \<not> token_text celLexer_atn 41 []"
proof -
  note language = lexer_atn_language [OF reader.atn_deserializer_axioms
    lexer_new [OF reader.atn_deserializer_axioms, of True]]
  have "spells text_hit (token_re 5 41) (codes ''1.5e3'')" "\<not> spells text_hit (token_re 5 41) (codes ''1.'')"
    unfolding token_re_at by code_simp+
  with language show ?thesis unfolding spells_spelt by blast
qed

text \<open>C39: Token type \<open>i + 1\<close>, for the first 28, has in the vocabulary a literal name; its rule
  accepts the text in it and no other, and no other rule accepts that text except
  the one for identifiers, which comes later and accepts the four keywords.\<close>

theorem literal_tokens:
  assumes "i < 28"
  shows "\<exists>s. fst (CelLexer_getVocabulary celLexer_static) ! Suc i = quoted (escaped s) \<and>
    (\<forall>w. token_text celLexer_atn (int i) w \<longleftrightarrow> w = codes s) \<and>
    (\<forall>j. token_text celLexer_atn j (codes s) \<longleftrightarrow> j = int i \<or> (j = 46 \<and> s \<in> {''in'', ''true'', ''false'', ''null''}))"
proof (intro exI conjI allI)
  let ?s = "literals ! i"
  show "fst (CelLexer_getVocabulary celLexer_static) ! Suc i = quoted (escaped ?s)"
    using assms by (simp add: CelLexer_getVocabulary_def celLexer_static_def celLexer_literal_names length_literals)
  show "token_text celLexer_atn (int i) w \<longleftrightarrow> w = codes ?s" for w
    unfolding celLexer_token_text by (rule literal_text [OF assms])
  show "token_text celLexer_atn j (codes ?s) \<longleftrightarrow> j = int i \<or> (j = 46 \<and> ?s \<in> {''in'', ''true'', ''false'', ''null''})" for j
    unfolding celLexer_token_text by (rule literal_readers [OF assms])
qed

theorem literal_tokens_witness:
  "token_text celLexer_atn 46 (codes ''in'') \<and> \<not> token_text celLexer_atn 46 (codes ''=='')"
proof -
  obtain s where s: "fst (CelLexer_getVocabulary celLexer_static) ! 3 = quoted (escaped s)"
      "token_text celLexer_atn 2 w \<longleftrightarrow> w = codes s"
      "token_text celLexer_atn j (codes s) \<longleftrightarrow> j = 2 \<or> (j = 46 \<and> s \<in> {''in'', ''true'', ''false'', ''null''})" for w j
    using literal_tokens [of 2] by auto
  obtain t where t: "fst (CelLexer_getVocabulary celLexer_static) ! 1 = quoted (escaped t)"
      "token_text celLexer_atn j (codes t) \<longleftrightarrow> j = 0 \<or> (j = 46 \<and> t \<in> {''in'', ''true'', ''false'', ''null''})" for j
    using literal_tokens [of 0] by auto
  have "escaped s = ''in''" "escaped t = ''==''"
    using s(1) t(1) by (simp_all add: CelLexer_getVocabulary_def celLexer_static_def celLexer_literalNames_def)
  then have "s = ''in''" "t = ''==''" by (simp_all add: escaped_plain)
  with s(3) [of 46] t(2) [of 46] show ?thesis by simp
qed

end
