(* ===== verification/Spec2Isabelle.thy ===== *)
theory Spec2Isabelle
  imports Message_Properties Cel_Properties Cel_Atn_Properties Cel_Lexer_Properties
begin

text \<open>
  protovalidate-rb evaluates protovalidate rules on protobuf messages from Ruby. A Rust crate
  (ext/protovalidate/sys/src/lib.rs) wraps a C interface (shim/pv_shim.h, pv_shim.cc), which
  drives protovalidate-cc; the violations come back as a serialized
  \<open>buf.validate.Violations\<close> (gen/buf/validate/validate.pb.cc), and rules are CEL expressions
  read by an ANTLR parser (gen/parser/internal/CelParser.cpp, CelLexer.cpp). All paths are
  under src/ext/protovalidate/sys/. The theories model these parts as functions over explicit state.

  \<^bold>\<open>Interface and engine.\<close>
  \<^item> \<open>C_Memory\<close>: the blocks of \<open>malloc\<close> and the caller's out-variables, with a flag for a
    \<open>free\<close> of what is not allocated; which allocations fail is a parameter.
  \<^item> \<open>Compile_Rules\<close>: \<open>CompileRules\<close>, the walk over the message types reachable from a
    descriptor. Its recursion takes a fuel; with a fuel above the number of reachable types the
    walk returns, and the result does not depend on the fuel.
  \<^item> \<open>Engine\<close>: the record \<open>pv_engine\<close> and the \<open>pv_\<close> functions of pv_shim.cc, one definition
    each; \<open>Binding\<close>: the methods of lib.rs around them, with who frees which block.
  \<^item> \<open>Concurrency\<close>: \<open>EnsureCompiled\<close> split at its locks into the steps of a thread, and the
    interleavings of any number of threads.
  \<^item> \<open>Reference_Library\<close>: an implementation of the library parameters, at which the locales are
    interpreted and the witnesses evaluated. \<open>Engine_Properties\<close>: what a compilation visits and
    reports, the invariant of \<open>compiled\<close>, errors and successes that last, the contract of
    \<open>pv_engine_validate\<close> as a refinement, no leak and no double free on either side of the
    interface, and what goes wrong at 2 GiB and with NUL bytes.

  \<^bold>\<open>Messages.\<close>
  \<^item> \<open>Wire\<close>: \<open>WireFormatLite\<close> as a record of functions with laws (\<open>wire_format\<close>,
    \<open>wire_reader\<close>), met by the base-128 encoding; the locales \<open>sized_message\<close> and
    \<open>message_codec\<close> say what a message class owes its users, and every class interprets them.
  \<^item> \<open>Parse_Table\<close>: the tables of \<open>TcParser\<close> the classes carry, and when they are consistent.
  \<^item> \<open>Field_Path_Element\<close>, \<open>Field_Path\<close>, \<open>Violation\<close>, \<open>Violations\<close>: the generated classes, with
    has-bits as words: constructors, \<open>Clear\<close>, \<open>MergeImpl\<close>, \<open>CopyFrom\<close>, \<open>InternalSwap\<close>,
    \<open>ByteSizeLong\<close>, \<open>_InternalSerialize\<close>. \<open>Message_Properties\<close>: has-bits and members agree,
    merging and copying implement their specification, sizes are exact, serialized violations
    read back, and the empty buffer means that there are none.

  \<^bold>\<open>The CEL parser.\<close>
  \<^item> \<open>Cel_Grammar\<close>: token types, bit sets, context classes, trees. \<open>Cel_Parser\<close>: the record
    \<open>runtime\<close> of the functions of the ANTLR runtime that are called, and the rule functions of
    CelParser.cpp as blocks of statements in the order of the code, with their numbers of
    states, decisions and precedences. A rule function calls others through a fuel.
  \<^item> \<open>Cel_Productions\<close>: the grammar as a specification of trees, precedence and association
    included. \<open>Cel_Soundness\<close>: without an error, the tree is one of the grammar and its leaves
    are the tokens consumed. \<open>Cel_Balance\<close>: the context chain and the precedence stack are
    restored on every path. \<open>Cel_Termination\<close>: a fuel of 12 times the tokens and recoveries
    left, plus 11, is enough, and more changes nothing.
  \<^item> \<open>Cel_Contexts\<close>: members and accessors of the context classes (CelParser.h, CelParser.cpp).
    \<open>Cel_Access\<close>: between them they return every child once, and vectors walked in step have
    equal lengths. \<open>Cel_Typing\<close>: on any input the downcasts are right. \<open>Cel_Visitor\<close>: \<open>accept\<close>,
    \<open>CelVisitor\<close> and \<open>CelBaseVisitor\<close>; a visitor sees the input once and in order.
  \<^item> \<open>Cel_Reference\<close>: a runtime and a tree that keep the laws. \<open>Cel_Properties\<close> states the
    results for every runtime that does.

  \<^bold>\<open>The automata of parser and lexer.\<close> CelParser.cpp and CelLexer.cpp carry an automaton each
  (\<open>serializedATNSegment\<close>) that the runtime predicts, recovers and scans with.
  \<^item> \<open>Atn_Format\<close>: automata and the list of integers they are written as; what is relied on of the
    runtime's \<open>ATNDeserializer\<close> is the locale \<open>atn_deserializer\<close>. \<open>Cel_Parser_Data\<close>,
    \<open>Cel_Lexer_Data\<close>: names, vocabulary and automaton as they stand in the sources, their set-up on
    first use, constructors and getters. Thread-local and shared static data are both covered.
  \<^item> \<open>Atn_Paths\<close>: automata with silent edges, regular expressions, and an executable check that
    the two have the same words. Its bounds (60 silent steps, 12 unfoldings, and clues where to
    unfold) only decide whether the check finds an answer: it is sound for any.
  \<^item> \<open>Cel_Parser_Atn\<close>: the automaton of each parser rule reads what the productions of
    \<open>Cel_Productions\<close> say; predicates and precedences are silent there. \<open>Cel_Atn_Trees\<close>: so the
    nodes of a tree are paths. \<open>Cel_Atn_Calls\<close>: statement by statement, the rule functions match,
    call, predict and synchronize only where the automaton has an edge, a decision or a block for
    it, with the precedence on it. \<open>Cel_Atn_Properties\<close> states the results.
  \<^item> \<open>Cel_Lexer_Rules\<close>: regular expressions for the 48 lexer rules and the check of each;
    \<open>Cel_Lexer_Atn\<close>: the texts of a rule with those of the rules it calls, at most five deep;
    \<open>Cel_Lexer_Words\<close>: the literal tokens. \<open>Cel_Lexer_Properties\<close> states the results.

  \<^bold>\<open>Parameters.\<close> Protobuf's descriptors, pools and wire format, absl's status and mutexes,
  protovalidate-cc's factory and evaluation, and the ANTLR runtime are not in the repository.
  They are records of functions, and what the code relies on is the assumptions of the locales
  \<open>rule_factory\<close>, \<open>engine_library\<close>, \<open>wire_format\<close>, \<open>wire_reader\<close>, \<open>antlr_runtime\<close>,
  \<open>bounded_runtime\<close>, \<open>typed_runtime\<close>, \<open>tree_access\<close> and \<open>atn_deserializer\<close>, each interpreted. The property theorems
  name them as premises.

  \<^bold>\<open>Not modelled.\<close> \<open>pv_engine_free\<close> and destructors only release memory; arenas, reflection
  and descriptor tables of validate.pb.cc and the messages for rules carry no logic of this
  program; start and stop tokens of contexts (\<open>enterOuterAlt\<close>) are only read by error messages;
  the Ruby layer converts values; build scripts. How the runtime simulates the automata (adaptive
  prediction, the longest match of the lexer, greediness of loops) is not in the repository, and
  the caches for it are left out of the static data.
\<close>

end
